(* ===== verification/Prelude.thy ===== *)
theory Prelude
  imports Main "HOL-Library.AList"
begin

text \<open>
  The shared vocabulary of the development: the parts of Go's \<open>strings\<close> and \<open>strconv\<close>
  packages the schedd uses, the 64-bit integer range that \<open>strconv.Atoi\<close> checks, and the
  generic lemmas on lists and strings that the component theories rely on.

  Strings are byte strings (\<open>char list\<close>). Go's case mapping and white space are modelled on
  the ASCII range, which is what attribute names, domains and submit keywords use.
  Go's \<open>int\<close> and \<open>int64\<close> are HOL integers; where the source checks the width (parsing a
  decimal number, truncating a checksum) or where a sum or a product may leave it (\<open>wrap64\<close>) the width is
  written out.
\<close>

named_theorems go_simps \<open>evaluation of the Go string helpers\<close>
named_theorems inv_intros \<open>preservation of component invariants\<close>

section \<open>Characters and case\<close>

definition lower_char :: "char \<Rightarrow> char" where
  "lower_char c = (if 65 \<le> (of_char c :: nat) \<and> (of_char c :: nat) \<le> 90
                   then char_of ((of_char c :: nat) + 32) else c)"

definition to_lower :: "string \<Rightarrow> string" where
  "to_lower s = map lower_char s"

definition upper_char :: "char \<Rightarrow> char" where
  "upper_char c = (if 97 \<le> (of_char c :: nat) \<and> (of_char c :: nat) \<le> 122
                   then char_of ((of_char c :: nat) - 32) else c)"

definition to_upper :: "string \<Rightarrow> string" where
  "to_upper s = map upper_char s"

definition equal_fold :: "string \<Rightarrow> string \<Rightarrow> bool" where
  "equal_fold a b = (to_lower a = to_lower b)"

text \<open>Evaluation on the bits of a character: an upper-case letter gets its sixth bit set.\<close>

lemma lower_char_code [code]:
  "lower_char (Char b0 b1 b2 b3 b4 b5 b6 b7) =
     (if \<not> b7 \<and> b6 \<and> \<not> b5 \<and> (b4 \<or> b3 \<or> b2 \<or> b1 \<or> b0) \<and> \<not> (b4 \<and> b3 \<and> (b2 \<or> (b1 \<and> b0)))
      then Char b0 b1 b2 b3 b4 True b6 b7 else Char b0 b1 b2 b3 b4 b5 b6 b7)"
  unfolding lower_char_def
  by (cases b0; cases b1; cases b2; cases b3; cases b4; cases b5; cases b6; cases b7;
      simp add: char_of_def bit_iff_odd)

lemma lower_char_idem [simp]: "lower_char (lower_char c) = lower_char c"
proof (cases "65 \<le> (of_char c :: nat) \<and> (of_char c :: nat) \<le> 90")
  case True
  then have "(of_char (char_of ((of_char c :: nat) + 32) :: char) :: nat) = of_char c + 32"
    by (simp add: take_bit_nat_def)
  with True show ?thesis by (simp add: lower_char_def)
qed (auto simp: lower_char_def)

lemma to_lower_idem [simp]: "to_lower (to_lower s) = to_lower s"
  by (simp add: to_lower_def)

lemma to_lower_append [simp]: "to_lower (a @ b) = to_lower a @ to_lower b"
  by (simp add: to_lower_def)

lemma to_lower_Nil [simp]: "to_lower [] = []"
  by (simp add: to_lower_def)

lemma to_lower_eq_Nil [simp]: "to_lower s = [] \<longleftrightarrow> s = []"
  by (simp add: to_lower_def)

lemma equal_fold_refl [simp]: "equal_fold a a"
  by (simp add: equal_fold_def)

lemma lower_char_at [simp]: "lower_char c = CHR ''@'' \<longleftrightarrow> c = CHR ''@''"
proof -
  have "(of_char (lower_char c) :: nat) = (of_char (CHR ''@'') :: nat) \<longleftrightarrow> (of_char c :: nat) = of_char (CHR ''@'')"
    by (auto simp: lower_char_def of_char_of take_bit_nat_def simp del: of_char_eq_iff)
  then show ?thesis by (simp only: of_char_eq_iff)
qed

lemma to_lower_at [simp]: "CHR ''@'' \<in> set (to_lower s) \<longleftrightarrow> CHR ''@'' \<in> set s"
  by (induction s) (auto simp: to_lower_def eq_commute [of "CHR ''@''"])

section \<open>White space, splitting and searching\<close>

definition is_space :: "char \<Rightarrow> bool" where
  "is_space c = ((of_char c :: nat) \<in> {9, 10, 11, 12, 13, 32})"

definition trim_left :: "string \<Rightarrow> string" where
  "trim_left s = dropWhile is_space s"

definition trim_space :: "string \<Rightarrow> string" where
  "trim_space s = rev (trim_left (rev (trim_left s)))"

text \<open>\<open>strings.IndexByte\<close> and \<open>strings.LastIndexByte\<close>; Go's -1 is \<open>None\<close>.\<close>

fun index_byte :: "string \<Rightarrow> char \<Rightarrow> nat option" where
  "index_byte [] c = None"
| "index_byte (x # xs) c = (if x = c then Some 0 else map_option Suc (index_byte xs c))"

fun last_index_byte :: "string \<Rightarrow> char \<Rightarrow> nat option" where
  "last_index_byte [] c = None"
| "last_index_byte (x # xs) c =
     (case last_index_byte xs c of
        Some i \<Rightarrow> Some (Suc i)
      | None \<Rightarrow> (if x = c then Some 0 else None))"

text \<open>\<open>strings.Split\<close> for a one-byte separator: always at least one field.\<close>

fun split_on :: "char \<Rightarrow> string \<Rightarrow> string list" where
  "split_on c [] = [[]]"
| "split_on c (x # xs) =
     (if x = c then [] # split_on c xs
      else (case split_on c xs of [] \<Rightarrow> [[x]] | f # fs \<Rightarrow> (x # f) # fs))"

text \<open>\<open>strings.FieldsFunc\<close>: the maximal runs of bytes that are not separators.\<close>

fun fields_aux :: "(char \<Rightarrow> bool) \<Rightarrow> string \<Rightarrow> string \<Rightarrow> string list" where
  "fields_aux p acc [] = (if acc = [] then [] else [rev acc])"
| "fields_aux p acc (x # xs) =
     (if p x then (if acc = [] then fields_aux p [] xs else rev acc # fields_aux p [] xs)
      else fields_aux p (x # acc) xs)"

definition fields_func :: "(char \<Rightarrow> bool) \<Rightarrow> string \<Rightarrow> string list" where
  "fields_func p s = fields_aux p [] s"

definition has_prefix :: "string \<Rightarrow> string \<Rightarrow> bool" where
  "has_prefix s p = (take (length p) s = p)"

definition trim_prefix :: "string \<Rightarrow> string \<Rightarrow> string" where
  "trim_prefix s p = (if has_prefix s p then drop (length p) s else s)"

definition trim_suffix :: "string \<Rightarrow> string \<Rightarrow> string" where
  "trim_suffix s p =
     (if has_prefix (rev s) (rev p) then take (length s - length p) s else s)"

text \<open>\<open>strings.Index\<close> for a substring, and \<open>strings.IndexAny\<close> for a set of bytes.\<close>

fun index_str :: "string \<Rightarrow> string \<Rightarrow> nat option" where
  "index_str [] w = (if w = [] then Some 0 else None)"
| "index_str (x # xs) w =
     (if has_prefix (x # xs) w then Some 0 else map_option Suc (index_str xs w))"

fun index_any :: "string \<Rightarrow> char list \<Rightarrow> nat option" where
  "index_any [] cs = None"
| "index_any (x # xs) cs = (if x \<in> set cs then Some 0 else map_option Suc (index_any xs cs))"

text \<open>Go's integer division truncates towards zero.\<close>

definition go_div :: "int \<Rightarrow> int \<Rightarrow> int" where
  "go_div a b = sgn a * sgn b * (\<bar>a\<bar> div \<bar>b\<bar>)"

definition go_mod :: "int \<Rightarrow> int \<Rightarrow> int" where
  "go_mod a b = a - b * go_div a b"

lemma go_div_nonneg: "0 \<le> a \<Longrightarrow> 0 < b \<Longrightarrow> go_div a b = a div b"
  by (cases "a = 0") (simp_all add: go_div_def)

lemma go_mod_nonneg: "0 \<le> a \<Longrightarrow> 0 < b \<Longrightarrow> go_mod a b = a mod b"
  by (simp add: go_mod_def go_div_nonneg minus_mult_div_eq_mod)

lemma go_div_neg: "a \<le> - b \<Longrightarrow> 0 < b \<Longrightarrow> go_div a b < 0"
  by (auto simp: go_div_def pos_imp_zdiv_pos_iff)

lemma index_str_bound: "index_str s w = Some i \<Longrightarrow> i + length w \<le> length s"
  by (induction s w arbitrary: i rule: index_str.induct)
     (auto simp: has_prefix_def split: if_splits dest!: arg_cong [where f = length])

fun join_with :: "string \<Rightarrow> string list \<Rightarrow> string" where
  "join_with sep [] = []"
| "join_with sep [s] = s"
| "join_with sep (s # t # ss) = s @ sep @ join_with sep (t # ss)"

lemma index_byte_Some: "index_byte s c = Some i \<Longrightarrow> i < length s \<and> s ! i = c \<and> c \<notin> set (take i s)"
  by (induction s arbitrary: i) (auto split: if_splits)

lemma index_byte_None: "index_byte s c = None \<longleftrightarrow> c \<notin> set s"
  by (induction s) auto

lemma index_byte_append: "c \<notin> set a \<Longrightarrow> index_byte (a @ c # b) c = Some (length a)"
  by (induction a) auto

lemma last_index_byte_None: "last_index_byte s c = None \<longleftrightarrow> c \<notin> set s"
  by (induction s) (auto split: option.splits)

lemma last_index_byte_append:
  "c \<notin> set b \<Longrightarrow> last_index_byte (a @ c # b) c = Some (length a)"
proof (induction a)
  case Nil
  then have "last_index_byte b c = None" by (simp add: last_index_byte_None)
  then show ?case by simp
next
  case (Cons x xs)
  then show ?case by simp
qed

lemma last_index_byte_Some:
  "last_index_byte s c = Some i \<Longrightarrow> i < length s \<and> s ! i = c \<and> c \<notin> set (drop (Suc i) s)"
proof (induction s arbitrary: i)
  case (Cons x xs)
  show ?case
  proof (cases "last_index_byte xs c")
    case None
    with Cons.prems have "x = c" "i = 0" by (auto split: if_splits)
    with None show ?thesis by (simp add: last_index_byte_None)
  next
    case (Some j)
    with Cons.prems have "i = Suc j" by simp
    with Cons.IH [OF Some] show ?thesis by simp
  qed
qed simp

lemma split_on_nonempty [simp]: "split_on c s \<noteq> []"
  by (induction s) (auto split: list.splits)

lemma split_on_no_sep: "f \<in> set (split_on c s) \<Longrightarrow> c \<notin> set f"
  by (induction s arbitrary: f) (auto split: if_splits list.splits)

lemma join_split_on: "join_with [c] (split_on c s) = s"
proof (induction s)
  case (Cons x xs)
  obtain f fs where fs: "split_on c xs = f # fs"
    by (cases "split_on c xs") auto
  show ?case
  proof (cases "x = c")
    case True
    with fs Cons.IH show ?thesis by simp
  next
    case False
    with fs Cons.IH show ?thesis by (cases fs) auto
  qed
qed simp

lemma fields_aux_nonempty: "f \<in> set (fields_aux p acc s) \<Longrightarrow> f \<noteq> []"
  by (induction p acc s rule: fields_aux.induct) (auto split: if_splits)

lemma fields_func_nonempty: "f \<in> set (fields_func p s) \<Longrightarrow> f \<noteq> []"
  by (simp add: fields_func_def fields_aux_nonempty)

lemma fields_aux_no_sep:
  "f \<in> set (fields_aux p acc s) \<Longrightarrow> \<forall>c \<in> set acc. \<not> p c \<Longrightarrow> c \<in> set f \<Longrightarrow> \<not> p c"
  by (induction p acc s rule: fields_aux.induct) (auto split: if_splits)

lemma fields_func_no_sep: "f \<in> set (fields_func p s) \<Longrightarrow> c \<in> set f \<Longrightarrow> \<not> p c"
  unfolding fields_func_def by (rule fields_aux_no_sep) auto

lemma has_prefix_append [simp]: "has_prefix (p @ s) p"
  by (simp add: has_prefix_def)

lemma trim_prefix_append [simp]: "trim_prefix (p @ s) p = s"
  by (simp add: trim_prefix_def)

section \<open>Paths and quoting\<close>

text \<open>
  \<open>path/filepath\<close> on Unix: \<open>Clean\<close> drops empty and dot components and resolves dot-dot
  lexically (\<open>acc\<close> holds the components so far, last first), \<open>Join\<close> cleans the
  slash-joined non-empty elements.
\<close>

fun clean_comps :: "bool \<Rightarrow> string list \<Rightarrow> string list \<Rightarrow> string list" where
  "clean_comps rooted acc [] = rev acc"
| "clean_comps rooted acc (c # cs) =
     (if c = [] \<or> c = ''.'' then clean_comps rooted acc cs
      else if c = ''..'' then
        (case acc of
           [] \<Rightarrow> clean_comps rooted (if rooted then [] else [''..'']) cs
         | a # as \<Rightarrow> if a = ''..'' then clean_comps rooted (''..'' # acc) cs else clean_comps rooted as cs)
      else clean_comps rooted (c # acc) cs)"

definition path_is_abs :: "string \<Rightarrow> bool" where
  "path_is_abs p = has_prefix p ''/''"

definition path_clean :: "string \<Rightarrow> string" where
  "path_clean p =
     (let rooted = path_is_abs p;
          body = join_with ''/'' (clean_comps rooted [] (split_on CHR ''/'' p))
      in if rooted then CHR ''/'' # body else if body = [] then ''.'' else body)"

definition path_join :: "string list \<Rightarrow> string" where
  "path_join elems =
     (let ne = filter (\<lambda>e. e \<noteq> []) elems
      in if ne = [] then [] else path_clean (join_with ''/'' ne))"

text \<open>\<open>strconv.Quote\<close> and \<open>%q\<close> on ASCII strings; bytes above 0x7F (UTF-8 text) are copied.\<close>

definition hex_digit :: "nat \<Rightarrow> char" where
  "hex_digit d = (if d < 10 then char_of (48 + d) else char_of (87 + d))"

definition quote_char :: "char \<Rightarrow> string" where
  "quote_char c =
     (let n = (of_char c :: nat); bs = CHR 0x5C in
      if n = 0x22 \<or> n = 0x5C then [bs, c]
      else if n = 7 then [bs, CHR ''a''] else if n = 8 then [bs, CHR ''b'']
      else if n = 9 then [bs, CHR ''t''] else if n = 10 then [bs, CHR ''n'']
      else if n = 11 then [bs, CHR ''v''] else if n = 12 then [bs, CHR ''f'']
      else if n = 13 then [bs, CHR ''r'']
      else if n < 32 \<or> n = 127 then [bs, CHR ''x'', hex_digit (n div 16), hex_digit (n mod 16)]
      else [c])"

definition go_quote :: "string \<Rightarrow> string" where
  "go_quote s = [CHR 0x22] @ concat (map quote_char s) @ [CHR 0x22]"

section \<open>Decimal numbers\<close>

definition digit_char :: "nat \<Rightarrow> char" where
  "digit_char d = char_of (48 + d)"

definition digit_val :: "char \<Rightarrow> nat" where
  "digit_val c = of_char c - 48"

definition is_digit :: "char \<Rightarrow> bool" where
  "is_digit c = (48 \<le> (of_char c :: nat) \<and> (of_char c :: nat) \<le> 57)"

fun utoa :: "nat \<Rightarrow> string" where
  "utoa n = (if n < 10 then [digit_char n] else utoa (n div 10) @ [digit_char (n mod 10)])"

declare utoa.simps [simp del]

text \<open>\<open>strconv.Itoa\<close>, and \<open>\%d\<close> of \<open>fmt.Sprintf\<close>.\<close>

definition itoa :: "int \<Rightarrow> string" where
  "itoa n = (if n < 0 then CHR ''-'' # utoa (nat (- n)) else utoa (nat n))"

definition digits_value :: "string \<Rightarrow> nat" where
  "digits_value s = foldl (\<lambda>a c. 10 * a + digit_val c) 0 s"

definition int64_range :: "int \<Rightarrow> bool" where
  "int64_range n = (- (2 ^ 63) \<le> n \<and> n < 2 ^ 63)"

text \<open>What a sum or a product of signed 64-bit integers comes to.\<close>

definition wrap64 :: "int \<Rightarrow> int" where
  "wrap64 n = signed_take_bit 63 n"

lemma wrap64_id: "int64_range n \<Longrightarrow> wrap64 n = n"
  by (simp add: wrap64_def int64_range_def signed_take_bit_int_eq_self)

lemma wrap64_range: "int64_range (wrap64 n)"
  using signed_take_bit_int_greater_eq_minus_exp [of 63 n] signed_take_bit_int_less_exp [of 63 n]
  by (simp add: wrap64_def int64_range_def)

text \<open>
  \<open>strconv.Atoi\<close>: an optional sign, at least one digit, nothing else, and a value that fits
  a signed 64-bit integer; \<open>None\<close> is the error.
\<close>

definition atoi_digits :: "bool \<Rightarrow> string \<Rightarrow> int option" where
  "atoi_digits neg s =
     (if s = [] \<or> \<not> list_all is_digit s then None
      else let v = (if neg then - int (digits_value s) else int (digits_value s))
           in if int64_range v then Some v else None)"

definition atoi :: "string \<Rightarrow> int option" where
  "atoi s = (case s of
       [] \<Rightarrow> None
     | c # cs \<Rightarrow> if c = CHR ''-'' then atoi_digits True cs
                 else if c = CHR ''+'' then atoi_digits False cs
                 else atoi_digits False s)"

lemma digit_char_digit: "d < 10 \<Longrightarrow> is_digit (digit_char d) \<and> digit_val (digit_char d) = d"
  by (simp add: is_digit_def digit_char_def digit_val_def take_bit_nat_def)

lemma digits_value_snoc: "digits_value (s @ [c]) = 10 * digits_value s + digit_val c"
  by (simp add: digits_value_def)

lemma utoa_nonempty [simp]: "utoa n \<noteq> []"
  by (subst utoa.simps) simp

lemma utoa_digits: "list_all is_digit (utoa n) \<and> digits_value (utoa n) = n"
proof (induction n rule: utoa.induct)
  case (1 n)
  show ?case
  proof (cases "n < 10")
    case True
    then show ?thesis
      by (simp add: utoa.simps [of n] digit_char_digit digits_value_def)
  next
    case False
    with 1 have "list_all is_digit (utoa (n div 10)) \<and> digits_value (utoa (n div 10)) = n div 10"
      by simp
    with False show ?thesis
      by (simp add: utoa.simps [of n] digit_char_digit digits_value_snoc)
  qed
qed

lemma utoa_set_digit: "c \<in> set (utoa n) \<Longrightarrow> is_digit c"
  using utoa_digits [of n] by (simp add: list_all_iff)

lemma not_digit_sign [simp]: "\<not> is_digit CHR ''-''" "\<not> is_digit CHR ''+''" "\<not> is_digit CHR ''.''"
  by (simp_all add: is_digit_def)

lemma utoa_no_dot: "CHR ''.'' \<notin> set (utoa n)" and utoa_no_minus: "CHR ''-'' \<notin> set (utoa n)"
  using utoa_set_digit [of _ n] not_digit_sign by blast+

lemma itoa_no_dot: "CHR ''.'' \<notin> set (itoa n)"
  using utoa_no_dot by (simp add: itoa_def)

lemma itoa_nonempty [simp]: "itoa n \<noteq> []"
  by (simp add: itoa_def)

lemma atoi_itoa: "int64_range n \<Longrightarrow> atoi (itoa n) = Some n"
proof (cases "n < 0")
  case True
  assume "int64_range n"
  with True show ?thesis
    using utoa_digits [of "nat (- n)"] by (simp add: itoa_def atoi_def atoi_digits_def Let_def)
next
  case False
  assume r: "int64_range n"
  obtain c cs where u: "utoa (nat n) = c # cs"
    by (cases "utoa (nat n)") auto
  then have "is_digit c" using utoa_set_digit [of c "nat n"] by simp
  then have "c \<noteq> CHR ''-''" "c \<noteq> CHR ''+''" by auto
  with False r u show ?thesis
    using utoa_digits [of "nat n"]
    by (simp add: itoa_def atoi_def atoi_digits_def Let_def)
qed

lemma utoa_inj: "utoa m = utoa n \<Longrightarrow> m = n"
  using utoa_digits by metis

lemma itoa_inj: "itoa a = itoa b \<Longrightarrow> a = b"
proof (cases "(a < 0) = (b < 0)")
  case True
  assume "itoa a = itoa b"
  with True have "utoa (nat \<bar>a\<bar>) = utoa (nat \<bar>b\<bar>)"
    by (simp add: itoa_def abs_if split: if_splits)
  then have "nat \<bar>a\<bar> = nat \<bar>b\<bar>" by (rule utoa_inj)
  with True show "a = b" by linarith
next
  case False
  have minus: "utoa m \<noteq> CHR ''-'' # s" for m s
    using utoa_no_minus [of m] by auto
  assume "itoa a = itoa b"
  with False minus minus [symmetric] show "a = b"
    by (simp add: itoa_def split: if_splits)
qed

section \<open>Association lists as Go maps\<close>

text \<open>
  A Go map that the code iterates over is an association list with distinct keys, in the
  order of insertion; \<open>AList.update\<close> and \<open>AList.delete\<close> are the assignment and the
  \<open>delete\<close> built-in. Go leaves the iteration order unspecified.
\<close>

lemma map_of_update [simp]: "map_of (AList.update k v al) = (map_of al)(k \<mapsto> v)"
  by (simp add: update_conv')

lemma map_of_delete [simp]: "map_of (AList.delete k al) = (map_of al)(k := None)"
  by (simp add: delete_conv')

text \<open>Set-like slices: \<open>m[k] = true\<close> on a map whose values are never false.\<close>

definition set_add :: "'a \<Rightarrow> 'a list \<Rightarrow> 'a list" where
  "set_add x xs = (if x \<in> set xs then xs else xs @ [x])"

lemma set_set_add [simp]: "set (set_add x xs) = insert x (set xs)"
  by (auto simp: set_add_def)

lemma distinct_set_add [simp]: "distinct (set_add x xs) \<longleftrightarrow> distinct xs"
  by (simp add: set_add_def)

section \<open>Shared lemmas on strings and lists\<close>

lemma itoa_chars: "x \<in> set (itoa n) \<Longrightarrow> is_digit x \<or> x = CHR ''-''"
  using utoa_set_digit by (auto simp: itoa_def split: if_splits)

lemma itoa_no_space: "x \<in> set (itoa n) \<Longrightarrow> \<not> is_space x"
  using itoa_chars [of x n] by (auto simp: is_space_def is_digit_def)

lemma dot_no_space: "\<not> is_space CHR ''.''"
  by (simp add: is_space_def)

lemma trim_left_id: "\<forall>x \<in> set s. \<not> is_space x \<Longrightarrow> trim_left s = s"
  by (cases s) (simp_all add: trim_left_def)

lemma trim_space_id: "(\<And>x. x \<in> set s \<Longrightarrow> \<not> is_space x) \<Longrightarrow> trim_space s = s"
  by (simp add: trim_space_def trim_left_id)

lemma split_on_append: "c \<notin> set a \<Longrightarrow> split_on c (a @ c # b) = a # split_on c b"
  by (induction a) auto

lemma concat_map_disjoint:
  "distinct (concat (map f xs)) \<Longrightarrow> i < length xs \<Longrightarrow> j < length xs \<Longrightarrow> x \<in> set (f (xs ! i)) \<Longrightarrow> x \<in> set (f (xs ! j)) \<Longrightarrow> i = j"
proof (induction xs arbitrary: i j)
  case (Cons y ys)
  have dis: "x \<notin> set (f y)" if "k < length ys" "x \<in> set (f (ys ! k))" for k
    using that Cons.prems(1) nth_mem by fastforce
  show ?case
    using Cons.IH [of "i - 1" "j - 1"] Cons.prems dis [of "i - 1"] dis [of "j - 1"]
    by (cases i; cases j) auto
qed simp

lemma concat_map_distinct: "distinct (concat (map f xs)) \<Longrightarrow> i < length xs \<Longrightarrow> distinct (f (xs ! i))"
  by (simp add: distinct_concat_iff)

lemma set_update_sub: "set (AList.update k v xs) \<subseteq> insert (k, v) (set xs)"
  by (induction xs) auto

lemma set_delete_sub: "set (AList.delete k xs) \<subseteq> set xs"
  by (auto simp: AList.delete_eq)

lemma map_of_filter_rec:
  "distinct (map fst xs) \<Longrightarrow>
   map_of (filter (\<lambda>(_, r). P r) xs) k = (case map_of xs k of Some r \<Rightarrow> if P r then Some r else None | None \<Rightarrow> None)"
  by (induction xs) (auto simp: map_of_eq_None_iff image_iff split: option.splits)

lemma map_of_keyed: "map_of (map (\<lambda>(k, a). (k, f k a)) xs) k = map_option (f k) (map_of xs k)"
  by (induction xs) auto

lemma update_nonempty [simp]: "AList.update k v al \<noteq> []"
  by (cases al) auto

lemma length_update_fresh: "k \<notin> fst ` set al \<Longrightarrow> length (AList.update k v al) = Suc (length al)"
  by (induction al) auto

lemma length_update_hit: "k \<in> fst ` set al \<Longrightarrow> length (AList.update k v al) = length al"
  by (induction al) auto

lemma keys_update_hit: "k \<in> fst ` set al \<Longrightarrow> map fst (AList.update k v al) = map fst al"
  by (induction al) auto

lemma length_delete_hit:
  "map_of al k = Some v \<Longrightarrow> distinct (map fst al) \<Longrightarrow> int (length (AList.delete k al)) = int (length al) - 1"
  by (induction al) (auto simp: AList.delete_id map_of_eq_None_iff [symmetric] dest: weak_map_of_SomeI)

end
