(* ===== verification/Keys.thy ===== *)
theory Keys
  imports Prelude
begin

text \<open>
  The job-queue key scheme of \<open>internal/queue/queue.go\<close>: a proc ad lives under
  \<open>c.p\<close>, its cluster ad under \<open>c.-1\<close>, and the persistent cluster-id counter under
  \<open>counter\<close>. The lemmas show that keys are injective, parse back to the pair they were
  built from, and that exactly the proc keys are visible and chained to their cluster ad.
\<close>

section \<open>Definitions\<close>

definition counterKey :: string where
  "counterKey = ''counter''"

definition jobKey :: "int \<Rightarrow> int \<Rightarrow> string" where
  "jobKey c p = itoa c @ ''.'' @ itoa p"

definition clusterKeyStr :: "int \<Rightarrow> string" where
  "clusterKeyStr c = itoa c @ ''.-1''"

definition parseJobKey :: "string \<Rightarrow> (int \<times> int) option" where
  "parseJobKey s =
     (case last_index_byte s CHR ''.'' of
        None \<Rightarrow> None
      | Some dot \<Rightarrow>
          (case atoi (take dot s) of
             None \<Rightarrow> None
           | Some c \<Rightarrow>
               (case atoi (drop (dot + 1) s) of
                  None \<Rightarrow> None
                | Some p \<Rightarrow> Some (c, p))))"

definition parentKeyFor :: "string \<Rightarrow> string option" where
  "parentKeyFor key =
     (case parseJobKey key of
        None \<Rightarrow> None
      | Some (c, p) \<Rightarrow> if p < 0 then None else Some (clusterKeyStr c))"

definition isStructural :: "string \<Rightarrow> bool" where
  "isStructural key =
     (case parseJobKey key of
        None \<Rightarrow> True
      | Some (c, p) \<Rightarrow> p < 0)"

definition int64_pair :: "int \<Rightarrow> int \<Rightarrow> bool" where
  "int64_pair c p = (int64_range c \<and> int64_range p)"

section \<open>Lemmas\<close>

lemma clusterKeyStr_jobKey: "clusterKeyStr c = jobKey c (-1)"
proof -
  have "itoa (-1) = ''-1''" by code_simp
  then show ?thesis by (simp add: clusterKeyStr_def jobKey_def)
qed

lemma jobKey_inj: "jobKey c p = jobKey c' p' \<longleftrightarrow> c = c' \<and> p = p'"
proof
  assume eq: "jobKey c p = jobKey c' p'"
  have last: "last_index_byte (jobKey a b) CHR ''.'' = Some (length (itoa a))" for a b
    using last_index_byte_append [OF itoa_no_dot [of b], of "itoa a"] by (simp add: jobKey_def)
  from last [of c p] last [of c' p'] eq have "length (itoa c) = length (itoa c')" by simp
  with eq have "itoa c = itoa c'" "itoa p = itoa p'" by (auto simp: jobKey_def)
  then show "c = c' \<and> p = p'" by (simp add: itoa_inj)
qed simp

lemma parseJobKey_jobKey:
  assumes "int64_pair c p"
  shows "parseJobKey (jobKey c p) = Some (c, p)"
proof -
  have "last_index_byte (jobKey c p) CHR ''.'' = Some (length (itoa c))"
    using last_index_byte_append [OF itoa_no_dot [of p], of "itoa c"] by (simp add: jobKey_def)
  moreover have "take (length (itoa c)) (jobKey c p) = itoa c"
    and "drop (length (itoa c) + 1) (jobKey c p) = itoa p"
    by (simp_all add: jobKey_def)
  ultimately show ?thesis
    using assms by (simp add: parseJobKey_def atoi_itoa int64_pair_def)
qed

lemma parentKeyFor_jobKey:
  "int64_pair c p \<Longrightarrow> parentKeyFor (jobKey c p) = (if p < 0 then None else Some (jobKey c (-1)))"
  by (simp add: parentKeyFor_def parseJobKey_jobKey clusterKeyStr_jobKey)

lemma isStructural_jobKey: "int64_pair c p \<Longrightarrow> isStructural (jobKey c p) \<longleftrightarrow> p < 0"
  by (simp add: isStructural_def parseJobKey_jobKey)

lemma parseJobKey_counter: "parseJobKey counterKey = None"
  by (simp add: parseJobKey_def counterKey_def)

lemma counter_structural [simp]: "isStructural counterKey" "parentKeyFor counterKey = None"
  by (simp_all add: isStructural_def parentKeyFor_def parseJobKey_counter)

lemma jobKey_not_counter [simp]: "jobKey c p \<noteq> counterKey" "counterKey \<noteq> jobKey c p"
proof -
  have "CHR ''.'' \<in> set (jobKey c p)" by (simp add: jobKey_def)
  moreover have "CHR ''.'' \<notin> set counterKey" by (simp add: counterKey_def)
  ultimately show "jobKey c p \<noteq> counterKey" "counterKey \<noteq> jobKey c p" by metis+
qed

lemma int64_pair_neg [simp]: "int64_pair c (-1) \<longleftrightarrow> int64_range c"
  by (simp add: int64_pair_def int64_range_def)

text \<open>A parent is a cluster key, which is structural and has no parent itself.\<close>

lemma atoi_range: "atoi s = Some n \<Longrightarrow> int64_range n"
  by (auto simp: atoi_def atoi_digits_def Let_def split: list.splits if_splits)

lemma parseJobKey_range: "parseJobKey k = Some (c, p) \<Longrightarrow> int64_pair c p"
  by (auto simp: parseJobKey_def int64_pair_def dest: atoi_range split: option.splits)

lemma parent_of_visible:
  "\<not> isStructural k \<Longrightarrow> \<exists>c p. parseJobKey k = Some (c, p) \<and> 0 \<le> p \<and> parentKeyFor k = Some (jobKey c (-1))"
  by (auto simp: isStructural_def parentKeyFor_def clusterKeyStr_jobKey split: option.splits)

lemma parent_structural:
  assumes "parentKeyFor k = Some pk"
  shows "isStructural pk \<and> parentKeyFor pk = None"
proof -
  from assms obtain c p where "parseJobKey k = Some (c, p)" and pk: "pk = jobKey c (-1)"
    by (auto simp: parentKeyFor_def clusterKeyStr_jobKey split: option.splits if_splits)
  then have "int64_pair c (-1)" by (auto dest: parseJobKey_range simp: int64_pair_def int64_range_def)
  with pk show ?thesis by (simp add: isStructural_jobKey parentKeyFor_jobKey)
qed

end
