(* ===== verification/Attrs.thy ===== *)
theory Attrs
  imports Prelude
begin

text \<open>
  The lower-case forms of the attribute names the code uses, evaluated once. Attribute names
  compare without case, so every step over a chain of ad edits decides equations between these
  literals; the collection \<open>go_simps\<close> does it without unfolding the case mapping.
\<close>

lemma attr_lower [go_simps]:
  "to_lower ''ClusterId'' = ''clusterid''"
  "to_lower ''ProcId'' = ''procid''"
  "to_lower ''Owner'' = ''owner''"
  "to_lower ''User'' = ''user''"
  "to_lower ''JobStatus'' = ''jobstatus''"
  "to_lower ''LastJobStatus'' = ''lastjobstatus''"
  "to_lower ''EnteredCurrentStatus'' = ''enteredcurrentstatus''"
  "to_lower ''QDate'' = ''qdate''"
  "to_lower ''GlobalJobId'' = ''globaljobid''"
  "to_lower ''MyType'' = ''mytype''"
  "to_lower ''JobUniverse'' = ''jobuniverse''"
  "to_lower ''NextClusterId'' = ''nextclusterid''"
  "to_lower ''HoldReason'' = ''holdreason''"
  "to_lower ''HoldReasonCode'' = ''holdreasoncode''"
  "to_lower ''HoldReasonSubCode'' = ''holdreasonsubcode''"
  "to_lower ''NumHolds'' = ''numholds''"
  "to_lower ''ReleaseReason'' = ''releasereason''"
  "to_lower ''RemoveReason'' = ''removereason''"
  "to_lower ''JobStatusOnRelease'' = ''jobstatusonrelease''"
  "to_lower ''NumShadowExceptions'' = ''numshadowexceptions''"
  "to_lower ''VacateReason'' = ''vacatereason''"
  "to_lower ''VacateReasonCode'' = ''vacatereasoncode''"
  "to_lower ''VacateReasonSubCode'' = ''vacatereasonsubcode''"
  "to_lower ''RemoteHost'' = ''remotehost''"
  "to_lower ''LastRemoteHost'' = ''lastremotehost''"
  "to_lower ''ClaimId'' = ''claimid''"
  "to_lower ''StartdIpAddr'' = ''startdipaddr''"
  "to_lower ''LastJobLeaseRenewal'' = ''lastjobleaserenewal''"
  "to_lower ''JobLeaseDuration'' = ''jobleaseduration''"
  "to_lower ''CompletionDate'' = ''completiondate''"
  "to_lower ''JobCurrentStartDate'' = ''jobcurrentstartdate''"
  "to_lower ''JobStartDate'' = ''jobstartdate''"
  "to_lower ''NumJobStarts'' = ''numjobstarts''"
  "to_lower ''NumShadowStarts'' = ''numshadowstarts''"
  "to_lower ''JobRunCount'' = ''jobruncount''"
  "to_lower ''ShadowBday'' = ''shadowbday''"
  "to_lower ''ExitCode'' = ''exitcode''"
  "to_lower ''ExitBySignal'' = ''exitbysignal''"
  "to_lower ''ExitStatus'' = ''exitstatus''"
  "to_lower ''ExitSignal'' = ''exitsignal''"
  "to_lower ''RemoteWallClockTime'' = ''remotewallclocktime''"
  "to_lower ''NumJobCompletions'' = ''numjobcompletions''"
  "to_lower ''CurrentTime'' = ''currenttime''"
  "to_lower ''JobMaterializeDigestFile'' = ''jobmaterializedigestfile''"
  "to_lower ''JobMaterializeItemsFile'' = ''jobmaterializeitemsfile''"
  "to_lower ''JobMaterializeLimit'' = ''jobmaterializelimit''"
  "to_lower ''JobMaterializeMaxIdle'' = ''jobmaterializemaxidle''"
  "to_lower ''JobMaterializeNextProcId'' = ''jobmaterializenextprocid''"
  "to_lower ''JobMaterializeNextRow'' = ''jobmaterializenextrow''"
  "to_lower ''JobMaterializePaused'' = ''jobmaterializepaused''"
  "to_lower ''JobMaterializeDate'' = ''jobmaterializedate''"
  "to_lower ''JobMaterializeItemCount'' = ''jobmaterializeitemcount''"
  by code_simp+

end
