(* ===== verification/External.thy ===== *)
theory External
  imports Complex_Main Keys Attrs "HOL-Library.Word"
begin

text \<open>
  The third-party code the schedd is written against, as parameters of the model:
  \<open>classad.ClassAd\<close> / \<open>classad.Expr\<close> (package \<open>classad\<close>), the persistent
  \<open>collections.Collection\<close> and \<open>collections.Archive\<close> with the \<open>vm\<close> query engine,
  and the name helpers of the CEDAR security library. Every definition that uses one of them takes the
  operation record as an argument; nothing is defined on their behalf.

  The locales state the documented behaviour the schedd's code relies on. \<open>classad\<close> is an
  attribute map with case-insensitive names in which literals evaluate to themselves.
  \<open>job_store\<close> is the chained collection opened in \<open>queue.Open\<close> with
  \<open>parentKeyFor\<close> and \<open>isStructural\<close>: \<open>Get\<close> returns the ad with its parent's attributes
  merged in, \<open>Scan\<close> and \<open>Query\<close> range over the non-structural ads, \<open>Update\<close> applies a
  batch, and the archive is append-only. \<open>Update\<close> on a key that already exists is
  specified only as far as the code tells: the attributes in the update are there
  afterwards, every other attribute is as before or gone. A \<open>Put\<close> that fails leaves the store as it was. A batch is atomic
  per cluster only: what an \<open>Update\<close> that fails leaves of the store is \<open>coll_update_failed\<close>, in which only keys of the batch
  may differ.
\<close>

section \<open>Operation records\<close>

text \<open>
  A \<open>float64\<close> as the policy code looks at it: a finite value, an infinity or a NaN.
  A \<open>classad.Value\<close> as it looks at it: \<open>IsBool\<close>/\<open>BoolValue\<close>,
  \<open>IsNumber\<close>/\<open>NumberValue\<close>, \<open>IsString\<close>/\<open>StringValue\<close>, or none of them
  (undefined, error, list, nested ad).
\<close>

datatype float64 = Finite rat | Infinite bool | NaN

datatype cvalue = VBool bool | VNum float64 | VStr string | VOther

record ('ad, 'ex) classad_ops =
  new_ad :: 'ad
  set_int :: "string \<Rightarrow> int \<Rightarrow> 'ad \<Rightarrow> 'ad"
  set_str :: "string \<Rightarrow> string \<Rightarrow> 'ad \<Rightarrow> 'ad"
  set_bool :: "string \<Rightarrow> bool \<Rightarrow> 'ad \<Rightarrow> 'ad"
  set_str_err :: "string \<Rightarrow> string \<Rightarrow> 'ad \<Rightarrow> bool"
  insert_expr :: "string \<Rightarrow> 'ex \<Rightarrow> 'ad \<Rightarrow> 'ad"
  delete_attr :: "string \<Rightarrow> 'ad \<Rightarrow> 'ad"
  lookup_attr :: "'ad \<Rightarrow> string \<Rightarrow> 'ex option"
  attr_names :: "'ad \<Rightarrow> string list"
  eval_int :: "'ad \<Rightarrow> string \<Rightarrow> int option"
  eval_str :: "'ad \<Rightarrow> string \<Rightarrow> string option"
  eval_bool :: "'ad \<Rightarrow> string \<Rightarrow> bool option"
  eval_attr :: "'ad \<Rightarrow> string \<Rightarrow> cvalue"
  eval_expr :: "'ex \<Rightarrow> 'ad \<Rightarrow> cvalue"
  parse_expr :: "string \<Rightarrow> 'ex option"
  expr_string :: "'ex \<Rightarrow> string"
  float_oob :: "float64 \<Rightarrow> int"

text \<open>
  Go's conversion \<open>int(f)\<close> truncates towards zero. For a NaN, an infinity or a value outside the
  64-bit range the result is implementation-specific, so it is the parameter \<open>float_oob\<close>.
\<close>

definition go_int :: "('ad, 'ex, 'z) classad_ops_scheme \<Rightarrow> float64 \<Rightarrow> int" where
  "go_int A f =
     (case f of
        Finite r \<Rightarrow>
          let n = (if 0 \<le> r then \<lfloor>r\<rfloor> else \<lceil>r\<rceil>)
          in if int64_range n then n else float_oob A f
      | _ \<Rightarrow> float_oob A f)"

record ('ad, 'ex, 's, 'h) ext = "('ad, 'ex) classad_ops" +
  coll_get :: "'s \<Rightarrow> string \<Rightarrow> 'ad option"
  coll_put :: "'s \<Rightarrow> string \<Rightarrow> 'ad \<Rightarrow> 's option"
  coll_update :: "'s \<Rightarrow> (string \<times> 'ad) list \<Rightarrow> 's option"
  coll_update_failed :: "'s \<Rightarrow> (string \<times> 'ad) list \<Rightarrow> 's"
  coll_delete :: "'s \<Rightarrow> string \<Rightarrow> 's"
  coll_scan :: "'s \<Rightarrow> 'ad list"
  coll_query :: "'s \<Rightarrow> string \<Rightarrow> 'ad list"
  coll_ordered :: "'s \<Rightarrow> string \<Rightarrow> 'ad list"
  hist_append :: "'h \<Rightarrow> 'ad \<Rightarrow> 'h option"
  hist_flush :: "'h \<Rightarrow> 'h"
  hist_query :: "'h \<Rightarrow> string \<Rightarrow> 'ad list"
  vm_parse :: "string \<Rightarrow> bool"
  vm_matches :: "string \<Rightarrow> 'ad \<Rightarrow> bool"
  projection_checksum :: "'ad \<Rightarrow> string list \<Rightarrow> 64 word"
  classad_quote :: "string \<Rightarrow> string"
  split_fqu :: "string \<Rightarrow> string \<times> string"
  unmapped_domain :: string
  sec_session_id :: "string \<Rightarrow> string"

section \<open>The contract of ClassAds\<close>

locale classad =
  fixes A :: "('ad, 'ex, 'z) classad_ops_scheme"
    and li :: "int \<Rightarrow> 'ex"
    and ls :: "string \<Rightarrow> 'ex"
    and lb :: "bool \<Rightarrow> 'ex"
  assumes lookup_new: "lookup_attr A (new_ad A) n = None"
    and lookup_set_int: "lookup_attr A (set_int A m v ad) n =
          (if to_lower m = to_lower n then Some (li v) else lookup_attr A ad n)"
    and lookup_set_str: "lookup_attr A (set_str A m s ad) n =
          (if to_lower m = to_lower n then Some (ls s) else lookup_attr A ad n)"
    and lookup_set_bool: "lookup_attr A (set_bool A m b ad) n =
          (if to_lower m = to_lower n then Some (lb b) else lookup_attr A ad n)"
    and lookup_insert: "lookup_attr A (insert_expr A m e ad) n =
          (if to_lower m = to_lower n then Some e else lookup_attr A ad n)"
    and lookup_delete: "lookup_attr A (delete_attr A m ad) n =
          (if to_lower m = to_lower n then None else lookup_attr A ad n)"
    and lookup_fold: "to_lower m = to_lower n \<Longrightarrow> lookup_attr A ad m = lookup_attr A ad n"
    and attr_names_lookup: "(\<exists>m \<in> set (attr_names A ad). to_lower m = to_lower n) \<longleftrightarrow>
          lookup_attr A ad n \<noteq> None"
    and eval_int_lit: "lookup_attr A ad n = Some (li v) \<Longrightarrow> eval_int A ad n = Some v"
    and eval_str_lit: "lookup_attr A ad n = Some (ls s) \<Longrightarrow> eval_str A ad n = Some s"
    and eval_int_absent: "lookup_attr A ad n = None \<Longrightarrow> eval_int A ad n = None"
    and eval_str_absent: "lookup_attr A ad n = None \<Longrightarrow> eval_str A ad n = None"
    and eval_int_ext: "(\<And>n. lookup_attr A ad n = lookup_attr A ad' n) \<Longrightarrow>
          eval_int A ad m = eval_int A ad' m"
    and eval_str_ext: "(\<And>n. lookup_attr A ad n = lookup_attr A ad' n) \<Longrightarrow>
          eval_str A ad m = eval_str A ad' m"
    and parse_itoa: "0 \<le> v \<Longrightarrow> parse_expr A (itoa v) = Some (li v)"
begin

lemmas lookup_simps = lookup_new lookup_set_int lookup_set_str lookup_set_bool
  lookup_insert lookup_delete

lemmas eval_lits = eval_int_lit eval_str_lit eval_int_absent eval_str_absent

end

section \<open>The contract of the job store\<close>

text \<open>
  \<open>own\<close> is the attribute map stored under a key (its own attributes only), \<open>keys\<close> the visible
  keys in scan order, \<open>hlist\<close> the archived ads, oldest first.
\<close>

definition chained :: "('k \<Rightarrow> (string \<Rightarrow> 'ex option) option) \<Rightarrow> 'k option \<Rightarrow> (string \<Rightarrow> 'ex option) \<Rightarrow>
    string \<Rightarrow> 'ex option" where
  "chained own pk m n =
     (case m n of
        Some e \<Rightarrow> Some e
      | None \<Rightarrow> (case pk of None \<Rightarrow> None
                | Some k \<Rightarrow> (case own k of None \<Rightarrow> None | Some pm \<Rightarrow> pm n)))"

locale job_store = classad E li ls lb
  for E :: "('ad, 'ex, 's, 'h, 'z) ext_scheme"
    and li :: "int \<Rightarrow> 'ex" and ls :: "string \<Rightarrow> 'ex" and lb :: "bool \<Rightarrow> 'ex" +
  fixes own :: "'s \<Rightarrow> string \<Rightarrow> (string \<Rightarrow> 'ex option) option"
    and keys :: "'s \<Rightarrow> string list"
    and hlist :: "'h \<Rightarrow> 'ad list"
  assumes get_None: "coll_get E s k = None \<longleftrightarrow> own s k = None"
    and get_lookup: "coll_get E s k = Some ad \<Longrightarrow> own s k = Some m \<Longrightarrow>
          lookup_attr E ad n = chained (own s) (parentKeyFor k) m n"
    and update_failed_other: "k \<notin> fst ` set b \<Longrightarrow> own (coll_update_failed E s b) k = own s k"
    and put_own: "coll_put E s k ad = Some s' \<Longrightarrow> own s' = (own s)(k \<mapsto> lookup_attr E ad)"
    and delete_own: "own (coll_delete E s k) = (own s)(k := None)"
    and update_other: "coll_update E s b = Some s' \<Longrightarrow> k \<notin> fst ` set b \<Longrightarrow> own s' k = own s k"
    and update_entry: "coll_update E s b = Some s' \<Longrightarrow> distinct (map fst b) \<Longrightarrow> (k, ad) \<in> set b \<Longrightarrow>
          \<exists>m. own s' k = Some m \<and>
              (\<forall>n. (case lookup_attr E ad n of
                      Some e \<Rightarrow> m n = Some e
                    | None \<Rightarrow> m n = None \<or> (\<exists>m0. own s k = Some m0 \<and> m n = m0 n)))"
    and keys_distinct: "distinct (keys s)"
    and keys_visible: "set (keys s) = {k. own s k \<noteq> None \<and> \<not> isStructural k}"
    and scan_keys: "coll_scan E s = map (\<lambda>k. the (coll_get E s k)) (keys s)"
    and query_scan: "coll_query E s c = filter (vm_matches E c) (coll_scan E s)"
    and hist_append_list: "hist_append E h ad = Some h' \<Longrightarrow> hlist h' = hlist h @ [ad]"
    and hist_flush_list: "hlist (hist_flush E h) = hlist h"
    and hist_query_list: "hist_query E h c = filter (vm_matches E c) (rev (hlist h))"
begin

lemma get_Some_own: "coll_get E s k = Some ad \<Longrightarrow> \<exists>m. own s k = Some m"
  using get_None [of s k] by (cases "own s k") auto

lemma own_Some_get: "own s k = Some m \<Longrightarrow> \<exists>ad. coll_get E s k = Some ad"
  using get_None [of s k] by (cases "coll_get E s k") auto

lemma get_own_attr:
  assumes "own s k = Some m" and "m n = Some e" and "coll_get E s k = Some ad"
  shows "lookup_attr E ad n = Some e"
  using get_lookup [OF assms(3,1)] assms(2) by (simp add: chained_def)

text \<open>After \<open>Put\<close>, \<open>Get\<close> returns every attribute that was written.\<close>

lemma get_after_put:
  assumes "coll_put E s k ad = Some s'"
  obtains ad' where "coll_get E s' k = Some ad'"
    and "\<And>n e. lookup_attr E ad n = Some e \<Longrightarrow> lookup_attr E ad' n = Some e"
proof -
  have o: "own s' k = Some (lookup_attr E ad)" using put_own [OF assms] by simp
  obtain ad' where g: "coll_get E s' k = Some ad'" using own_Some_get [OF o] by blast
  show thesis
  proof (rule that [OF g])
    show "lookup_attr E ad' n = Some e" if "lookup_attr E ad n = Some e" for n e
      using get_own_attr [OF o that g] .
  qed
qed

text \<open>A proc key and its parent are different keys, so writing one leaves the other alone.\<close>

lemma get_other_after_put:
  assumes "coll_put E s k ad = Some s'" and "k' \<noteq> k" and "parentKeyFor k' \<noteq> Some k"
  shows "(coll_get E s' k' = None) = (coll_get E s k' = None)"
    and "coll_get E s k' = Some a \<Longrightarrow> coll_get E s' k' = Some a' \<Longrightarrow>
         lookup_attr E a' n = lookup_attr E a n"
proof -
  have o: "own s' k' = own s k'" using put_own [OF assms(1)] assms(2) by simp
  then show "(coll_get E s' k' = None) = (coll_get E s k' = None)" by (simp add: get_None)
  assume a: "coll_get E s k' = Some a" and a': "coll_get E s' k' = Some a'"
  obtain m where m: "own s k' = Some m" using get_Some_own [OF a] by blast
  have "own s' pk = own s pk" if "parentKeyFor k' = Some pk" for pk
    using put_own [OF assms(1)] assms(3) that by auto
  then show "lookup_attr E a' n = lookup_attr E a n"
    using get_lookup [OF a m] get_lookup [OF a' m [folded o]] m o
    by (auto simp: chained_def split: option.splits)
qed

lemma get_after_delete: "coll_get E (coll_delete E s k) k = None"
  by (simp add: get_None delete_own)

lemma get_other_after_delete:
  assumes "k' \<noteq> k"
  shows "(coll_get E (coll_delete E s k) k' = None) = (coll_get E s k' = None)"
  using assms by (simp add: get_None delete_own)

lemma scan_get:
  "ad \<in> set (coll_scan E s) \<longleftrightarrow> (\<exists>k. \<not> isStructural k \<and> coll_get E s k = Some ad)"
proof -
  have "the (coll_get E s k) = ad \<longleftrightarrow> coll_get E s k = Some ad" if "own s k \<noteq> None" for k
    using that get_None [of s k] by (cases "coll_get E s k") auto
  then show ?thesis
    by (auto simp: scan_keys keys_visible image_iff Bex_def get_None [symmetric])
qed

end

section \<open>The contract of user names\<close>

text \<open>
  \<open>security.SplitFQU\<close> splits a fully-qualified user at its last \<open>@\<close>; a name without one has an
  empty domain.
\<close>

locale user_names =
  fixes E :: "('ad, 'ex, 's, 'h, 'z) ext_scheme"
  assumes split_last_at: "split_fqu E u =
      (case last_index_byte u CHR ''@'' of None \<Rightarrow> (u, []) | Some i \<Rightarrow> (take i u, drop (Suc i) u))"
begin

lemma split_bare: "CHR ''@'' \<notin> set u \<Longrightarrow> split_fqu E u = (u, [])"
  using last_index_byte_None [of u "CHR ''@''"] by (simp add: split_last_at)

lemma split_qualified: "CHR ''@'' \<notin> set d \<Longrightarrow> split_fqu E (n @ ''@'' @ d) = (n, d)"
  by (simp add: split_last_at last_index_byte_append)

lemma split_domain_no_at: "split_fqu E u = (n, d) \<Longrightarrow> CHR ''@'' \<notin> set d"
  using last_index_byte_Some [of u "CHR ''@''"]
  by (auto simp: split_last_at split: option.splits)

lemma split_join: "split_fqu E u = (n, d) \<Longrightarrow> u = n \<or> u = n @ ''@'' @ d"
  using last_index_byte_Some [of u "CHR ''@''"] id_take_nth_drop [of _ u]
  by (force simp: split_last_at split: option.splits)

end

end
