(* ===== verification/Queue.thy ===== *)
theory Queue
  imports External
begin

text \<open>
  The job-queue authority of \<open>internal/queue/queue.go\<close>, \<open>history.go\<close>, \<open>sched.go\<close> and
  \<open>spool.go\<close>: the state a \<open>Queue\<close> keeps, opening and recovering it, the cluster-id
  counter, user names and their comparison, super users, live job tallies and the
  scheduler's read-modify-write path.

  The mutexes make each method one atomic step on the state record; the model passes the
  record in and out. Calls of the user-log interface are recorded in order in
  \<open>q_ulog\<close>, nudges of the materialization engine are counted in \<open>q_nudges\<close>.
\<close>

section \<open>Data\<close>

abbreviation (input) StatusIdle :: int where "StatusIdle \<equiv> 1"
abbreviation (input) StatusRunning :: int where "StatusRunning \<equiv> 2"
abbreviation (input) StatusRemoved :: int where "StatusRemoved \<equiv> 3"
abbreviation (input) StatusCompleted :: int where "StatusCompleted \<equiv> 4"
abbreviation (input) StatusHeld :: int where "StatusHeld \<equiv> 5"
abbreviation (input) StatusTransferOut :: int where "StatusTransferOut \<equiv> 6"
abbreviation (input) StatusSuspended :: int where "StatusSuspended \<equiv> 7"

record queue_options =
  o_ScheddName :: string
  o_UIDDomain :: string
  o_AccountingDomain :: string
  o_SuperUsers :: "string list"
  o_MayImpersonate :: "(string \<Rightarrow> bool) option"
  o_ImmutableAttrs :: "string list"
  o_ProtectedAttrs :: "string list"
  o_SecureAttrs :: "string list"
  o_AllUsersTrusted :: bool
  o_IgnoreSecureAttrs :: bool

record authzConfig =
  az_immutable :: "string set"
  az_protected :: "string set"
  az_secure :: "string set"
  az_allUsersTrusted :: bool
  az_ignoreSecure :: bool
  az_mayImpersonate :: "(string \<Rightarrow> bool) option"

text \<open>The calls the schedd makes on the user-log writer, with their arguments.\<close>

datatype 'ad ulog_call =
    ULSubmit 'ad
  | ULHeld 'ad string int int
  | ULHeldCore 'ad string int int
  | ULReleased 'ad string
  | ULAborted 'ad string
  | ULExecute 'ad string string
  | ULTerminated 'ad bool int
  | ULEvicted 'ad string
  | ULDisconnected 'ad string string string
  | ULReconnected 'ad string string string
  | ULReconnectFailed 'ad string string

record ('ad, 's, 'h) queue =
  q_coll :: 's
  q_hist :: 'h
  q_name :: string
  q_domain :: string
  q_acctDomain :: string
  q_supers :: "string set"
  q_authz :: authzConfig
  q_nextID :: int
  q_factories :: "int list"
  q_onFactory :: bool
  q_nudges :: nat
  q_ulogSet :: bool
  q_ulog :: "'ad ulog_call list"

section \<open>Attribute readers\<close>

text \<open>\<open>v, _ := ad.EvaluateAttrInt(n)\<close> and \<open>s, _ := ad.EvaluateAttrString(n)\<close>.\<close>

definition int_attr0 :: "('ad, 'ex, 'z) classad_ops_scheme \<Rightarrow> 'ad \<Rightarrow> string \<Rightarrow> int" where
  "int_attr0 A ad n = (case eval_int A ad n of Some v \<Rightarrow> v | None \<Rightarrow> 0)"

definition str_attr0 :: "('ad, 'ex, 'z) classad_ops_scheme \<Rightarrow> 'ad \<Rightarrow> string \<Rightarrow> string" where
  "str_attr0 A ad n = (case eval_str A ad n of Some s \<Rightarrow> s | None \<Rightarrow> [])"

definition has_attr :: "('ad, 'ex, 'z) classad_ops_scheme \<Rightarrow> 'ad \<Rightarrow> string \<Rightarrow> bool" where
  "has_attr A ad n = (lookup_attr A ad n \<noteq> None)"

definition jobIDs :: "('ad, 'ex, 'z) classad_ops_scheme \<Rightarrow> 'ad \<Rightarrow> (int \<times> int) option" where
  "jobIDs A ad =
     (case (eval_int A ad ''ClusterId'', eval_int A ad ''ProcId'') of
        (Some c, Some p) \<Rightarrow> Some (c, p)
      | _ \<Rightarrow> None)"

definition intAttr :: "('ad, 'ex, 'z) classad_ops_scheme \<Rightarrow> 'ad \<Rightarrow> string \<Rightarrow> int \<Rightarrow> int" where
  "intAttr A ad name def = (case eval_int A ad name of Some v \<Rightarrow> v | None \<Rightarrow> def)"

section \<open>User names\<close>

definition shortName :: "('ad, 'ex, 's, 'h, 'z) ext_scheme \<Rightarrow> string \<Rightarrow> string" where
  "shortName E user = fst (split_fqu E user)"

definition isUnmapped :: "('ad, 'ex, 's, 'h, 'z) ext_scheme \<Rightarrow> string \<Rightarrow> bool" where
  "isUnmapped E user = equal_fold (snd (split_fqu E user)) (unmapped_domain E)"

definition qualify :: "('ad, 's, 'h) queue \<Rightarrow> string \<Rightarrow> string" where
  "qualify q user =
     (if user = [] \<or> CHR ''@'' \<in> set user \<or> q_domain q = [] then user
      else user @ ''@'' @ q_domain q)"

definition canonicalUser :: "('ad, 'ex, 's, 'h, 'z) ext_scheme \<Rightarrow> ('ad, 's, 'h) queue \<Rightarrow> string \<Rightarrow> string" where
  "canonicalUser E q user =
     (let (name, domain) = split_fqu E (qualify q user)
      in if domain = [] then name else name @ ''@'' @ to_lower domain)"

definition SameUser :: "('ad, 'ex, 's, 'h, 'z) ext_scheme \<Rightarrow> ('ad, 's, 'h) queue \<Rightarrow> string \<Rightarrow> string \<Rightarrow> bool" where
  "SameUser E q a b =
     (if shortName E a = [] \<or> shortName E b = [] then False
      else canonicalUser E q a = canonicalUser E q b)"

definition JobUser :: "('ad, 'ex, 's, 'h, 'z) ext_scheme \<Rightarrow> ('ad, 's, 'h) queue \<Rightarrow> 'ad \<Rightarrow> string" where
  "JobUser E q ad =
     (if str_attr0 E ad ''User'' \<noteq> [] then str_attr0 E ad ''User''
      else if str_attr0 E ad ''Owner'' \<noteq> [] then qualify q (str_attr0 E ad ''Owner'')
      else [])"

section \<open>Super users and authorization configuration\<close>

fun buildSupers_aux :: "('ad, 'ex, 's, 'h, 'z) ext_scheme \<Rightarrow> ('ad, 's, 'h) queue \<Rightarrow> string list \<Rightarrow>
    string set \<Rightarrow> string set" where
  "buildSupers_aux E q [] supers = supers"
| "buildSupers_aux E q (e # entries) supers =
     (let s = trim_space e in
      if s = [] then buildSupers_aux E q entries supers
      else let supers = insert (canonicalUser E q s) supers;
               supers = (if s = ''condor''
                         then supers \<union> canonicalUser E q ` {''condor@child'', ''condor@parent'', ''condor@family''}
                         else supers)
           in buildSupers_aux E q entries supers)"

definition buildSupers :: "('ad, 'ex, 's, 'h, 'z) ext_scheme \<Rightarrow> ('ad, 's, 'h) queue \<Rightarrow> string list \<Rightarrow> string set" where
  "buildSupers E q entries = buildSupers_aux E q entries {}"

definition IsSuperUser :: "('ad, 'ex, 's, 'h, 'z) ext_scheme \<Rightarrow> ('ad, 's, 'h) queue \<Rightarrow> string \<Rightarrow> bool" where
  "IsSuperUser E q user = (if user = [] then False else canonicalUser E q user \<in> q_supers q)"

definition systemImmutableJobAttrs :: "string list" where
  "systemImmutableJobAttrs =
     [''Owner'', ''ClusterId'', ''JobUniverse'', ''ProcId'', ''MyType'', ''TargetType'', ''User'', ''OsUser'',
      ''AcctGroup'', ''AcctGroupUser'', ''AccountingGroup'']"

definition systemSecureJobAttrs :: "string list" where
  "systemSecureJobAttrs =
     [''x509userProxySubject'', ''x509UserProxyEmail'', ''x509UserProxyVOName'',
      ''x509UserProxyFirstFQAN'', ''x509UserProxyFQAN'', ''TotalSubmitProcs'',
      ''AuthTokenSubject'', ''AuthTokenIssuer'', ''AuthTokenGroups'', ''AuthTokenId'',
      ''AuthTokenScopes'', ''AuthTokenProject'', ''OsUser'']"

definition systemProtectedJobAttrs :: "string list" where
  "systemProtectedJobAttrs = []"

definition authz_mk :: "string list \<Rightarrow> string list \<Rightarrow> string set" where
  "authz_mk system extra =
     to_lower ` set system \<union> to_lower ` (set (map trim_space extra) - {[]})"

definition buildAuthzConfig :: "queue_options \<Rightarrow> authzConfig" where
  "buildAuthzConfig opts =
     \<lparr> az_immutable = authz_mk systemImmutableJobAttrs (o_ImmutableAttrs opts),
       az_protected = authz_mk systemProtectedJobAttrs (o_ProtectedAttrs opts),
       az_secure = authz_mk systemSecureJobAttrs (o_SecureAttrs opts),
       az_allUsersTrusted = o_AllUsersTrusted opts,
       az_ignoreSecure = o_IgnoreSecureAttrs opts,
       az_mayImpersonate = o_MayImpersonate opts \<rparr>"

definition SetAuthz :: "('ad, 'ex, 's, 'h, 'z) ext_scheme \<Rightarrow> ('ad, 's, 'h) queue \<Rightarrow> queue_options \<Rightarrow>
    ('ad, 's, 'h) queue" where
  "SetAuthz E q opts =
     q\<lparr> q_supers := buildSupers E q (o_SuperUsers opts), q_authz := buildAuthzConfig opts \<rparr>"

section \<open>Opening and recovering the queue\<close>

abbreviation (input) AttrMaterializeDigestFile :: string where "AttrMaterializeDigestFile \<equiv> ''JobMaterializeDigestFile''"

abbreviation isFactoryAd :: "('ad, 'ex, 'z) classad_ops_scheme \<Rightarrow> 'ad \<Rightarrow> bool" where
  "isFactoryAd A ad \<equiv> (str_attr0 A ad AttrMaterializeDigestFile \<noteq> [])"

definition recoverFactories :: "('ad, 'ex, 's, 'h, 'z) ext_scheme \<Rightarrow> ('ad, 's, 'h) queue \<Rightarrow> ('ad, 's, 'h) queue" where
  "recoverFactories E q =
     q\<lparr> q_factories := filter (\<lambda>c. case coll_get E (q_coll q) (jobKey c (-1)) of
                                  None \<Rightarrow> False
                                | Some ad \<Rightarrow> isFactoryAd E ad) [1..q_nextID q - 1] \<rparr>"

text \<open>\<open>OpenArchive\<close> first, \<open>CreateArchive\<close> when it fails.\<close>

definition openHistory :: "'h option \<Rightarrow> 'h option \<Rightarrow> 'h option" where
  "openHistory opened created = (case opened of Some h \<Rightarrow> Some h | None \<Rightarrow> created)"

definition recoverNextID :: "('ad, 'ex, 's, 'h, 'z) ext_scheme \<Rightarrow> 's \<Rightarrow> int \<Rightarrow> int" where
  "recoverNextID E coll nextID =
     (case coll_get E coll counterKey of
        None \<Rightarrow> nextID
      | Some ad \<Rightarrow> (case eval_int E ad ''NextClusterId'' of
                      None \<Rightarrow> nextID
                    | Some v \<Rightarrow> if v > nextID then v else nextID))"

definition OpenQueue :: "('ad, 'ex, 's, 'h, 'z) ext_scheme \<Rightarrow> queue_options \<Rightarrow> 's option \<Rightarrow> 'h option \<Rightarrow>
    ('ad, 's, 'h) queue option" where
  "OpenQueue E opts collRes histRes =
     (case collRes of None \<Rightarrow> None | Some coll \<Rightarrow>
      (case histRes of None \<Rightarrow> None | Some hist \<Rightarrow>
       let acctDomain = (if o_AccountingDomain opts = [] then o_UIDDomain opts else o_AccountingDomain opts);
           q = \<lparr> q_coll = coll, q_hist = hist, q_name = o_ScheddName opts, q_domain = o_UIDDomain opts,
                 q_acctDomain = acctDomain, q_supers = {}, q_authz = buildAuthzConfig opts, q_nextID = 1,
                 q_factories = [], q_onFactory = False, q_nudges = 0, q_ulogSet = False, q_ulog = [] \<rparr>;
           q = q\<lparr> q_supers := buildSupers E q (o_SuperUsers opts) \<rparr>;
           q = q\<lparr> q_nextID := recoverNextID E coll (q_nextID q) \<rparr>
       in Some (recoverFactories E q)))"

section \<open>The cluster-id counter\<close>

definition allocClusterID :: "('ad, 'ex, 's, 'h, 'z) ext_scheme \<Rightarrow> ('ad, 's, 'h) queue \<Rightarrow>
    int option \<times> ('ad, 's, 'h) queue" where
  "allocClusterID E q =
     (let id = q_nextID q;
          q = q\<lparr> q_nextID := q_nextID q + 1 \<rparr>;
          ad = set_int E ''NextClusterId'' (q_nextID q) (new_ad E)
      in case coll_put E (q_coll q) counterKey ad of
           None \<Rightarrow> (None, q\<lparr> q_nextID := q_nextID q - 1 \<rparr>)
         | Some s \<Rightarrow> (Some id, q\<lparr> q_coll := s \<rparr>))"

section \<open>Reads and tallies\<close>

definition Get :: "('ad, 'ex, 's, 'h, 'z) ext_scheme \<Rightarrow> ('ad, 's, 'h) queue \<Rightarrow> int \<Rightarrow> int \<Rightarrow> 'ad option" where
  "Get E q c p = coll_get E (q_coll q) (jobKey c p)"

definition Scan :: "('ad, 'ex, 's, 'h, 'z) ext_scheme \<Rightarrow> ('ad, 's, 'h) queue \<Rightarrow> 'ad list" where
  "Scan E q = coll_scan E (q_coll q)"

definition Query :: "('ad, 'ex, 's, 'h, 'z) ext_scheme \<Rightarrow> ('ad, 's, 'h) queue \<Rightarrow> string \<Rightarrow> 'ad list" where
  "Query E q c = coll_query E (q_coll q) c"

definition JobStatus :: "('ad, 'ex, 's, 'h, 'z) ext_scheme \<Rightarrow> ('ad, 's, 'h) queue \<Rightarrow> int \<Rightarrow> int \<Rightarrow> int" where
  "JobStatus E q c p = (case Get E q c p of None \<Rightarrow> 0 | Some ad \<Rightarrow> int_attr0 E ad ''JobStatus'')"

record queue_counts =
  n_Total :: nat
  n_Idle :: nat
  n_Running :: nat
  n_Removed :: nat
  n_Completed :: nat
  n_Held :: nat
  n_Suspended :: nat
  n_Owners :: nat

definition zero_counts :: queue_counts where
  "zero_counts = \<lparr> n_Total = 0, n_Idle = 0, n_Running = 0, n_Removed = 0, n_Completed = 0,
                   n_Held = 0, n_Suspended = 0, n_Owners = 0 \<rparr>"

definition tally_status :: "int \<Rightarrow> queue_counts \<Rightarrow> queue_counts" where
  "tally_status st c =
     (if st = StatusIdle then c\<lparr> n_Idle := Suc (n_Idle c) \<rparr>
      else if st = StatusRunning then c\<lparr> n_Running := Suc (n_Running c) \<rparr>
      else if st = StatusRemoved then c\<lparr> n_Removed := Suc (n_Removed c) \<rparr>
      else if st = StatusCompleted then c\<lparr> n_Completed := Suc (n_Completed c) \<rparr>
      else if st = StatusHeld then c\<lparr> n_Held := Suc (n_Held c) \<rparr>
      else if st = StatusSuspended then c\<lparr> n_Suspended := Suc (n_Suspended c) \<rparr>
      else c)"

fun counts_loop :: "('ad, 'ex, 'z) classad_ops_scheme \<Rightarrow> 'ad list \<Rightarrow> string list \<Rightarrow> queue_counts \<Rightarrow> queue_counts" where
  "counts_loop A [] owners c = c\<lparr> n_Owners := length owners \<rparr>"
| "counts_loop A (ad # ads) owners c =
     (let c = c\<lparr> n_Total := Suc (n_Total c) \<rparr>;
          owners = (case eval_str A ad ''Owner'' of Some o' \<Rightarrow> set_add o' owners | None \<Rightarrow> owners)
      in counts_loop A ads owners (tally_status (int_attr0 A ad ''JobStatus'') c))"

definition Counts :: "('ad, 'ex, 's, 'h, 'z) ext_scheme \<Rightarrow> ('ad, 's, 'h) queue \<Rightarrow> queue_counts" where
  "Counts E q = counts_loop E (Scan E q) [] zero_counts"

section \<open>Submitters\<close>

definition jobOwner :: "('ad, 'ex, 's, 'h, 'z) ext_scheme \<Rightarrow> ('ad, 's, 'h) queue \<Rightarrow> 'ad \<Rightarrow> string" where
  "jobOwner E q ad =
     (if str_attr0 E ad ''Owner'' \<noteq> [] then str_attr0 E ad ''Owner''
      else shortName E (JobUser E q ad))"

definition submitterName :: "('ad, 's, 'h) queue \<Rightarrow> string \<Rightarrow> string" where
  "submitterName q owner = (if q_acctDomain q = [] then owner else owner @ ''@'' @ q_acctDomain q)"

record submitter_count =
  sc_Name :: string
  sc_Owner :: string
  sc_Idle :: nat
  sc_Running :: nat
  sc_Held :: nat
  sc_Removed :: nat
  sc_Total :: nat

definition sc_tally :: "int \<Rightarrow> submitter_count \<Rightarrow> submitter_count" where
  "sc_tally st sc =
     (let sc = sc\<lparr> sc_Total := Suc (sc_Total sc) \<rparr> in
      if st = StatusIdle then sc\<lparr> sc_Idle := Suc (sc_Idle sc) \<rparr>
      else if st = StatusRunning then sc\<lparr> sc_Running := Suc (sc_Running sc) \<rparr>
      else if st = StatusHeld then sc\<lparr> sc_Held := Suc (sc_Held sc) \<rparr>
      else if st = StatusRemoved then sc\<lparr> sc_Removed := Suc (sc_Removed sc) \<rparr>
      else sc)"

fun submitter_loop :: "('ad, 'ex, 's, 'h, 'z) ext_scheme \<Rightarrow> ('ad, 's, 'h) queue \<Rightarrow> 'ad list \<Rightarrow>
    (string \<times> submitter_count) list \<Rightarrow> (string \<times> submitter_count) list" where
  "submitter_loop E q [] byName = byName"
| "submitter_loop E q (ad # ads) byName =
     (let owner = jobOwner E q ad in
      if owner = [] then submitter_loop E q ads byName
      else let name = submitterName q owner;
               sc = (case map_of byName name of
                       Some sc \<Rightarrow> sc
                     | None \<Rightarrow> \<lparr> sc_Name = name, sc_Owner = owner, sc_Idle = 0, sc_Running = 0,
                                 sc_Held = 0, sc_Removed = 0, sc_Total = 0 \<rparr>)
           in submitter_loop E q ads
                (AList.update name (sc_tally (int_attr0 E ad ''JobStatus'') sc) byName))"

definition SubmitterCounts :: "('ad, 'ex, 's, 'h, 'z) ext_scheme \<Rightarrow> ('ad, 's, 'h) queue \<Rightarrow> submitter_count list" where
  "SubmitterCounts E q = map snd (submitter_loop E q (Scan E q) [])"

definition IdleJobsForSubmitter :: "('ad, 'ex, 's, 'h, 'z) ext_scheme \<Rightarrow> ('ad, 's, 'h) queue \<Rightarrow> string \<Rightarrow> 'ad list" where
  "IdleJobsForSubmitter E q submitter =
     (let owner = shortName E submitter
      in filter (\<lambda>ad. int_attr0 E ad ''JobStatus'' = StatusIdle \<and> jobOwner E q ad = owner) (Scan E q))"

section \<open>Writes\<close>

definition Modify :: "('ad, 'ex, 's, 'h, 'z) ext_scheme \<Rightarrow> ('ad, 's, 'h) queue \<Rightarrow> int \<Rightarrow> int \<Rightarrow> ('ad \<Rightarrow> 'ad) \<Rightarrow>
    bool \<times> ('ad, 's, 'h) queue" where
  "Modify E q c p fn =
     (case Get E q c p of
        None \<Rightarrow> (False, q)
      | Some ad \<Rightarrow>
          (case coll_put E (q_coll q) (jobKey c p) (fn ad) of
             None \<Rightarrow> (False, q)
           | Some s \<Rightarrow> (True, q\<lparr> q_coll := s \<rparr>)))"

definition histAppend :: "('ad, 'ex, 's, 'h, 'z) ext_scheme \<Rightarrow> 'h \<Rightarrow> 'ad \<Rightarrow> 'h" where
  "histAppend E h ad = (case hist_append E h ad of Some h' \<Rightarrow> h' | None \<Rightarrow> h)"

definition archiveAndDelete :: "('ad, 'ex, 's, 'h, 'z) ext_scheme \<Rightarrow> ('ad, 's, 'h) queue \<Rightarrow> int \<Rightarrow> int \<Rightarrow> 'ad \<Rightarrow>
    ('ad, 's, 'h) queue" where
  "archiveAndDelete E q c p ad =
     (let q = q\<lparr> q_hist := histAppend E (q_hist q) ad \<rparr>;
          q = q\<lparr> q_hist := hist_flush E (q_hist q) \<rparr>
      in q\<lparr> q_coll := coll_delete E (q_coll q) (jobKey c p) \<rparr>)"

definition Complete :: "('ad, 'ex, 's, 'h, 'z) ext_scheme \<Rightarrow> int \<Rightarrow> ('ad, 's, 'h) queue \<Rightarrow> int \<Rightarrow> int \<Rightarrow>
    ('ad, 's, 'h) queue" where
  "Complete E now q c p =
     (case Get E q c p of
        None \<Rightarrow> q
      | Some ad \<Rightarrow>
          let ad = set_int E ''JobStatus'' StatusCompleted ad;
              ad = set_int E ''CompletionDate'' now ad
          in archiveAndDelete E q c p ad)"

definition emit_ulog :: "'ad ulog_call \<Rightarrow> ('ad, 's, 'h) queue \<Rightarrow> ('ad, 's, 'h) queue" where
  "emit_ulog ev q = (if q_ulogSet q then q\<lparr> q_ulog := q_ulog q @ [ev] \<rparr> else q)"

definition globalJobID :: "('ad, 's, 'h) queue \<Rightarrow> int \<Rightarrow> int \<Rightarrow> int \<Rightarrow> string" where
  "globalJobID q c p qdate = q_name q @ ''#'' @ itoa c @ ''.'' @ itoa p @ ''#'' @ itoa qdate"

section \<open>Known users and impersonation\<close>

definition knownUser :: "('ad, 'ex, 's, 'h, 'z) ext_scheme \<Rightarrow> ('ad, 's, 'h) queue \<Rightarrow> string \<Rightarrow> bool" where
  "knownUser E q user =
     (let query = ''User == '' @ classad_quote E user in
      if \<not> vm_parse E query then False
      else list_ex (\<lambda>ad. SameUser E q user (JobUser E q ad)) (coll_query E (q_coll q) query) \<or>
           list_ex (\<lambda>ad. SameUser E q user (JobUser E q ad)) (hist_query E (q_hist q) query))"

definition mayImpersonate :: "('ad, 'ex, 's, 'h, 'z) ext_scheme \<Rightarrow> ('ad, 's, 'h) queue \<Rightarrow> string \<Rightarrow> bool" where
  "mayImpersonate E q owner =
     (case az_mayImpersonate (q_authz q) of
        Some re \<Rightarrow> re (shortName E owner)
      | None \<Rightarrow> knownUser E q (qualify q owner))"

section \<open>Spool support\<close>

definition OwnsJobAd :: "('ad, 'ex, 's, 'h, 'z) ext_scheme \<Rightarrow> ('ad, 's, 'h) queue \<Rightarrow> string \<Rightarrow> 'ad option \<Rightarrow> bool" where
  "OwnsJobAd E q authUser ad =
     (case ad of
        None \<Rightarrow> False
      | Some ad \<Rightarrow> if IsSuperUser E q authUser then True
                   else SameUser E q authUser (JobUser E q ad))"

fun spool_add :: "('ad, 'ex, 'z) classad_ops_scheme \<Rightarrow> 'ad list \<Rightarrow> (int \<times> int) list \<Rightarrow> 'ad list \<Rightarrow>
    (int \<times> int) list \<times> 'ad list" where
  "spool_add A [] seen out = (seen, out)"
| "spool_add A (ad # ads) seen out =
     (case jobIDs A ad of
        None \<Rightarrow> spool_add A ads seen out
      | Some key \<Rightarrow>
          if key \<in> set seen then spool_add A ads seen out
          else spool_add A ads (key # seen) (out @ [ad]))"

definition SpoolQuery :: "('ad, 'ex, 's, 'h, 'z) ext_scheme \<Rightarrow> ('ad, 's, 'h) queue \<Rightarrow> string \<Rightarrow> 'ad list option" where
  "SpoolQuery E q constraint =
     (if \<not> vm_parse E constraint then None
      else let (seen, out) = spool_add E (coll_query E (q_coll q) constraint) [] []
           in Some (snd (spool_add E (hist_query E (q_hist q) constraint) seen out)))"

section \<open>Properties of user names\<close>

text \<open>The domain a name is compared in: its own, or UID_DOMAIN for a bare name.\<close>

definition user_domain :: "('ad, 'ex, 's, 'h, 'z) ext_scheme \<Rightarrow> ('ad, 's, 'h) queue \<Rightarrow> string \<Rightarrow> string" where
  "user_domain E q u = (if CHR ''@'' \<in> set u then snd (split_fqu E u) else q_domain q)"

text \<open>A name that does not end in a bare \<open>@\<close>.\<close>

definition proper_user :: "string \<Rightarrow> bool" where
  "proper_user u = (u = [] \<or> last u \<noteq> CHR ''@'')"

context user_names
begin

lemma split_at_domain:
  assumes "CHR ''@'' \<in> set u" and "proper_user u"
  shows "snd (split_fqu E u) \<noteq> []"
proof -
  obtain i where i: "last_index_byte u CHR ''@'' = Some i"
    using assms(1) last_index_byte_None [of u "CHR ''@''"] by (cases "last_index_byte u CHR ''@''") auto
  with last_index_byte_Some [OF i] have "i < length u" "u ! i = CHR ''@''" by auto
  moreover have "Suc i \<noteq> length u"
  proof
    assume "Suc i = length u"
    then have "u \<noteq> []" and "length u - 1 = i" by auto
    then have "last u = u ! i" by (simp add: last_conv_nth)
    with assms(2) \<open>u ! i = CHR ''@''\<close> \<open>u \<noteq> []\<close> show False by (simp add: proper_user_def)
  qed
  ultimately show ?thesis by (simp add: split_last_at i)
qed

lemma split_qualify:
  assumes "CHR ''@'' \<notin> set (q_domain q)" and "u \<noteq> []"
  shows "split_fqu E (qualify q u) = (shortName E u, user_domain E q u)"
  using assms by (auto simp: qualify_def user_domain_def shortName_def split_bare split_qualified [simplified])

lemma canonical_form:
  assumes "CHR ''@'' \<notin> set (q_domain q)" and "u \<noteq> []" and "proper_user u"
  shows "canonicalUser E q u = (if user_domain E q u = [] then shortName E u
           else shortName E u @ ''@'' @ to_lower (user_domain E q u))"
    and "CHR ''@'' \<notin> set (user_domain E q u)"
    and "user_domain E q u = [] \<Longrightarrow> CHR ''@'' \<notin> set (shortName E u)"
proof -
  show "canonicalUser E q u = (if user_domain E q u = [] then shortName E u
          else shortName E u @ ''@'' @ to_lower (user_domain E q u))"
    using split_qualify [OF assms(1,2)] by (simp add: canonicalUser_def)
  show "CHR ''@'' \<notin> set (user_domain E q u)"
    using assms(1) split_domain_no_at [of u] by (cases "split_fqu E u") (auto simp: user_domain_def)
  show "CHR ''@'' \<notin> set (shortName E u)" if "user_domain E q u = []"
    using that split_at_domain [OF _ assms(3)]
    by (auto simp: user_domain_def shortName_def split_bare split: if_splits)
qed

lemma last_at_inj:
  assumes "a @ CHR ''@'' # b = c @ CHR ''@'' # d" and "CHR ''@'' \<notin> set b" and "CHR ''@'' \<notin> set d"
  shows "a = c \<and> b = d"
  using split_qualified [OF assms(2), of a] split_qualified [OF assms(3), of c] assms(1) by simp

lemma canonical_eq_iff:
  assumes "CHR ''@'' \<notin> set (q_domain q)" and "u \<noteq> []" "v \<noteq> []" and "proper_user u" "proper_user v"
  shows "canonicalUser E q u = canonicalUser E q v \<longleftrightarrow>
           shortName E u = shortName E v \<and> equal_fold (user_domain E q u) (user_domain E q v)"
proof -
  note u = canonical_form [OF assms(1,2,4)] and v = canonical_form [OF assms(1,3,5)]
  have at: "CHR ''@'' \<in> set (canonicalUser E q u) \<longleftrightarrow> user_domain E q u \<noteq> []"
    "CHR ''@'' \<in> set (canonicalUser E q v) \<longleftrightarrow> user_domain E q v \<noteq> []"
    using u(1,3) v(1,3) by auto
  show ?thesis
  proof (cases "user_domain E q u = []"; cases "user_domain E q v = []")
    assume "user_domain E q u \<noteq> []" "user_domain E q v \<noteq> []"
    then show ?thesis
      using u v last_at_inj [of "shortName E u" "to_lower (user_domain E q u)" "shortName E v" "to_lower (user_domain E q v)"]
      by (auto simp: equal_fold_def)
  next
    assume d: "user_domain E q u \<noteq> []" "user_domain E q v = []"
    then have "canonicalUser E q u \<noteq> canonicalUser E q v" using at by metis
    with d show ?thesis by (simp add: equal_fold_def)
  next
    assume d: "user_domain E q u = []" "user_domain E q v \<noteq> []"
    then have "canonicalUser E q u \<noteq> canonicalUser E q v" using at by metis
    with d show ?thesis by (simp add: equal_fold_def eq_commute [of "[]"])
  qed (use u v in \<open>simp add: equal_fold_def\<close>)
qed

lemma same_user_iff:
  assumes "CHR ''@'' \<notin> set (q_domain q)" and "proper_user u" "proper_user v"
  shows "SameUser E q u v \<longleftrightarrow> shortName E u \<noteq> [] \<and> shortName E u = shortName E v \<and>
           equal_fold (user_domain E q u) (user_domain E q v)"
proof -
  have "shortName E [] = []" using split_bare [of "[]"] by (simp add: shortName_def)
  then show ?thesis
    using canonical_eq_iff [OF assms(1) _ _ assms(2,3)]
    by (cases "u = [] \<or> v = []") (auto simp: SameUser_def)
qed

end

section \<open>Super users\<close>

lemma buildSupers_aux_set:
  "buildSupers_aux E q entries supers =
     supers \<union> canonicalUser E q ` (set (map trim_space entries) - {[]}) \<union>
     (if ''condor'' \<in> set (map trim_space entries)
      then canonicalUser E q ` {''condor@child'', ''condor@parent'', ''condor@family''} else {})"
proof (induction entries arbitrary: supers)
  case (Cons e entries)
  show ?case
  proof (cases "trim_space e = []")
    case True
    then show ?thesis using Cons [of supers] by (simp add: Let_def)
  next
    case False
    then show ?thesis
      by (cases "trim_space e = ''condor''") (auto simp: Cons Let_def eq_commute [of "''condor''"])
  qed
qed simp

lemma buildSupers_set:
  "buildSupers E q entries =
     canonicalUser E q ` (set (map trim_space entries) - {[]}) \<union>
     (if ''condor'' \<in> set (map trim_space entries)
      then canonicalUser E q ` {''condor@child'', ''condor@parent'', ''condor@family''} else {})"
  by (simp add: buildSupers_def buildSupers_aux_set)

lemma canonicalUser_cong: "q_domain q = q_domain q' \<Longrightarrow> canonicalUser E q = canonicalUser E q'"
  by (simp add: fun_eq_iff canonicalUser_def qualify_def)

end
