(* ===== verification/Txn.thy ===== *)
theory Txn
  imports Queue
begin

text \<open>
  Per-connection transactions, \<open>internal/queue/txn.go\<close>, and the per-attribute and
  ownership authorization of \<open>internal/queue/authz.go\<close>. A Go \<open>error\<close> result is
  \<open>txn_err option\<close> (\<open>None\<close> is \<open>nil\<close>), a pair \<open>(v, error)\<close> is \<open>txn_err + 'v\<close>. The
  staged ads are an association list from keys to ads; the maps that are only used as
  sets of keys and are ranged over are lists without duplicates.
\<close>

section \<open>State and errors\<close>

datatype txn_err =
    AnonymousErr
  | NotOwnerErr string int int string
  | SecureErr string int int
  | ImmutableErr string int int
  | ProtectedErr string int int
  | EffectiveOwnerErr string string
  | NotAUserErr string
  | NotPermittedErr string
  | ImpersonateErr string string
  | CounterErr
  | ActiveClusterErr int int
  | EmptyValueErr string
  | ParseValueErr string
  | DeferredErr nat string
  | CommitErr

text \<open>The errors that are an \<open>AuthzError\<close>.\<close>

fun isAuthzError :: "txn_err \<Rightarrow> bool" where
  "isAuthzError AnonymousErr = True"
| "isAuthzError (NotOwnerErr _ _ _ _) = True"
| "isAuthzError (SecureErr _ _ _) = True"
| "isAuthzError (ImmutableErr _ _ _) = True"
| "isAuthzError (ProtectedErr _ _ _) = True"
| "isAuthzError _ = False"

record 'ad txn =
  t_authUser :: string
  t_owner :: string
  t_user :: string
  t_isSuper :: bool
  t_allowProtected :: bool
  t_active :: int
  t_pending :: "(string \<times> 'ad) list"
  t_nextProc :: "(int \<times> int) list"
  t_delAttrs :: "(string \<times> string) set"
  t_destroyed :: "string list"
  t_newProcs :: "string list"
  t_errs :: "string list"

definition BeginTxn :: "('ad, 'ex, 's, 'h, 'z) ext_scheme \<Rightarrow> ('ad, 's, 'h) queue \<Rightarrow> string \<Rightarrow> 'ad txn" where
  "BeginTxn E q authUser =
     (let authUser = (if isUnmapped E authUser then [] else authUser);
          user = qualify q authUser;
          owner = shortName E user
      in \<lparr> t_authUser = authUser, t_owner = owner, t_user = user, t_isSuper = IsSuperUser E q authUser,
           t_allowProtected = False, t_active = -1, t_pending = [], t_nextProc = [], t_delAttrs = {},
           t_destroyed = [], t_newProcs = [], t_errs = [] \<rparr>)"

definition AddError :: "string \<Rightarrow> 'ad txn \<Rightarrow> 'ad txn" where
  "AddError msg t = t\<lparr> t_errs := t_errs t @ [msg] \<rparr>"

definition ActiveCluster :: "'ad txn \<Rightarrow> int" where
  "ActiveCluster t = t_active t"

definition stagedAd :: "('ad, 'ex, 'z) classad_ops_scheme \<Rightarrow> string \<Rightarrow> 'ad txn \<Rightarrow> 'ad \<times> 'ad txn" where
  "stagedAd A key t =
     (case map_of (t_pending t) key of
        Some ad \<Rightarrow> (ad, t)
      | None \<Rightarrow> (new_ad A, t\<lparr> t_pending := AList.update key (new_ad A) (t_pending t) \<rparr>))"

text \<open>Writing through the pointer \<open>stagedAd\<close> returned.\<close>

definition put_staged :: "string \<Rightarrow> 'ad \<Rightarrow> 'ad txn \<Rightarrow> 'ad txn" where
  "put_staged key ad t = t\<lparr> t_pending := AList.update key ad (t_pending t) \<rparr>"

section \<open>Authorization\<close>

definition anonymous :: "'ad txn \<Rightarrow> bool" where
  "anonymous t = (t_authUser t = [])"

definition checkOwner :: "('ad, 'ex, 's, 'h, 'z) ext_scheme \<Rightarrow> ('ad, 's, 'h) queue \<Rightarrow> 'ad txn \<Rightarrow> authzConfig \<Rightarrow>
    int \<Rightarrow> int \<Rightarrow> string \<Rightarrow> txn_err option" where
  "checkOwner E q t az c p owner =
     (if az_allUsersTrusted az \<or> t_isSuper t then None
      else if owner \<noteq> [] \<and> \<not> SameUser E q (t_authUser t) owner
           then Some (NotOwnerErr (t_authUser t) c p owner)
      else None)"

text \<open>\<open>None\<close> when the job is not committed, otherwise its owning identity.\<close>

definition committedOwner :: "('ad, 'ex, 's, 'h, 'z) ext_scheme \<Rightarrow> ('ad, 's, 'h) queue \<Rightarrow> int \<Rightarrow> int \<Rightarrow> string option" where
  "committedOwner E q c p =
     (case coll_get E (q_coll q) (jobKey c p) of
        None \<Rightarrow> None
      | Some ad \<Rightarrow>
          if JobUser E q ad \<noteq> [] then Some (JobUser E q ad)
          else if p \<ge> 0 then
            (case coll_get E (q_coll q) (jobKey c (-1)) of
               Some cad \<Rightarrow> if JobUser E q cad \<noteq> [] then Some (JobUser E q cad) else Some []
             | None \<Rightarrow> Some [])
          else Some [])"

text \<open>\<open>Inl e\<close> rejects, \<open>Inr True\<close> silently ignores, \<open>Inr False\<close> allows.\<close>

definition authorize :: "('ad, 'ex, 's, 'h, 'z) ext_scheme \<Rightarrow> ('ad, 's, 'h) queue \<Rightarrow> 'ad txn \<Rightarrow> int \<Rightarrow> int \<Rightarrow> string \<Rightarrow>
    txn_err + bool" where
  "authorize E q t c p name =
     (if anonymous t then Inl AnonymousErr
      else
        let az = q_authz q;
            lname = to_lower name
        in if lname \<in> az_secure az then
             (if az_ignoreSecure az then Inr True else Inl (SecureErr name c p))
           else
             (case committedOwner E q c p of
                None \<Rightarrow> Inr False
              | Some owner \<Rightarrow>
                  (case checkOwner E q t az c p owner of
                     Some err \<Rightarrow> Inl err
                   | None \<Rightarrow>
                       if lname \<in> az_immutable az then Inl (ImmutableErr name c p)
                       else if lname \<in> az_protected az \<and>
                               ((\<not> t_isSuper t \<and> \<not> az_allUsersTrusted az) \<or> \<not> t_allowProtected t)
                            then Inl (ProtectedErr name c p)
                       else Inr False)))"

section \<open>Operations\<close>

definition SetEffectiveOwner :: "('ad, 'ex, 's, 'h, 'z) ext_scheme \<Rightarrow> ('ad, 's, 'h) queue \<Rightarrow> string \<Rightarrow> 'ad txn \<Rightarrow>
    txn_err option \<times> 'ad txn" where
  "SetEffectiveOwner E q owner t =
     (if owner = [] then (None, t)
      else if t_authUser t \<noteq> [] \<and> SameUser E q owner (t_authUser t) then
        (let t = t\<lparr> t_user := qualify q (t_authUser t) \<rparr>
         in (None, t\<lparr> t_owner := shortName E (t_user t) \<rparr>))
      else if \<not> t_isSuper t then (Some (EffectiveOwnerErr (t_authUser t) owner), t)
      else if shortName E owner = [] \<or> isUnmapped E owner then (Some (NotAUserErr owner), t)
      else if shortName E owner = ''root'' \<or> shortName E owner = ''LOCAL_SYSTEM''
           then (Some (NotPermittedErr owner), t)
      else if \<not> mayImpersonate E q owner then (Some (ImpersonateErr (t_authUser t) owner), t)
      else (let t = t\<lparr> t_user := qualify q owner \<rparr>
            in (None, t\<lparr> t_owner := shortName E (t_user t) \<rparr>)))"

definition NewCluster :: "('ad, 'ex, 's, 'h, 'z) ext_scheme \<Rightarrow> ('ad, 's, 'h) queue \<Rightarrow> 'ad txn \<Rightarrow>
    (txn_err + int) \<times> ('ad, 's, 'h) queue \<times> 'ad txn" where
  "NewCluster E q t =
     (if anonymous t then (Inl AnonymousErr, q, t)
      else case allocClusterID E q of
             (None, q) \<Rightarrow> (Inl CounterErr, q, t)
           | (Some cid, q) \<Rightarrow>
               let t = t\<lparr> t_active := cid \<rparr>;
                   t = t\<lparr> t_nextProc := AList.update cid 0 (t_nextProc t) \<rparr>;
                   t = snd (stagedAd E (clusterKeyStr cid) t)
               in (Inr cid, q, t))"

definition nextProc_of :: "'ad txn \<Rightarrow> int \<Rightarrow> int" where
  "nextProc_of t c = (case map_of (t_nextProc t) c of Some p \<Rightarrow> p | None \<Rightarrow> 0)"

definition NewProc :: "('ad, 'ex, 's, 'h, 'z) ext_scheme \<Rightarrow> int \<Rightarrow> 'ad txn \<Rightarrow> (txn_err + int) \<times> 'ad txn" where
  "NewProc E cluster t =
     (if anonymous t then (Inl AnonymousErr, t)
      else if cluster \<noteq> t_active t then (Inl (ActiveClusterErr cluster (t_active t)), t)
      else let p = nextProc_of t cluster;
               t = t\<lparr> t_nextProc := AList.update cluster (p + 1) (t_nextProc t) \<rparr>;
               t = snd (stagedAd E (jobKey cluster p) t);
               t = t\<lparr> t_newProcs := set_add (jobKey cluster p) (t_newProcs t) \<rparr>
           in (Inr p, t))"

definition SetAttribute :: "('ad, 'ex, 's, 'h, 'z) ext_scheme \<Rightarrow> ('ad, 's, 'h) queue \<Rightarrow> int \<Rightarrow> int \<Rightarrow> string \<Rightarrow> string \<Rightarrow>
    'ad txn \<Rightarrow> txn_err option \<times> 'ad txn" where
  "SetAttribute E q c p name value t =
     (if value = [] then (Some (EmptyValueErr name), t)
      else case authorize E q t c p name of
             Inl err \<Rightarrow> (Some err, t)
           | Inr True \<Rightarrow> (None, t)
           | Inr False \<Rightarrow>
               (let (ad, t) = stagedAd E (jobKey c p) t
                in case parse_expr E value of
                     None \<Rightarrow>
                       if set_str_err E name value ad then (Some (ParseValueErr name), t)
                       else (None, put_staged (jobKey c p) (set_str E name value ad) t)
                   | Some expr \<Rightarrow>
                       let t = put_staged (jobKey c p) (insert_expr E name expr ad) t
                       in (None, t\<lparr> t_delAttrs := t_delAttrs t - {(jobKey c p, name)} \<rparr>)))"

definition DeleteAttribute :: "('ad, 'ex, 's, 'h, 'z) ext_scheme \<Rightarrow> ('ad, 's, 'h) queue \<Rightarrow> int \<Rightarrow> int \<Rightarrow> string \<Rightarrow>
    'ad txn \<Rightarrow> txn_err option \<times> 'ad txn" where
  "DeleteAttribute E q c p name t =
     (case authorize E q t c p name of
        Inl err \<Rightarrow> (Some err, t)
      | Inr True \<Rightarrow> (None, t)
      | Inr False \<Rightarrow>
          let key = jobKey c p;
              t = (case map_of (t_pending t) key of
                     Some ad \<Rightarrow> put_staged key (delete_attr E name ad) t
                   | None \<Rightarrow> t)
          in (None, t\<lparr> t_delAttrs := insert (key, name) (t_delAttrs t) \<rparr>))"

definition SetAllowProtectedChanges :: "bool \<Rightarrow> 'ad txn \<Rightarrow> bool \<times> 'ad txn" where
  "SetAllowProtectedChanges v t = (t_allowProtected t, t\<lparr> t_allowProtected := v \<rparr>)"

definition DestroyProc :: "('ad, 'ex, 's, 'h, 'z) ext_scheme \<Rightarrow> ('ad, 's, 'h) queue \<Rightarrow> int \<Rightarrow> int \<Rightarrow> 'ad txn \<Rightarrow>
    txn_err option \<times> 'ad txn" where
  "DestroyProc E q c p t =
     (if anonymous t then (Some AnonymousErr, t)
      else case (case committedOwner E q c p of
                   None \<Rightarrow> None
                 | Some owner \<Rightarrow> checkOwner E q t (q_authz q) c p owner) of
             Some err \<Rightarrow> (Some err, t)
           | None \<Rightarrow>
               (let t = t\<lparr> t_destroyed := set_add (jobKey c p) (t_destroyed t) \<rparr>
                in (None, t\<lparr> t_pending := AList.delete (jobKey c p) (t_pending t) \<rparr>)))"

text \<open>The ownership scan of \<open>DestroyCluster\<close>: the proc ids to destroy, or the first refusal.\<close>

fun destroy_scan :: "('ad, 'ex, 's, 'h, 'z) ext_scheme \<Rightarrow> ('ad, 's, 'h) queue \<Rightarrow> 'ad txn \<Rightarrow> int \<Rightarrow> 'ad list \<Rightarrow>
    int list \<Rightarrow> txn_err + int list" where
  "destroy_scan E q t c [] procs = Inr procs"
| "destroy_scan E q t c (ad # ads) procs =
     (case jobIDs E ad of
        None \<Rightarrow> destroy_scan E q t c ads procs
      | Some (cc, _) \<Rightarrow>
          if cc \<noteq> c then destroy_scan E q t c ads procs
          else let pp = int_attr0 E ad ''ProcId'' in
               case checkOwner E q t (q_authz q) c pp (JobUser E q ad) of
                 Some err \<Rightarrow> Inl err
               | None \<Rightarrow> destroy_scan E q t c ads (procs @ [pp]))"

definition DestroyCluster :: "('ad, 'ex, 's, 'h, 'z) ext_scheme \<Rightarrow> ('ad, 's, 'h) queue \<Rightarrow> int \<Rightarrow> 'ad txn \<Rightarrow>
    txn_err option \<times> 'ad txn" where
  "DestroyCluster E q c t =
     (if anonymous t then (Some AnonymousErr, t)
      else case (case committedOwner E q c (-1) of
                   None \<Rightarrow> None
                 | Some owner \<Rightarrow> checkOwner E q t (q_authz q) c (-1) owner) of
             Some err \<Rightarrow> (Some err, t)
           | None \<Rightarrow>
               (case destroy_scan E q t c (coll_scan E (q_coll q)) [] of
                  Inl err \<Rightarrow> (Some err, t)
                | Inr procs \<Rightarrow>
                    let t = t\<lparr> t_destroyed := set_add (clusterKeyStr c) (t_destroyed t) \<rparr>;
                        t = t\<lparr> t_pending := AList.delete (clusterKeyStr c) (t_pending t) \<rparr>
                    in (None, t\<lparr> t_destroyed := fold (\<lambda>p. set_add (jobKey c p)) procs (t_destroyed t) \<rparr>)))"

section \<open>Reads\<close>

definition staged_lookup :: "('ad, 'ex, 'z) classad_ops_scheme \<Rightarrow> 'ad txn \<Rightarrow> string \<Rightarrow> string \<Rightarrow> 'ex option" where
  "staged_lookup A t key name =
     (case map_of (t_pending t) key of None \<Rightarrow> None | Some ad \<Rightarrow> lookup_attr A ad name)"

definition GetAttribute :: "('ad, 'ex, 's, 'h, 'z) ext_scheme \<Rightarrow> ('ad, 's, 'h) queue \<Rightarrow> 'ad txn \<Rightarrow> int \<Rightarrow> int \<Rightarrow> string \<Rightarrow>
    string option" where
  "GetAttribute E q t c p name =
     (let key = jobKey c p in
      if (key, name) \<in> t_delAttrs t then None
      else case staged_lookup E t key name of
             Some expr \<Rightarrow> Some (expr_string E expr)
           | None \<Rightarrow>
               (case (if p \<ge> 0 then staged_lookup E t (clusterKeyStr c) name else None) of
                  Some expr \<Rightarrow> Some (expr_string E expr)
                | None \<Rightarrow>
                    (case coll_get E (q_coll q) key of
                       None \<Rightarrow> None
                     | Some ad \<Rightarrow> (case lookup_attr E ad name of
                                     Some expr \<Rightarrow> Some (expr_string E expr)
                                   | None \<Rightarrow> None))))"

abbreviation overlay :: "('ad, 'ex, 'z) classad_ops_scheme \<Rightarrow> 'ad \<Rightarrow> 'ad \<Rightarrow> 'ad" where
  "overlay A staged base \<equiv>
     fold (\<lambda>name base. case lookup_attr A staged name of
                         Some expr \<Rightarrow> insert_expr A name expr base
                       | None \<Rightarrow> base) (attr_names A staged) base"

definition GetJobAd :: "('ad, 'ex, 's, 'h, 'z) ext_scheme \<Rightarrow> ('ad, 's, 'h) queue \<Rightarrow> 'ad txn \<Rightarrow> int \<Rightarrow> int \<Rightarrow> 'ad option" where
  "GetJobAd E q t c p =
     (let committed = coll_get E (q_coll q) (jobKey c p);
          base = (case committed of Some ad \<Rightarrow> ad | None \<Rightarrow> new_ad E)
      in case map_of (t_pending t) (jobKey c p) of
           None \<Rightarrow> (if committed = None then None else Some base)
         | Some staged \<Rightarrow> Some (overlay E staged base))"

section \<open>Commit\<close>

definition materialize :: "('ad, 'ex, 's, 'h, 'z) ext_scheme \<Rightarrow> ('ad, 's, 'h) queue \<Rightarrow> 'ad txn \<Rightarrow> 'ad \<Rightarrow> int \<Rightarrow> int \<Rightarrow>
    int \<Rightarrow> 'ad" where
  "materialize E q t ad c p now =
     (if p < 0 then
        let ad = set_int E ''ClusterId'' c ad;
            ad = set_str E ''Owner'' (t_owner t) ad;
            ad = set_str E ''User'' (t_user t) ad;
            ad = (if has_attr E ad ''JobUniverse'' then ad else set_int E ''JobUniverse'' 5 ad)
        in set_str E ''MyType'' ''Job'' ad
      else
        let ad = set_int E ''ProcId'' p ad;
            ad = set_int E ''ClusterId'' c ad;
            ad = set_str E ''Owner'' (t_owner t) ad;
            ad = set_str E ''User'' (t_user t) ad;
            ad = (if has_attr E ad ''JobStatus'' then ad else set_int E ''JobStatus'' StatusIdle ad);
            ad = (if has_attr E ad ''QDate'' then ad else set_int E ''QDate'' now ad);
            qdate = (case eval_int E ad ''QDate'' of Some v \<Rightarrow> v | None \<Rightarrow> now);
            ad = set_str E ''GlobalJobId'' (globalJobID q c p qdate) ad
        in set_str E ''MyType'' ''Job'' ad)"

definition noteFactory :: "int \<Rightarrow> ('ad, 's, 'h) queue \<Rightarrow> ('ad, 's, 'h) queue" where
  "noteFactory c q =
     (let newly = c \<notin> set (q_factories q);
          q = q\<lparr> q_factories := set_add c (q_factories q) \<rparr>
      in if newly \<and> q_onFactory q then q\<lparr> q_nudges := Suc (q_nudges q) \<rparr> else q)"

definition unnoteFactory :: "int \<Rightarrow> ('ad, 's, 'h) queue \<Rightarrow> ('ad, 's, 'h) queue" where
  "unnoteFactory c q = q\<lparr> q_factories := removeAll c (q_factories q) \<rparr>"

definition commit_clusters :: "'ad txn \<Rightarrow> int list" where
  "commit_clusters t =
     fold (\<lambda>(key, _) cs. case parseJobKey key of Some (c, _) \<Rightarrow> set_add c cs | None \<Rightarrow> cs) (t_pending t) []"

text \<open>The staged ads once every one that goes into the batch is materialized, and the batch.\<close>

definition in_batch :: "'ad txn \<Rightarrow> string \<Rightarrow> bool" where
  "in_batch t key = (key \<notin> set (t_destroyed t) \<and> parseJobKey key \<noteq> None)"

definition materialize_all :: "('ad, 'ex, 's, 'h, 'z) ext_scheme \<Rightarrow> ('ad, 's, 'h) queue \<Rightarrow> int \<Rightarrow> 'ad txn \<Rightarrow>
    (string \<times> 'ad) list" where
  "materialize_all E q now t =
     map (\<lambda>(key, ad). (key, if in_batch t key
                            then case the (parseJobKey key) of (c, p) \<Rightarrow> materialize E q t ad c p now
                            else ad)) (t_pending t)"

text \<open>A cluster ad is staged for every cluster a staged key belongs to.\<close>

definition commit_stage :: "('ad, 'ex, 'z) classad_ops_scheme \<Rightarrow> 'ad txn \<Rightarrow> 'ad txn" where
  "commit_stage A t = fold (\<lambda>c t. snd (stagedAd A (clusterKeyStr c) t)) (commit_clusters t) t"

definition commit_batch :: "'ad txn \<Rightarrow> (string \<times> 'ad) list" where
  "commit_batch t = filter (\<lambda>(key, _). in_batch t key) (t_pending t)"

definition commit_delete :: "('ad, 'ex, 's, 'h, 'z) ext_scheme \<Rightarrow> string \<Rightarrow> ('ad, 's, 'h) queue \<Rightarrow> ('ad, 's, 'h) queue" where
  "commit_delete E key q =
     (let q = q\<lparr> q_coll := coll_delete E (q_coll q) key \<rparr>
      in case parseJobKey key of
           Some (c, p) \<Rightarrow> if p < 0 then unnoteFactory c q else q
         | None \<Rightarrow> q)"

definition commit_note :: "('ad, 'ex, 's, 'h, 'z) ext_scheme \<Rightarrow> 'ad txn \<Rightarrow> string \<times> 'ad \<Rightarrow> ('ad, 's, 'h) queue \<Rightarrow>
    ('ad, 's, 'h) queue" where
  "commit_note E t e q =
     (case e of (key, ad) \<Rightarrow>
        if key \<in> set (t_destroyed t) then q
        else case parseJobKey key of
               Some (c, p) \<Rightarrow> if p < 0 \<and> isFactoryAd E ad then noteFactory c q else q
             | None \<Rightarrow> q)"

definition commit_submit :: "('ad, 'ex, 's, 'h, 'z) ext_scheme \<Rightarrow> 'ad txn \<Rightarrow> string \<Rightarrow> ('ad, 's, 'h) queue \<Rightarrow>
    ('ad, 's, 'h) queue" where
  "commit_submit E t key q =
     (if key \<in> set (t_destroyed t) then q
      else case parseJobKey key of
             None \<Rightarrow> q
           | Some (c, p) \<Rightarrow> (case coll_get E (q_coll q) (jobKey c p) of
                              Some ad \<Rightarrow> emit_ulog (ULSubmit ad) q
                            | None \<Rightarrow> q))"

definition CommitTxn :: "('ad, 'ex, 's, 'h, 'z) ext_scheme \<Rightarrow> int \<Rightarrow> ('ad, 's, 'h) queue \<Rightarrow> 'ad txn \<Rightarrow>
    txn_err option \<times> ('ad, 's, 'h) queue \<times> 'ad txn" where
  "CommitTxn E now q t =
     (if t_errs t \<noteq> [] then (Some (DeferredErr (length (t_errs t)) (hd (t_errs t))), q, t)
      else if anonymous t \<and> (t_pending t \<noteq> [] \<or> t_destroyed t \<noteq> []) then (Some AnonymousErr, q, t)
      else
        let t = commit_stage E t;
            t = t\<lparr> t_pending := materialize_all E q now t \<rparr>;
            batch = commit_batch t
        in case (if batch = [] then Some (q_coll q) else coll_update E (q_coll q) batch) of
             None \<Rightarrow> (Some CommitErr, q\<lparr> q_coll := coll_update_failed E (q_coll q) batch \<rparr>, t)
           | Some s \<Rightarrow>
               let q = q\<lparr> q_coll := s \<rparr>;
                   q = fold (commit_delete E) (t_destroyed t) q;
                   q = fold (commit_note E t) (t_pending t) q;
                   q = (if q_ulogSet q then fold (commit_submit E t) (t_newProcs t) q else q)
               in (None, q, t))"

definition AbortTxn :: "'ad txn \<Rightarrow> 'ad txn" where
  "AbortTxn t = t\<lparr> t_pending := [], t_destroyed := [] \<rparr>"

end
