(* ===== verification/Reference.thy ===== *)
theory Reference
  imports External
begin

text \<open>
  An instance of the third-party parameters that satisfies their contracts: ads as association
  lists over lower-case names with literal expressions, a store whose reads chain to the parent
  key, an append-only history, equality constraints, and the idle-job order of
  \<open>idleOrderSpec\<close> in \<open>internal/queue/rrl.go\<close>. The interpretations show that the hypotheses
  of the properties can hold together, and the concrete runs of the development use it.
\<close>

section \<open>Ads\<close>

datatype ref_ex = RInt int | RStr string | RBool bool | RRaw string

type_synonym ref_ad = "(string \<times> ref_ex) list"
type_synonym ref_store = "(string \<times> ref_ad) list"

definition ref_lookup :: "ref_ad \<Rightarrow> string \<Rightarrow> ref_ex option" where
  "ref_lookup ad n = map_of ad (to_lower n)"

definition ref_set :: "string \<Rightarrow> ref_ex \<Rightarrow> ref_ad \<Rightarrow> ref_ad" where
  "ref_set n e ad = AList.update (to_lower n) e ad"

definition ref_eval_int :: "ref_ad \<Rightarrow> string \<Rightarrow> int option" where
  "ref_eval_int ad n = (case ref_lookup ad n of Some (RInt v) \<Rightarrow> Some v | _ \<Rightarrow> None)"

definition ref_eval_str :: "ref_ad \<Rightarrow> string \<Rightarrow> string option" where
  "ref_eval_str ad n = (case ref_lookup ad n of Some (RStr v) \<Rightarrow> Some v | _ \<Rightarrow> None)"

definition ref_eval_bool :: "ref_ad \<Rightarrow> string \<Rightarrow> bool option" where
  "ref_eval_bool ad n = (case ref_lookup ad n of Some (RBool v) \<Rightarrow> Some v | _ \<Rightarrow> None)"

fun ref_value :: "ref_ex \<Rightarrow> cvalue" where
  "ref_value (RInt v) = VNum (Finite (of_int v))"
| "ref_value (RStr s) = VStr s"
| "ref_value (RBool b) = VBool b"
| "ref_value (RRaw s) = VOther"

definition ref_eval_attr :: "ref_ad \<Rightarrow> string \<Rightarrow> cvalue" where
  "ref_eval_attr ad n = (case ref_lookup ad n of Some e \<Rightarrow> ref_value e | None \<Rightarrow> VOther)"

definition ref_parse :: "string \<Rightarrow> ref_ex option" where
  "ref_parse s =
     (if s = [] then None
      else if list_all is_digit s then Some (RInt (int (digits_value s)))
      else if hd s = CHR ''-'' \<and> tl s \<noteq> [] \<and> list_all is_digit (tl s) then Some (RInt (- int (digits_value (tl s))))
      else if 2 \<le> length s \<and> hd s = CHR 0x22 \<and> last s = CHR 0x22 then Some (RStr (butlast (tl s)))
      else if s = ''true'' then Some (RBool True)
      else if s = ''false'' then Some (RBool False)
      else Some (RRaw s))"

fun ref_print :: "ref_ex \<Rightarrow> string" where
  "ref_print (RInt v) = itoa v"
| "ref_print (RStr s) = [CHR 0x22] @ s @ [CHR 0x22]"
| "ref_print (RBool b) = (if b then ''true'' else ''false'')"
| "ref_print (RRaw s) = s"

section \<open>The store\<close>

definition ref_own :: "ref_store \<Rightarrow> string \<Rightarrow> (string \<Rightarrow> ref_ex option) option" where
  "ref_own s k = map_option ref_lookup (map_of s k)"

definition ref_get :: "ref_store \<Rightarrow> string \<Rightarrow> ref_ad option" where
  "ref_get s k =
     (case map_of s k of
        None \<Rightarrow> None
      | Some ad \<Rightarrow> Some (ad @ (case parentKeyFor k of
                                 None \<Rightarrow> []
                               | Some pk \<Rightarrow> (case map_of s pk of None \<Rightarrow> [] | Some pad \<Rightarrow> pad))))"

definition ref_keys :: "ref_store \<Rightarrow> string list" where
  "ref_keys s = remdups (filter (\<lambda>k. \<not> isStructural k) (map fst s))"

definition ref_scan :: "ref_store \<Rightarrow> ref_ad list" where
  "ref_scan s = map (\<lambda>k. the (ref_get s k)) (ref_keys s)"

text \<open>Constraints of the form \<open>name == literal\<close>, and \<open>true\<close>.\<close>

definition ref_constraint :: "string \<Rightarrow> (string \<times> ref_ex) option" where
  "ref_constraint c =
     (case index_str c '' == '' of
        None \<Rightarrow> None
      | Some i \<Rightarrow> map_option (Pair (take i c)) (ref_parse (drop (i + 4) c)))"

definition ref_vm_parse :: "string \<Rightarrow> bool" where
  "ref_vm_parse c = (c = ''true'' \<or> ref_constraint c \<noteq> None)"

definition ref_matches :: "string \<Rightarrow> ref_ad \<Rightarrow> bool" where
  "ref_matches c ad =
     (c = ''true'' \<or> (case ref_constraint c of None \<Rightarrow> False | Some (n, e) \<Rightarrow> ref_lookup ad n = Some e))"

definition ref_prio :: "string \<Rightarrow> ref_ad \<Rightarrow> int" where
  "ref_prio n ad = (case ref_eval_int ad n of Some v \<Rightarrow> v | None \<Rightarrow> 0)"

definition ref_ordered :: "ref_store \<Rightarrow> string \<Rightarrow> ref_ad list" where
  "ref_ordered s part =
     (let idle = filter (\<lambda>ad. ref_eval_int ad ''JobStatus'' = Some 1 \<and> ref_eval_str ad ''Owner'' = Some part) (ref_scan s);
          up = (\<lambda>n. sort_key (ref_prio n));
          down = (\<lambda>n. sort_key (\<lambda>ad. - ref_prio n ad))
      in down ''PreJobPrio1'' (down ''PreJobPrio2'' (down ''JobPrio'' (down ''PostJobPrio1''
           (down ''PostJobPrio2'' (up ''ClusterId'' (up ''ProcId'' idle)))))))"

definition ref_checksum :: "ref_ad \<Rightarrow> string list \<Rightarrow> 64 word" where
  "ref_checksum ad names =
     fold (\<lambda>n h. case ref_lookup ad n of
                   None \<Rightarrow> h * 31 + 7
                 | Some e \<Rightarrow> fold (\<lambda>c h. h * 31 + of_nat (of_char c)) (ref_print e) (h * 31 + 11)) names 5381"

definition ref_split :: "string \<Rightarrow> string \<times> string" where
  "ref_split u =
     (case last_index_byte u CHR ''@'' of None \<Rightarrow> (u, []) | Some i \<Rightarrow> (take i u, drop (Suc i) u))"

definition ref_session :: "string \<Rightarrow> string" where
  "ref_session claim = (case last_index_byte claim CHR ''#'' of None \<Rightarrow> [] | Some i \<Rightarrow> take i claim)"

section \<open>The instance\<close>

definition refE :: "(ref_ad, ref_ex, ref_store, ref_ad list) ext" where
  "refE =
     \<lparr> new_ad = [],
       set_int = (\<lambda>n v. ref_set n (RInt v)),
       set_str = (\<lambda>n v. ref_set n (RStr v)),
       set_bool = (\<lambda>n v. ref_set n (RBool v)),
       set_str_err = (\<lambda>n v ad. False),
       insert_expr = ref_set,
       delete_attr = (\<lambda>n. AList.delete (to_lower n)),
       lookup_attr = ref_lookup,
       attr_names = (\<lambda>ad. filter (\<lambda>n. to_lower n = n) (map fst ad)),
       eval_int = ref_eval_int,
       eval_str = ref_eval_str,
       eval_bool = ref_eval_bool,
       eval_attr = ref_eval_attr,
       eval_expr = (\<lambda>e ad. ref_value e),
       parse_expr = ref_parse,
       expr_string = ref_print,
       float_oob = (\<lambda>f. - (2 ^ 63)),
       coll_get = ref_get,
       coll_put = (\<lambda>s k ad. Some (AList.update k ad s)),
       coll_update = (\<lambda>s b. Some (fold (\<lambda>(k, ad). AList.update k ad) b s)),
       coll_update_failed = (\<lambda>s b. s),
       coll_delete = (\<lambda>s k. AList.delete k s),
       coll_scan = ref_scan,
       coll_query = (\<lambda>s c. filter (ref_matches c) (ref_scan s)),
       coll_ordered = ref_ordered,
       hist_append = (\<lambda>h ad. Some (h @ [ad])),
       hist_flush = (\<lambda>h. h),
       hist_query = (\<lambda>h c. filter (ref_matches c) (rev h)),
       vm_parse = ref_vm_parse,
       vm_matches = ref_matches,
       projection_checksum = ref_checksum,
       classad_quote = go_quote,
       split_fqu = ref_split,
       unmapped_domain = ''unmapped'',
       sec_session_id = ref_session \<rparr>"

section \<open>The contracts hold\<close>

lemma ref_lookup_set: "ref_lookup (ref_set m e ad) n = (if to_lower m = to_lower n then Some e else ref_lookup ad n)"
  by (simp add: ref_lookup_def ref_set_def)

lemma ref_lookup_delete: "ref_lookup (AList.delete (to_lower m) ad) n =
    (if to_lower m = to_lower n then None else ref_lookup ad n)"
  by (simp add: ref_lookup_def)

lemma ref_names: "(\<exists>m \<in> set (filter (\<lambda>n. to_lower n = n) (map fst ad)). to_lower m = to_lower n) \<longleftrightarrow>
    ref_lookup ad n \<noteq> None"
  by (auto simp: ref_lookup_def map_of_eq_None_iff)

lemma ref_parse_itoa: "0 \<le> v \<Longrightarrow> ref_parse (itoa v) = Some (RInt v)"
  using utoa_digits [of "nat v"] by (simp add: ref_parse_def itoa_def)

interpretation ref_ads: classad refE RInt RStr RBool
proof unfold_locales
  fix ad ad' :: ref_ad and m
  assume same: "\<And>n. lookup_attr refE ad n = lookup_attr refE ad' n"
  then show "eval_int refE ad m = eval_int refE ad' m" "eval_str refE ad m = eval_str refE ad' m"
    using same [of m] by (simp_all add: refE_def ref_eval_int_def ref_eval_str_def)
next
  show "(\<exists>m \<in> set (attr_names refE ad). to_lower m = to_lower n) \<longleftrightarrow> lookup_attr refE ad n \<noteq> None" for ad n
    using ref_names [of ad n] by (simp add: refE_def)
qed (simp_all add: refE_def ref_lookup_set ref_lookup_delete ref_parse_itoa ref_eval_int_def
       ref_eval_str_def, simp_all add: ref_lookup_def)

lemma ref_fold_update:
  "k \<notin> fst ` set b \<Longrightarrow> map_of (fold (\<lambda>(k, ad). AList.update k ad) b s) k = map_of s k"
  by (induction b arbitrary: s) (auto simp: split_beta)

lemma ref_fold_update_entry:
  "distinct (map fst b) \<Longrightarrow> (k, ad) \<in> set b \<Longrightarrow>
     map_of (fold (\<lambda>(k, ad). AList.update k ad) b s) k = Some ad"
proof (induction b arbitrary: s)
  case (Cons e b)
  show ?case
  proof (cases "e = (k, ad)")
    case True
    with Cons.prems have "k \<notin> fst ` set b" by auto
    with True show ?thesis by (simp add: ref_fold_update)
  next
    case False
    with Cons show ?thesis by auto
  qed
qed simp

lemma ref_get_lookup:
  assumes "ref_get s k = Some ad" and "ref_own s k = Some m"
  shows "ref_lookup ad n = chained (ref_own s) (parentKeyFor k) m n"
  using assms
  by (auto simp: ref_get_def ref_own_def chained_def ref_lookup_def map_add_def split: option.splits)

interpretation ref: job_store refE RInt RStr RBool ref_own ref_keys "\<lambda>h. h"
proof unfold_locales
  show "(coll_get refE s k = None) = (ref_own s k = None)" for s k
    by (simp add: refE_def ref_get_def ref_own_def split: option.splits)
  show "lookup_attr refE ad n = chained (ref_own s) (parentKeyFor k) m n"
    if "coll_get refE s k = Some ad" "ref_own s k = Some m" for s k ad m n
    using that ref_get_lookup by (simp add: refE_def)
  show "\<exists>m. ref_own s' k = Some m \<and>
           (\<forall>n. case lookup_attr refE ad n of
                  None \<Rightarrow> m n = None \<or> (\<exists>m0. ref_own s k = Some m0 \<and> m n = m0 n)
                | Some e \<Rightarrow> m n = Some e)"
    if "coll_update refE s b = Some s'" "distinct (map fst b)" "(k, ad) \<in> set b" for s s' b k ad
    using that ref_fold_update_entry [of b k ad s] by (auto simp: refE_def ref_own_def split: option.splits)
  show "set (ref_keys s) = {k. ref_own s k \<noteq> None \<and> \<not> isStructural k}" for s
    by (auto simp: ref_keys_def ref_own_def map_of_eq_None_iff image_iff)
qed (auto simp: refE_def ref_own_def ref_keys_def ref_scan_def ref_fold_update fun_eq_iff)

interpretation ref_users: user_names refE
  by unfold_locales (simp add: refE_def ref_split_def)

end
