(* ===== verification/QueueStore.thy ===== *)
theory QueueStore
  imports Queue Reference
begin

text \<open>
  What the queue's reads and writes mean on a store that keeps its contract. The locale
  \<open>job_queue\<close> is the interface the scheduler core relies on (\<open>Get\<close> and \<open>Modify\<close> of
  \<open>internal/queue\<close>); every job store provides it. The second half is the life of the
  cluster-id counter across allocations and restarts.
\<close>

section \<open>The interface of the scheduler core\<close>

locale job_queue =
  fixes get :: "'q \<Rightarrow> 'k \<Rightarrow> 'ad option"
    and modify :: "'q \<Rightarrow> 'k \<Rightarrow> ('ad \<Rightarrow> 'ad) \<Rightarrow> bool \<times> 'q"
    and look :: "'ad \<Rightarrow> string \<Rightarrow> 'ex option"
    and proc :: "'k \<Rightarrow> bool"
  assumes modify_gone: "get q k = None \<Longrightarrow> modify q k f = (False, q)"
    and modify_failed: "modify q k f = (False, q') \<Longrightarrow> q' = q"
    and modify_written: "modify q k f = (True, q') \<Longrightarrow>
          \<exists>ad ad'. get q k = Some ad \<and> get q' k = Some ad' \<and>
                   (\<forall>n e. look (f ad) n = Some e \<longrightarrow> look ad' n = Some e)"
    and modify_others: "modify q k f = (ok, q') \<Longrightarrow> proc k \<Longrightarrow> proc k' \<Longrightarrow> k' \<noteq> k \<Longrightarrow>
          (get q' k' = None \<longleftrightarrow> get q k' = None) \<and>
          (\<forall>a a' n. get q k' = Some a \<longrightarrow> get q' k' = Some a' \<longrightarrow> look a' n = look a n)"
begin

lemma modify_keeps_jobs:
  assumes "modify q k f = (ok, q')" and "proc k" and "proc k'"
  shows "get q' k' = None \<longleftrightarrow> get q k' = None"
proof (cases "k' = k")
  case True
  then show ?thesis
    using modify_failed [of q k f q'] modify_written [of q k f q'] assms(1) by (cases ok) auto
next
  case False
  then show ?thesis using modify_others [OF assms] by simp
qed

end

lemma Modify_cases:
  "Modify E q c p f = (ok, q') \<longleftrightarrow>
     (case Get E q c p of
        None \<Rightarrow> \<not> ok \<and> q' = q
      | Some ad \<Rightarrow> (case coll_put E (q_coll q) (jobKey c p) (f ad) of
                      None \<Rightarrow> \<not> ok \<and> q' = q
                    | Some s \<Rightarrow> ok \<and> q' = q\<lparr> q_coll := s \<rparr>))"
  by (auto simp: Modify_def split: option.splits)

definition proc_id :: "int \<times> int \<Rightarrow> bool" where
  "proc_id k = (int64_pair (fst k) (snd k) \<and> 0 \<le> snd k)"

lemma parent_ne_proc:
  assumes "proc_id (c, p)" and "proc_id (c', p')"
  shows "parentKeyFor (jobKey c' p') \<noteq> Some (jobKey c p)"
  using assms by (auto simp: proc_id_def parentKeyFor_jobKey clusterKeyStr_jobKey jobKey_inj)

sublocale job_store \<subseteq> jq: job_queue "\<lambda>q k. Get E q (fst k) (snd k)"
  "\<lambda>q k f. Modify E q (fst k) (snd k) f" "lookup_attr E" proc_id
proof unfold_locales
  fix q q' :: "('ad, 's, 'h) queue" and k k' :: "int \<times> int" and f ok
  show "Modify E q (fst k) (snd k) f = (False, q)" if "Get E q (fst k) (snd k) = None"
    using that by (simp add: Modify_def)
  show "q' = q" if "Modify E q (fst k) (snd k) f = (False, q')"
    using that by (simp add: Modify_cases split: option.splits)
  show "\<exists>ad ad'. Get E q (fst k) (snd k) = Some ad \<and> Get E q' (fst k) (snd k) = Some ad' \<and>
          (\<forall>n e. lookup_attr E (f ad) n = Some e \<longrightarrow> lookup_attr E ad' n = Some e)"
    if "Modify E q (fst k) (snd k) f = (True, q')"
    using that by (auto simp: Modify_cases Get_def split: option.splits elim!: get_after_put)
  assume m: "Modify E q (fst k) (snd k) f = (ok, q')" and k: "proc_id k" "proc_id k'" "k' \<noteq> k"
  have ne: "jobKey (fst k') (snd k') \<noteq> jobKey (fst k) (snd k)"
    using k(3) by (auto simp: jobKey_inj prod_eq_iff)
  have np: "parentKeyFor (jobKey (fst k') (snd k')) \<noteq> Some (jobKey (fst k) (snd k))"
    using parent_ne_proc [of "fst k" "snd k" "fst k'" "snd k'"] k by simp
  show "(Get E q' (fst k') (snd k') = None) = (Get E q (fst k') (snd k') = None) \<and>
        (\<forall>a a' n. Get E q (fst k') (snd k') = Some a \<longrightarrow> Get E q' (fst k') (snd k') = Some a' \<longrightarrow>
                  lookup_attr E a' n = lookup_attr E a n)"
    using m get_other_after_put [OF _ ne np] by (auto simp: Modify_cases Get_def split: option.splits)
qed

context job_store
begin

lemma status_lit:
  assumes "Get E q c p = Some ad" and "lookup_attr E ad ''JobStatus'' = Some (li v)"
  shows "JobStatus E q c p = v"
  using assms eval_int_lit by (simp add: JobStatus_def int_attr0_def)

lemma Modify_status:
  assumes "Modify E q c p f = (True, q')" and "\<And>ad. lookup_attr E (f ad) ''JobStatus'' = Some (li v)"
  shows "JobStatus E q' c p = v"
proof -
  from jq.modify_written [of q "(c, p)" f q'] assms obtain ad' where
    "Get E q' c p = Some ad'" "lookup_attr E ad' ''JobStatus'' = Some (li v)" by auto
  then show ?thesis by (rule status_lit)
qed

lemma Modify_absent:
  assumes "Modify E q c p f = (True, q')" and "Get E q c p = Some ad" and "lookup_attr E ad n = None"
    and "lookup_attr E (f ad) n = None" and "Get E q' c p = Some ad'"
  shows "lookup_attr E ad' n = None"
proof -
  let ?k = "jobKey c p"
  from assms(1,2) obtain s where s: "coll_put E (q_coll q) ?k (f ad) = Some s" "q_coll q' = s"
    by (auto simp: Modify_def split: option.splits)
  obtain m where m: "own (q_coll q) ?k = Some m" using get_Some_own [of "q_coll q" ?k ad] assms(2) by (auto simp: Get_def)
  have l: "chained (own (q_coll q)) (parentKeyFor ?k) m n = None"
    using get_lookup [OF _ m] assms(2,3) by (simp add: Get_def)
  have l': "lookup_attr E ad' n = chained (own s) (parentKeyFor ?k) (lookup_attr E (f ad)) n"
    using get_lookup [of s ?k ad' "lookup_attr E (f ad)"] put_own [OF s(1)] assms(5) s(2) by (simp add: Get_def)
  have "own s pk = own (q_coll q) pk" if "parentKeyFor ?k = Some pk" for pk
    using put_own [OF s(1)] parent_structural [OF that] that by auto
  then show ?thesis using l l' assms(4) by (auto simp: chained_def split: option.splits)
qed

lemma Modify_others:
  assumes "Modify E q c p f = (ok, q')" and "proc_id (c, p)" "proc_id (c', p')" "(c', p') \<noteq> (c, p)"
  shows "JobStatus E q' c' p' = JobStatus E q c' p'"
proof -
  note o = jq.modify_others [of q "(c, p)" f ok q' "(c', p')"] 
  show ?thesis
  proof (cases "Get E q c' p'")
    case None
    then show ?thesis using o assms by (simp add: JobStatus_def)
  next
    case (Some a)
    then obtain a' where a': "Get E q' c' p' = Some a'" using o assms by fastforce
    have "eval_int E a' ''JobStatus'' = eval_int E a ''JobStatus''"
      using eval_int_ext [of a' a] o assms Some a' by simp
    then show ?thesis using Some a' by (simp add: JobStatus_def int_attr0_def)
  qed
qed

end

section \<open>The life of the cluster-id counter\<close>

definition counter_synced :: "('ad, 'ex, 's, 'h, 'z) ext_scheme \<Rightarrow> ('ad, 's, 'h) queue \<Rightarrow> bool" where
  "counter_synced E q = (recoverNextID E (q_coll q) 1 = q_nextID q)"

text \<open>
  A run of the daemon and its restarts, with the cluster ids it hands out: allocating, writing
  something other than the counter, and reopening the store it left behind (a crash loses the
  memory, not the store).
\<close>

inductive issued :: "('ad, 'ex, 's, 'h, 'z) ext_scheme \<Rightarrow> ('ad, 's, 'h) queue \<Rightarrow> int list \<Rightarrow> ('ad, 's, 'h) queue \<Rightarrow> bool"
  for E :: "('ad, 'ex, 's, 'h, 'z) ext_scheme" and q0 :: "('ad, 's, 'h) queue" where
  start: "issued E q0 [] q0"
| alloc: "issued E q0 ids q \<Longrightarrow> allocClusterID E q = (Some cid, q') \<Longrightarrow> issued E q0 (ids @ [cid]) q'"
| alloc_failed: "issued E q0 ids q \<Longrightarrow> allocClusterID E q = (None, q') \<Longrightarrow> issued E q0 ids q'"
| other_write: "issued E q0 ids q \<Longrightarrow> q_nextID q' = q_nextID q \<Longrightarrow>
    coll_get E (q_coll q') counterKey = coll_get E (q_coll q) counterKey \<Longrightarrow> issued E q0 ids q'"
| reopen: "issued E q0 ids q \<Longrightarrow> OpenQueue E opts (Some (q_coll q)) (Some h) = Some q' \<Longrightarrow> issued E q0 ids q'"

lemma OpenQueue_next:
  "OpenQueue E opts (Some s) (Some h) = Some q \<Longrightarrow> q_coll q = s \<and> q_nextID q = recoverNextID E s 1"
  by (auto simp: OpenQueue_def Let_def recoverFactories_def)

context job_store
begin

lemma counter_read:
  assumes "coll_put E s counterKey (set_int E ''NextClusterId'' v (new_ad E)) = Some s'"
  shows "recoverNextID E s' 1 = max 1 v"
proof -
  obtain ad where "coll_get E s' counterKey = Some ad" and
    "\<And>n e. lookup_attr E (set_int E ''NextClusterId'' v (new_ad E)) n = Some e \<Longrightarrow> lookup_attr E ad n = Some e"
    using get_after_put [OF assms] by metis
  then have "coll_get E s' counterKey = Some ad" "eval_int E ad ''NextClusterId'' = Some v"
    by (simp_all add: lookup_set_int eval_int_lit)
  then show ?thesis by (simp add: recoverNextID_def max_def)
qed

lemma alloc_ok:
  assumes "allocClusterID E q = (Some cid, q')" and "0 < q_nextID q"
  shows "cid = q_nextID q \<and> q_nextID q' = cid + 1 \<and> counter_synced E q'"
  using assms counter_read [of "q_coll q" "q_nextID q + 1"]
  by (auto simp: allocClusterID_def counter_synced_def Let_def split: option.splits)

lemma alloc_err: "allocClusterID E q = (None, q') \<Longrightarrow> q' = q"
  by (auto simp: allocClusterID_def Let_def split: option.splits)

lemma issued_inv:
  assumes "issued E q0 ids q" and "counter_synced E q0" and "0 < q_nextID q0"
  shows "counter_synced E q \<and> 0 < q_nextID q \<and> sorted_wrt (<) ids \<and> (\<forall>i \<in> set ids. i < q_nextID q)"
  using assms
proof (induction rule: issued.induct)
  case (alloc ids q cid q')
  then show ?case using alloc_ok [OF alloc(2)] by (auto simp: sorted_wrt_append)
next
  case (alloc_failed ids q q')
  then show ?case using alloc_err by blast
next
  case (other_write ids q q')
  then show ?case by (simp add: counter_synced_def recoverNextID_def)
next
  case (reopen ids q opts h q')
  then show ?case using OpenQueue_next [OF reopen(2)] by (auto simp: counter_synced_def)
qed simp

end

text \<open>
  C1. Cluster ids are never reused, across any sequence of allocations (failed ones
  included), other writes and restarts: starting from an opened queue, the ids handed out are
  strictly increasing.
\<close>

theorem cluster_ids_never_reused:
  assumes "job_store E li ls lb own keys hlist"
    and "OpenQueue E opts (Some s) (Some h) = Some q0"
    and "issued E q0 ids q"
  shows "sorted_wrt (<) ids"
proof -
  have "counter_synced E q0" and "0 < q_nextID q0"
    using OpenQueue_next [OF assms(2)] by (auto simp: counter_synced_def recoverNextID_def split: option.splits)
  then show ?thesis using job_store.issued_inv [OF assms(1,3)] by blast
qed

section \<open>A concrete queue\<close>

definition ref_opts :: queue_options where
  "ref_opts =
     \<lparr> o_ScheddName = ''schedd'', o_UIDDomain = ''pool'', o_AccountingDomain = [],
       o_SuperUsers = [''condor'', ''root''], o_MayImpersonate = None, o_ImmutableAttrs = [],
       o_ProtectedAttrs = [''Prot''], o_SecureAttrs = [], o_AllUsersTrusted = False, o_IgnoreSecureAttrs = True \<rparr>"

definition ref_queue :: "ref_store \<Rightarrow> ref_ad list \<Rightarrow> (ref_ad, ref_store, ref_ad list) queue" where
  "ref_queue s h = the (OpenQueue refE ref_opts (Some s) (Some h))"

lemma ref_queue_open: "OpenQueue refE ref_opts (Some s) (Some h) = Some (ref_queue s h)"
  by (simp add: ref_queue_def OpenQueue_def Let_def)

definition ref_alloc :: "(ref_ad, ref_store, ref_ad list) queue \<Rightarrow> (ref_ad, ref_store, ref_ad list) queue" where
  "ref_alloc q = snd (allocClusterID refE q)"

definition ref_restart :: "(ref_ad, ref_store, ref_ad list) queue \<Rightarrow> (ref_ad, ref_store, ref_ad list) queue" where
  "ref_restart q = ref_queue (q_coll q) (q_hist q)"

theorem cluster_ids_never_reused_witness:
  "\<exists>q. issued refE (ref_queue [] []) [1, 2, 3] q \<and> sorted_wrt (<) [1, 2, 3 :: int]"
proof -
  let ?q0 = "ref_queue [] []"
  let ?q1 = "ref_alloc ?q0"
  let ?q2 = "ref_restart (ref_alloc ?q1)"
  have a: "fst (allocClusterID refE ?q0) = Some 1" "fst (allocClusterID refE ?q1) = Some 2"
      "fst (allocClusterID refE ?q2) = Some 3"
    by code_simp+
  have "issued refE ?q0 ([] @ [1]) ?q1"
    by (rule issued.alloc [OF issued.start]) (metis a(1) prod.collapse ref_alloc_def)
  then have "issued refE ?q0 (([] @ [1]) @ [2]) (ref_alloc ?q1)"
    by (rule issued.alloc) (metis a(2) prod.collapse ref_alloc_def)
  then have "issued refE ?q0 (([] @ [1]) @ [2]) ?q2"
    by (rule issued.reopen) (unfold ref_restart_def, rule ref_queue_open)
  then have "issued refE ?q0 ((([] @ [1]) @ [2]) @ [3]) (ref_alloc ?q2)"
    by (rule issued.alloc) (metis a(3) prod.collapse ref_alloc_def)
  then have i: "issued refE ?q0 [1, 2, 3] (ref_alloc ?q2)" by simp
  from cluster_ids_never_reused [OF ref.job_store_axioms ref_queue_open i] i show ?thesis by blast
qed

end
