(* ===== verification/TxnProps.thy ===== *)
theory TxnProps
  imports Txn QueueStore
begin

text \<open>
  Transactions as a client drives them. \<open>session\<close> is the relation between a queue and a transaction that a
  connection can reach: opened by \<open>BeginTxn\<close>, any sequence of the operations of
  \<open>internal/queue/txn.go\<close>, interleaved with anything other connections do to the queue. By rule induction over
  it: the identity of the transaction, what an anonymous one can stage, and the numbering of new
  procs.
\<close>

section \<open>Sessions\<close>

datatype txn_op =
    DoEffectiveOwner string
  | DoNewCluster
  | DoNewProc int
  | DoSetAttribute int int string string
  | DoDeleteAttribute int int string
  | DoDestroyProc int int
  | DoDestroyCluster int
  | DoAllowProtected bool
  | DoAddError string

definition txn_do :: "('ad, 'ex, 's, 'h, 'z) ext_scheme \<Rightarrow> txn_op \<Rightarrow> ('ad, 's, 'h) queue \<times> 'ad txn \<Rightarrow>
    ('ad, 's, 'h) queue \<times> 'ad txn" where
  "txn_do E op qt =
     (case qt of (q, t) \<Rightarrow>
      (case op of
        DoEffectiveOwner owner \<Rightarrow> (q, snd (SetEffectiveOwner E q owner t))
      | DoNewCluster \<Rightarrow> snd (NewCluster E q t)
      | DoNewProc c \<Rightarrow> (q, snd (NewProc E c t))
      | DoSetAttribute c p n v \<Rightarrow> (q, snd (SetAttribute E q c p n v t))
      | DoDeleteAttribute c p n \<Rightarrow> (q, snd (DeleteAttribute E q c p n t))
      | DoDestroyProc c p \<Rightarrow> (q, snd (DestroyProc E q c p t))
      | DoDestroyCluster c \<Rightarrow> (q, snd (DestroyCluster E q c t))
      | DoAllowProtected v \<Rightarrow> (q, snd (SetAllowProtectedChanges v t))
      | DoAddError msg \<Rightarrow> (q, AddError msg t)))"

definition same_config :: "('ad, 's, 'h) queue \<Rightarrow> ('ad, 's, 'h) queue \<Rightarrow> bool" where
  "same_config q' q = (q_domain q' = q_domain q \<and> q_acctDomain q' = q_acctDomain q \<and> q_supers q' = q_supers q)"

inductive session :: "('ad, 'ex, 's, 'h, 'z) ext_scheme \<Rightarrow> string \<Rightarrow> ('ad, 's, 'h) queue \<Rightarrow> 'ad txn \<Rightarrow> bool"
  for E :: "('ad, 'ex, 's, 'h, 'z) ext_scheme" and authUser :: string where
  opened: "0 < q_nextID q \<Longrightarrow> session E authUser q (BeginTxn E q authUser)"
| step: "session E authUser q t \<Longrightarrow> txn_do E op (q, t) = (q', t') \<Longrightarrow> session E authUser q' t'"
| others: "session E authUser q t \<Longrightarrow> same_config q' q \<Longrightarrow> q_nextID q \<le> q_nextID q' \<Longrightarrow>
    session E authUser q' t"

lemmas txn_op_defs = SetEffectiveOwner_def NewCluster_def NewProc_def SetAttribute_def DeleteAttribute_def
  DestroyProc_def DestroyCluster_def SetAllowProtectedChanges_def AddError_def stagedAd_def put_staged_def

text \<open>What every operation keeps: the caller's identity and its super-user flag.\<close>

lemma alloc_keeps: "allocClusterID E q = (r, q') \<Longrightarrow> same_config q' q \<and> q_nextID q \<le> q_nextID q'"
  by (auto simp: allocClusterID_def same_config_def Let_def split: option.splits)

lemma same_config_simps:
  assumes "same_config q' q"
  shows "qualify q' = qualify q" and "IsSuperUser E q' = IsSuperUser E q"
  using assms by (auto simp: same_config_def qualify_def IsSuperUser_def canonicalUser_def fun_eq_iff)

lemma same_config_refl [simp]: "same_config q q"
  by (simp add: same_config_def)

lemma txn_do_keeps:
  assumes "txn_do E op (q, t) = (q', t')"
  shows "t_authUser t' = t_authUser t \<and> t_isSuper t' = t_isSuper t \<and> same_config q' q \<and>
         q_nextID q \<le> q_nextID q'"
  using assms
  by (cases op)
     (auto simp: txn_do_def txn_op_defs Let_def split: if_splits option.splits prod.splits sum.splits bool.splits
        dest!: alloc_keeps)


section \<open>Identity\<close>

lemma session_identity:
  assumes "session E u q t"
  shows "t_authUser t = (if isUnmapped E u then [] else u) \<and> t_isSuper t = IsSuperUser E q (t_authUser t) \<and>
         (\<not> t_isSuper t \<longrightarrow> t_user t = qualify q (t_authUser t) \<and> t_owner t = shortName E (t_user t))"
  using assms
proof (induction rule: session.induct)
  case (opened q)
  then show ?case by (simp add: BeginTxn_def Let_def)
next
  case (step q t op q' t')
  note dom = same_config_simps(1) [of q' q] same_config_simps(2) [of q' q E]
  show ?case
  proof (cases "t_isSuper t")
    case True
    then show ?thesis using step txn_do_keeps [OF step(2)] dom by simp
  next
    case False
    have "t_user t' = t_user t \<and> t_owner t' = t_owner t"
      using step(2,3) False
      by (cases op)
         (auto simp: txn_do_def txn_op_defs Let_def split: if_splits option.splits prod.splits sum.splits bool.splits)
    then show ?thesis using step txn_do_keeps [OF step(2)] dom by simp
  qed
next
  case (others q t q')
  then show ?case using same_config_simps(1) [of q' q] same_config_simps(2) [of q' q E] by simp
qed

section \<open>Anonymous transactions\<close>

definition empty_txn :: "'ad txn \<Rightarrow> bool" where
  "empty_txn t = (t_pending t = [] \<and> t_destroyed t = [] \<and> t_newProcs t = [])"

lemma session_anonymous:
  assumes "session E u q t" and "anonymous t"
  shows "empty_txn t"
  using assms
proof (induction rule: session.induct)
  case (opened q)
  then show ?case by (simp add: BeginTxn_def empty_txn_def Let_def)
next
  case (step q t op q' t')
  have anon: "anonymous t" using step(4) txn_do_keeps [OF step(2)] by (simp add: anonymous_def)
  with step(3) have "empty_txn t" by blast
  then show ?case
    using step(2) anon
    by (cases op)
       (auto simp: txn_do_def txn_op_defs authorize_def empty_txn_def Let_def
          split: if_splits option.splits prod.splits sum.splits bool.splits)
qed

lemma commit_empty: "empty_txn t \<Longrightarrow> fst (snd (CommitTxn E now q t)) = q"
  by (simp add: CommitTxn_def empty_txn_def commit_stage_def commit_batch_def commit_clusters_def materialize_all_def Let_def)

section \<open>Staged keys\<close>

lemma session_distinct:
  assumes "session E u q t"
  shows "distinct (map fst (t_pending t))"
  using assms
proof (induction rule: session.induct)
  case (opened q)
  then show ?case by (simp add: BeginTxn_def Let_def)
next
  case (step q t op q' t')
  then show ?case
    by (cases op)
       (auto simp: txn_do_def txn_op_defs Let_def distinct_update distinct_delete
          split: if_splits option.splits prod.splits sum.splits bool.splits)
qed


section \<open>Proc numbering\<close>

definition procs_inv :: "('ad, 's, 'h) queue \<Rightarrow> 'ad txn \<Rightarrow> bool" where
  "procs_inv q t =
     ((\<forall>c i. jobKey c i \<in> set (t_newProcs t) \<longleftrightarrow> 0 \<le> i \<and> i < nextProc_of t c) \<and>
      (\<forall>c. 0 \<le> nextProc_of t c) \<and>
      (\<forall>c. map_of (t_nextProc t) c \<noteq> None \<longrightarrow> c < q_nextID q) \<and> t_active t < q_nextID q \<and> 0 < q_nextID q)"

lemma alloc_id: "allocClusterID E q = (Some cid, q') \<Longrightarrow> cid = q_nextID q \<and> q_nextID q' = q_nextID q + 1"
  by (auto simp: allocClusterID_def Let_def split: option.splits)

lemma nextProc_frame: "t_nextProc t' = t_nextProc t \<Longrightarrow> nextProc_of t' c = nextProc_of t c"
  by (simp add: nextProc_of_def)

lemma procs_inv_frame:
  assumes "procs_inv q t" and "t_newProcs t' = t_newProcs t" and "t_nextProc t' = t_nextProc t"
    and "t_active t' = t_active t" and "q_nextID q \<le> q_nextID q'"
  shows "procs_inv q' t'"
  using assms nextProc_frame [OF assms(3)] by (fastforce simp: procs_inv_def)

lemma procs_inv_new_cluster:
  assumes "procs_inv q t" and "q_nextID q' = q_nextID q + 1" and "t_active t' = q_nextID q"
    and "t_nextProc t' = AList.update (q_nextID q) 0 (t_nextProc t)" and "t_newProcs t' = t_newProcs t"
  shows "procs_inv q' t'"
proof -
  have "map_of (t_nextProc t) (q_nextID q) = None" using assms(1) by (force simp: procs_inv_def)
  then have "nextProc_of t' c = nextProc_of t c" for c using assms(4) by (simp add: nextProc_of_def)
  then show ?thesis using assms by (fastforce simp: procs_inv_def)
qed

lemma procs_inv_new_proc:
  assumes "procs_inv q t" and "c < q_nextID q" and "p = nextProc_of t c" and "t_active t' = t_active t"
    and "t_nextProc t' = AList.update c (p + 1) (t_nextProc t)"
    and "t_newProcs t' = set_add (jobKey c p) (t_newProcs t)"
  shows "procs_inv q t'"
proof -
  have np: "nextProc_of t' c' = (if c' = c then p + 1 else nextProc_of t c')" for c'
    using assms(5) by (simp add: nextProc_of_def)
  have "0 \<le> p" using assms(1,3) by (simp add: procs_inv_def)
  then show ?thesis using assms np by (auto simp: procs_inv_def jobKey_inj)
qed

lemma session_procs:
  assumes "session E u q t"
  shows "procs_inv q t"
  using assms
proof (induction rule: session.induct)
  case (opened q)
  then show ?case by (auto simp: BeginTxn_def procs_inv_def nextProc_of_def Let_def)
next
  case (step q t op q' t')
  have le: "q_nextID q \<le> q_nextID q'" using txn_do_keeps [OF step(2)] by simp
  show ?case
  proof (cases "op = DoNewCluster \<or> (\<exists>c. op = DoNewProc c)")
    case False
    then have "t_newProcs t' = t_newProcs t \<and> t_nextProc t' = t_nextProc t \<and> t_active t' = t_active t"
      using step(2)
      by (cases op)
         (auto simp: txn_do_def txn_op_defs Let_def split: if_splits option.splits prod.splits sum.splits bool.splits)
    then show ?thesis using procs_inv_frame [OF step(3)] le by blast
  next
    case True
    have keep: "procs_inv q' t" using procs_inv_frame [OF step(3) _ _ _ le] by blast
    from True show ?thesis
    proof
      assume "op = DoNewCluster"
      then show ?thesis
        using step(2) keep procs_inv_new_cluster [OF step(3), of q' t']
        by (auto simp: txn_do_def NewCluster_def stagedAd_def Let_def
              split: if_splits option.splits prod.splits dest!: alloc_id)
    next
      assume "\<exists>c. op = DoNewProc c"
      then obtain c where c: "op = DoNewProc c" by blast
      have "t_active t < q_nextID q" using step(3) by (simp add: procs_inv_def)
      then show ?thesis
        using step(2) c keep procs_inv_new_proc [OF step(3), of c "nextProc_of t c" t']
        by (auto simp: txn_do_def NewProc_def stagedAd_def nextProc_of_def Let_def
              split: if_splits option.splits)
    qed
  qed
next
  case (others q t q')
  then show ?case using procs_inv_frame by blast
qed

end
