(* ===== verification/TxnCommit.thy ===== *)
theory TxnCommit
  imports TxnProps
begin

text \<open>
  The effect of \<open>Txn.Commit\<close> on the store: which ads it writes, what they carry, what it deletes and what it
  leaves alone; then the properties of transactions.
\<close>

section \<open>What a commit writes\<close>

lemma stagedAd_keeps [simp]:
  "t_destroyed (snd (stagedAd A k t)) = t_destroyed t" "t_newProcs (snd (stagedAd A k t)) = t_newProcs t"
  "t_owner (snd (stagedAd A k t)) = t_owner t" "t_user (snd (stagedAd A k t)) = t_user t"
  by (simp_all add: stagedAd_def split: option.splits)

lemma stagedAd_map:
  "map_of (t_pending (snd (stagedAd A k t))) k' =
     (if k' = k \<and> map_of (t_pending t) k = None then Some (new_ad A) else map_of (t_pending t) k')"
  by (auto simp: stagedAd_def split: option.splits)

lemma stagedAd_distinct:
  "distinct (map fst (t_pending t)) \<Longrightarrow> distinct (map fst (t_pending (snd (stagedAd A k t))))"
  by (simp add: stagedAd_def AList.distinct_update split: option.splits)

definition stage_clusters :: "('ad, 'ex, 'z) classad_ops_scheme \<Rightarrow> int list \<Rightarrow> 'ad txn \<Rightarrow> 'ad txn" where
  "stage_clusters A cs t = fold (\<lambda>c t. snd (stagedAd A (clusterKeyStr c) t)) cs t"

lemma stage_clusters_keeps:
  "t_destroyed (stage_clusters A cs t) = t_destroyed t \<and> t_newProcs (stage_clusters A cs t) = t_newProcs t \<and>
   t_owner (stage_clusters A cs t) = t_owner t \<and> t_user (stage_clusters A cs t) = t_user t"
  by (induction cs arbitrary: t) (simp_all add: stage_clusters_def)

lemma stage_clusters_map:
  "map_of (t_pending (stage_clusters A cs t)) k =
     (if map_of (t_pending t) k = None \<and> k \<in> clusterKeyStr ` set cs then Some (new_ad A)
      else map_of (t_pending t) k)"
  by (induction cs arbitrary: t) (auto simp: stage_clusters_def stagedAd_map)

lemma stage_clusters_distinct:
  "distinct (map fst (t_pending t)) \<Longrightarrow> distinct (map fst (t_pending (stage_clusters A cs t)))"
  by (induction cs arbitrary: t) (simp_all add: stage_clusters_def stagedAd_distinct)

lemma commit_stage_clusters: "commit_stage A t = stage_clusters A (commit_clusters t) t"
  by (simp add: commit_stage_def stage_clusters_def)

lemma commit_stage_simps [simp]:
  "t_destroyed (commit_stage A t) = t_destroyed t" "t_newProcs (commit_stage A t) = t_newProcs t"
  "t_owner (commit_stage A t) = t_owner t" "t_user (commit_stage A t) = t_user t"
  by (simp_all add: commit_stage_clusters stage_clusters_keeps)

lemma in_batch_cong: "t_destroyed t' = t_destroyed t \<Longrightarrow> in_batch t' = in_batch t"
  by (simp add: in_batch_def fun_eq_iff)

text \<open>The ads a transaction is about to write: its staged ads and its clusters', materialized.\<close>

definition commit_ready :: "('ad, 'ex, 's, 'h, 'z) ext_scheme \<Rightarrow> int \<Rightarrow> ('ad, 's, 'h) queue \<Rightarrow> 'ad txn \<Rightarrow> 'ad txn" where
  "commit_ready E now q t = (let t = commit_stage E t in t\<lparr> t_pending := materialize_all E q now t \<rparr>)"

lemma commit_ready_simps [simp]:
  "t_destroyed (commit_ready E now q t) = t_destroyed t" "t_newProcs (commit_ready E now q t) = t_newProcs t"
  by (simp_all add: commit_ready_def Let_def)

lemma materialize_map:
  "map_of (materialize_all E q now t) k =
     map_option (\<lambda>ad. if in_batch t k then case the (parseJobKey k) of (c, p) \<Rightarrow> materialize E q t ad c p now else ad)
       (map_of (t_pending t) k)"
  unfolding materialize_all_def by (rule map_of_keyed)

lemma map_fst_materialize [simp]: "map fst (materialize_all E q now t) = map fst (t_pending t)"
  by (simp add: materialize_all_def case_prod_beta comp_def)

lemma commit_batch_distinct: "distinct (map fst (t_pending t)) \<Longrightarrow> distinct (map fst (commit_batch t))"
  by (simp add: commit_batch_def distinct_map_filter)

lemma commit_batch_iff:
  "distinct (map fst (t_pending t)) \<Longrightarrow>
   (k, ad) \<in> set (commit_batch t) \<longleftrightarrow> map_of (t_pending t) k = Some ad \<and> in_batch t k"
  by (auto simp: commit_batch_def)

lemma commit_batch_keys: "k \<in> fst ` set (commit_batch t) \<Longrightarrow> in_batch t k"
  by (auto simp: commit_batch_def)

lemma commit_delete_coll: "q_coll (commit_delete E k q) = coll_delete E (q_coll q) k"
  by (simp add: commit_delete_def unnoteFactory_def Let_def split: option.splits prod.splits)

lemma commit_deletes_coll:
  "q_coll (fold (commit_delete E) ks q) = fold (\<lambda>k s. coll_delete E s k) ks (q_coll q)"
  by (induction ks arbitrary: q) (simp_all add: commit_delete_coll)

lemma commit_note_coll: "q_coll (fold (commit_note E t) es q) = q_coll q"
  by (induction es arbitrary: q)
     (auto simp: commit_note_def noteFactory_def Let_def split: option.splits prod.splits)

lemma commit_submit_coll: "q_coll (fold (commit_submit E t) ks q) = q_coll q"
  by (induction ks arbitrary: q)
     (auto simp: commit_submit_def emit_ulog_def Let_def split: option.splits prod.splits)

lemma CommitTxn_ok:
  assumes "CommitTxn E now q t = (None, q', t')"
  obtains s where "t' = commit_ready E now q t" and "t_errs t = []"
    and "\<not> (anonymous t \<and> (t_pending t \<noteq> [] \<or> t_destroyed t \<noteq> []))"
    and "(if commit_batch t' = [] then Some (q_coll q) else coll_update E (q_coll q) (commit_batch t')) = Some s"
    and "q_coll q' = fold (\<lambda>k s. coll_delete E s k) (t_destroyed t) s"
proof -
  have g: "t_errs t = []" "\<not> (anonymous t \<and> (t_pending t \<noteq> [] \<or> t_destroyed t \<noteq> []))"
    using assms by (auto simp: CommitTxn_def split: if_splits)
  define r where "r = commit_ready E now q t"
  have "t' = r \<and> (\<exists>s. (if commit_batch r = [] then Some (q_coll q) else coll_update E (q_coll q) (commit_batch r)) = Some s \<and>
      q_coll q' = fold (\<lambda>k s. coll_delete E s k) (t_destroyed r) s)"
    using assms g unfolding CommitTxn_def
    by (auto simp: r_def [unfolded commit_ready_def Let_def, symmetric] Let_def commit_deletes_coll commit_note_coll
          commit_submit_coll split: option.splits if_splits)
  then obtain s where "t' = r" "(if commit_batch r = [] then Some (q_coll q) else coll_update E (q_coll q) (commit_batch r)) = Some s"
      "q_coll q' = fold (\<lambda>k s. coll_delete E s k) (t_destroyed r) s" by blast
  then show thesis using that [of s] g by (simp add: r_def cong: if_cong)
qed

lemma has_attr_iff: "has_attr A ad n \<longleftrightarrow> lookup_attr A ad n \<noteq> None"
  by (simp add: has_attr_def split: option.splits)

text \<open>The attributes a commit sets whatever the client staged, in lower case.\<close>

definition stamped :: "string set" where
  "stamped = {''clusterid'', ''procid'', ''owner'', ''user'', ''globaljobid'', ''mytype''}"

context job_store
begin

lemma deletes_own: "own (fold (\<lambda>k s. coll_delete E s k) ks s) k = (if k \<in> set ks then None else own s k)"
  by (induction ks arbitrary: s) (auto simp: delete_own)

lemma commit_own:
  assumes "CommitTxn E now q t = (None, q', t')" and "distinct (map fst (t_pending t))"
  obtains "k \<in> set (t_destroyed t)" and "own (q_coll q') k = None"
  | ad m where "k \<notin> set (t_destroyed t)" and "map_of (t_pending (commit_stage E t)) k = Some ad"
      and "parseJobKey k \<noteq> None" and "own (q_coll q') k = Some m"
      and "\<And>n e. lookup_attr E (case the (parseJobKey k) of (c, p) \<Rightarrow> materialize E q (commit_stage E t) ad c p now) n = Some e
             \<Longrightarrow> m n = Some e"
  | "k \<notin> set (t_destroyed t)" and "map_of (t_pending (commit_stage E t)) k = None \<or> parseJobKey k = None"
      and "own (q_coll q') k = own (q_coll q) k"
proof -
  from assms(1) obtain s where t': "t' = commit_ready E now q t"
    and s: "(if commit_batch t' = [] then Some (q_coll q) else coll_update E (q_coll q) (commit_batch t')) = Some s"
    and q': "q_coll q' = fold (\<lambda>k s. coll_delete E s k) (t_destroyed t) s"
    by (elim CommitTxn_ok)
  have d: "distinct (map fst (t_pending t'))"
    using assms(2) t' by (simp add: commit_ready_def Let_def commit_stage_clusters stage_clusters_distinct)
  have b: "in_batch t' k \<longleftrightarrow> k \<notin> set (t_destroyed t) \<and> parseJobKey k \<noteq> None" by (simp add: in_batch_def t')
  have ib: "in_batch t' = in_batch (commit_stage E t)" by (rule in_batch_cong) (simp add: t')
  have p: "map_of (t_pending t') k = map_option (\<lambda>ad. if in_batch t' k
      then case the (parseJobKey k) of (c, p) \<Rightarrow> materialize E q (commit_stage E t) ad c p now else ad)
      (map_of (t_pending (commit_stage E t)) k)"
    unfolding ib
    by (simp add: t' materialize_map commit_ready_def Let_def)
  show thesis
  proof (cases "k \<in> set (t_destroyed t)")
    case True
    then show ?thesis using that(1) q' deletes_own by simp
  next
    case nd: False
    have o: "own (q_coll q') k = own s k" using nd q' deletes_own by simp
    show ?thesis
    proof (cases "k \<in> fst ` set (commit_batch t')")
      case True
      then obtain ad where ad: "(k, ad) \<in> set (commit_batch t')" by auto
      then have "commit_batch t' \<noteq> []" by auto
      with s have up: "coll_update E (q_coll q) (commit_batch t') = Some s" by simp
      obtain m where m: "own s k = Some m" and l: "\<forall>n. case lookup_attr E ad n of Some e \<Rightarrow> m n = Some e
          | None \<Rightarrow> m n = None \<or> (\<exists>m0. own (q_coll q) k = Some m0 \<and> m n = m0 n)"
        using update_entry [OF up commit_batch_distinct [OF d] ad] by blast
      have "map_of (t_pending t') k = Some ad" and ibk: "in_batch t' k" using ad commit_batch_iff [OF d] by simp_all
      then obtain ad0 where ad0: "map_of (t_pending (commit_stage E t)) k = Some ad0"
        and e: "ad = (case the (parseJobKey k) of (c, p) \<Rightarrow> materialize E q (commit_stage E t) ad0 c p now)"
        using p ibk by (cases "map_of (t_pending (commit_stage E t)) k") simp_all
      show ?thesis
      proof (rule that(2) [OF nd ad0 _ o [unfolded m]])
        show "parseJobKey k \<noteq> None" using ibk b by simp
        show "m n = Some x" if "lookup_attr E (case the (parseJobKey k) of (c, p) \<Rightarrow>
            materialize E q (commit_stage E t) ad0 c p now) n = Some x" for n x
          using l [rule_format, of n] that e by simp
      qed
    next
      case False
      have "own s k = own (q_coll q) k"
        using s update_other [OF _ False] by (auto split: if_splits)
      moreover have "map_of (t_pending (commit_stage E t)) k = None \<or> parseJobKey k = None"
      proof (rule ccontr)
        assume "\<not> ?thesis"
        then obtain ad where "map_of (t_pending t') k = Some ad" and "in_batch t' k"
          using p b nd by (cases "map_of (t_pending (commit_stage E t)) k") simp_all
        then have "(k, ad) \<in> set (commit_batch t')" using commit_batch_iff [OF d] by blast
        with False show False by force
      qed
      ultimately show ?thesis using that(3) nd o by simp
    qed
  qed
qed

lemma materialize_identity:
  shows "lookup_attr E (materialize E q t ad c p now) ''Owner'' = Some (ls (t_owner t))"
    and "lookup_attr E (materialize E q t ad c p now) ''User'' = Some (ls (t_user t))"
    and "lookup_attr E (materialize E q t ad c p now) ''ClusterId'' = Some (li c)"
    and "0 \<le> p \<Longrightarrow> lookup_attr E (materialize E q t ad c p now) ''ProcId'' = Some (li p)"
  by (auto simp: materialize_def Let_def lookup_simps go_simps)

lemma materialize_status:
  assumes "0 \<le> p"
  shows "lookup_attr E (materialize E q t ad c p now) ''JobStatus'' =
     (case lookup_attr E ad ''JobStatus'' of Some e \<Rightarrow> Some e | None \<Rightarrow> Some (li StatusIdle))"
  using assms by (auto simp: materialize_def Let_def lookup_simps go_simps has_attr_iff split: option.splits)

lemma materialize_other:
  assumes "lookup_attr E ad n = Some e" and "to_lower n \<notin> stamped"
  shows "lookup_attr E (materialize E q t ad c p now) n = Some e"
proof -
  have ne: "''clusterid'' \<noteq> to_lower n" "''procid'' \<noteq> to_lower n" "''owner'' \<noteq> to_lower n"
    "''user'' \<noteq> to_lower n" "''globaljobid'' \<noteq> to_lower n" "''mytype'' \<noteq> to_lower n"
    using assms(2) by (simp_all add: stamped_def eq_commute)
  have has: "lookup_attr E ad ''JobStatus'' = None \<Longrightarrow> ''jobstatus'' \<noteq> to_lower n"
    "lookup_attr E ad ''QDate'' = None \<Longrightarrow> ''qdate'' \<noteq> to_lower n"
    "lookup_attr E ad ''JobUniverse'' = None \<Longrightarrow> ''jobuniverse'' \<noteq> to_lower n"
    using assms(1) lookup_fold [of "''JobStatus''" n ad] lookup_fold [of "''QDate''" n ad]
      lookup_fold [of "''JobUniverse''" n ad] by (auto simp: go_simps)
  show ?thesis
    using assms(1) ne has by (simp add: materialize_def Let_def lookup_simps go_simps has_attr_iff)
qed

text \<open>A staged job that is not destroyed is in the store after the commit, with the caller's identity.\<close>

lemma commit_staged_job:
  assumes "CommitTxn E now q t = (None, q', t')" and "distinct (map fst (t_pending t))" and "int64_pair c p"
    and "jobKey c p \<notin> set (t_destroyed t)" and "map_of (t_pending (commit_stage E t)) (jobKey c p) = Some staged"
  obtains ad where "Get E q' c p = Some ad"
    and "\<And>n e. lookup_attr E (materialize E q (commit_stage E t) staged c p now) n = Some e \<Longrightarrow> lookup_attr E ad n = Some e"
proof (rule commit_own [OF assms(1,2), of "jobKey c p"])
  fix ad m
  assume ad: "map_of (t_pending (commit_stage E t)) (jobKey c p) = Some ad"
    and m: "own (q_coll q') (jobKey c p) = Some m"
    and l: "\<And>n e. lookup_attr E (case the (parseJobKey (jobKey c p)) of (c, p) \<Rightarrow>
              materialize E q (commit_stage E t) ad c p now) n = Some e \<Longrightarrow> m n = Some e"
  obtain a where a: "coll_get E (q_coll q') (jobKey c p) = Some a" using own_Some_get [OF m] by blast
  show thesis
  proof (rule that)
    show "Get E q' c p = Some a" using a by (simp add: Get_def)
    show "lookup_attr E a n = Some e"
      if "lookup_attr E (materialize E q (commit_stage E t) staged c p now) n = Some e" for n e
      using get_own_attr [OF m _ a] l that ad assms(3,5) parseJobKey_jobKey by simp
  qed
qed (use assms(3-5) parseJobKey_jobKey in simp_all)

end

lemma commit_clusters_fold:
  "set (fold (\<lambda>(key, _) cs. case parseJobKey key of Some (c, _) \<Rightarrow> set_add c cs | None \<Rightarrow> cs) xs cs) =
     set cs \<union> {c. \<exists>k ad p. (k, ad) \<in> set xs \<and> parseJobKey k = Some (c, p)}"
  by (induction xs arbitrary: cs) (force split: option.splits prod.splits)+

lemma commit_clusters_iff:
  "c \<in> set (commit_clusters t) \<longleftrightarrow> (\<exists>k ad p. (k, ad) \<in> set (t_pending t) \<and> parseJobKey k = Some (c, p))"
  by (simp add: commit_clusters_def commit_clusters_fold)

lemma session_ops:
  "session E u q t \<Longrightarrow> fold (txn_do E) ops (q, t) = (q', t') \<Longrightarrow> session E u q' t'"
proof (induction ops arbitrary: q t)
  case (Cons op ops)
  obtain q1 t1 where s: "txn_do E op (q, t) = (q1, t1)" by fastforce
  then show ?case using Cons.IH [OF session.step [OF Cons.prems(1) s]] Cons.prems(2) by simp
qed simp

definition ref_txn :: "string \<Rightarrow> txn_op list \<Rightarrow> (ref_ad, ref_store, ref_ad list) queue \<Rightarrow>
    (ref_ad, ref_store, ref_ad list) queue \<times> ref_ad txn" where
  "ref_txn u ops q = fold (txn_do refE) ops (q, BeginTxn refE q u)"

definition ref_commit :: "string \<Rightarrow> txn_op list \<Rightarrow> (ref_ad, ref_store, ref_ad list) queue \<Rightarrow>
    (ref_ad, ref_store, ref_ad list) queue" where
  "ref_commit u ops q = (case ref_txn u ops q of (q, t) \<Rightarrow> fst (snd (CommitTxn refE 100 q t)))"

definition ref_submit :: "txn_op list" where
  "ref_submit = [DoNewCluster, DoNewProc 1, DoNewProc 1, DoSetAttribute 1 (-1) ''Cmd'' ''run'',
     DoSetAttribute 1 0 ''Prio'' ''7'', DoSetAttribute 1 0 ''Owner'' ''root'']"

lemma ref_txn_session: "0 < q_nextID q \<Longrightarrow> ref_txn u ops q = (q', t') \<Longrightarrow> session refE u q' t'"
  unfolding ref_txn_def by (rule session_ops [OF session.opened])

lemma destroy_scan_refuses:
  assumes "ad \<in> set ads" and "jobIDs E ad = Some (c, p)" and "\<And>i. checkOwner E q t (q_authz q) c i (JobUser E q ad) \<noteq> None"
  shows "\<exists>e. destroy_scan E q t c ads procs = Inl e"
  using assms(1)
proof (induction ads arbitrary: procs)
  case (Cons a ads)
  then show ?case
    using assms(2) assms(3) [of "int_attr0 E ad ''ProcId''"] by (cases "a = ad") (auto simp: Let_def split: option.splits)
qed simp

context job_store
begin

lemma stamped_job:
  assumes "session E u q t" and "CommitTxn E now q t = (None, q', t')" and "int64_pair c p"
    and "jobKey c p \<notin> set (t_destroyed t)" and "map_of (t_pending (commit_stage E t)) (jobKey c p) = Some staged"
  shows "\<exists>ad. Get E q' c p = Some ad \<and> eval_str E ad ''User'' = Some (t_user t) \<and>
     eval_str E ad ''Owner'' = Some (t_owner t) \<and> eval_int E ad ''ClusterId'' = Some c \<and>
     (0 \<le> p \<longrightarrow> eval_int E ad ''ProcId'' = Some p) \<and>
     (\<forall>n e. lookup_attr E staged n = Some e \<and> to_lower n \<notin> stamped \<longrightarrow> lookup_attr E ad n = Some e)"
proof -
  obtain ad where ad: "Get E q' c p = Some ad" and l: "\<And>n e. lookup_attr E (materialize E q (commit_stage E t) staged c p now) n = Some e
      \<Longrightarrow> lookup_attr E ad n = Some e"
    using commit_staged_job [OF assms(2) session_distinct [OF assms(1)] assms(3-5)] by blast
  have "lookup_attr E ad ''User'' = Some (ls (t_user t))" "lookup_attr E ad ''Owner'' = Some (ls (t_owner t))"
    "lookup_attr E ad ''ClusterId'' = Some (li c)" "0 \<le> p \<Longrightarrow> lookup_attr E ad ''ProcId'' = Some (li p)"
    using l materialize_identity [where t = "commit_stage E t"] by simp_all
  then show ?thesis using ad l materialize_other by (auto intro!: exI [of _ ad] simp: eval_lits)
qed

lemma written_staged:
  assumes "session E u q t" and "CommitTxn E now q t = (None, q', t')" and "int64_pair c p"
    and "jobKey c p \<notin> set (t_destroyed t)"
    and "map_of (t_pending t) (jobKey c p) \<noteq> None \<or>
      p = -1 \<and> (\<exists>i. int64_range i \<and> map_of (t_pending t) (jobKey c i) \<noteq> None) \<or>
      own (q_coll q') (jobKey c p) \<noteq> own (q_coll q) (jobKey c p)"
  obtains staged where "map_of (t_pending (commit_stage E t)) (jobKey c p) = Some staged"
proof (cases "map_of (t_pending (commit_stage E t)) (jobKey c p)")
  case None
  have "own (q_coll q') (jobKey c p) = own (q_coll q) (jobKey c p)"
    by (rule commit_own [OF assms(2) session_distinct [OF assms(1)], of "jobKey c p"]) (use None assms(4) in simp_all)
  moreover have "map_of (t_pending t) (jobKey c p) = None"
    using None by (auto simp: commit_stage_clusters stage_clusters_map split: option.splits if_splits)
  ultimately obtain i where i: "p = -1" "int64_range i" "map_of (t_pending t) (jobKey c i) \<noteq> None"
    using assms(5) by blast
  then obtain ad where "(jobKey c i, ad) \<in> set (t_pending t)" by (meson map_of_SomeD not_None_eq)
  moreover have "parseJobKey (jobKey c i) = Some (c, i)"
    using i(2) assms(3) parseJobKey_jobKey by (simp add: int64_pair_def)
  ultimately have "c \<in> set (commit_clusters t)" using commit_clusters_iff by blast
  then have False using None i(1)
    by (auto simp: commit_stage_clusters stage_clusters_map clusterKeyStr_jobKey split: option.splits if_splits)
  then show ?thesis ..
qed (rule that)

lemma destroyed_job:
  assumes "CommitTxn E now q t = (None, q', t')" and "distinct (map fst (t_pending t))"
    and "jobKey c p \<in> set (t_destroyed t)"
  shows "Get E q' c p = None"
  by (rule commit_own [OF assms(1,2), of "jobKey c p"]) (use assms(3) in \<open>simp_all add: Get_def get_None\<close>)

lemma same_own_same_get:
  assumes "own s' k = own s k" and "\<And>pk. parentKeyFor k = Some pk \<Longrightarrow> own s' pk = own s pk"
  shows "(coll_get E s' k = None) = (coll_get E s k = None)"
    and "coll_get E s k = Some a \<Longrightarrow> coll_get E s' k = Some a' \<Longrightarrow> lookup_attr E a' n = lookup_attr E a n"
proof -
  show "(coll_get E s' k = None) = (coll_get E s k = None)" using assms(1) by (simp add: get_None)
  assume a: "coll_get E s k = Some a" and a': "coll_get E s' k = Some a'"
  obtain m where m: "own s k = Some m" using get_Some_own [OF a] by blast
  show "lookup_attr E a' n = lookup_attr E a n"
    using get_lookup [OF a m] get_lookup [OF a' m [folded assms(1)]] assms(2)
    by (simp add: chained_def split: option.splits)
qed

lemma untouched_job:
  assumes "session E u q t" and "CommitTxn E now q t = (None, q', t')" and "int64_pair c p"
    and "c \<notin> set (commit_clusters t)" and "jobKey c p \<notin> set (t_destroyed t)" "jobKey c (-1) \<notin> set (t_destroyed t)"
  shows "(Get E q' c p = None \<longleftrightarrow> Get E q c p = None) \<and>
     (\<forall>a a' n. Get E q c p = Some a \<longrightarrow> Get E q' c p = Some a' \<longrightarrow> lookup_attr E a' n = lookup_attr E a n)"
proof -
  have np: "map_of (t_pending (commit_stage E t)) (jobKey c i) = None" if "int64_range i" for i
  proof -
    have "map_of (t_pending t) (jobKey c i) = None"
    proof (rule ccontr)
      assume "\<not> ?thesis"
      then obtain ad where "(jobKey c i, ad) \<in> set (t_pending t)" by (meson map_of_SomeD not_None_eq)
      moreover have "parseJobKey (jobKey c i) = Some (c, i)"
        using that assms(3) parseJobKey_jobKey by (simp add: int64_pair_def)
      ultimately show False using assms(4) commit_clusters_iff by blast
    qed
    then show ?thesis using assms(4)
      by (auto simp: commit_stage_clusters stage_clusters_map clusterKeyStr_jobKey jobKey_inj)
  qed
  have o: "own (q_coll q') (jobKey c i) = own (q_coll q) (jobKey c i)"
    if "int64_range i" "jobKey c i \<notin> set (t_destroyed t)" for i
    by (rule commit_own [OF assms(2) session_distinct [OF assms(1)], of "jobKey c i"]) (use np that in simp_all)
  have k: "own (q_coll q') (jobKey c p) = own (q_coll q) (jobKey c p)" using o assms(3,5) by (simp add: int64_pair_def)
  have "own (q_coll q') (jobKey c (-1)) = own (q_coll q) (jobKey c (-1))"
    using o [of "-1"] assms(6) by (simp add: int64_range_def)
  then have par: "own (q_coll q') pk = own (q_coll q) pk" if "parentKeyFor (jobKey c p) = Some pk" for pk
    using that parentKeyFor_jobKey [OF assms(3)] by (auto split: if_splits)
  show ?thesis using same_own_same_get [OF k par] by (simp add: Get_def)
qed

end

definition ref_sub :: "(ref_ad, ref_store, ref_ad list) queue \<times> ref_ad txn" where
  "ref_sub = ref_txn ''alice@pool'' ref_submit (ref_queue [] [])"

definition ref_q1 :: "(ref_ad, ref_store, ref_ad list) queue" where
  "ref_q1 = ref_commit ''alice@pool'' ref_submit (ref_queue [] [])"

lemma ref_sub_session: "session refE ''alice@pool'' (fst ref_sub) (snd ref_sub)"
proof -
  have "0 < q_nextID (ref_queue [] [])" by code_simp
  then show ?thesis using ref_txn_session [of "ref_queue [] []" "''alice@pool''" ref_submit] by (simp add: ref_sub_def)
qed

lemma ref_sub_commit:
  "CommitTxn refE 100 (fst ref_sub) (snd ref_sub) =
     (None, ref_q1, snd (snd (CommitTxn refE 100 (fst ref_sub) (snd ref_sub))))"
proof -
  have "fst (CommitTxn refE 100 (fst ref_sub) (snd ref_sub)) = None" by code_simp
  moreover have "ref_q1 = fst (snd (CommitTxn refE 100 (fst ref_sub) (snd ref_sub)))"
    by (simp add: ref_q1_def ref_commit_def ref_sub_def case_prod_beta)
  ultimately show ?thesis by (simp add: prod_eq_iff)
qed

text \<open>An edit of a proc only; the commit stages the cluster ad itself.\<close>

definition ref_edit :: "(ref_ad, ref_store, ref_ad list) queue \<times> ref_ad txn" where
  "ref_edit = ref_txn ''alice@pool'' [DoSetAttribute 1 0 ''Prio'' ''9''] ref_q1"

text \<open>
  C2. Whatever a client that is not a queue super user staged, every job and cluster ad its commit writes carries
  the authenticated identity: \<open>User\<close> is the caller qualified with the local domain, \<open>Owner\<close> its
  short name, and the ids are the key's. Written are the staged ads, the cluster ad of every cluster with a staged ad, which the
  commit stages itself, and whatever else is stored differently afterwards.
\<close>

theorem commit_stamps_caller:
  assumes "job_store E li ls lb own keys hlist"
    and "session E u q t" and "\<not> IsSuperUser E q (t_authUser t)"
    and "CommitTxn E now q t = (None, q', t')"
    and "int64_pair c p" and "jobKey c p \<notin> set (t_destroyed t)"
    and "map_of (t_pending t) (jobKey c p) \<noteq> None \<or>
      p = -1 \<and> (\<exists>i. int64_range i \<and> map_of (t_pending t) (jobKey c i) \<noteq> None) \<or>
      own (q_coll q') (jobKey c p) \<noteq> own (q_coll q) (jobKey c p)"
  shows "\<exists>ad. Get E q' c p = Some ad \<and> eval_str E ad ''User'' = Some (qualify q (t_authUser t)) \<and>
     eval_str E ad ''Owner'' = Some (shortName E (qualify q (t_authUser t))) \<and>
     eval_int E ad ''ClusterId'' = Some c \<and> (0 \<le> p \<longrightarrow> eval_int E ad ''ProcId'' = Some p)"
proof -
  note id = session_identity [OF assms(2)]
  obtain staged where "map_of (t_pending (commit_stage E t)) (jobKey c p) = Some staged"
    by (rule job_store.written_staged [OF assms(1,2,4-7)])
  from job_store.stamped_job [OF assms(1,2,4,5,6) this] id assms(3) show ?thesis by auto
qed

theorem commit_stamps_caller_witness:
  "map_of (t_pending (snd ref_edit)) (jobKey 1 (-1)) = None \<and>
   (\<exists>ad. Get refE (fst (snd (CommitTxn refE 200 (fst ref_edit) (snd ref_edit)))) 1 (-1) = Some ad \<and>
      eval_str refE ad ''User'' = Some (qualify (fst ref_edit) ''alice@pool''))"
proof -
  have q: "0 < q_nextID ref_q1" by code_simp
  have s: "session refE ''alice@pool'' (fst ref_edit) (snd ref_edit)"
    using ref_txn_session [OF q, of "''alice@pool''" "[DoSetAttribute 1 0 ''Prio'' ''9'']"] by (simp add: ref_edit_def)
  have h: "\<not> IsSuperUser refE (fst ref_edit) (t_authUser (snd ref_edit))" "int64_pair 1 (-1)"
    "jobKey 1 (-1) \<notin> set (t_destroyed (snd ref_edit))" "map_of (t_pending (snd ref_edit)) (jobKey 1 (-1)) = None"
    "int64_range 0" "map_of (t_pending (snd ref_edit)) (jobKey 1 0) \<noteq> None" "t_authUser (snd ref_edit) = ''alice@pool''"
    "fst (CommitTxn refE 200 (fst ref_edit) (snd ref_edit)) = None"
    by code_simp+
  obtain q' t' where c: "CommitTxn refE 200 (fst ref_edit) (snd ref_edit) = (None, q', t')" using h(8) by (metis prod.collapse)
  from commit_stamps_caller [OF ref.job_store_axioms s h(1) c h(2,3)] h(4-7) c show ?thesis by auto
qed

text \<open>
  C4. What a successful commit does to any job or cluster ad: a destroyed one is gone; a staged one is in the
  queue with every staged attribute the schedd does not force; one whose cluster the
  transaction does not touch reads as before.
\<close>

theorem commit_effect:
  assumes "job_store E li ls lb own keys hlist" and "session E u q t"
    and "CommitTxn E now q t = (None, q', t')" and "int64_pair c p"
  shows "if jobKey c p \<in> set (t_destroyed t) then Get E q' c p = None
     else case map_of (t_pending t) (jobKey c p) of
       Some staged \<Rightarrow> \<exists>ad. Get E q' c p = Some ad \<and>
         (\<forall>n e. lookup_attr E staged n = Some e \<and> to_lower n \<notin> stamped \<longrightarrow> lookup_attr E ad n = Some e)
     | None \<Rightarrow> c \<notin> set (commit_clusters t) \<and> jobKey c (-1) \<notin> set (t_destroyed t) \<longrightarrow>
         (Get E q' c p = None \<longleftrightarrow> Get E q c p = None) \<and>
         (\<forall>a a' n. Get E q c p = Some a \<longrightarrow> Get E q' c p = Some a' \<longrightarrow> lookup_attr E a' n = lookup_attr E a n)"
proof (cases "jobKey c p \<in> set (t_destroyed t)")
  case True
  then show ?thesis using job_store.destroyed_job [OF assms(1,3) session_distinct [OF assms(2)]] by simp
next
  case nd: False
  show ?thesis
  proof (cases "map_of (t_pending t) (jobKey c p)")
    case None
    then show ?thesis using nd job_store.untouched_job [OF assms(1,2,3,4) _ nd] by simp
  next
    case (Some staged)
    then have "map_of (t_pending (commit_stage E t)) (jobKey c p) = Some staged"
      by (simp add: commit_stage_clusters stage_clusters_map)
    from job_store.stamped_job [OF assms(1,2,3,4) nd this] show ?thesis using nd Some by auto
  qed
qed

theorem commit_effect_witness:
  "\<exists>ad. Get refE ref_q1 1 0 = Some ad \<and> lookup_attr refE ad ''Prio'' = Some (RInt 7)"
proof -
  have "jobKey 1 0 \<notin> set (t_destroyed (snd ref_sub))" "int64_pair 1 0"
    "map_of (t_pending (snd ref_sub)) (jobKey 1 0) = Some [(''prio'', RInt 7), (''owner'', RRaw ''root'')]"
    "lookup_attr refE [(''prio'', RInt 7), (''owner'', RRaw ''root'')] ''Prio'' = Some (RInt 7)"
    "to_lower ''Prio'' \<notin> stamped"
    by code_simp+
  then show ?thesis
    using commit_effect [OF ref.job_store_axioms ref_sub_session ref_sub_commit, of 1 0] by auto
qed

text \<open>
  A connection that did not authenticate, or whose identity is unmapped, never changes
  the queue: no operation of its transaction does, and neither does its commit.
\<close>

theorem anonymous_never_writes:
  assumes "session E u q t" and "u = [] \<or> isUnmapped E u"
  shows "fst (txn_do E op (q, t)) = q \<and> fst (snd (CommitTxn E now q t)) = q"
proof
  have a: "anonymous t" using session_identity [OF assms(1)] assms(2) by (auto simp: anonymous_def)
  show "fst (txn_do E op (q, t)) = q" using a by (cases op) (simp_all add: txn_do_def NewCluster_def)
  show "fst (snd (CommitTxn E now q t)) = q" by (rule commit_empty [OF session_anonymous [OF assms(1) a]])
qed

theorem anonymous_never_writes_witness:
  "fst (txn_do refE DoNewCluster (ref_q1, BeginTxn refE ref_q1 [])) = ref_q1"
proof -
  have "0 < q_nextID ref_q1" by code_simp
  then have "session refE [] ref_q1 (BeginTxn refE ref_q1 [])" by (rule session.opened)
  from anonymous_never_writes [OF this, of DoNewCluster] show ?thesis by blast
qed

text \<open>
  C5. Unless every user is trusted, a client that is neither the owner of a committed job nor a super user
  cannot stage anything on it: setting and deleting an attribute and destroying the job all leave the transaction as it
  was, and so does destroying its cluster, also when the cluster ad is the client's own, if the job's ad carries its ids.
\<close>

theorem foreign_job_untouched:
  assumes "job_store E li ls lb own keys hlist" and "session E u q t"
    and "\<not> IsSuperUser E q (t_authUser t)" and "\<not> az_allUsersTrusted (q_authz q)"
    and "committedOwner E q c p = Some owner" and "owner \<noteq> []" and "\<not> SameUser E q (t_authUser t) owner"
  shows "snd (SetAttribute E q c p name value t) = t \<and> snd (DeleteAttribute E q c p name t) = t \<and>
     snd (DestroyProc E q c p t) = t \<and>
     (p = -1 \<or> 0 \<le> p \<and> int64_pair c p \<and> (\<exists>ad. Get E q c p = Some ad \<and> jobIDs E ad = Some (c, p)) \<longrightarrow>
        snd (DestroyCluster E q c t) = t)"
proof -
  have "\<not> t_isSuper t" using session_identity [OF assms(2)] assms(3) by simp
  then have no: "checkOwner E q t (q_authz q) c i owner \<noteq> None" for i
    using assms(4,6,7) by (simp add: checkOwner_def)
  have a: "authorize E q t c p name \<noteq> Inr False"
    using no [of p] assms(5) by (auto simp: authorize_def Let_def split: option.splits)
  have dc: "snd (DestroyCluster E q c t) = t" if x: "fst (DestroyCluster E q c t) \<noteq> None"
    using x by (auto simp: DestroyCluster_def Let_def split: option.splits sum.splits if_splits)
  have "fst (DestroyCluster E q c t) \<noteq> None" if h: "p = -1 \<or> 0 \<le> p \<and> int64_pair c p \<and> (\<exists>ad. Get E q c p = Some ad \<and> jobIDs E ad = Some (c, p))"
  proof (cases "committedOwner E q c (-1) = Some owner")
    case True
    then show ?thesis using no [of "-1"] by (auto simp: DestroyCluster_def split: option.splits)
  next
    case False
    then obtain ad where p: "0 \<le> p" "int64_pair c p" and ad: "Get E q c p = Some ad" "jobIDs E ad = Some (c, p)"
      using h assms(5) by auto
    have o: "JobUser E q ad = owner"
      using assms(5,6) False ad(1) by (auto simp: committedOwner_def Get_def split: option.splits if_splits)
    have "ad \<in> set (coll_scan E (q_coll q))"
      using job_store.scan_get [OF assms(1)] ad(1) isStructural_jobKey [OF p(2)] p(1) by (auto simp: Get_def)
    from destroy_scan_refuses [OF this ad(2)] no o obtain e where "destroy_scan E q t c (coll_scan E (q_coll q)) [] = Inl e" by blast
    then show ?thesis by (auto simp: DestroyCluster_def split: option.splits)
  qed
  with dc show ?thesis
    using no [of p] a assms(5)
    by (auto simp: SetAttribute_def DeleteAttribute_def DestroyProc_def split: sum.splits bool.splits option.splits)
qed

theorem foreign_job_untouched_witness:
  "committedOwner refE ref_q1 1 0 = Some ''alice@pool'' \<and>
   snd (DestroyProc refE ref_q1 1 0 (BeginTxn refE ref_q1 ''bob@pool'')) = BeginTxn refE ref_q1 ''bob@pool'' \<and>
   snd (DestroyCluster refE ref_q1 1 (BeginTxn refE ref_q1 ''bob@pool'')) = BeginTxn refE ref_q1 ''bob@pool''"
proof -
  have h: "0 < q_nextID ref_q1" "\<not> IsSuperUser refE ref_q1 (t_authUser (BeginTxn refE ref_q1 ''bob@pool''))"
    "\<not> az_allUsersTrusted (q_authz ref_q1)" "committedOwner refE ref_q1 1 0 = Some ''alice@pool''"
    "''alice@pool'' \<noteq> []" "\<not> SameUser refE ref_q1 (t_authUser (BeginTxn refE ref_q1 ''bob@pool'')) ''alice@pool''"
    "int64_pair 1 0" "map_option (jobIDs refE) (Get refE ref_q1 1 0) = Some (Some (1, 0))"
    by code_simp+
  then show ?thesis using foreign_job_untouched [OF ref.job_store_axioms session.opened [OF h(1)] h(2-6)] by auto
qed

text \<open>
  A client reads what it wrote: after a staged write of an attribute with a well-formed value, reading it in
  the same transaction gives the value's canonical text, whatever was staged, deleted or committed before.
\<close>

theorem read_your_writes:
  assumes "classad E li ls lb" and "SetAttribute E q c p name value t = (None, t')"
    and "to_lower name \<notin> az_secure (q_authz q)" and "parse_expr E value = Some e"
  shows "GetAttribute E q' t' c p name = Some (expr_string E e)"
proof -
  have "authorize E q t c p name = Inr False"
    using assms(2,3) by (auto simp: SetAttribute_def authorize_def Let_def split: if_splits sum.splits bool.splits option.splits)
  then show ?thesis
    using assms(2,4) classad.lookup_insert [OF assms(1)]
    by (auto simp: SetAttribute_def GetAttribute_def staged_lookup_def put_staged_def Let_def
          split: if_splits prod.splits)
qed

theorem read_your_writes_witness:
  "GetAttribute refE ref_q1 (snd (SetAttribute refE ref_q1 1 0 ''Prio'' ''9'' (BeginTxn refE ref_q1 ''alice@pool''))) 1 0 ''Prio''
     = Some ''9''"
proof -
  have h: "fst (SetAttribute refE ref_q1 1 0 ''Prio'' ''9'' (BeginTxn refE ref_q1 ''alice@pool'')) = None"
    "to_lower ''Prio'' \<notin> az_secure (q_authz ref_q1)" "parse_expr refE ''9'' = Some (RInt 9)" "expr_string refE (RInt 9) = ''9''"
    by code_simp+
  show ?thesis using read_your_writes [OF ref_ads.classad_axioms _ h(2,3)] h(1,4) by (metis prod.collapse)
qed

text \<open>
  C6. Within a transaction the procs of a cluster are numbered 0, 1, 2, ...: the proc id
  \<open>NewProc\<close> returns was not handed out before, and the procs created in the cluster are then exactly those up
  to it.
\<close>

theorem new_procs_contiguous:
  assumes "session E u q t" and "NewProc E c t = (Inr p, t')"
  shows "jobKey c p \<notin> set (t_newProcs t) \<and> (\<forall>i. jobKey c i \<in> set (t_newProcs t') \<longleftrightarrow> 0 \<le> i \<and> i \<le> p)"
proof -
  have inv: "procs_inv q t" by (rule session_procs [OF assms(1)])
  have p: "p = nextProc_of t c" and n: "set (t_newProcs t') = insert (jobKey c p) (set (t_newProcs t))"
    using assms(2) by (auto simp: NewProc_def Let_def nextProc_of_def stagedAd_def split: if_splits option.splits)
  show ?thesis using inv p n by (auto simp: procs_inv_def jobKey_inj)
qed

theorem new_procs_contiguous_witness:
  "fst (NewProc refE 1 (snd ref_sub)) = Inr 2 \<and> jobKey 1 2 \<notin> set (t_newProcs (snd ref_sub))"
proof -
  have h: "fst (NewProc refE 1 (snd ref_sub)) = Inr 2" by code_simp
  then show ?thesis using new_procs_contiguous [OF ref_sub_session, of 1 2] by (metis prod.collapse)
qed

end
