(* ===== verification/TxnEdits.thy ===== *)
theory TxnEdits
  imports TxnCommit
begin

text \<open>
  Transactions that edit jobs already in the queue (\<open>condor_qedit\<close>): what \<open>Txn.Commit\<close> does with an
  ad that holds only the edit, and with a staged deletion.
\<close>

section \<open>Edits of committed jobs\<close>

lemma SetAttribute_staged:
  assumes "SetAttribute E q c p name value t = (None, t')" and "to_lower name \<notin> az_secure (q_authz q)"
  shows "map_of (t_pending t') (jobKey c p) \<noteq> None" and "t_destroyed t' = t_destroyed t"
    and "t_user t' = t_user t" and "k \<noteq> jobKey c p \<Longrightarrow> map_of (t_pending t') k = map_of (t_pending t) k"
proof -
  have a: "authorize E q t c p name = Inr False"
    using assms by (auto simp: SetAttribute_def authorize_def Let_def split: if_splits sum.splits bool.splits option.splits)
  note s = assms(1) [unfolded SetAttribute_def put_staged_def stagedAd_def]
  show "map_of (t_pending t') (jobKey c p) \<noteq> None" "t_destroyed t' = t_destroyed t" "t_user t' = t_user t"
    "k \<noteq> jobKey c p \<Longrightarrow> map_of (t_pending t') k = map_of (t_pending t) k"
    using s a by (auto simp: Let_def split: if_splits option.splits)
qed

lemma SetAttribute_session:
  assumes "session E u q t" and "SetAttribute E q c p name value t = (r, t')"
  shows "session E u q t'"
  using session.step [OF assms(1), of "DoSetAttribute c p name value" q t'] assms(2) by (simp add: txn_do_def)

context job_store
begin

lemma SetAttribute_fresh:
  assumes "SetAttribute E q c p name value t = (None, t')" and "map_of (t_pending t) (jobKey c p) = None"
    and "map_of (t_pending t') (jobKey c p) = Some ad" and "to_lower n \<noteq> to_lower name"
  shows "lookup_attr E ad n = None"
  using assms
  by (auto simp: SetAttribute_def stagedAd_def put_staged_def Let_def lookup_simps
        split: if_splits sum.splits bool.splits option.splits)

lemma edit_takes_cluster:
  assumes "session E u q t" and "SetAttribute E q c p name value t = (None, t1)"
    and "to_lower name \<notin> az_secure (q_authz q)" and "int64_pair c p" and "jobKey c (-1) \<notin> set (t_destroyed t)"
    and "CommitTxn E now q t1 = (None, q', t2)"
  shows "\<exists>ad. Get E q' c (-1) = Some ad \<and> eval_str E ad ''User'' = Some (t_user t)"
proof -
  note s = SetAttribute_staged [OF assms(2,3)]
  have ses: "session E u q t1" by (rule SetAttribute_session [OF assms(1,2)])
  obtain ad where "(jobKey c p, ad) \<in> set (t_pending t1)" using s(1) by (meson map_of_SomeD not_None_eq)
  then have "c \<in> set (commit_clusters t1)" using commit_clusters_iff parseJobKey_jobKey [OF assms(4)] by blast
  then obtain staged where "map_of (t_pending (commit_stage E t1)) (jobKey c (-1)) = Some staged"
    by (cases "map_of (t_pending t1) (jobKey c (-1))")
       (auto simp: commit_stage_clusters stage_clusters_map clusterKeyStr_jobKey)
  moreover have "int64_pair c (-1)" using assms(4) by (simp add: int64_pair_def int64_range_def)
  ultimately show ?thesis using stamped_job [OF ses assms(6)] assms(5) s(2,3) by (metis)
qed

lemma edit_sets_idle:
  assumes "session E u q t" and "map_of (t_pending t) (jobKey c p) = None"
    and "SetAttribute E q c p name value t = (None, t1)"
    and "to_lower name \<notin> az_secure (q_authz q)" and "to_lower name \<noteq> ''jobstatus''"
    and "int64_pair c p" and "0 \<le> p" and "jobKey c p \<notin> set (t_destroyed t)"
    and "CommitTxn E now q t1 = (None, q', t2)"
  shows "JobStatus E q' c p = StatusIdle"
proof -
  note s = SetAttribute_staged [OF assms(3,4)]
  have ses: "session E u q t1" by (rule SetAttribute_session [OF assms(1,3)])
  obtain staged where st: "map_of (t_pending t1) (jobKey c p) = Some staged" using s(1) by blast
  then have m: "map_of (t_pending (commit_stage E t1)) (jobKey c p) = Some staged"
    by (simp add: commit_stage_clusters stage_clusters_map)
  have "lookup_attr E staged ''JobStatus'' = None"
    using SetAttribute_fresh [OF assms(3,2) st, of "''JobStatus''"] assms(5) by (simp add: go_simps eq_commute)
  then have "lookup_attr E (materialize E q (commit_stage E t1) staged c p now) ''JobStatus'' = Some (li StatusIdle)"
    using materialize_status [OF assms(7)] by simp
  moreover obtain ad where "Get E q' c p = Some ad"
    "\<And>n e. lookup_attr E (materialize E q (commit_stage E t1) staged c p now) n = Some e \<Longrightarrow> lookup_attr E ad n = Some e"
    using commit_staged_job [OF assms(9) session_distinct [OF ses] assms(6) _ m] assms(8) s(2) by metis
  ultimately show ?thesis using status_lit by blast
qed

end

text \<open>
  C7. Editing a job stamps its cluster ad with the editor's identity. The proc need not exist: setting
  an attribute of a proc that is not in the queue needs no ownership, and after the commit the
  committed cluster ad, whoever owned it, belongs to the editor.
\<close>

theorem edit_takes_over_cluster:
  assumes "job_store E li ls lb own keys hlist" and "0 < q_nextID q"
    and "SetAttribute E q c p name value (BeginTxn E q u) = (None, t)"
    and "to_lower name \<notin> az_secure (q_authz q)" and "int64_pair c p"
    and "CommitTxn E now q t = (None, q', t')"
  shows "\<exists>ad. Get E q' c (-1) = Some ad \<and> eval_str E ad ''User'' = Some (qualify q u)"
proof -
  have "u \<noteq> [] \<and> \<not> isUnmapped E u"
    using assms(3) by (auto simp: SetAttribute_def authorize_def anonymous_def BeginTxn_def Let_def split: if_splits)
  moreover have "t_destroyed (BeginTxn E q u) = []" by (simp add: BeginTxn_def Let_def)
  ultimately show ?thesis
    using job_store.edit_takes_cluster [OF assms(1) session.opened [OF assms(2)] assms(3-5) _ assms(6)]
    by (simp add: BeginTxn_def Let_def)
qed

definition ref_edit :: "string \<Rightarrow> int \<Rightarrow> (ref_ad, ref_store, ref_ad list) queue \<Rightarrow> ref_ad txn" where
  "ref_edit u p q = snd (SetAttribute refE q 1 p ''Prio'' ''9'' (BeginTxn refE q u))"

definition ref_edited :: "string \<Rightarrow> int \<Rightarrow> (ref_ad, ref_store, ref_ad list) queue \<Rightarrow>
    (ref_ad, ref_store, ref_ad list) queue" where
  "ref_edited u p q = fst (snd (CommitTxn refE 200 q (ref_edit u p q)))"

theorem edit_takes_over_cluster_witness:
  "committedOwner refE ref_q1 1 (-1) = Some ''alice@pool'' \<and> Get refE ref_q1 1 7 = None \<and>
   (\<exists>ad. Get refE (ref_edited ''bob@pool'' 7 ref_q1) 1 (-1) = Some ad \<and> eval_str refE ad ''User'' = Some ''bob@pool'')"
proof -
  have h: "0 < q_nextID ref_q1" "fst (SetAttribute refE ref_q1 1 7 ''Prio'' ''9'' (BeginTxn refE ref_q1 ''bob@pool'')) = None"
    "to_lower ''Prio'' \<notin> az_secure (q_authz ref_q1)" "int64_pair 1 7"
    "fst (CommitTxn refE 200 ref_q1 (ref_edit ''bob@pool'' 7 ref_q1)) = None"
    "committedOwner refE ref_q1 1 (-1) = Some ''alice@pool''" "Get refE ref_q1 1 7 = None"
    "qualify ref_q1 ''bob@pool'' = ''bob@pool''"
    by code_simp+
  have "SetAttribute refE ref_q1 1 7 ''Prio'' ''9'' (BeginTxn refE ref_q1 ''bob@pool'') = (None, ref_edit ''bob@pool'' 7 ref_q1)"
    by (simp add: prod_eq_iff h(2) ref_edit_def)
  moreover obtain t' where "CommitTxn refE 200 ref_q1 (ref_edit ''bob@pool'' 7 ref_q1) = (None, ref_edited ''bob@pool'' 7 ref_q1, t')"
    using h(5) by (metis prod.collapse ref_edited_def)
  ultimately show ?thesis
    using edit_takes_over_cluster [OF ref.job_store_axioms h(1) _ h(3,4)] h(6-8) by metis
qed

text \<open>
  C8. Editing an attribute other than \<open>JobStatus\<close> of a committed job resets its status: the commit takes
  the edit, on its own, for a new job and makes it idle, whether the job was held, running or
  completed.
\<close>

theorem edit_resets_status:
  assumes "job_store E li ls lb own keys hlist" and "0 < q_nextID q"
    and "SetAttribute E q c p name value (BeginTxn E q u) = (None, t)"
    and "to_lower name \<notin> az_secure (q_authz q)" and "to_lower name \<noteq> ''jobstatus''"
    and "int64_pair c p" and "0 \<le> p" and "CommitTxn E now q t = (None, q', t')"
  shows "JobStatus E q' c p = StatusIdle"
  by (rule job_store.edit_sets_idle [OF assms(1) session.opened [OF assms(2)] _ assms(3-7) _ assms(8)])
     (simp_all add: BeginTxn_def Let_def)

definition ref_held :: "(ref_ad, ref_store, ref_ad list) queue" where
  "ref_held = snd (Modify refE ref_q1 1 0 (set_int refE ''JobStatus'' StatusHeld))"

theorem edit_resets_status_witness:
  "JobStatus refE ref_held 1 0 = StatusHeld \<and> JobStatus refE (ref_edited ''alice@pool'' 0 ref_held) 1 0 = StatusIdle"
proof -
  have h: "0 < q_nextID ref_held" "fst (SetAttribute refE ref_held 1 0 ''Prio'' ''9'' (BeginTxn refE ref_held ''alice@pool'')) = None"
    "to_lower ''Prio'' \<notin> az_secure (q_authz ref_held)" "to_lower ''Prio'' \<noteq> ''jobstatus''" "int64_pair 1 0"
    "fst (CommitTxn refE 200 ref_held (ref_edit ''alice@pool'' 0 ref_held)) = None"
    "JobStatus refE ref_held 1 0 = StatusHeld"
    by code_simp+
  have "SetAttribute refE ref_held 1 0 ''Prio'' ''9'' (BeginTxn refE ref_held ''alice@pool'') = (None, ref_edit ''alice@pool'' 0 ref_held)"
    by (simp add: prod_eq_iff h(2) ref_edit_def)
  moreover obtain t' where "CommitTxn refE 200 ref_held (ref_edit ''alice@pool'' 0 ref_held) = (None, ref_edited ''alice@pool'' 0 ref_held, t')"
    using h(6) by (metis prod.collapse ref_edited_def)
  ultimately show ?thesis
    using edit_resets_status [OF ref.job_store_axioms h(1) _ h(3-5)] h(7) by (metis order_refl)
qed

text \<open>
  Deleting an attribute of a committed job has no effect: the deletion is recorded in the
  transaction, hides the attribute from its reads, and is dropped by the commit.
\<close>

theorem delete_attribute_lost:
  "fst (snd (CommitTxn E now q (snd (DeleteAttribute E q c p name (BeginTxn E q u))))) = q"
proof -
  have "empty_txn (snd (DeleteAttribute E q c p name (BeginTxn E q u)))"
    by (auto simp: DeleteAttribute_def BeginTxn_def empty_txn_def Let_def split: sum.splits bool.splits)
  then show ?thesis by (rule commit_empty)
qed

section \<open>Cluster ids that are not handed out yet\<close>

context job_store
begin

lemma alloc_keeps_user:
  assumes "allocClusterID E q = (r, q')" and "Get E q c p = Some ad" and "eval_str E ad ''User'' = Some u"
    and "int64_pair c p"
  shows "\<exists>ad'. Get E q' c p = Some ad' \<and> eval_str E ad' ''User'' = Some u"
proof (cases "coll_put E (q_coll q) counterKey (set_int E ''NextClusterId'' (q_nextID q + 1) (new_ad E))")
  case None
  then have "q_coll q' = q_coll q" using assms(1) by (auto simp: allocClusterID_def Let_def)
  then show ?thesis using assms(2,3) by (simp add: Get_def)
next
  case (Some s)
  then have q: "q_coll q' = s" using assms(1) by (auto simp: allocClusterID_def Let_def)
  have k: "jobKey c p \<noteq> counterKey" "parentKeyFor (jobKey c p) \<noteq> Some counterKey"
    using assms(4) by (auto simp: parentKeyFor_jobKey clusterKeyStr_jobKey split: if_splits)
  obtain ad' where ad': "coll_get E s (jobKey c p) = Some ad'"
    using get_other_after_put(1) [OF Some k] assms(2) by (auto simp: Get_def)
  have "lookup_attr E ad' n = lookup_attr E ad n" for n
    using get_other_after_put(2) [OF Some k _ ad'] assms(2) by (simp add: Get_def)
  then show ?thesis using assms(3) ad' q eval_str_ext [of ad' ad] by (simp add: Get_def)
qed

end

lemma alloc_authz: "allocClusterID E q = (r, q') \<Longrightarrow> q_authz q' = q_authz q"
  by (auto simp: allocClusterID_def Let_def split: option.splits)

lemma same_config_user: "same_config q' q \<Longrightarrow> SameUser E q' = SameUser E q"
  by (auto simp: same_config_def SameUser_def canonicalUser_def fun_eq_iff qualify_def)

lemma foreign_cluster_refused:
  assumes "Get E q c (-1) = Some ad" and "eval_str E ad ''User'' = Some owner" and "owner \<noteq> []"
    and "\<not> t_isSuper t" and "\<not> az_allUsersTrusted (q_authz q)" and "\<not> SameUser E q (t_authUser t) owner"
    and "to_lower n \<notin> az_secure (q_authz q)"
  shows "\<exists>e. SetAttribute E q c (-1) n x t = (Some e, t)"
proof -
  have "committedOwner E q c (-1) = Some owner"
    using assms(1-3) by (simp add: committedOwner_def JobUser_def Get_def str_attr0_def)
  then show ?thesis
    using assms(3-7) by (auto simp: SetAttribute_def authorize_def checkOwner_def Let_def)
qed

text \<open>
  C40. A user can block a submission of somebody else that has not begun. Setting an attribute in a
  cluster that does not exist yet is accepted, and once it is committed the user who is handed that
  cluster id by NewCluster cannot set any attribute of the cluster ad.
\<close>

theorem next_cluster_blocked:
  assumes "job_store E li ls lb own keys hlist" and "0 < q_nextID q"
    and "SetAttribute E q c p name value (BeginTxn E q u) = (None, t)"
    and "to_lower name \<notin> az_secure (q_authz q)" and "int64_pair c p"
    and "CommitTxn E now q t = (None, q1, t1)"
    and "NewCluster E q1 (BeginTxn E q1 v) = (Inr c, q2, t2)"
    and "\<not> IsSuperUser E q1 v" and "\<not> az_allUsersTrusted (q_authz q1)" and "\<not> SameUser E q1 v (qualify q u)"
    and "to_lower n \<notin> az_secure (q_authz q1)"
  shows "\<exists>e. SetAttribute E q2 c (-1) n x t2 = (Some e, t2)"
proof -
  have u: "u \<noteq> []" "\<not> isUnmapped E u"
    using assms(3) by (auto simp: SetAttribute_def authorize_def anonymous_def BeginTxn_def Let_def split: if_splits)
  have d: "t_destroyed (BeginTxn E q u) = []" "t_user (BeginTxn E q u) = qualify q u"
    using u by (simp_all add: BeginTxn_def Let_def)
  obtain ad where ad: "Get E q1 c (-1) = Some ad" "eval_str E ad ''User'' = Some (qualify q u)"
    using job_store.edit_takes_cluster [OF assms(1) session.opened [OF assms(2)] assms(3-5) _ assms(6)] d by auto
  have v: "\<not> isUnmapped E v" "t_authUser t2 = v" "t_isSuper t2 = IsSuperUser E q1 v"
    and a: "allocClusterID E q1 = (Some c, q2)"
    using assms(7) by (auto simp: NewCluster_def anonymous_def BeginTxn_def stagedAd_def Let_def
        split: if_splits option.splits prod.splits)
  obtain ad2 where ad2: "Get E q2 c (-1) = Some ad2" "eval_str E ad2 ''User'' = Some (qualify q u)"
    using job_store.alloc_keeps_user [OF assms(1) a ad] assms(5) by (auto simp: int64_pair_def int64_range_def)
  show ?thesis
  proof (rule foreign_cluster_refused [OF ad2])
    show "qualify q u \<noteq> []" using u by (simp add: qualify_def)
  qed (use v assms(8-11) alloc_authz [OF a] same_config_user [of q2 q1 E] alloc_keeps [OF a] in simp_all)
qed

definition ref_blocked :: "(ref_ad, ref_store, ref_ad list) queue" where
  "ref_blocked = fst (snd (CommitTxn refE 200 ref_q1
     (snd (SetAttribute refE ref_q1 2 (-1) ''Prio'' ''9'' (BeginTxn refE ref_q1 ''bob@pool'')))))"

theorem next_cluster_blocked_witness:
  "\<exists>e. SetAttribute refE (fst (snd (NewCluster refE ref_blocked (BeginTxn refE ref_blocked ''alice@pool''))))
         2 (-1) ''Cmd'' ''1'' (snd (snd (NewCluster refE ref_blocked (BeginTxn refE ref_blocked ''alice@pool'')))) =
       (Some e, snd (snd (NewCluster refE ref_blocked (BeginTxn refE ref_blocked ''alice@pool''))))"
proof -
  define t where "t = snd (SetAttribute refE ref_q1 2 (-1) ''Prio'' ''9'' (BeginTxn refE ref_q1 ''bob@pool''))"
  have h: "0 < q_nextID ref_q1" "fst (SetAttribute refE ref_q1 2 (-1) ''Prio'' ''9'' (BeginTxn refE ref_q1 ''bob@pool'')) = None"
    "to_lower ''Prio'' \<notin> az_secure (q_authz ref_q1)" "int64_pair 2 (-1)"
    "fst (CommitTxn refE 200 ref_q1 (snd (SetAttribute refE ref_q1 2 (-1) ''Prio'' ''9'' (BeginTxn refE ref_q1 ''bob@pool'')))) = None"
    "fst (NewCluster refE ref_blocked (BeginTxn refE ref_blocked ''alice@pool'')) = Inr 2"
    "\<not> IsSuperUser refE ref_blocked ''alice@pool''" "\<not> az_allUsersTrusted (q_authz ref_blocked)"
    "\<not> SameUser refE ref_blocked ''alice@pool'' (qualify ref_q1 ''bob@pool'')"
    "to_lower ''Cmd'' \<notin> az_secure (q_authz ref_blocked)"
    by code_simp+
  have s: "SetAttribute refE ref_q1 2 (-1) ''Prio'' ''9'' (BeginTxn refE ref_q1 ''bob@pool'') = (None, t)"
    by (simp add: prod_eq_iff h(2) t_def)
  have c: "CommitTxn refE 200 ref_q1 t = (None, ref_blocked, snd (snd (CommitTxn refE 200 ref_q1 t)))"
    using h(5) by (simp add: prod_eq_iff t_def ref_blocked_def)
  have n: "NewCluster refE ref_blocked (BeginTxn refE ref_blocked ''alice@pool'') =
      (Inr 2, fst (snd (NewCluster refE ref_blocked (BeginTxn refE ref_blocked ''alice@pool''))),
       snd (snd (NewCluster refE ref_blocked (BeginTxn refE ref_blocked ''alice@pool''))))"
    using h(6) by (simp add: prod_eq_iff)
  show ?thesis by (rule next_cluster_blocked [OF ref.job_store_axioms h(1) s h(3,4) c n h(7-10)])
qed

end
