(* ===== verification/Actions.thy ===== *)
theory Actions
  imports Txn
begin

text \<open>
  Job actions: the status machine of \<open>internal/queue/actions.go\<close>
  (condor_hold, condor_release, condor_rm) and the two-phase ACT_ON_JOBS handler of
  \<open>internal/actions/actions.go\<close>. The hook a running job is vacated through is a
  parameter that may change the queue: while it blocks, the scheduler core runs.
\<close>

section \<open>Action requests and result codes\<close>

datatype ActionKind = ActHold | ActRelease | ActRemove | ActRemoveX

abbreviation (input) ArError :: int where "ArError \<equiv> 0"
abbreviation (input) ArSuccess :: int where "ArSuccess \<equiv> 1"
abbreviation (input) ArNotFound :: int where "ArNotFound \<equiv> 2"
abbreviation (input) ArBadStatus :: int where "ArBadStatus \<equiv> 3"
abbreviation (input) ArAlreadyDone :: int where "ArAlreadyDone \<equiv> 4"
abbreviation (input) ArPermissionDenied :: int where "ArPermissionDenied \<equiv> 5"
abbreviation (input) ArLimitExceeded :: int where "ArLimitExceeded \<equiv> 6"

record ActionRequest =
  r_Kind :: ActionKind
  r_Actor :: string
  r_Reason :: string
  r_HoldReasonCode :: int
  r_HoldReasonSub :: int
  r_System :: bool

type_synonym ('ad, 's, 'h) vacate_hook = "(int \<Rightarrow> int \<Rightarrow> ('ad, 's, 'h) queue \<Rightarrow> ('ad, 's, 'h) queue) option"

section \<open>Acting on one job\<close>

definition stripRunAttrs :: "('ad, 'ex, 'z) classad_ops_scheme \<Rightarrow> 'ad \<Rightarrow> 'ad" where
  "stripRunAttrs A ad =
     (let ad = delete_attr A ''ClaimId'' ad;
          ad = delete_attr A ''StartdIpAddr'' ad
      in delete_attr A ''LastJobLeaseRenewal'' ad)"

definition run_vacate :: "('ad, 's, 'h) vacate_hook \<Rightarrow> int \<Rightarrow> int \<Rightarrow> int \<Rightarrow> ('ad, 's, 'h) queue \<Rightarrow> ('ad, 's, 'h) queue" where
  "run_vacate vac status c p q =
     (case vac of
        Some hook \<Rightarrow> if status = StatusRunning then hook c p q else q
      | None \<Rightarrow> q)"

abbreviation hold_reason :: "('ad, 'ex, 's, 'h, 'z) ext_scheme \<Rightarrow> ActionRequest \<Rightarrow> string" where
  "hold_reason E req \<equiv>
     (if r_Reason req = [] then ''via condor_hold (by user '' @ shortName E (r_Actor req) @ '')''
      else r_Reason req)"

abbreviation hold_code :: "ActionRequest \<Rightarrow> int" where
  "hold_code req \<equiv> (if r_HoldReasonCode req = 0 then 1 else r_HoldReasonCode req)"

text \<open>The edits \<open>actOnJob\<close> makes to the ad, one definition per action.\<close>

definition hold_ad :: "('ad, 'ex, 's, 'h, 'z) ext_scheme \<Rightarrow> int \<Rightarrow> ActionRequest \<Rightarrow> int \<Rightarrow> 'ad \<Rightarrow> 'ad" where
  "hold_ad E now req status ad =
     (let ad = set_int E ''LastJobStatus'' status ad;
          ad = set_int E ''JobStatus'' StatusHeld ad;
          ad = set_int E ''EnteredCurrentStatus'' now ad;
          ad = (if status = StatusRunning then
                  let host = str_attr0 E ad ''RemoteHost'';
                      ad = (if host \<noteq> [] then set_str E ''LastRemoteHost'' host ad else ad);
                      ad = delete_attr E ''RemoteHost'' ad
                  in stripRunAttrs E ad
                else ad);
          ad = set_str E ''HoldReason'' (hold_reason E req) ad;
          ad = set_int E ''HoldReasonCode'' (hold_code req) ad;
          ad = set_int E ''HoldReasonSubCode'' (r_HoldReasonSub req) ad;
          numHolds = int_attr0 E ad ''NumHolds''
      in set_int E ''NumHolds'' (wrap64 (numHolds + 1)) ad)"

definition release_ad :: "('ad, 'ex, 's, 'h, 'z) ext_scheme \<Rightarrow> int \<Rightarrow> ActionRequest \<Rightarrow> 'ad \<Rightarrow> 'ad" where
  "release_ad E now req ad =
     (let release = (case eval_int E ad ''JobStatusOnRelease'' of
                       Some v \<Rightarrow> if v > 0 then v else StatusIdle
                     | None \<Rightarrow> StatusIdle);
          ad = set_int E ''JobStatus'' release ad;
          ad = set_int E ''EnteredCurrentStatus'' now ad;
          ad = delete_attr E ''HoldReason'' ad;
          ad = delete_attr E ''HoldReasonCode'' ad;
          ad = delete_attr E ''HoldReasonSubCode'' ad;
          ad = delete_attr E ''NumShadowExceptions'' ad;
          ad = delete_attr E ''VacateReason'' ad;
          ad = delete_attr E ''VacateReasonCode'' ad;
          ad = delete_attr E ''VacateReasonSubCode'' ad
      in if r_Reason req \<noteq> [] then set_str E ''ReleaseReason'' (r_Reason req) ad else ad)"

definition remove_ad :: "('ad, 'ex, 's, 'h, 'z) ext_scheme \<Rightarrow> int \<Rightarrow> ActionRequest \<Rightarrow> int \<Rightarrow> 'ad \<Rightarrow> 'ad" where
  "remove_ad E now req status ad =
     (let ad = (if status = StatusRunning then stripRunAttrs E ad else ad);
          ad = set_int E ''LastJobStatus'' status ad;
          ad = set_int E ''JobStatus'' StatusRemoved ad;
          ad = set_int E ''EnteredCurrentStatus'' now ad
      in if r_Reason req \<noteq> [] then set_str E ''RemoveReason'' (r_Reason req) ad else ad)"

abbreviation remove_reason :: "('ad, 'ex, 's, 'h, 'z) ext_scheme \<Rightarrow> ActionRequest \<Rightarrow> string" where
  "remove_reason E req \<equiv>
     (if r_Reason req = [] then ''via condor_rm (by user '' @ shortName E (r_Actor req) @ '')''
      else r_Reason req)"

text \<open>The permission check: a user tool must name a super user or the job's whole identity.\<close>

definition action_denied :: "('ad, 'ex, 's, 'h, 'z) ext_scheme \<Rightarrow> ('ad, 's, 'h) queue \<Rightarrow> ActionRequest \<Rightarrow> 'ad \<Rightarrow> bool" where
  "action_denied E q req ad =
     (\<not> r_System req \<and>
      (r_Actor req = [] \<or>
       (\<not> IsSuperUser E q (r_Actor req) \<and> \<not> SameUser E q (r_Actor req) (JobUser E q ad))))"

text \<open>Write the edited ad back and log, or report the write error.\<close>

definition put_and_log :: "('ad, 'ex, 's, 'h, 'z) ext_scheme \<Rightarrow> ('ad, 's, 'h) queue \<Rightarrow> int \<Rightarrow> int \<Rightarrow> 'ad \<Rightarrow>
    'ad ulog_call \<Rightarrow> int \<times> ('ad, 's, 'h) queue" where
  "put_and_log E q c p ad ev =
     (case coll_put E (q_coll q) (jobKey c p) ad of
        None \<Rightarrow> (ArError, q)
      | Some s \<Rightarrow> (ArSuccess, emit_ulog ev (q\<lparr> q_coll := s \<rparr>)))"

definition actOnJob :: "('ad, 'ex, 's, 'h, 'z) ext_scheme \<Rightarrow> ('ad, 's, 'h) vacate_hook \<Rightarrow> int \<Rightarrow>
    ('ad, 's, 'h) queue \<Rightarrow> int \<Rightarrow> int \<Rightarrow> ActionRequest \<Rightarrow> bool \<Rightarrow> int \<times> ('ad, 's, 'h) queue" where
  "actOnJob E vac now q c p req apply =
     (case Get E q c p of
        None \<Rightarrow> (ArNotFound, q)
      | Some ad \<Rightarrow>
          if action_denied E q req ad then (ArPermissionDenied, q)
          else
            let status = int_attr0 E ad ''JobStatus'' in
            case r_Kind req of
              ActHold \<Rightarrow>
                if status = StatusHeld \<and> int_attr0 E ad ''HoldReasonCode'' \<in> {1, 16} then (ArAlreadyDone, q)
                else if status = StatusRemoved \<or> status = StatusCompleted then (ArPermissionDenied, q)
                else if \<not> apply then (ArSuccess, q)
                else let q = run_vacate vac status c p q;
                         ad = hold_ad E now req status ad
                     in put_and_log E q c p ad
                          (ULHeld ad (hold_reason E req) (hold_code req) (r_HoldReasonSub req))
            | ActRelease \<Rightarrow>
                if status \<noteq> StatusHeld then (ArBadStatus, q)
                else if int_attr0 E ad ''HoldReasonCode'' = 16 then (ArBadStatus, q)
                else if \<not> apply then (ArSuccess, q)
                else let ad = release_ad E now req ad
                     in put_and_log E q c p ad (ULReleased ad (r_Reason req))
            | _ \<Rightarrow>
                if status = StatusRemoved then (ArAlreadyDone, q)
                else if \<not> apply then (ArSuccess, q)
                else let q = run_vacate vac status c p q;
                         ad = remove_ad E now req status ad;
                         q = emit_ulog (ULAborted ad (remove_reason E req)) q
                     in (ArSuccess, archiveAndDelete E q c p ad))"

definition CheckAction :: "('ad, 'ex, 's, 'h, 'z) ext_scheme \<Rightarrow> ('ad, 's, 'h) vacate_hook \<Rightarrow> int \<Rightarrow>
    ('ad, 's, 'h) queue \<Rightarrow> int \<Rightarrow> int \<Rightarrow> ActionRequest \<Rightarrow> int" where
  "CheckAction E vac now q c p req = fst (actOnJob E vac now q c p req False)"

definition ApplyAction :: "('ad, 'ex, 's, 'h, 'z) ext_scheme \<Rightarrow> ('ad, 's, 'h) vacate_hook \<Rightarrow> int \<Rightarrow>
    ('ad, 's, 'h) queue \<Rightarrow> int \<Rightarrow> int \<Rightarrow> ActionRequest \<Rightarrow> int \<times> ('ad, 's, 'h) queue" where
  "ApplyAction E vac now q c p req = actOnJob E vac now q c p req True"

section \<open>The ACT_ON_JOBS command\<close>

abbreviation (input) jaHoldJobs :: int where "jaHoldJobs \<equiv> 1"
abbreviation (input) jaReleaseJobs :: int where "jaReleaseJobs \<equiv> 2"
abbreviation (input) jaRemoveJobs :: int where "jaRemoveJobs \<equiv> 3"
abbreviation (input) jaRemoveXJobs :: int where "jaRemoveXJobs \<equiv> 4"
abbreviation (input) jaVacateJobs :: int where "jaVacateJobs \<equiv> 5"
abbreviation (input) jaVacateFastJobs :: int where "jaVacateFastJobs \<equiv> 6"
abbreviation (input) jaClearDirty :: int where "jaClearDirty \<equiv> 7"
abbreviation (input) jaSuspendJobs :: int where "jaSuspendJobs \<equiv> 8"
abbreviation (input) jaContinueJobs :: int where "jaContinueJobs \<equiv> 9"

abbreviation (input) wireOK :: int where "wireOK \<equiv> 1"

definition matchConstraint :: "('ad, 'ex, 's, 'h, 'z) ext_scheme \<Rightarrow> ('ad, 's, 'h) queue \<Rightarrow> string \<Rightarrow> (int \<times> int) list" where
  "matchConstraint E q constraint =
     (let constraint = trim_space constraint in
      if constraint = [] \<or> constraint = ''true'' \<or> constraint = ''TRUE''
      then List.map_filter (jobIDs E) (Scan E q)
      else if \<not> vm_parse E constraint then []
      else List.map_filter (jobIDs E) (Query E q constraint))"

abbreviation id_sep :: "char \<Rightarrow> bool" where
  "id_sep r \<equiv> (r = CHR '','' \<or> r = CHR '' '' \<or> r = CHR 0x09)"

definition parse_id :: "('ad, 'ex, 's, 'h, 'z) ext_scheme \<Rightarrow> ('ad, 's, 'h) queue \<Rightarrow> string \<Rightarrow> (int \<times> int) list" where
  "parse_id E q tok =
     (if tok = [] then []
      else case index_byte tok CHR ''.'' of
             Some dot \<Rightarrow>
               (case (atoi (take dot tok), atoi (drop (dot + 1) tok)) of
                  (Some c, Some p) \<Rightarrow> [(c, p)]
                | _ \<Rightarrow> [])
           | None \<Rightarrow>
               (case atoi tok of
                  None \<Rightarrow> []
                | Some cid \<Rightarrow> filter (\<lambda>(c, p). c = cid) (List.map_filter (jobIDs E) (Scan E q))))"

definition parseIDs :: "('ad, 'ex, 's, 'h, 'z) ext_scheme \<Rightarrow> ('ad, 's, 'h) queue \<Rightarrow> string \<Rightarrow> (int \<times> int) list" where
  "parseIDs E q ids = concat (map (parse_id E q) (fields_func id_sep ids))"

datatype act_err = MissingJobAction | InvalidJobAction int | BothTargets | NoTargets | SendFailed

text \<open>The action, and the attribute its reason is read from; \<open>None\<close> for the non-mutating ones.\<close>

definition act_request :: "('ad, 'ex, 's, 'h, 'z) ext_scheme \<Rightarrow> string \<Rightarrow> 'ad \<Rightarrow> int \<Rightarrow>
    act_err + ActionRequest option" where
  "act_request E authUser cmdAd actionNum =
     (let reason = (\<lambda>attr. if str_attr0 E cmdAd attr \<noteq> []
                           then str_attr0 E cmdAd attr @ '' (by user '' @ authUser @ '')'' else []);
          req = (\<lambda>kind attr sub. \<lparr> r_Kind = kind, r_Actor = authUser, r_Reason = reason attr,
                   r_HoldReasonCode = 0, r_HoldReasonSub = sub, r_System = False \<rparr>)
      in if actionNum = jaHoldJobs
         then Inr (Some (req ActHold ''HoldReason'' (int_attr0 E cmdAd ''HoldReasonSubCode'')))
         else if actionNum = jaReleaseJobs then Inr (Some (req ActRelease ''ReleaseReason'' 0))
         else if actionNum = jaRemoveJobs then Inr (Some (req ActRemove ''RemoveReason'' 0))
         else if actionNum = jaRemoveXJobs then Inr (Some (req ActRemoveX ''RemoveReason'' 0))
         else if actionNum \<in> {jaVacateJobs, jaVacateFastJobs, jaSuspendJobs, jaContinueJobs, jaClearDirty}
              then Inr None
         else Inl (InvalidJobAction actionNum))"

definition act_targets :: "('ad, 'ex, 's, 'h, 'z) ext_scheme \<Rightarrow> ('ad, 's, 'h) queue \<Rightarrow> 'ad \<Rightarrow>
    act_err + (int \<times> int) list" where
  "act_targets E q cmdAd =
     (case (lookup_attr E cmdAd ''ActionConstraint'', eval_str E cmdAd ''ActionIds'') of
        (Some _, Some _) \<Rightarrow> Inl BothTargets
      | (Some expr, None) \<Rightarrow> Inr (matchConstraint E q (expr_string E expr))
      | (None, Some ids) \<Rightarrow> Inr (parseIDs E q ids)
      | (None, None) \<Rightarrow> Inl NoTargets)"

definition act_codes :: "('ad, 'ex, 's, 'h, 'z) ext_scheme \<Rightarrow> ('ad, 's, 'h) vacate_hook \<Rightarrow> int \<Rightarrow>
    ('ad, 's, 'h) queue \<Rightarrow> ActionRequest option \<Rightarrow> (int \<times> int) list \<Rightarrow> int list" where
  "act_codes E vac now q req targets =
     map (\<lambda>(c, p). case req of None \<Rightarrow> ArBadStatus | Some r \<Rightarrow> CheckAction E vac now q c p r) targets"

definition act_result_ad :: "('ad, 'ex, 's, 'h, 'z) ext_scheme \<Rightarrow> ('ad, 's, 'h) queue \<Rightarrow> string \<Rightarrow> int \<Rightarrow> int \<Rightarrow>
    (int \<times> int) list \<Rightarrow> int list \<Rightarrow> 'ad" where
  "act_result_ad E q authUser actionNum resultType targets codes =
     (let ad = set_int E ''ActionResultType'' resultType (new_ad E);
          ad = (if resultType = 1
                then fold (\<lambda>((c, p), code). set_int E (''job_'' @ itoa c @ ''_'' @ itoa p) code)
                       (zip targets codes) ad
                else fold (\<lambda>code. set_int E (''result_total_'' @ itoa code) (int (count_list codes code)))
                       [ArError..ArLimitExceeded] ad);
          ad = set_int E ''JobAction'' actionNum ad;
          ad = set_int E ''ActionResult'' (if ArSuccess \<in> set codes then 1 else 0) ad;
          ad = set_int E ''TotalJobAds'' (int (n_Total (Counts E q))) ad
      in set_bool E ''IsQueueSuperUser'' (IsSuperUser E q authUser) ad)"

definition apply_acked :: "('ad, 'ex, 's, 'h, 'z) ext_scheme \<Rightarrow> ('ad, 's, 'h) vacate_hook \<Rightarrow> int \<Rightarrow> ActionRequest \<Rightarrow>
    ((int \<times> int) \<times> int) list \<Rightarrow> ('ad, 's, 'h) queue \<Rightarrow> ('ad, 's, 'h) queue" where
  "apply_acked E vac now req todo q =
     fold (\<lambda>((c, p), code) q. if code = ArSuccess then snd (ApplyAction E vac now q c p req) else q) todo q"

datatype 'ad act_reply = ResultAd 'ad | FinalOK

text \<open>
  \<open>Handle\<close> for a decoded command ad. \<open>sendResult\<close> and \<open>sendFinal\<close> are whether the two
  replies could be written, \<open>ack\<close> the integer the tool answers (\<open>None\<close> when reading it
  fails), \<open>between\<close> what other connections do to the queue while the handler waits for it.
\<close>

definition HandleActOnJobs :: "('ad, 'ex, 's, 'h, 'z) ext_scheme \<Rightarrow> ('ad, 's, 'h) vacate_hook \<Rightarrow> int \<Rightarrow> string \<Rightarrow> 'ad \<Rightarrow>
    bool \<Rightarrow> int option \<Rightarrow> bool \<Rightarrow> (('ad, 's, 'h) queue \<Rightarrow> ('ad, 's, 'h) queue) \<Rightarrow> ('ad, 's, 'h) queue \<Rightarrow>
    act_err option \<times> 'ad act_reply list \<times> ('ad, 's, 'h) queue" where
  "HandleActOnJobs E vac now authUser cmdAd sendResult ack sendFinal between q =
     (case eval_int E cmdAd ''JobAction'' of
        None \<Rightarrow> (Some MissingJobAction, [], q)
      | Some actionNum \<Rightarrow>
          let resultType = (if eval_int E cmdAd ''ActionResultType'' = Some 1 then 1 else 0) in
          case act_request E authUser cmdAd actionNum of
            Inl err \<Rightarrow> (Some err, [], q)
          | Inr req \<Rightarrow>
              (case act_targets E q cmdAd of
                 Inl err \<Rightarrow> (Some err, [], q)
               | Inr targets \<Rightarrow>
                   let codes = act_codes E vac now q req targets;
                       resultAd = act_result_ad E q authUser actionNum resultType targets codes
                   in if \<not> sendResult then (Some SendFailed, [], q)
                      else if ArSuccess \<notin> set codes then (None, [ResultAd resultAd], q)
                      else let q = between q in
                           if ack \<noteq> Some wireOK then (None, [ResultAd resultAd], q)
                           else let q = (case req of
                                           Some r \<Rightarrow> apply_acked E vac now r (zip targets codes) q
                                         | None \<Rightarrow> q)
                                in if sendFinal then (None, [ResultAd resultAd, FinalOK], q)
                                   else (Some SendFailed, [ResultAd resultAd], q)))"

end
