(* ===== verification/ActionProps.thy ===== *)
theory ActionProps
  imports Actions TxnCommit
begin

text \<open>
  The job actions of \<open>internal/queue/actions.go\<close> and the ACT_ON_JOBS handler: the status each action needs and
  leaves, the two phases, the archive, and the protection of other users' jobs.
\<close>

section \<open>One action\<close>

lemma hook_free [simp]: "run_vacate None st c p q = q"
  by (simp add: run_vacate_def)

lemma emit_ulog_simps [simp]: "q_coll (emit_ulog ev q) = q_coll q" "q_hist (emit_ulog ev q) = q_hist q"
  "q_domain (emit_ulog ev q) = q_domain q" "q_supers (emit_ulog ev q) = q_supers q"
  "q_acctDomain (emit_ulog ev q) = q_acctDomain q"
  by (simp_all add: emit_ulog_def)

lemma archive_coll [simp]: "q_coll (archiveAndDelete E q c p ad) = coll_delete E (q_coll q) (jobKey c p)"
  by (simp add: archiveAndDelete_def Let_def)

lemma put_and_log_cases:
  "put_and_log E q c p ad ev = (code, q') \<Longrightarrow>
     (code = ArError \<and> q' = q) \<or>
     (code = ArSuccess \<and> coll_put E (q_coll q) (jobKey c p) ad = Some (q_coll q') \<and> same_config q' q)"
  by (auto simp: put_and_log_def same_config_def split: option.splits)

text \<open>What an action writes, after the vacate hook if it runs: at most the one job. The hook runs only with permission.\<close>

definition own_write :: "('ad, 'ex, 's, 'h, 'z) ext_scheme \<Rightarrow> string \<Rightarrow> 's \<Rightarrow> 's \<Rightarrow> bool" where
  "own_write E k s s' = (s' = s \<or> (\<exists>ad. coll_put E s k ad = Some s') \<or> s' = coll_delete E s k)"

lemma actOnJob_writes:
  assumes "actOnJob E vac now q c p req apply = (code, q')"
  shows "\<exists>q0. (q0 = q \<or> (\<exists>hook ad. vac = Some hook \<and> Get E q c p = Some ad \<and> \<not> action_denied E q req ad \<and> q0 = hook c p q)) \<and>
     same_config q' q0 \<and> own_write E (jobKey c p) (q_coll q0) (q_coll q')"
proof (cases "\<exists>ad. Get E q c p = Some ad \<and> \<not> action_denied E q req ad")
  case False
  then have "q' = q" using assms by (auto simp: actOnJob_def split: option.splits if_splits)
  then show ?thesis by (auto simp: own_write_def intro!: exI [of _ q])
next
  case True
  then obtain ad where ad: "Get E q c p = Some ad" "\<not> action_denied E q req ad" by blast
  define q1 where "q1 = run_vacate vac (int_attr0 E ad ''JobStatus'') c p q"
  have v: "q1 = q \<or> (\<exists>hook. vac = Some hook \<and> q1 = hook c p q)"
    by (simp add: q1_def run_vacate_def split: option.splits)
  have "\<exists>q0 \<in> {q, q1}. same_config q' q0 \<and> own_write E (jobKey c p) (q_coll q0) (q_coll q')"
    using assms ad
    by (cases "r_Kind req")
       (auto simp: actOnJob_def own_write_def Let_def same_config_def archiveAndDelete_def q1_def [symmetric] split: if_splits
          dest!: put_and_log_cases)
  then show ?thesis using v ad by auto
qed

lemma actOnJob_denied:
  assumes "Get E q c p = Some ad" and "action_denied E q req ad"
  shows "actOnJob E vac now q c p req apply = (ArPermissionDenied, q)"
  using assms by (simp add: actOnJob_def)

definition foreign :: "('ad, 'ex, 's, 'h, 'z) ext_scheme \<Rightarrow> ('ad, 's, 'h) queue \<Rightarrow> string \<Rightarrow> int \<Rightarrow> int \<Rightarrow> bool" where
  "foreign E q u c p = (case Get E q c p of None \<Rightarrow> True | Some ad \<Rightarrow> \<not> SameUser E q u (JobUser E q ad))"

text \<open>A job is spared when neither its own attributes nor its cluster's change.\<close>

definition spared :: "('s \<Rightarrow> string \<Rightarrow> 'm) \<Rightarrow> ('ad, 's, 'h) queue \<Rightarrow> ('ad, 's, 'h) queue \<Rightarrow> int \<Rightarrow> int \<Rightarrow> bool" where
  "spared own q q' c p = (same_config q' q \<and> own (q_coll q') (jobKey c p) = own (q_coll q) (jobKey c p) \<and>
     own (q_coll q') (jobKey c (-1)) = own (q_coll q) (jobKey c (-1)))"

text \<open>
  What vacating the run of a job of \<open>u\<close> may do: it leaves the job \<open>c.p\<close> of somebody else and its cluster alone. Nothing is said of vacating the
  run of a job that is not the caller's.
\<close>

definition hook_spares :: "('ad, 'ex, 's, 'h, 'z) ext_scheme \<Rightarrow> ('s \<Rightarrow> string \<Rightarrow> 'm) \<Rightarrow> ('ad, 's, 'h) vacate_hook \<Rightarrow> string \<Rightarrow>
    int \<Rightarrow> int \<Rightarrow> bool" where
  "hook_spares E own vac u c p =
     (\<forall>hook c' p' q. vac = Some hook \<longrightarrow> foreign E q u c p \<longrightarrow> foreign E q u c (-1) \<longrightarrow> \<not> foreign E q u c' p' \<longrightarrow>
        spared own q (hook c' p' q) c p)"

lemma JobStatus_Get: "Get E q c p = Some ad \<Longrightarrow> JobStatus E q c p = int_attr0 E ad ''JobStatus''"
  by (simp add: JobStatus_def)

context job_store
begin

lemma put_status:
  assumes "coll_put E (q_coll q) (jobKey c p) ad = Some s" and "lookup_attr E ad ''JobStatus'' = Some (li v)"
    and "q_coll q' = s"
  shows "JobStatus E q' c p = v"
proof -
  obtain ad' where "coll_get E s (jobKey c p) = Some ad'" "lookup_attr E ad' ''JobStatus'' = Some (li v)"
    using get_after_put [OF assms(1)] assms(2) by blast
  then show ?thesis using status_lit [of q' c p ad'] assms(3) by (simp add: Get_def)
qed

lemma hold_ad_status: "lookup_attr E (hold_ad E now req st ad) ''JobStatus'' = Some (li StatusHeld)"
  by (simp add: hold_ad_def stripRunAttrs_def Let_def lookup_simps go_simps)

lemma release_ad_status: "lookup_attr E (release_ad E now req ad) ''JobStatus'' =
    Some (li (case eval_int E ad ''JobStatusOnRelease'' of Some v \<Rightarrow> if v > 0 then v else StatusIdle | None \<Rightarrow> StatusIdle))"
  by (simp add: release_ad_def Let_def lookup_simps go_simps)

lemma hold_transition:
  assumes "ApplyAction E vac now q c p req = (ArSuccess, q')" and "r_Kind req = ActHold" and "Get E q c p = Some ad"
  shows "JobStatus E q' c p = StatusHeld \<and> JobStatus E q c p \<noteq> StatusRemoved \<and> JobStatus E q c p \<noteq> StatusCompleted"
  using assms put_status [OF _ hold_ad_status refl]
  by (auto simp: ApplyAction_def actOnJob_def Let_def JobStatus_Get split: if_splits dest!: put_and_log_cases)

lemma release_transition:
  assumes "ApplyAction E vac now q c p req = (ArSuccess, q')" and "r_Kind req = ActRelease" and "Get E q c p = Some ad"
  shows "JobStatus E q c p = StatusHeld \<and> JobStatus E q' c p =
    (case eval_int E ad ''JobStatusOnRelease'' of Some v \<Rightarrow> if v > 0 then v else StatusIdle | None \<Rightarrow> StatusIdle)"
  using assms put_status [OF _ release_ad_status refl]
  by (auto simp: ApplyAction_def actOnJob_def Let_def JobStatus_Get split: if_splits dest!: put_and_log_cases)

lemma remove_transition:
  assumes "ApplyAction E vac now q c p req = (ArSuccess, q')" and "r_Kind req \<in> {ActRemove, ActRemoveX}"
    and "Get E q c p = Some ad"
  shows "JobStatus E q c p \<noteq> StatusRemoved \<and> Get E q' c p = None"
proof -
  have "coll_get E (q_coll q') (jobKey c p) = None"
    using assms get_after_delete
    by (auto simp: ApplyAction_def actOnJob_def Let_def split: if_splits)
  then show ?thesis
    using assms by (auto simp: ApplyAction_def actOnJob_def Let_def JobStatus_Get Get_def split: if_splits)
qed

lemma own_write_other: "own_write E k s s' \<Longrightarrow> k' \<noteq> k \<Longrightarrow> own s' k' = own s k'"
  by (auto simp: own_write_def put_own delete_own)

lemma spared_get:
  assumes "spared own q q' c p" and "int64_pair c p"
  shows "(Get E q' c p = None) = (Get E q c p = None)"
    and "Get E q c p = Some a \<Longrightarrow> Get E q' c p = Some a' \<Longrightarrow> lookup_attr E a' n = lookup_attr E a n"
proof -
  have k: "own (q_coll q') (jobKey c p) = own (q_coll q) (jobKey c p)" using assms(1) by (simp add: spared_def)
  have par: "own (q_coll q') pk = own (q_coll q) pk" if "parentKeyFor (jobKey c p) = Some pk" for pk
    using that assms parentKeyFor_jobKey [OF assms(2)] by (auto simp: spared_def split: if_splits)
  show "(Get E q' c p = None) = (Get E q c p = None)" using same_own_same_get(1) [OF k par] by (simp add: Get_def)
  show "lookup_attr E a' n = lookup_attr E a n" if "Get E q c p = Some a" "Get E q' c p = Some a'"
    using same_own_same_get(2) [OF k par] that by (simp add: Get_def)
qed

lemma spared_foreign:
  assumes "spared own q q' c p" and "int64_pair c p" and "foreign E q u c p" 
  shows "foreign E q' u c p"
proof -
  have "JobUser E q' a' = JobUser E q a" if "Get E q c p = Some a" "Get E q' c p = Some a'" for a a'
  proof -
    have "eval_str E a' n = eval_str E a n" for n
      using eval_str_ext spared_get(2) [OF assms(1,2) that] by blast
    moreover have "qualify q' = qualify q" using assms(1) same_config_simps(1) by (auto simp: spared_def)
    ultimately show ?thesis by (simp add: JobUser_def str_attr0_def)
  qed
  moreover have "SameUser E q' = SameUser E q"
    using assms(1) by (simp add: spared_def same_config_def SameUser_def canonicalUser_def qualify_def fun_eq_iff)
  ultimately show ?thesis
    using assms(3) spared_get(1) [OF assms(1,2)] 
    by (auto simp: foreign_def split: option.splits)
qed

lemma apply_spares:
  assumes "\<not> r_System req" and "hook_spares E own vac (r_Actor req) c' p'" and "\<not> IsSuperUser E q (r_Actor req)"
    and "int64_pair c' p'" and "foreign E q (r_Actor req) c' p'" and "foreign E q (r_Actor req) c' (-1)"
  shows "spared own q (snd (ApplyAction E vac now q c p req)) c' p'"
proof -
  have own_job: "\<not> foreign E q (r_Actor req) c p" if "Get E q c p = Some ad" "\<not> action_denied E q req ad" for ad
    using that assms(1,3) by (auto simp: action_denied_def foreign_def)
  show ?thesis
  proof (cases "jobKey c p \<in> {jobKey c' p', jobKey c' (-1)}")
    case True
    then have "foreign E q (r_Actor req) c p" using assms(5,6) by (auto simp: jobKey_inj)
    then have "snd (ApplyAction E vac now q c p req) = q"
      using own_job by (auto simp: ApplyAction_def actOnJob_def split: option.splits)
    then show ?thesis by (simp add: spared_def)
  next
    case False
    obtain code q' where a: "actOnJob E vac now q c p req True = (code, q')" by fastforce
    from actOnJob_writes [OF a] obtain q0 where
      q0: "q0 = q \<or> (\<exists>hook ad. vac = Some hook \<and> Get E q c p = Some ad \<and> \<not> action_denied E q req ad \<and> q0 = hook c p q)"
      and w: "same_config q' q0" "own_write E (jobKey c p) (q_coll q0) (q_coll q')" by blast
    have "spared own q q0 c' p'" using q0 own_job assms(2,5,6) by (auto simp: hook_spares_def spared_def)
    moreover have "own (q_coll q') k = own (q_coll q0) k" if "k \<in> {jobKey c' p', jobKey c' (-1)}" for k
      using own_write_other [OF w(2)] that False by auto
    ultimately show ?thesis using w(1) a by (simp add: spared_def ApplyAction_def same_config_def)
  qed
qed

lemma apply_acked_spares:
  assumes "\<not> r_System req" and "hook_spares E own vac (r_Actor req) c' p'" and "\<not> IsSuperUser E q (r_Actor req)"
    and "int64_pair c' p'" and "foreign E q (r_Actor req) c' p'" and "foreign E q (r_Actor req) c' (-1)"
  shows "spared own q (apply_acked E vac now req todo q) c' p'"
  using assms(3-)
proof (induction todo arbitrary: q)
  case (Cons x todo)
  obtain c p code where x: "x = ((c, p), code)" by (metis prod.collapse)
  define q1 where "q1 = (if code = ArSuccess then snd (ApplyAction E vac now q c p req) else q)"
  have s1: "spared own q q1 c' p'" using apply_spares [OF assms(1,2) Cons.prems] by (auto simp: q1_def spared_def)
  then have s1': "spared own q q1 c' (-1)" by (simp add: spared_def)
  have "int64_pair c' (-1)" using assms(4) by (simp add: int64_pair_def int64_range_def)
  then have "spared own q1 (apply_acked E vac now req todo q1) c' p'"
    using Cons.IH [of q1] Cons.prems spared_foreign [OF s1] spared_foreign [OF s1'] same_config_simps(2) [of q1 q E] s1
    by (simp add: spared_def)
  then show ?case using s1 x by (simp add: apply_acked_def q1_def spared_def same_config_def)
qed (simp add: apply_acked_def spared_def)

end

section \<open>Properties\<close>

text \<open>
  C9. The status machine of the job actions: a successful hold finds a job that is neither
  removed nor completed and leaves it held, whatever happened to it while its run was vacated; a successful release
  finds it held and leaves it in its release status; a successful removal finds it not yet removed and takes it out
  of the queue.
\<close>

theorem action_transitions:
  assumes "job_store E li ls lb own keys hlist" and "Get E q c p = Some ad"
    and "ApplyAction E vac now q c p req = (ArSuccess, q')"
  shows "case r_Kind req of
       ActHold \<Rightarrow> JobStatus E q c p \<notin> {StatusRemoved, StatusCompleted} \<and> JobStatus E q' c p = StatusHeld
     | ActRelease \<Rightarrow> JobStatus E q c p = StatusHeld \<and> JobStatus E q' c p =
         (case eval_int E ad ''JobStatusOnRelease'' of Some v \<Rightarrow> if v > 0 then v else StatusIdle | None \<Rightarrow> StatusIdle)
     | _ \<Rightarrow> JobStatus E q c p \<noteq> StatusRemoved \<and> Get E q' c p = None"
  using job_store.hold_transition [OF assms(1,3) _ assms(2)] job_store.release_transition [OF assms(1,3) _ assms(2)]
    job_store.remove_transition [OF assms(1,3) _ assms(2)]
  by (cases "r_Kind req") simp_all

definition ref_req :: "ActionKind \<Rightarrow> string \<Rightarrow> ActionRequest" where
  "ref_req k u = \<lparr> r_Kind = k, r_Actor = u, r_Reason = [], r_HoldReasonCode = 0, r_HoldReasonSub = 0, r_System = False \<rparr>"

definition ref_act :: "ActionKind \<Rightarrow> (ref_ad, ref_store, ref_ad list) queue \<Rightarrow> int \<times> (ref_ad, ref_store, ref_ad list) queue" where
  "ref_act k q = ApplyAction refE None 300 q 1 0 (ref_req k ''alice@pool'')"

theorem action_transitions_witness:
  "JobStatus refE (snd (ref_act ActHold ref_q1)) 1 0 = StatusHeld \<and>
   JobStatus refE (snd (ref_act ActRelease (snd (ref_act ActHold ref_q1)))) 1 0 = StatusIdle"
proof -
  let ?h = "snd (ref_act ActHold ref_q1)"
  have h: "Get refE ref_q1 1 0 \<noteq> None" "fst (ref_act ActHold ref_q1) = ArSuccess"
    "Get refE ?h 1 0 \<noteq> None" "fst (ref_act ActRelease ?h) = ArSuccess"
    "map_option (\<lambda>ad. eval_int refE ad ''JobStatusOnRelease'') (Get refE ?h 1 0) = Some None"
    by code_simp+
  have eq: "ApplyAction refE None 300 q 1 0 (ref_req k ''alice@pool'') = (ArSuccess, snd (ref_act k q))"
    if "fst (ref_act k q) = ArSuccess" for k q
    using that by (simp add: ref_act_def prod_eq_iff)
  from h(1,3,5) obtain ad ad' where g: "Get refE ref_q1 1 0 = Some ad" "Get refE ?h 1 0 = Some ad'"
    "eval_int refE ad' ''JobStatusOnRelease'' = None" by auto
  show ?thesis
    using action_transitions [OF ref.job_store_axioms g(1) eq [OF h(2)]]
      action_transitions [OF ref.job_store_axioms g(2) eq [OF h(4)]] g(3)
    by (simp add: ref_req_def)
qed

text \<open>
  C10. The check phase of ACT_ON_JOBS predicts the apply phase: on an unchanged queue an action the check refuses is
  refused with the same code and no effect, and one the check accepts succeeds unless the store fails.
\<close>

theorem check_predicts_apply:
  "if CheckAction E vac now q c p req = ArSuccess
   then fst (ApplyAction E vac now q c p req) \<in> {ArSuccess, ArError}
   else ApplyAction E vac now q c p req = (CheckAction E vac now q c p req, q)"
proof (cases "Get E q c p")
  case None
  then show ?thesis by (simp add: CheckAction_def ApplyAction_def actOnJob_def)
next
  case (Some ad)
  then show ?thesis
    by (cases "r_Kind req")
       (auto simp: CheckAction_def ApplyAction_def actOnJob_def put_and_log_def Let_def split: option.splits)
qed

text \<open>
  C11. A successful removal of a job with no run to vacate archives the job exactly once, as the ad marked removed, and
  deletes it. When the archive cannot be
  appended to, the job is deleted all the same and its record is lost.
\<close>

theorem remove_archives:
  assumes "job_store E li ls lb own keys hlist" and "Get E q c p = Some ad"
    and "r_Kind req \<in> {ActRemove, ActRemoveX}" and "ApplyAction E None now q c p req = (ArSuccess, q')"
  shows "Get E q' c p = None \<and>
     (let ad' = remove_ad E now req (JobStatus E q c p) ad in
      hlist (q_hist q') = (if hist_append E (q_hist q) ad' = None then hlist (q_hist q) else hlist (q_hist q) @ [ad']) \<and>
      lookup_attr E ad' ''JobStatus'' = Some (li StatusRemoved))"
proof -
  have "lookup_attr E (remove_ad E now req st ad) ''JobStatus'' = Some (li StatusRemoved)" for st
    using job_store.axioms(1) [OF assms(1)]
    by (simp add: remove_ad_def stripRunAttrs_def Let_def classad.lookup_simps go_simps)
  moreover have "Get E q' c p = None" using job_store.remove_transition [OF assms(1,4,3,2)] by simp
  moreover have "q_hist q' = hist_flush E (histAppend E (q_hist q) (remove_ad E now req (JobStatus E q c p) ad))"
    using assms(2-) by (auto simp: ApplyAction_def actOnJob_def archiveAndDelete_def Let_def JobStatus_Get split: if_splits)
  ultimately show ?thesis
    using job_store.hist_append_list [OF assms(1)]
    by (auto simp: Let_def histAppend_def job_store.hist_flush_list [OF assms(1)] split: option.splits)
qed

theorem remove_archives_witness:
  "length (q_hist (snd (ref_act ActRemove ref_q1))) = 1 \<and> Get refE (snd (ref_act ActRemove ref_q1)) 1 0 = None"
proof -
  have h: "Get refE ref_q1 1 0 \<noteq> None" "fst (ref_act ActRemove ref_q1) = ArSuccess" "q_hist ref_q1 = []"
    "r_Kind (ref_req ActRemove ''alice@pool'') \<in> {ActRemove, ActRemoveX}"
    by code_simp+
  have "ApplyAction refE None 300 ref_q1 1 0 (ref_req ActRemove ''alice@pool'') = (ArSuccess, snd (ref_act ActRemove ref_q1))"
    using h(2) by (simp add: ref_act_def prod_eq_iff)
  moreover have "hist_append refE h ad \<noteq> None" for h ad by (simp add: refE_def)
  ultimately show ?thesis
    using h(1) remove_archives [OF ref.job_store_axioms _ h(4), of ref_q1 1 0] h(3) by (auto simp: Let_def)
qed

lemma act_on_jobs_queue:
  assumes "HandleActOnJobs E vac now u cmdAd sendResult ack sendFinal between q = (err, replies, q')"
  shows "q' = q \<or> q' = between q \<or>
    (\<exists>n r todo. act_request E u cmdAd n = Inr (Some r) \<and> q' = apply_acked E vac now r todo (between q))"
proof (cases "eval_int E cmdAd ''JobAction''")
  case None
  then show ?thesis using assms by (simp add: HandleActOnJobs_def)
next
  case (Some n)
  note n = Some
  show ?thesis
  proof (cases "act_request E u cmdAd n")
    case (Inl e)
    then show ?thesis using assms n by (simp add: HandleActOnJobs_def)
  next
    case (Inr req)
    note r = Inr
    show ?thesis
    proof (cases "act_targets E q cmdAd")
      case (Inl e)
      then show ?thesis using assms n r by (simp add: HandleActOnJobs_def)
    next
      case (Inr targets)
      show ?thesis
      proof (cases req)
        case None
        then show ?thesis using assms n r Inr by (auto simp: HandleActOnJobs_def Let_def split: if_splits)
      next
        case (Some x)
        have "q' = q \<or> q' = between q \<or> q' = apply_acked E vac now x (zip targets (act_codes E vac now q (Some x) targets)) (between q)"
          using assms n r Inr Some by (auto simp: HandleActOnJobs_def Let_def split: if_splits)
        then show ?thesis using r Some by blast
      qed
    qed
  qed
qed

text \<open>
  C12. ACT_ON_JOBS never touches another user's job: whatever ids or constraint the command ad names, whatever
  the tool acknowledges and whatever others do to the queue while the handler waits for that, a job whose user is not the
  caller's, in a cluster whose user is not the caller's, reads afterwards as before the command or as the others left it, unless
  the caller is a super user. The vacate hook is arbitrary, but that vacating the run of a job of the caller leaves other users'
  jobs alone.
\<close>

theorem act_on_jobs_spares_foreign:
  assumes "job_store E li ls lb own keys hlist" and "int64_pair c p" and "hook_spares E own vac u c p"
    and "\<not> IsSuperUser E q u" and "foreign E q u c p" and "foreign E q u c (-1)"
    and "\<not> IsSuperUser E (between q) u" and "foreign E (between q) u c p" and "foreign E (between q) u c (-1)"
    and "HandleActOnJobs E vac now u cmdAd sendResult ack sendFinal between q = (err, replies, q')"
  shows "\<exists>q0. q0 \<in> {q, between q} \<and> (Get E q' c p = None \<longleftrightarrow> Get E q0 c p = None) \<and>
     (\<forall>a a' n. Get E q0 c p = Some a \<longrightarrow> Get E q' c p = Some a' \<longrightarrow> lookup_attr E a' n = lookup_attr E a n)"
proof -
  have req: "r_Actor r = u \<and> \<not> r_System r" if "act_request E u cmdAd n = Inr (Some r)" for n r
    using that by (auto simp: act_request_def Let_def split: if_splits)
  consider "q' = q" | "q' = between q"
    | n r todo where "act_request E u cmdAd n = Inr (Some r)" "q' = apply_acked E vac now r todo (between q)"
    using act_on_jobs_queue [OF assms(10)] by blast
  then obtain q0 where q0: "q0 \<in> {q, between q}" and sp: "spared own q0 q' c p"
  proof cases
    case 1
    then show ?thesis using that [of q] by (simp add: spared_def)
  next
    case 2
    then show ?thesis using that [of "between q"] by (simp add: spared_def)
  next
    case (3 n r todo)
    have r: "r_Actor r = u" "\<not> r_System r" using req [OF 3(1)] by simp_all
    have "spared own (between q) q' c p"
      unfolding 3(2) by (rule job_store.apply_acked_spares [OF assms(1) r(2) _ _ assms(2)]) (simp_all add: r(1) assms(3,7-9))
    then show ?thesis using that [of "between q"] by simp
  qed
  note g = job_store.spared_get [OF assms(1) sp assms(2)]
  show ?thesis by (intro exI [of _ q0] conjI allI impI q0 g(1)) (rule g(2))
qed

definition ref_cmd :: ref_ad where
  "ref_cmd = [(''jobaction'', RInt jaRemoveJobs), (''actionids'', RStr ''1.0'')]"

text \<open>A hook that writes the job whose run it vacates.\<close>

definition ref_hook :: "(ref_ad, ref_store, ref_ad list) vacate_hook" where
  "ref_hook = Some (\<lambda>c p q. snd (Modify refE q c p (delete_attr refE ''RemoteHost'')))"

lemma ref_hook_spares: "hook_spares refE ref_own ref_hook u c p"
proof -
  have "spared ref_own q (snd (Modify refE q c' p' f)) c p"
    if "foreign refE q u c p" "foreign refE q u c (-1)" "\<not> foreign refE q u c' p'" for q c' p' f
  proof -
    have k: "jobKey c' p' \<noteq> jobKey c p" "jobKey c' p' \<noteq> jobKey c (-1)" using that by (auto simp: jobKey_inj)
    have "own_write refE (jobKey c' p') (q_coll q) (q_coll (snd (Modify refE q c' p' f)))"
      by (auto simp: Modify_def own_write_def split: option.splits)
    from ref.own_write_other [OF this] k show ?thesis
      by (auto simp: spared_def Modify_def same_config_def split: option.splits)
  qed
  then show ?thesis by (simp add: hook_spares_def ref_hook_def)
qed

definition ref_rm :: "string \<Rightarrow> (ref_ad, ref_store, ref_ad list) queue \<Rightarrow> (ref_ad, ref_store, ref_ad list) queue" where
  "ref_rm u q = snd (snd (HandleActOnJobs refE ref_hook 300 u ref_cmd True (Some wireOK) True (\<lambda>q. q) q))"

theorem act_on_jobs_spares_foreign_witness:
  "Get refE (ref_rm ''alice@pool'' ref_q1) 1 0 = None \<and> Get refE (ref_rm ''bob@pool'' ref_q1) 1 0 \<noteq> None"
proof -
  have h: "int64_pair 1 0" "\<not> IsSuperUser refE ref_q1 ''bob@pool''" "foreign refE ref_q1 ''bob@pool'' 1 0"
    "foreign refE ref_q1 ''bob@pool'' 1 (-1)" "Get refE ref_q1 1 0 \<noteq> None" "Get refE (ref_rm ''alice@pool'' ref_q1) 1 0 = None"
    by code_simp+
  obtain err replies where "HandleActOnJobs refE ref_hook 300 ''bob@pool'' ref_cmd True (Some wireOK) True (\<lambda>q. q) ref_q1 =
      (err, replies, ref_rm ''bob@pool'' ref_q1)"
    by (metis prod.collapse ref_rm_def)
  from act_on_jobs_spares_foreign [OF ref.job_store_axioms h(1) ref_hook_spares h(2-4,2-4) this] h(5,6) show ?thesis by auto
qed

end
