(* ===== verification/Policy.thy ===== *)
theory Policy
  imports Queue
begin

text \<open>
  User job policy, \<open>internal/policy/policy.go\<close>: the decision \<open>Analyze\<close> takes from a job ad,
  the pool-wide SYSTEM_PERIODIC expressions and the job's status. The decision function has no
  effects.
\<close>

section \<open>Data\<close>

abbreviation (input) HoldCodeUserRequest :: int where "HoldCodeUserRequest \<equiv> 1"
abbreviation (input) HoldCodeJobPolicy :: int where "HoldCodeJobPolicy \<equiv> 3"
abbreviation (input) HoldCodeSystemPolicy :: int where "HoldCodeSystemPolicy \<equiv> 26"

datatype policy_action = Stay | CompleteJob | Requeue | Remove | Hold | Release

datatype policy_mode = PeriodicOnly | PeriodicThenExit

record system_config =
  sc_HoldExpr :: string
  sc_HoldReason :: string
  sc_HoldSubCode :: string
  sc_ReleaseExpr :: string
  sc_RemoveExpr :: string
  sc_RemoveReason :: string

record 'ex system_policy =
  s_holdExpr :: "'ex option"
  s_releaseExpr :: "'ex option"
  s_removeExpr :: "'ex option"
  s_holdReason :: "'ex option"
  s_removeReason :: "'ex option"
  s_holdSubCode :: "'ex option"

record decision =
  dc_Action :: policy_action
  dc_Reason :: string
  dc_HoldCode :: int
  dc_HoldSubCode :: int
  dc_Firing :: string

definition NewSystem :: "('ad, 'ex, 'z) classad_ops_scheme \<Rightarrow> system_config \<Rightarrow> 'ex system_policy option" where
  "NewSystem A cfg =
     (if sc_HoldExpr cfg = [] \<and> sc_ReleaseExpr cfg = [] \<and> sc_RemoveExpr cfg = [] then None
      else let parse = (\<lambda>s. if s = [] then None else parse_expr A s) in
           Some \<lparr> s_holdExpr = parse (sc_HoldExpr cfg),
                  s_releaseExpr = parse (sc_ReleaseExpr cfg),
                  s_removeExpr = parse (sc_RemoveExpr cfg),
                  s_holdReason = parse (sc_HoldReason cfg),
                  s_removeReason = parse (sc_RemoveReason cfg),
                  s_holdSubCode = parse (sc_HoldSubCode cfg) \<rparr>)"

definition EmptySystem :: "'ex system_policy option \<Rightarrow> bool" where
  "EmptySystem s =
     (case s of
        None \<Rightarrow> True
      | Some p \<Rightarrow> s_holdExpr p = None \<and> s_releaseExpr p = None \<and> s_removeExpr p = None)"

section \<open>Evaluation helpers\<close>

fun truthy :: "cvalue \<Rightarrow> bool" where
  "truthy (VBool b) = b"
| "truthy (VNum n) = (n \<noteq> Finite 0)"
| "truthy _ = False"

definition fires :: "('ad, 'ex, 'z) classad_ops_scheme \<Rightarrow> 'ad \<Rightarrow> string \<Rightarrow> bool" where
  "fires A ad name = (has_attr A ad name \<and> truthy (eval_attr A ad name))"

definition firesExpr :: "('ad, 'ex, 'z) classad_ops_scheme \<Rightarrow> 'ad \<Rightarrow> 'ex option \<Rightarrow> bool" where
  "firesExpr A ad expr = (case expr of None \<Rightarrow> False | Some e \<Rightarrow> truthy (eval_expr A e ad))"

definition onExitRemoveIsFalse :: "('ad, 'ex, 'z) classad_ops_scheme \<Rightarrow> 'ad \<Rightarrow> bool" where
  "onExitRemoveIsFalse A ad =
     (if \<not> has_attr A ad ''OnExitRemove'' then False
      else case eval_attr A ad ''OnExitRemove'' of
             VBool b \<Rightarrow> \<not> b
           | VNum n \<Rightarrow> n = Finite 0
           | _ \<Rightarrow> False)"

definition defaultReason :: "string \<Rightarrow> string \<Rightarrow> string" where
  "defaultReason src expr = ''The '' @ src @ '' '' @ expr @ '' expression evaluated to TRUE''"

definition holdReason :: "('ad, 'ex, 'z) classad_ops_scheme \<Rightarrow> 'ad \<Rightarrow> string \<Rightarrow> string \<Rightarrow> string" where
  "holdReason A ad base src =
     (if str_attr0 A ad (base @ ''Reason'') \<noteq> [] then str_attr0 A ad (base @ ''Reason'')
      else defaultReason src base)"

definition attrNumber :: "('ad, 'ex, 'z) classad_ops_scheme \<Rightarrow> 'ad \<Rightarrow> string \<Rightarrow> float64" where
  "attrNumber A ad name =
     (if \<not> has_attr A ad name then Finite 0
      else case eval_attr A ad name of VNum n \<Rightarrow> n | _ \<Rightarrow> Finite 0)"

definition evalString :: "('ad, 'ex, 'z) classad_ops_scheme \<Rightarrow> 'ad \<Rightarrow> 'ex option \<Rightarrow> string" where
  "evalString A ad expr =
     (case expr of None \<Rightarrow> [] | Some e \<Rightarrow> (case eval_expr A e ad of VStr s \<Rightarrow> s | _ \<Rightarrow> []))"

definition evalNumber :: "('ad, 'ex, 'z) classad_ops_scheme \<Rightarrow> 'ad \<Rightarrow> 'ex option \<Rightarrow> float64" where
  "evalNumber A ad expr =
     (case expr of None \<Rightarrow> Finite 0 | Some e \<Rightarrow> (case eval_expr A e ad of VNum n \<Rightarrow> n | _ \<Rightarrow> Finite 0))"

section \<open>The checks\<close>

definition mk_decision :: "policy_action \<Rightarrow> string \<Rightarrow> string \<Rightarrow> decision" where
  "mk_decision act firing reason =
     \<lparr> dc_Action = act, dc_Reason = reason, dc_HoldCode = 0, dc_HoldSubCode = 0, dc_Firing = firing \<rparr>"

definition checkHold :: "('ad, 'ex, 'z) classad_ops_scheme \<Rightarrow> 'ad \<Rightarrow> 'ex system_policy option \<Rightarrow> decision option" where
  "checkHold A ad sys =
     (if fires A ad ''PeriodicHold'' then
        Some \<lparr> dc_Action = Hold, dc_Reason = holdReason A ad ''PeriodicHold'' ''job attribute'',
               dc_HoldCode = HoldCodeJobPolicy,
               dc_HoldSubCode = go_int A (attrNumber A ad ''PeriodicHoldSubCode''),
               dc_Firing = ''PeriodicHold'' \<rparr>
      else case sys of
             None \<Rightarrow> None
           | Some s \<Rightarrow>
               if firesExpr A ad (s_holdExpr s) then
                 let reason = evalString A ad (s_holdReason s);
                     reason = (if reason = [] then defaultReason ''system macro'' ''SYSTEM_PERIODIC_HOLD'' else reason)
                 in Some \<lparr> dc_Action = Hold, dc_Reason = reason, dc_HoldCode = HoldCodeSystemPolicy,
                           dc_HoldSubCode = go_int A (evalNumber A ad (s_holdSubCode s)),
                           dc_Firing = ''SYSTEM_PERIODIC_HOLD'' \<rparr>
               else None)"

definition checkRelease :: "('ad, 'ex, 'z) classad_ops_scheme \<Rightarrow> 'ad \<Rightarrow> 'ex system_policy option \<Rightarrow> decision option" where
  "checkRelease A ad sys =
     (if fires A ad ''PeriodicRelease'' then
        Some (mk_decision Release ''PeriodicRelease'' (defaultReason ''job attribute'' ''PeriodicRelease''))
      else case sys of
             None \<Rightarrow> None
           | Some s \<Rightarrow>
               if firesExpr A ad (s_releaseExpr s) then
                 Some (mk_decision Release ''SYSTEM_PERIODIC_RELEASE''
                         (defaultReason ''system macro'' ''SYSTEM_PERIODIC_RELEASE''))
               else None)"

definition checkRemove :: "('ad, 'ex, 'z) classad_ops_scheme \<Rightarrow> 'ad \<Rightarrow> 'ex system_policy option \<Rightarrow> decision option" where
  "checkRemove A ad sys =
     (if fires A ad ''PeriodicRemove'' then
        Some (mk_decision Remove ''PeriodicRemove'' (defaultReason ''job attribute'' ''PeriodicRemove''))
      else case sys of
             None \<Rightarrow> None
           | Some s \<Rightarrow>
               if firesExpr A ad (s_removeExpr s) then
                 let reason = evalString A ad (s_removeReason s);
                     reason = (if reason = [] then defaultReason ''system macro'' ''SYSTEM_PERIODIC_REMOVE'' else reason)
                 in Some (mk_decision Remove ''SYSTEM_PERIODIC_REMOVE'' reason)
               else None)"

section \<open>The decision\<close>

definition on_exit :: "('ad, 'ex, 'z) classad_ops_scheme \<Rightarrow> 'ad \<Rightarrow> decision" where
  "on_exit A ad =
     (if fires A ad ''OnExitHold'' then
        \<lparr> dc_Action = Hold, dc_Reason = holdReason A ad ''OnExitHold'' ''job attribute'',
          dc_HoldCode = HoldCodeJobPolicy,
          dc_HoldSubCode = go_int A (attrNumber A ad ''OnExitHoldSubCode''),
          dc_Firing = ''OnExitHold'' \<rparr>
      else if onExitRemoveIsFalse A ad
           then mk_decision Requeue ''OnExitRemove'' ''OnExitRemove evaluated to false''
      else mk_decision CompleteJob ''OnExitRemove'' [])"

definition Analyze :: "('ad, 'ex, 'z) classad_ops_scheme \<Rightarrow> 'ad \<Rightarrow> policy_mode \<Rightarrow> 'ex system_policy option \<Rightarrow> int \<Rightarrow>
    decision" where
  "Analyze A ad mode sys state =
     (let state = (if state < 0 then int_attr0 A ad ''JobStatus'' else state) in
      if state = StatusRemoved then
        (if mode = PeriodicOnly then mk_decision Stay [] []
         else mk_decision Remove ''OnExitRemove'' ''Job was removed'')
      else
        case (if state \<noteq> StatusHeld \<and> state \<noteq> StatusCompleted then checkHold A ad sys else None) of
          Some d \<Rightarrow> d
        | None \<Rightarrow>
            case (if state = StatusHeld \<and> int_attr0 A ad ''HoldReasonCode'' \<noteq> HoldCodeUserRequest
                  then checkRelease A ad sys else None) of
              Some d \<Rightarrow> d
            | None \<Rightarrow>
                case checkRemove A ad sys of
                  Some d \<Rightarrow> d
                | None \<Rightarrow> if mode = PeriodicOnly then mk_decision Stay [] [] else on_exit A ad)"

end
