(* ===== verification/Match.thy ===== *)
theory Match
  imports Queue
begin

text \<open>
  The table of claimed slots and their leases, \<open>internal/match/match.go\<close>. Times are
  integers in seconds; the zero \<open>time.Time\<close> is \<open>None\<close>. The security library's session
  import is a parameter that yields the session id or fails.
\<close>

abbreviation (input) ALIVE :: int where "ALIVE \<equiv> 441"
abbreviation (input) DefaultAlivesMissed :: int where "DefaultAlivesMissed \<equiv> 6"

definition claimSinful :: "string \<Rightarrow> string" where
  "claimSinful claimID =
     (case index_byte claimID CHR ''#'' of Some i \<Rightarrow> take i claimID | None \<Rightarrow> [])"

datatype match_state = StateClaimed | StateActive

fun match_state_String :: "match_state \<Rightarrow> string" where
  "match_state_String StateActive = ''Active''"
| "match_state_String StateClaimed = ''Claimed''"

record 'ad match_rec =
  m_ClaimID :: string
  m_SlotAd :: "'ad option"
  m_PeerAddr :: string
  m_State :: match_state
  m_AliveInterval :: int
  m_LeaseDeadline :: "int option"
  m_sessionID :: string
  m_publicID :: string

record 'ad match_table =
  mt_byPublic :: "(string \<times> 'ad match_rec) list"
  mt_alivesMissed :: int

definition NewTable :: "'ad match_table" where
  "NewTable = \<lparr> mt_byPublic = [], mt_alivesMissed = DefaultAlivesMissed \<rparr>"

definition SetAlivesMissed :: "int \<Rightarrow> 'ad match_table \<Rightarrow> 'ad match_table" where
  "SetAlivesMissed n t = t\<lparr> mt_alivesMissed := (if n \<le> 0 then DefaultAlivesMissed else n) \<rparr>"

text \<open>Both products of the duration, which is in nanoseconds, are 64-bit; the table counts in seconds.\<close>

definition leaseDuration :: "'ad match_table \<Rightarrow> int \<Rightarrow> int" where
  "leaseDuration t aliveInterval =
     (let n = (if mt_alivesMissed t \<le> 0 then DefaultAlivesMissed else mt_alivesMissed t);
          aliveInterval = (if aliveInterval \<le> 0 then 1 else aliveInterval)
      in wrap64 (wrap64 (n * aliveInterval) * 10 ^ 9) div 10 ^ 9)"

definition public_of :: "('ad, 'ex, 's, 'h, 'z) ext_scheme \<Rightarrow> string \<Rightarrow> string" where
  "public_of E claimID = (if sec_session_id E claimID = [] then claimID else sec_session_id E claimID)"

definition CreateFromClaim :: "('ad, 'ex, 's, 'h, 'z) ext_scheme \<Rightarrow> (string \<Rightarrow> string \<Rightarrow> string option) \<Rightarrow> int \<Rightarrow> string \<Rightarrow>
    'ad option \<Rightarrow> int \<Rightarrow> 'ad match_table \<Rightarrow> 'ad match_rec option \<times> 'ad match_table" where
  "CreateFromClaim E importSession now rawClaimID slotAd aliveInterval t =
     (case importSession (claimSinful rawClaimID) rawClaimID of
        None \<Rightarrow> (None, t)
      | Some sesid \<Rightarrow>
          let rec = \<lparr> m_ClaimID = rawClaimID, m_SlotAd = slotAd, m_PeerAddr = claimSinful rawClaimID,
                      m_State = StateClaimed, m_AliveInterval = aliveInterval,
                      m_LeaseDeadline = Some (now + leaseDuration t aliveInterval),
                      m_sessionID = sesid, m_publicID = public_of E rawClaimID \<rparr>
          in (Some rec, t\<lparr> mt_byPublic := AList.update (public_of E rawClaimID) rec (mt_byPublic t) \<rparr>))"

definition FindByClaimID :: "('ad, 'ex, 's, 'h, 'z) ext_scheme \<Rightarrow> string \<Rightarrow> 'ad match_table \<Rightarrow> 'ad match_rec option" where
  "FindByClaimID E claimID t = map_of (mt_byPublic t) (public_of E claimID)"

definition upd_rec :: "('ad, 'ex, 's, 'h, 'z) ext_scheme \<Rightarrow> string \<Rightarrow> ('ad match_rec \<Rightarrow> 'ad match_rec) \<Rightarrow>
    'ad match_table \<Rightarrow> bool \<times> 'ad match_table" where
  "upd_rec E claimID f t =
     (case map_of (mt_byPublic t) (public_of E claimID) of
        None \<Rightarrow> (False, t)
      | Some rec \<Rightarrow> (True, t\<lparr> mt_byPublic := AList.update (public_of E claimID) (f rec) (mt_byPublic t) \<rparr>))"

definition RenewLease :: "('ad, 'ex, 's, 'h, 'z) ext_scheme \<Rightarrow> int \<Rightarrow> string \<Rightarrow> 'ad match_table \<Rightarrow>
    bool \<times> 'ad match_table" where
  "RenewLease E now claimID t =
     upd_rec E claimID (\<lambda>rec. rec\<lparr> m_LeaseDeadline := Some (now + leaseDuration t (m_AliveInterval rec)) \<rparr>) t"

definition RenewLeaseFor :: "('ad, 'ex, 's, 'h, 'z) ext_scheme \<Rightarrow> int \<Rightarrow> string \<Rightarrow> int \<Rightarrow> 'ad match_table \<Rightarrow>
    bool \<times> 'ad match_table" where
  "RenewLeaseFor E now claimID d t =
     upd_rec E claimID (\<lambda>rec. rec\<lparr> m_LeaseDeadline := Some (now + d) \<rparr>) t"

definition lease_expired :: "int \<Rightarrow> 'ad match_rec \<Rightarrow> bool" where
  "lease_expired now rec = (case m_LeaseDeadline rec of None \<Rightarrow> False | Some d \<Rightarrow> now > d)"

definition ExpireSweep :: "int \<Rightarrow> 'ad match_table \<Rightarrow> 'ad match_rec list \<times> 'ad match_table" where
  "ExpireSweep now t =
     (map snd (filter (\<lambda>(_, rec). lease_expired now rec) (mt_byPublic t)),
      t\<lparr> mt_byPublic := filter (\<lambda>(_, rec). \<not> lease_expired now rec) (mt_byPublic t) \<rparr>)"

definition LenTable :: "'ad match_table \<Rightarrow> nat" where
  "LenTable t = length (mt_byPublic t)"

definition RemoveClaim :: "('ad, 'ex, 's, 'h, 'z) ext_scheme \<Rightarrow> string \<Rightarrow> 'ad match_table \<Rightarrow>
    'ad match_rec option \<times> 'ad match_table" where
  "RemoveClaim E claimID t =
     (map_of (mt_byPublic t) (public_of E claimID),
      t\<lparr> mt_byPublic := AList.delete (public_of E claimID) (mt_byPublic t) \<rparr>)"

definition UpdateSlotAd :: "('ad, 'ex, 's, 'h, 'z) ext_scheme \<Rightarrow> string \<Rightarrow> 'ad option \<Rightarrow> 'ad match_table \<Rightarrow>
    bool \<times> 'ad match_table" where
  "UpdateSlotAd E claimID ad t = upd_rec E claimID (\<lambda>rec. rec\<lparr> m_SlotAd := ad \<rparr>) t"

record alive_event =
  ae_ClaimID :: string
  ae_PublicID :: string
  ae_Found :: bool
  ae_AliveInterval :: int

text \<open>The ALIVE handler for a received claim id: the interval it replies and the event it reports.\<close>

definition handleALIVE :: "('ad, 'ex, 's, 'h, 'z) ext_scheme \<Rightarrow> int \<Rightarrow> string \<Rightarrow> 'ad match_table \<Rightarrow>
    int \<times> alive_event \<times> 'ad match_table" where
  "handleALIVE E now claimID t =
     (let (found, retInterval, t) =
            (case FindByClaimID E claimID t of
               Some rec \<Rightarrow> (True, m_AliveInterval rec, snd (RenewLease E now claimID t))
             | None \<Rightarrow> (False, -1, t))
      in (retInterval,
          \<lparr> ae_ClaimID = claimID, ae_PublicID = sec_session_id E claimID, ae_Found = found,
            ae_AliveInterval = retInterval \<rparr>, t))"

end
