(* ===== verification/Negotiate.thy ===== *)
theory Negotiate
  imports Queue
begin

text \<open>
  Negotiation: the resource-request groups of \<open>internal/queue/rrl.go\<close> and the NEGOTIATE
  round of \<open>internal/negotiate/negotiate.go\<close>. The ordered index of the collection is the
  parameter \<open>coll_ordered\<close>. A round is a sequence of decoded opcodes, each processed
  against the queue as it is at that moment; group states live in a list, and
  \<open>byRep\<close> and \<open>last\<close> refer to them by position, as the Go pointers do. Replies are
  written without error.
\<close>

unbundle bit_operations_syntax

section \<open>Resource-request groups\<close>

type_synonym JobID = "int \<times> int"

record 'ad RequestGroup =
  g_Checksum :: "64 word"
  g_Rep :: 'ad
  g_JobIDs :: "JobID list"

text \<open>The loop of \<open>IdleRequestGroups\<close>; \<open>cur\<close> is \<open>None\<close> while \<open>have\<close> is false.\<close>

fun group_loop :: "('ad, 'ex, 's, 'h, 'z) ext_scheme \<Rightarrow> string list \<Rightarrow> 'ad list \<Rightarrow> 'ad RequestGroup option \<Rightarrow>
    'ad RequestGroup list" where
  "group_loop E projection [] cur = (case cur of None \<Rightarrow> [] | Some g \<Rightarrow> [g])"
| "group_loop E projection (ad # ads) cur =
     (case jobIDs E ad of
        None \<Rightarrow> group_loop E projection ads cur
      | Some jid \<Rightarrow>
          let sum = projection_checksum E ad projection;
              new = \<lparr> g_Checksum = sum, g_Rep = ad, g_JobIDs = [jid] \<rparr>
          in case cur of
               Some g \<Rightarrow>
                 if sum = g_Checksum g
                 then group_loop E projection ads (Some (g\<lparr> g_JobIDs := g_JobIDs g @ [jid] \<rparr>))
                 else g # group_loop E projection ads (Some new)
             | None \<Rightarrow> group_loop E projection ads (Some new))"

definition IdleRequestGroups :: "('ad, 'ex, 's, 'h, 'z) ext_scheme \<Rightarrow> ('ad, 's, 'h) queue \<Rightarrow> string \<Rightarrow> string list \<Rightarrow>
    'ad RequestGroup list" where
  "IdleRequestGroups E q submitter projection =
     group_loop E projection (coll_ordered E (q_coll q) (shortName E submitter)) None"

section \<open>The round\<close>

abbreviation (input) attrResourceRequestCount :: string where "attrResourceRequestCount \<equiv> ''_condor_RESOURCE_COUNT''"
abbreviation (input) attrResourceRequestCluster :: string where "attrResourceRequestCluster \<equiv> ''_condor_RESOURCE_CLUSTER''"
abbreviation (input) attrResourceRequestProc :: string where "attrResourceRequestProc \<equiv> ''_condor_RESOURCE_PROC''"
abbreviation (input) attrAutoClusterID :: string where "attrAutoClusterID \<equiv> ''AutoClusterId''"
abbreviation (input) attrWantMatchDiagnostics :: string where "attrWantMatchDiagnostics \<equiv> ''WantMatchDiagnostics''"
abbreviation (input) attrWantPslotPreemption :: string where "attrWantPslotPreemption \<equiv> ''WantPslotPreemption''"
abbreviation (input) attrAutoClusterAttrs :: string where "attrAutoClusterAttrs \<equiv> ''AutoClusterAttrs''"

definition alwaysSignificant :: "string list" where
  "alwaysSignificant =
     [''Requirements'', ''Rank'', ''ConcurrencyLimits'', ''RequestCpus'', ''RequestMemory'', ''RequestDisk'']"

record 'ad nmatch =
  nm_Cluster :: int
  nm_Proc :: int
  nm_ClaimID :: string
  nm_ExtraClaims :: string
  nm_SlotName :: string
  nm_MatchAd :: "'ad option"

record groupState =
  gs_rep :: JobID
  gs_acid :: int
  gs_ids :: "JobID list"
  gs_assignIdx :: nat
  gs_rejected :: bool

text \<open>
  \<open>rd_next\<close> is what the pull iterator has left; \<open>None\<close> before the first pull, which takes
  the snapshot.
\<close>

record 'ad round =
  rd_owner :: string
  rd_projection :: "string list"
  rd_next :: "'ad RequestGroup list option"
  rd_states :: "groupState list"
  rd_byRep :: "(JobID \<times> nat) list"
  rd_last :: "nat option"
  rd_sent :: nat
  rd_matched :: nat

definition add_proj :: "string \<Rightarrow> string list \<Rightarrow> string list" where
  "add_proj name out =
     (let name = trim_space name
      in if name = [] \<or> name \<in> set out then out else out @ [name])"

definition buildProjection :: "('ad, 'ex, 'z) classad_ops_scheme \<Rightarrow> 'ad \<Rightarrow> string list" where
  "buildProjection A header =
     (let out = (case eval_str A header attrAutoClusterAttrs of
                   None \<Rightarrow> []
                 | Some s \<Rightarrow> fold add_proj (split_on CHR '','' s) [])
      in fold add_proj alwaysSignificant out)"

definition buildRequestAd :: "('ad, 'ex, 'z) classad_ops_scheme \<Rightarrow> 'ad \<Rightarrow> JobID \<Rightarrow> nat \<Rightarrow> int \<Rightarrow> 'ad" where
  "buildRequestAd A job rep count acid =
     (let ad = fold (\<lambda>name ad. case lookup_attr A job name of
                                 Some expr \<Rightarrow> insert_expr A name expr ad
                               | None \<Rightarrow> ad) (attr_names A job) (new_ad A);
          ad = set_int A ''ClusterId'' (fst rep) ad;
          ad = set_int A ''ProcId'' (snd rep) ad;
          ad = set_int A attrResourceRequestCount (int count) ad;
          ad = set_int A attrAutoClusterID acid ad;
          ad = set_int A attrWantMatchDiagnostics 2 ad
      in set_bool A attrWantPslotPreemption True ad)"

definition group_acid :: "64 word \<Rightarrow> int" where
  "group_acid checksum = uint ((ucast checksum :: 32 word) AND 0x7fffffff)"

datatype 'ad neg_reply = JobInfo 'ad | NoMoreJobs

definition pull_next :: "('ad, 'ex, 's, 'h, 'z) ext_scheme \<Rightarrow> ('ad, 's, 'h) queue \<Rightarrow> 'ad round \<Rightarrow>
    'ad RequestGroup option \<times> 'ad round" where
  "pull_next E q r =
     (let gs = (case rd_next r of
                  None \<Rightarrow> IdleRequestGroups E q (rd_owner r) (rd_projection r)
                | Some gs \<Rightarrow> gs)
      in case gs of
           [] \<Rightarrow> (None, r\<lparr> rd_next := Some [] \<rparr>)
         | g # gs \<Rightarrow> (Some g, r\<lparr> rd_next := Some gs \<rparr>))"

definition sendGroup :: "('ad, 'ex, 's, 'h, 'z) ext_scheme \<Rightarrow> 'ad RequestGroup \<Rightarrow> 'ad round \<Rightarrow>
    'ad neg_reply \<times> 'ad round" where
  "sendGroup E g r =
     (let rep = hd (g_JobIDs g);
          acid = group_acid (g_Checksum g);
          gs = \<lparr> gs_rep = rep, gs_acid = acid, gs_ids = g_JobIDs g, gs_assignIdx = 0, gs_rejected = False \<rparr>;
          i = length (rd_states r);
          ad = buildRequestAd E (g_Rep g) rep (length (g_JobIDs g)) acid
      in (JobInfo ad,
          r\<lparr> rd_states := rd_states r @ [gs], rd_byRep := AList.update rep i (rd_byRep r),
             rd_last := Some i, rd_sent := Suc (rd_sent r) \<rparr>))"

fun sendRequests :: "('ad, 'ex, 's, 'h, 'z) ext_scheme \<Rightarrow> ('ad, 's, 'h) queue \<Rightarrow> nat \<Rightarrow> 'ad round \<Rightarrow>
    'ad neg_reply list \<times> 'ad round" where
  "sendRequests E q 0 r = ([], r)"
| "sendRequests E q (Suc n) r =
     (case pull_next E q r of
        (None, r) \<Rightarrow> ([NoMoreJobs], r)
      | (Some g, r) \<Rightarrow>
          (let (reply, r) = sendGroup E g r;
               (replies, r) = sendRequests E q n r
           in (reply # replies, r)))"

text \<open>\<open>nextIdle\<close>: the loop over the unassigned part of the group, from the assignment cursor.\<close>

fun next_idle_from :: "('ad, 'ex, 's, 'h, 'z) ext_scheme \<Rightarrow> ('ad, 's, 'h) queue \<Rightarrow> JobID list \<Rightarrow> nat \<Rightarrow>
    JobID option \<times> nat" where
  "next_idle_from E q [] i = (None, i)"
| "next_idle_from E q (jid # ids) i =
     (if JobStatus E q (fst jid) (snd jid) = StatusIdle then (Some jid, Suc i)
      else next_idle_from E q ids (Suc i))"

definition nextIdle :: "('ad, 'ex, 's, 'h, 'z) ext_scheme \<Rightarrow> ('ad, 's, 'h) queue \<Rightarrow> groupState \<Rightarrow>
    JobID option \<times> groupState" where
  "nextIdle E q gs =
     (if gs_rejected gs then (None, gs)
      else case next_idle_from E q (drop (gs_assignIdx gs) (gs_ids gs)) (gs_assignIdx gs) of
             (res, i) \<Rightarrow> (res, gs\<lparr> gs_assignIdx := i \<rparr>))"

text \<open>The match forwarded to the scheduler core, and the round afterwards.\<close>

definition roundMatch :: "('ad, 'ex, 's, 'h, 'z) ext_scheme \<Rightarrow> ('ad, 's, 'h) queue \<Rightarrow> 'ad nmatch \<Rightarrow> 'ad round \<Rightarrow>
    'ad nmatch \<times> 'ad round" where
  "roundMatch E q m r =
     (let (m, r) =
            (case map_of (rd_byRep r) (nm_Cluster m, nm_Proc m) of
               None \<Rightarrow> (m, r)
             | Some i \<Rightarrow>
                 (case nextIdle E q (rd_states r ! i) of
                    (None, gs) \<Rightarrow> (m\<lparr> nm_Cluster := -1, nm_Proc := -1 \<rparr>, r\<lparr> rd_states := (rd_states r)[i := gs] \<rparr>)
                  | (Some jid, gs) \<Rightarrow>
                      (m\<lparr> nm_Cluster := fst jid, nm_Proc := snd jid \<rparr>, r\<lparr> rd_states := (rd_states r)[i := gs] \<rparr>)))
      in (m, if nm_Cluster m \<ge> 0 then r\<lparr> rd_matched := Suc (rd_matched r) \<rparr> else r))"

definition parseRejectRep :: "string \<Rightarrow> JobID option" where
  "parseRejectRep reason =
     (let parts = split_on CHR ''|'' reason in
      if length parts < 3 then None
      else let jid = trim_space (parts ! 2) in
           case index_byte jid CHR ''.'' of
             None \<Rightarrow> None
           | Some dot \<Rightarrow>
               (case (atoi (take dot jid), atoi (drop (dot + 1) jid)) of
                  (Some c, Some p) \<Rightarrow> Some (c, p)
                | _ \<Rightarrow> None))"

definition trimReason :: "string \<Rightarrow> string" where
  "trimReason reason =
     (case index_byte reason CHR ''|'' of Some i \<Rightarrow> trim_space (take i reason) | None \<Rightarrow> reason)"

definition roundReject :: "string \<Rightarrow> 'ad round \<Rightarrow> 'ad round" where
  "roundReject reason r =
     (let gs = (case parseRejectRep reason of
                  None \<Rightarrow> rd_last r
                | Some rep \<Rightarrow> (case map_of (rd_byRep r) rep of Some i \<Rightarrow> Some i | None \<Rightarrow> rd_last r))
      in case gs of
           None \<Rightarrow> r
         | Some i \<Rightarrow> r\<lparr> rd_states := (rd_states r)[i := (rd_states r ! i)\<lparr> gs_rejected := True \<rparr>] \<rparr>)"

definition readMatch :: "('ad, 'ex, 'z) classad_ops_scheme \<Rightarrow> string \<Rightarrow> 'ad \<Rightarrow> 'ad nmatch" where
  "readMatch A claimBlob matchAd =
     (let (claimID, extra) =
            (case index_byte claimBlob CHR '' '' of
               Some i \<Rightarrow> (take i claimBlob, trim_space (drop (i + 1) claimBlob))
             | None \<Rightarrow> (claimBlob, []))
      in \<lparr> nm_Cluster = intAttr A matchAd attrResourceRequestCluster (-1),
           nm_Proc = intAttr A matchAd attrResourceRequestProc (-1),
           nm_ClaimID = claimID, nm_ExtraClaims = extra,
           nm_SlotName = str_attr0 A matchAd ''Name'', nm_MatchAd = Some matchAd \<rparr>)"

section \<open>The opcode loop\<close>

datatype 'ad neg_op =
    SEND_JOB_INFO
  | SEND_RESOURCE_REQUEST_LIST int
  | PERMISSION_AND_AD string 'ad
  | REJECTED
  | REJECTED_WITH_REASON string
  | END_NEGOTIATE
  | UNEXPECTED int

datatype neg_status = Running | KeptAlive | Failed

definition neg_step :: "('ad, 'ex, 's, 'h, 'z) ext_scheme \<Rightarrow> ('ad, 's, 'h) queue \<Rightarrow> 'ad neg_op \<Rightarrow> 'ad round \<Rightarrow>
    neg_status \<times> 'ad neg_reply list \<times> 'ad nmatch list \<times> 'ad round" where
  "neg_step E q op r =
     (case op of
        SEND_JOB_INFO \<Rightarrow> (let (replies, r) = sendRequests E q 1 r in (Running, replies, [], r))
      | SEND_RESOURCE_REQUEST_LIST n \<Rightarrow>
          (let (replies, r) = sendRequests E q (nat n) r in (Running, replies, [], r))
      | PERMISSION_AND_AD claimBlob matchAd \<Rightarrow>
          (let (m, r) = roundMatch E q (readMatch E claimBlob matchAd) r in (Running, [], [m], r))
      | REJECTED \<Rightarrow> (Running, [], [], roundReject [] r)
      | REJECTED_WITH_REASON reason \<Rightarrow> (Running, [], [], roundReject reason r)
      | END_NEGOTIATE \<Rightarrow> (KeptAlive, [], [], r)
      | UNEXPECTED n \<Rightarrow> (Failed, [], [], r))"

definition new_round :: "string \<Rightarrow> string list \<Rightarrow> 'ad round" where
  "new_round owner projection =
     \<lparr> rd_owner = owner, rd_projection = projection, rd_next = None, rd_states = [], rd_byRep = [],
       rd_last = None, rd_sent = 0, rd_matched = 0 \<rparr>"

text \<open>
  The opcodes as they arrive, each with the queue at that moment; the list ending without
  END_NEGOTIATE is the negotiator closing the socket.
\<close>

fun neg_loop :: "('ad, 'ex, 's, 'h, 'z) ext_scheme \<Rightarrow> (('ad, 's, 'h) queue \<times> 'ad neg_op) list \<Rightarrow> 'ad round \<Rightarrow>
    neg_status \<times> 'ad neg_reply list \<times> 'ad nmatch list \<times> 'ad round" where
  "neg_loop E [] r = (Running, [], [], r)"
| "neg_loop E ((q, op) # ops) r =
     (case neg_step E q op r of
        (Running, replies, ms, r) \<Rightarrow>
          (case neg_loop E ops r of (st, replies', ms', r) \<Rightarrow> (st, replies @ replies', ms @ ms', r))
      | (st, replies, ms, r) \<Rightarrow> (st, replies, ms, r))"

text \<open>\<open>Handle\<close>: \<open>None\<close> is the error of a header without an Owner.\<close>

definition HandleNegotiate :: "('ad, 'ex, 's, 'h, 'z) ext_scheme \<Rightarrow> 'ad \<Rightarrow> (('ad, 's, 'h) queue \<times> 'ad neg_op) list \<Rightarrow>
    (neg_status \<times> 'ad neg_reply list \<times> 'ad nmatch list \<times> 'ad round) option" where
  "HandleNegotiate E header ops =
     (let owner = str_attr0 E header ''Owner'' in
      if owner = [] then None
      else Some (neg_loop E ops (new_round owner (buildProjection E header))))"

end
