(* ===== verification/Sched.thy ===== *)
theory Sched
  imports Actions Policy Match Negotiate
begin

text \<open>
  The single-writer scheduler core, \<open>internal/sched/sched.go\<close>: the state owned by the event
  loop, one definition per event handler, the lease sweep, startup recovery, the periodic
  policy evaluator and the bodies of the per-job goroutines \<open>runJob\<close> and
  \<open>reconnectJob\<close>.

  Goroutines the core starts are recorded in \<open>sd_spawned\<close>, claims it releases in
  \<open>sd_released\<close>, contexts it cancels in \<open>sd_cancelled\<close>, channels it closes (by number) in
  \<open>sd_closed\<close>. The event channel is \<open>sd_events\<close>, with its capacity. What startd and shadow
  calls return is an argument of the goroutine bodies. Times are arguments. The
  \<open>Queue\<close> of the options is never nil.
\<close>

unbundle bit_operations_syntax

section \<open>Shadow results (shadow/shadow.go)\<close>

record shadow_result =
  sr_ExitStatus :: int
  sr_Reason :: int

definition ExitCode :: "shadow_result \<Rightarrow> int option" where
  "ExitCode r = (if sr_ExitStatus r AND 0x7f \<noteq> 0 then None else Some (drop_bit 8 (sr_ExitStatus r) AND 0xff))"

definition TermSignal :: "shadow_result \<Rightarrow> int option" where
  "TermSignal r = (if sr_ExitStatus r AND 0x7f = 0 then None else Some (sr_ExitStatus r AND 0x7f))"

text \<open>A Go error: whether it wraps \<open>ErrDetached\<close>, whether it wraps \<open>ErrReconnectFailed\<close>, its text.\<close>

datatype run_err = RunErr (is_detached: bool) (is_reconnect_failed: bool) (err_text: string)

definition errStr :: "run_err option \<Rightarrow> string" where
  "errStr err = (case err of None \<Rightarrow> [] | Some e \<Rightarrow> err_text e)"

definition is_ErrDetached :: "run_err option \<Rightarrow> bool" where
  "is_ErrDetached err = (case err of None \<Rightarrow> False | Some e \<Rightarrow> is_detached e)"

section \<open>State and events\<close>

abbreviation (input) holdCodeShadowException :: int where "holdCodeShadowException \<equiv> 1002"
abbreviation (input) DefaultMaxShadowExceptions :: int where "DefaultMaxShadowExceptions \<equiv> 3"
abbreviation (input) DefaultJobLeaseDuration :: int where "DefaultJobLeaseDuration \<equiv> 2400"
abbreviation (input) policyActor :: string where "policyActor \<equiv> ''condor_schedd''"
abbreviation (input) eventCap :: nat where "eventCap \<equiv> 256"

type_synonym job_id = "int \<times> int"

datatype 'ad event =
    EvMatch "'ad nmatch"
  | EvStarted int int string string
  | EvExited int int "shadow_result option" "run_err option"
  | EvFailed int int "run_err option" bool string bool
  | EvReschedule
  | EvTeardown int int "nat option"
  | EvDrain nat
  | EvReconnectFailed int int string "run_err option"
  | EvRecover "nat option"
  | EvPolicyRemove int int string
  | EvPolicyHold int int string int int
  | EvPolicyRelease int int string
  | EvPolicyDone job_id

record runInfo =
  ri_claimID :: string
  ri_slotName :: string
  ri_vacated :: bool
  ri_detached :: bool
  ri_detachFlag :: bool
  ri_reconnect :: bool
  ri_waiters :: "nat list"

datatype 'ad spawned =
    RunJob "'ad nmatch" 'ad
  | ReconnectJob int int string 'ad
  | PolicyApply int int ActionRequest

record core_stats =
  st_jobsStarted :: nat
  st_jobsCompleted :: nat
  st_jobsExited :: nat
  st_shadowExceptions :: nat
  st_matchesReceived :: nat

record ('ad, 'ex, 's, 'h) sched =
  sd_q :: "('ad, 's, 'h) queue"
  sd_matches :: "'ad match_table"
  sd_aliveInterval :: int
  sd_sweepInterval :: int
  sd_maxExceptions :: int
  sd_reconnectDisabled :: bool
  sd_defaultJobLease :: int
  sd_userlog :: bool
  sd_sysPolicy :: "'ex system_policy option"
  sd_stats :: core_stats
  sd_runningGauge :: int
  sd_events :: "'ad event list"
  sd_advertiseNudge :: bool
  sd_running :: "(job_id \<times> runInfo) list"
  sd_draining :: bool
  sd_drainDone :: "nat option"
  sd_policyPending :: "job_id list"
  sd_matNudges :: nat
  sd_ulog :: "'ad ulog_call list"
  sd_spawned :: "'ad spawned list"
  sd_released :: "string list"
  sd_cancelled :: "job_id list"
  sd_closed :: "nat list"

record ('ad, 'ex, 's, 'h) sched_options =
  so_Queue :: "('ad, 's, 'h) queue"
  so_Matches :: "'ad match_table"
  so_AliveInterval :: int
  so_SweepInterval :: int
  so_MaxShadowExceptions :: int
  so_ReconnectDisabled :: bool
  so_DefaultJobLease :: int
  so_UserLog :: bool
  so_SysPolicy :: "'ex system_policy option"

definition NewScheduler :: "('ad, 'ex, 's, 'h) sched_options \<Rightarrow> ('ad, 'ex, 's, 'h) sched" where
  "NewScheduler opts =
     \<lparr> sd_q = so_Queue opts, sd_matches = so_Matches opts,
       sd_aliveInterval = (if so_AliveInterval opts \<le> 0 then 300 else so_AliveInterval opts),
       sd_sweepInterval = so_SweepInterval opts,
       sd_maxExceptions = (if so_MaxShadowExceptions opts \<le> 0 then DefaultMaxShadowExceptions
                           else so_MaxShadowExceptions opts),
       sd_reconnectDisabled = so_ReconnectDisabled opts,
       sd_defaultJobLease = (if so_DefaultJobLease opts \<le> 0 then DefaultJobLeaseDuration
                             else so_DefaultJobLease opts),
       sd_userlog = so_UserLog opts, sd_sysPolicy = so_SysPolicy opts,
       sd_stats = \<lparr> st_jobsStarted = 0, st_jobsCompleted = 0, st_jobsExited = 0,
                    st_shadowExceptions = 0, st_matchesReceived = 0 \<rparr>,
       sd_runningGauge = 0, sd_events = [], sd_advertiseNudge = False, sd_running = [],
       sd_draining = False, sd_drainDone = None, sd_policyPending = [], sd_matNudges = 0,
       sd_ulog = [], sd_spawned = [], sd_released = [], sd_cancelled = [], sd_closed = [] \<rparr>"

definition SetSysPolicy :: "'ex system_policy option \<Rightarrow> ('ad, 'ex, 's, 'h) sched \<Rightarrow> ('ad, 'ex, 's, 'h) sched" where
  "SetSysPolicy p s = s\<lparr> sd_sysPolicy := p \<rparr>"

definition ShadowsRunning :: "('ad, 'ex, 's, 'h) sched \<Rightarrow> int" where
  "ShadowsRunning s = sd_runningGauge s"

section \<open>Effects of the core\<close>

definition SubmitEvent :: "'ad event \<Rightarrow> ('ad, 'ex, 's, 'h) sched \<Rightarrow> ('ad, 'ex, 's, 'h) sched" where
  "SubmitEvent ev s =
     (if length (sd_events s) < eventCap then s\<lparr> sd_events := sd_events s @ [ev] \<rparr> else s)"

definition nudgeAdvertise :: "('ad, 'ex, 's, 'h) sched \<Rightarrow> ('ad, 'ex, 's, 'h) sched" where
  "nudgeAdvertise s = s\<lparr> sd_advertiseNudge := True \<rparr>"

definition nudgeMaterialize :: "('ad, 'ex, 's, 'h) sched \<Rightarrow> ('ad, 'ex, 's, 'h) sched" where
  "nudgeMaterialize s = s\<lparr> sd_matNudges := Suc (sd_matNudges s) \<rparr>"

definition releaseClaim :: "string \<Rightarrow> ('ad, 'ex, 's, 'h) sched \<Rightarrow> ('ad, 'ex, 's, 'h) sched" where
  "releaseClaim claimID s = s\<lparr> sd_released := sd_released s @ [claimID] \<rparr>"

definition spawn_go :: "'ad spawned \<Rightarrow> ('ad, 'ex, 's, 'h) sched \<Rightarrow> ('ad, 'ex, 's, 'h) sched" where
  "spawn_go g s = s\<lparr> sd_spawned := sd_spawned s @ [g] \<rparr>"

definition cancel_run :: "job_id \<Rightarrow> ('ad, 'ex, 's, 'h) sched \<Rightarrow> ('ad, 'ex, 's, 'h) sched" where
  "cancel_run key s = s\<lparr> sd_cancelled := sd_cancelled s @ [key] \<rparr>"

definition close_chan :: "nat option \<Rightarrow> ('ad, 'ex, 's, 'h) sched \<Rightarrow> ('ad, 'ex, 's, 'h) sched" where
  "close_chan ch s = (case ch of None \<Rightarrow> s | Some n \<Rightarrow> s\<lparr> sd_closed := sd_closed s @ [n] \<rparr>)"

definition log_core :: "'ad ulog_call \<Rightarrow> ('ad, 'ex, 's, 'h) sched \<Rightarrow> ('ad, 'ex, 's, 'h) sched" where
  "log_core ev s = s\<lparr> sd_ulog := sd_ulog s @ [ev] \<rparr>"

text \<open>\<open>if s.userlog != nil { if ad, ok := s.q.Get(c, p); ok { ... } }\<close>\<close>

definition log_job :: "('ad, 'ex, 's, 'h, 'z) ext_scheme \<Rightarrow> int \<Rightarrow> int \<Rightarrow> ('ad \<Rightarrow> 'ad ulog_call) \<Rightarrow>
    ('ad, 'ex, 's, 'h) sched \<Rightarrow> ('ad, 'ex, 's, 'h) sched" where
  "log_job E c p ev s =
     (if sd_userlog s then
        (case Get E (sd_q s) c p of Some ad \<Rightarrow> log_core (ev ad) s | None \<Rightarrow> s)
      else s)"

definition modify_job :: "('ad, 'ex, 's, 'h, 'z) ext_scheme \<Rightarrow> int \<Rightarrow> int \<Rightarrow> ('ad \<Rightarrow> 'ad) \<Rightarrow>
    ('ad, 'ex, 's, 'h) sched \<Rightarrow> ('ad, 'ex, 's, 'h) sched" where
  "modify_job E c p fn s = s\<lparr> sd_q := snd (Modify E (sd_q s) c p fn) \<rparr>"

definition drop_match :: "('ad, 'ex, 's, 'h, 'z) ext_scheme \<Rightarrow> string \<Rightarrow> ('ad, 'ex, 's, 'h) sched \<Rightarrow>
    ('ad, 'ex, 's, 'h) sched" where
  "drop_match E claimID s = s\<lparr> sd_matches := snd (RemoveClaim E claimID (sd_matches s)) \<rparr>"

text \<open>The registry of running jobs, with the gauge that mirrors its size.\<close>

definition add_running :: "job_id \<Rightarrow> runInfo \<Rightarrow> ('ad, 'ex, 's, 'h) sched \<Rightarrow> ('ad, 'ex, 's, 'h) sched" where
  "add_running key ri s =
     s\<lparr> sd_running := AList.update key ri (sd_running s), sd_runningGauge := sd_runningGauge s + 1 \<rparr>"

definition set_run :: "job_id \<Rightarrow> runInfo \<Rightarrow> ('ad, 'ex, 's, 'h) sched \<Rightarrow> ('ad, 'ex, 's, 'h) sched" where
  "set_run key ri s = s\<lparr> sd_running := AList.update key ri (sd_running s) \<rparr>"

definition del_running :: "job_id \<Rightarrow> ('ad, 'ex, 's, 'h) sched \<Rightarrow> ('ad, 'ex, 's, 'h) sched" where
  "del_running key s =
     s\<lparr> sd_running := AList.delete key (sd_running s), sd_runningGauge := sd_runningGauge s - 1 \<rparr>"

definition reapWaiters :: "runInfo \<Rightarrow> ('ad, 'ex, 's, 'h) sched \<Rightarrow> ('ad, 'ex, 's, 'h) sched" where
  "reapWaiters ri s = s\<lparr> sd_closed := sd_closed s @ ri_waiters ri \<rparr>"

definition maybeFinishDrain :: "('ad, 'ex, 's, 'h) sched \<Rightarrow> ('ad, 'ex, 's, 'h) sched" where
  "maybeFinishDrain s =
     (if sd_draining s \<and> sd_drainDone s \<noteq> None \<and> sd_running s = []
      then (close_chan (sd_drainDone s) s)\<lparr> sd_drainDone := None \<rparr>
      else s)"

section \<open>Ad edits\<close>

definition stripReconnectAttrs :: "('ad, 'ex, 'z) classad_ops_scheme \<Rightarrow> 'ad \<Rightarrow> 'ad" where
  "stripReconnectAttrs A ad =
     (let ad = delete_attr A ''ClaimId'' ad;
          ad = delete_attr A ''StartdIpAddr'' ad
      in delete_attr A ''LastJobLeaseRenewal'' ad)"

fun claimStartdSinful_from :: "string \<Rightarrow> string \<Rightarrow> string" where
  "claimStartdSinful_from acc [] = []"
| "claimStartdSinful_from acc (ch # rest) =
     (if ch = CHR ''#'' then rev acc else claimStartdSinful_from (ch # acc) rest)"

definition claimStartdSinful :: "string \<Rightarrow> string" where
  "claimStartdSinful claimID = claimStartdSinful_from [] claimID"

definition leaseAlive :: "('ad, 'ex, 'z) classad_ops_scheme \<Rightarrow> 'ad \<Rightarrow> int \<Rightarrow> bool" where
  "leaseAlive A ad now =
     (case eval_int A ad ''JobLeaseDuration'' of
        None \<Rightarrow> False
      | Some dur \<Rightarrow>
          if dur \<le> 0 then False
          else case eval_int A ad ''LastJobLeaseRenewal'' of
                 None \<Rightarrow> False
               | Some renewal \<Rightarrow> if renewal \<le> 0 then False else now - renewal < dur)"

definition copyAd :: "('ad, 'ex, 'z) classad_ops_scheme \<Rightarrow> 'ad \<Rightarrow> 'ad" where
  "copyAd A ad =
     fold (\<lambda>name out. case lookup_attr A ad name of
                        Some expr \<Rightarrow> insert_expr A name expr out
                      | None \<Rightarrow> out) (attr_names A ad) (new_ad A)"

text \<open>The common prefix of the edits that end a run: remember the host, drop the run attributes.\<close>

definition end_run_ad :: "('ad, 'ex, 'z) classad_ops_scheme \<Rightarrow> 'ad \<Rightarrow> 'ad" where
  "end_run_ad A ad =
     (let host = str_attr0 A ad ''RemoteHost'';
          ad = (if host \<noteq> [] then set_str A ''LastRemoteHost'' host ad else ad);
          ad = delete_attr A ''RemoteHost'' ad
      in stripReconnectAttrs A ad)"

definition started_ad :: "('ad, 'ex, 'z) classad_ops_scheme \<Rightarrow> int \<Rightarrow> int \<Rightarrow> string \<Rightarrow> string \<Rightarrow> 'ad \<Rightarrow> 'ad" where
  "started_ad A now defaultJobLease slotName claimID ad =
     (let ad = set_int A ''LastJobStatus'' (int_attr0 A ad ''JobStatus'') ad;
          ad = set_int A ''JobStatus'' StatusRunning ad;
          ad = set_int A ''EnteredCurrentStatus'' now ad;
          ad = set_str A ''RemoteHost'' slotName ad;
          ad = set_int A ''JobCurrentStartDate'' now ad;
          ad = (if has_attr A ad ''JobStartDate'' then ad else set_int A ''JobStartDate'' now ad);
          ad = set_int A ''NumJobStarts'' (wrap64 (int_attr0 A ad ''NumJobStarts'' + 1)) ad;
          ad = set_int A ''NumShadowStarts'' (wrap64 (int_attr0 A ad ''NumShadowStarts'' + 1)) ad;
          ad = set_int A ''JobRunCount'' (wrap64 (int_attr0 A ad ''JobRunCount'' + 1)) ad;
          ad = set_int A ''ShadowBday'' now ad;
          ad = (if claimID \<noteq> [] then
                  let ad = set_str A ''ClaimId'' claimID ad
                  in if claimStartdSinful claimID \<noteq> []
                     then set_str A ''StartdIpAddr'' (claimStartdSinful claimID) ad else ad
                else ad);
          ad = (if has_attr A ad ''JobLeaseDuration'' then ad
                else set_int A ''JobLeaseDuration'' defaultJobLease ad)
      in set_int A ''LastJobLeaseRenewal'' now ad)"

definition exited_ad :: "('ad, 'ex, 'z) classad_ops_scheme \<Rightarrow> int \<Rightarrow> shadow_result \<Rightarrow> 'ad \<Rightarrow> 'ad" where
  "exited_ad A now res ad =
     (let ad = end_run_ad A ad;
          ad = (case ExitCode res of
                  Some code \<Rightarrow>
                    set_int A ''ExitStatus'' code (set_bool A ''ExitBySignal'' False (set_int A ''ExitCode'' code ad))
                | None \<Rightarrow>
                    (case TermSignal res of
                       Some sig \<Rightarrow> set_int A ''ExitSignal'' sig (set_bool A ''ExitBySignal'' True ad)
                     | None \<Rightarrow>
                         set_int A ''ExitStatus'' 0 (set_int A ''ExitCode'' 0 (set_bool A ''ExitBySignal'' False ad))));
          ad = (case eval_int A ad ''JobCurrentStartDate'' of
                  Some start \<Rightarrow>
                    if start > 0
                    then set_int A ''RemoteWallClockTime''
                           (int_attr0 A ad ''RemoteWallClockTime'' + (now - start)) ad
                    else ad
                | None \<Rightarrow> ad);
          ad = set_int A ''NumJobCompletions'' (wrap64 (int_attr0 A ad ''NumJobCompletions'' + 1)) ad
      in set_int A ''LastJobStatus'' StatusRunning ad)"

definition hold_exit_ad :: "('ad, 'ex, 'z) classad_ops_scheme \<Rightarrow> int \<Rightarrow> string \<Rightarrow> int \<Rightarrow> int \<Rightarrow> 'ad \<Rightarrow> 'ad" where
  "hold_exit_ad A now reason code sub ad =
     (let ad = set_int A ''LastJobStatus'' StatusRunning ad;
          ad = set_int A ''JobStatus'' StatusHeld ad;
          ad = set_int A ''EnteredCurrentStatus'' now ad;
          ad = set_str A ''HoldReason'' reason ad;
          ad = set_int A ''HoldReasonCode'' code ad;
          ad = set_int A ''HoldReasonSubCode'' sub ad
      in set_int A ''NumHolds'' (wrap64 (int_attr0 A ad ''NumHolds'' + 1)) ad)"

definition requeue_exit_ad :: "('ad, 'ex, 'z) classad_ops_scheme \<Rightarrow> int \<Rightarrow> 'ad \<Rightarrow> 'ad" where
  "requeue_exit_ad A now ad =
     (let ad = set_int A ''LastJobStatus'' StatusRunning ad;
          ad = set_int A ''JobStatus'' StatusIdle ad
      in set_int A ''EnteredCurrentStatus'' now ad)"

definition requeue_ad :: "('ad, 'ex, 'z) classad_ops_scheme \<Rightarrow> int \<Rightarrow> 'ad \<Rightarrow> 'ad" where
  "requeue_ad A now ad = requeue_exit_ad A now (end_run_ad A ad)"

abbreviation failed_text :: "int \<Rightarrow> string \<Rightarrow> string" where
  "failed_text excepts why \<equiv> ''Job has failed '' @ itoa excepts @ '' times; last failure: '' @ why"

definition failed_excepts :: "('ad, 'ex, 'z) classad_ops_scheme \<Rightarrow> bool \<Rightarrow> 'ad \<Rightarrow> int" where
  "failed_excepts A count ad = (if count then wrap64 (int_attr0 A ad ''NumShadowExceptions'' + 1) else 0)"

text \<open>
  \<open>excepts\<close> is the value read back after the run attributes were dropped, which no edit before
  it changes; \<open>failed_prefix\<close> is that point of the callback.
\<close>

definition failed_prefix :: "('ad, 'ex, 'z) classad_ops_scheme \<Rightarrow> int \<Rightarrow> 'ad \<Rightarrow> 'ad" where
  "failed_prefix A now ad =
     (let ad = end_run_ad A ad;
          ad = set_int A ''LastJobStatus'' StatusRunning ad
      in set_int A ''EnteredCurrentStatus'' now ad)"

definition failed_ad :: "('ad, 'ex, 'z) classad_ops_scheme \<Rightarrow> int \<Rightarrow> int \<Rightarrow> string \<Rightarrow> bool \<Rightarrow> 'ad \<Rightarrow> 'ad" where
  "failed_ad A now maxExceptions why count ad =
     (let ad = failed_prefix A now ad;
          excepts = failed_excepts A count ad;
          ad = (if count then
                  let ad = set_int A ''NumShadowExceptions'' excepts ad;
                      ad = set_str A ''VacateReason'' (''Shadow exception: '' @ why) ad;
                      ad = set_int A ''VacateReasonCode'' holdCodeShadowException ad
                  in set_int A ''VacateReasonSubCode'' 0 ad
                else ad)
      in if count \<and> excepts \<ge> maxExceptions then
           let ad = set_int A ''JobStatus'' StatusHeld ad;
               ad = set_str A ''HoldReason'' (failed_text excepts why) ad;
               ad = set_int A ''HoldReasonCode'' holdCodeShadowException ad;
               ad = set_int A ''HoldReasonSubCode'' 0 ad
           in set_int A ''NumHolds'' (wrap64 (int_attr0 A ad ''NumHolds'' + 1)) ad
         else set_int A ''JobStatus'' StatusIdle ad)"

end
