(* ===== verification/SchedCore.thy ===== *)
theory SchedCore
  imports Sched
begin

text \<open>
  The event handlers of \<open>internal/sched/sched.go\<close>, in the order of the source: matches,
  starts, exits, failures, teardown, drain, recovery, reconnect failures, periodic policy, the
  lease sweep, and the bodies of the goroutines that report back to the core.
\<close>

section \<open>Matches and starts\<close>

definition fresh_run :: "string \<Rightarrow> string \<Rightarrow> bool \<Rightarrow> runInfo" where
  "fresh_run claimID slotName rc =
     \<lparr> ri_claimID = claimID, ri_slotName = slotName, ri_vacated = False, ri_detached = False,
       ri_detachFlag = False, ri_reconnect = rc, ri_waiters = [] \<rparr>"

definition handleMatch :: "('ad, 'ex, 's, 'h, 'z) ext_scheme \<Rightarrow> 'ad nmatch \<Rightarrow> ('ad, 'ex, 's, 'h) sched \<Rightarrow>
    ('ad, 'ex, 's, 'h) sched" where
  "handleMatch E m s =
     (let key = (nm_Cluster m, nm_Proc m) in
      if sd_draining s then releaseClaim (nm_ClaimID m) s
      else if nm_Cluster m < 0 \<or> nm_Proc m < 0 \<or> nm_ClaimID m = [] then releaseClaim (nm_ClaimID m) s
      else if map_of (sd_running s) key \<noteq> None then releaseClaim (nm_ClaimID m) s
      else if JobStatus E (sd_q s) (nm_Cluster m) (nm_Proc m) \<noteq> StatusIdle
           then releaseClaim (nm_ClaimID m) s
      else case Get E (sd_q s) (nm_Cluster m) (nm_Proc m) of
             None \<Rightarrow> releaseClaim (nm_ClaimID m) s
           | Some job \<Rightarrow>
               spawn_go (RunJob m job)
                 (add_running key (fresh_run (nm_ClaimID m) (nm_SlotName m) False) s))"

definition handleStarted :: "('ad, 'ex, 's, 'h, 'z) ext_scheme \<Rightarrow> int \<Rightarrow> int \<Rightarrow> int \<Rightarrow> string \<Rightarrow> string \<Rightarrow>
    ('ad, 'ex, 's, 'h) sched \<Rightarrow> ('ad, 'ex, 's, 'h) sched" where
  "handleStarted E now c p slotName evClaim s =
     (let (claimID, s) =
            (case map_of (sd_running s) (c, p) of
               None \<Rightarrow> (evClaim, s)
             | Some ri \<Rightarrow>
                 let ri = ri\<lparr> ri_slotName := slotName \<rparr>;
                     ri = (if evClaim \<noteq> [] then ri\<lparr> ri_claimID := evClaim \<rparr> else ri)
                 in (ri_claimID ri, set_run (c, p) ri s));
          (ok, q) = Modify E (sd_q s) c p (started_ad E now (sd_defaultJobLease s) slotName claimID);
          s = s\<lparr> sd_q := q \<rparr>
      in if \<not> ok then s
         else
           let s = s\<lparr> sd_stats := (sd_stats s)\<lparr> st_jobsStarted := Suc (st_jobsStarted (sd_stats s)) \<rparr> \<rparr>;
               fresh = (case map_of (sd_running s) (c, p) of None \<Rightarrow> True | Some ri \<Rightarrow> \<not> ri_reconnect ri);
               s = (if fresh then
                      log_job E c p (\<lambda>ad. ULExecute ad
                        (if str_attr0 E ad ''StartdIpAddr'' \<noteq> [] then str_attr0 E ad ''StartdIpAddr'' else slotName)
                        slotName) s
                    else s)
           in nudgeMaterialize s)"

section \<open>Failures\<close>

definition jobFailed :: "('ad, 'ex, 's, 'h, 'z) ext_scheme \<Rightarrow> int \<Rightarrow> int \<Rightarrow> int \<Rightarrow> string \<Rightarrow> bool \<Rightarrow>
    ('ad, 'ex, 's, 'h) sched \<Rightarrow> ('ad, 'ex, 's, 'h) sched" where
  "jobFailed E now c p why count s =
     (if JobStatus E (sd_q s) c p \<noteq> StatusRunning then s
      else case Get E (sd_q s) c p of
             None \<Rightarrow> s
           | Some ad0 \<Rightarrow>
               let excepts = failed_excepts E count (failed_prefix E now ad0);
                   held = (count \<and> excepts \<ge> sd_maxExceptions s);
                   s = modify_job E c p (failed_ad E now (sd_maxExceptions s) why count) s;
                   s = (if count then
                          s\<lparr> sd_stats := (sd_stats s)\<lparr> st_shadowExceptions :=
                               Suc (st_shadowExceptions (sd_stats s)) \<rparr> \<rparr>
                        else s)
               in log_job E c p
                    (\<lambda>ad. if held then ULHeldCore ad (failed_text excepts why) holdCodeShadowException 0
                          else ULEvicted ad why) s)"

definition handleFailed :: "('ad, 'ex, 's, 'h, 'z) ext_scheme \<Rightarrow> int \<Rightarrow> int \<Rightarrow> int \<Rightarrow> run_err option \<Rightarrow> bool \<Rightarrow> string \<Rightarrow>
    bool \<Rightarrow> ('ad, 'ex, 's, 'h) sched \<Rightarrow> ('ad, 'ex, 's, 'h) sched" where
  "handleFailed E now c p err panicked evClaim released s =
     (let ri = map_of (sd_running s) (c, p);
          s = (if ri \<noteq> None then del_running (c, p) (cancel_run (c, p) s) else s);
          detached = (case ri of None \<Rightarrow> False | Some r \<Rightarrow> ri_detached r);
          vacated = (case ri of None \<Rightarrow> False | Some r \<Rightarrow> ri_vacated r);
          runClaim = (case ri of None \<Rightarrow> [] | Some r \<Rightarrow> ri_claimID r);
          s = (if detached \<or> is_ErrDetached err then
                 (if ri \<noteq> None then drop_match E runClaim s else s)
               else
                 let claimID = (if evClaim = [] then runClaim else evClaim);
                     s = (if claimID \<noteq> [] then
                            let s = drop_match E claimID s
                            in if \<not> released then releaseClaim claimID s else s
                          else s)
                 in if vacated then s else jobFailed E now c p (errStr err) panicked s);
          s = maybeFinishDrain s
      in case ri of None \<Rightarrow> s | Some r \<Rightarrow> reapWaiters r s)"

section \<open>Exits\<close>

definition holdOnExit :: "('ad, 'ex, 's, 'h, 'z) ext_scheme \<Rightarrow> int \<Rightarrow> int \<Rightarrow> decision \<Rightarrow> int \<Rightarrow> ('ad, 'ex, 's, 'h) sched \<Rightarrow>
    ('ad, 'ex, 's, 'h) sched" where
  "holdOnExit E c p d now s =
     (let reason = (if dc_Reason d = [] then ''Job held by policy on exit'' else dc_Reason d);
          code = (if dc_HoldCode d = 0 then HoldCodeJobPolicy else dc_HoldCode d);
          s = modify_job E c p (hold_exit_ad E now reason code (dc_HoldSubCode d)) s
      in log_job E c p (\<lambda>ad. ULHeldCore ad reason code (dc_HoldSubCode d)) s)"

definition requeueOnExit :: "('ad, 'ex, 's, 'h, 'z) ext_scheme \<Rightarrow> int \<Rightarrow> int \<Rightarrow> int \<Rightarrow> string \<Rightarrow> ('ad, 'ex, 's, 'h) sched \<Rightarrow>
    ('ad, 'ex, 's, 'h) sched" where
  "requeueOnExit E c p now reason s =
     (let s = modify_job E c p (requeue_exit_ad E now) s
      in log_job E c p
           (\<lambda>ad. ULEvicted ad (if reason = [] then ''Job requeued (OnExitRemove is false)'' else reason)) s)"

definition exit_decision :: "('ad, 'ex, 's, 'h, 'z) ext_scheme \<Rightarrow> int \<Rightarrow> int \<Rightarrow> int \<Rightarrow> ('ad, 'ex, 's, 'h) sched \<Rightarrow> decision" where
  "exit_decision E now c p s =
     (case Get E (sd_q s) c p of
        None \<Rightarrow> mk_decision CompleteJob [] []
      | Some ad \<Rightarrow> Analyze E (set_int E ''CurrentTime'' now ad) PeriodicThenExit (sd_sysPolicy s) StatusRunning)"

abbreviation terminated_call :: "shadow_result \<Rightarrow> 'ad \<Rightarrow> 'ad ulog_call" where
  "terminated_call res ad \<equiv>
     (case ExitCode res of
        Some code \<Rightarrow> ULTerminated ad False code
      | None \<Rightarrow> (case TermSignal res of Some sig \<Rightarrow> ULTerminated ad True sig | None \<Rightarrow> ULTerminated ad False 0))"

definition complete_job :: "('ad, 'ex, 's, 'h, 'z) ext_scheme \<Rightarrow> int \<Rightarrow> int \<Rightarrow> int \<Rightarrow> shadow_result \<Rightarrow>
    ('ad, 'ex, 's, 'h) sched \<Rightarrow> ('ad, 'ex, 's, 'h) sched" where
  "complete_job E now c p res s =
     (let s = log_job E c p (terminated_call res) s;
          s = s\<lparr> sd_q := Complete E now (sd_q s) c p \<rparr>
      in s\<lparr> sd_stats := (sd_stats s)\<lparr> st_jobsCompleted := Suc (st_jobsCompleted (sd_stats s)) \<rparr> \<rparr>)"

text \<open>What happens once the shadow has reported the job's exit.\<close>

definition finish_exit :: "('ad, 'ex, 's, 'h, 'z) ext_scheme \<Rightarrow> int \<Rightarrow> int \<Rightarrow> int \<Rightarrow> shadow_result \<Rightarrow>
    ('ad, 'ex, 's, 'h) sched \<Rightarrow> ('ad, 'ex, 's, 'h) sched" where
  "finish_exit E now c p res s =
     (let s = s\<lparr> sd_stats := (sd_stats s)\<lparr> st_jobsExited := Suc (st_jobsExited (sd_stats s)) \<rparr> \<rparr>;
          s = modify_job E c p (exited_ad E now res) s;
          d = exit_decision E now c p s
      in case dc_Action d of
           Hold \<Rightarrow> holdOnExit E c p d now s
         | Requeue \<Rightarrow> requeueOnExit E c p now (dc_Reason d) s
         | Remove \<Rightarrow> SubmitEvent (EvPolicyRemove c p (dc_Reason d)) s
         | _ \<Rightarrow> complete_job E now c p res s)"

definition handleExited :: "('ad, 'ex, 's, 'h, 'z) ext_scheme \<Rightarrow> int \<Rightarrow> int \<Rightarrow> int \<Rightarrow> shadow_result option \<Rightarrow>
    run_err option \<Rightarrow> ('ad, 'ex, 's, 'h) sched \<Rightarrow> ('ad, 'ex, 's, 'h) sched" where
  "handleExited E now c p res err s =
     (let ri = map_of (sd_running s) (c, p);
          s = (case ri of
                 None \<Rightarrow> s
               | Some r \<Rightarrow> drop_match E (ri_claimID r) (cancel_run (c, p) (del_running (c, p) s)));
          detached = (case ri of None \<Rightarrow> False | Some r \<Rightarrow> ri_detached r);
          vacated = (case ri of None \<Rightarrow> False | Some r \<Rightarrow> ri_vacated r);
          s = (if detached \<or> vacated \<or> is_ErrDetached err then s
               else case res of
                      None \<Rightarrow> jobFailed E now c p (errStr err) True s
                    | Some r \<Rightarrow> finish_exit E now c p r s);
          s = maybeFinishDrain (nudgeMaterialize s)
      in case ri of None \<Rightarrow> s | Some r \<Rightarrow> reapWaiters r s)"

section \<open>Teardown and drain\<close>

definition handleTeardown :: "int \<Rightarrow> int \<Rightarrow> nat option \<Rightarrow> ('ad, 'ex, 's, 'h) sched \<Rightarrow> ('ad, 'ex, 's, 'h) sched" where
  "handleTeardown c p done s =
     (case map_of (sd_running s) (c, p) of
        None \<Rightarrow> close_chan done s
      | Some ri \<Rightarrow>
          let ri = ri\<lparr> ri_vacated := True \<rparr>;
              ri = (case done of None \<Rightarrow> ri | Some ch \<Rightarrow> ri\<lparr> ri_waiters := ri_waiters ri @ [ch] \<rparr>)
          in cancel_run (c, p) (set_run (c, p) ri s))"

definition requeueToIdle :: "('ad, 'ex, 's, 'h, 'z) ext_scheme \<Rightarrow> int \<Rightarrow> int \<Rightarrow> int \<Rightarrow> ('ad, 'ex, 's, 'h) sched \<Rightarrow>
    ('ad, 'ex, 's, 'h) sched" where
  "requeueToIdle E now c p s =
     (if JobStatus E (sd_q s) c p \<noteq> StatusRunning then s
      else modify_job E c p (requeue_ad E now) s)"

definition drain_vacate :: "('ad, 'ex, 's, 'h, 'z) ext_scheme \<Rightarrow> int \<Rightarrow> job_id \<times> runInfo \<Rightarrow> ('ad, 'ex, 's, 'h) sched \<Rightarrow>
    ('ad, 'ex, 's, 'h) sched" where
  "drain_vacate E now kr s =
     (case kr of (key, ri) \<Rightarrow>
        if ri_vacated ri then s
        else cancel_run key (requeueToIdle E now (fst key) (snd key) (set_run key (ri\<lparr> ri_vacated := True \<rparr>) s)))"

definition drain_detach :: "job_id \<times> runInfo \<Rightarrow> ('ad, 'ex, 's, 'h) sched \<Rightarrow> ('ad, 'ex, 's, 'h) sched" where
  "drain_detach kr s =
     (case kr of (key, ri) \<Rightarrow>
        if ri_vacated ri \<or> ri_detached ri then s
        else cancel_run key (set_run key (ri\<lparr> ri_detached := True, ri_detachFlag := True \<rparr>) s))"

definition handleDrain :: "('ad, 'ex, 's, 'h, 'z) ext_scheme \<Rightarrow> int \<Rightarrow> nat \<Rightarrow> ('ad, 'ex, 's, 'h) sched \<Rightarrow>
    ('ad, 'ex, 's, 'h) sched" where
  "handleDrain E now done s =
     (let s = s\<lparr> sd_draining := True \<rparr> in
      if sd_running s = [] then close_chan (Some done) s
      else let s = s\<lparr> sd_drainDone := Some done \<rparr> in
           if sd_reconnectDisabled s then fold (drain_vacate E now) (sd_running s) s
           else fold drain_detach (sd_running s) s)"

section \<open>Startup recovery\<close>

text \<open>One job of the recovery scan: the state after a requeue, and the run to reconnect.\<close>

definition recover_scan1 :: "('ad, 'ex, 's, 'h, 'z) ext_scheme \<Rightarrow> int \<Rightarrow> 'ad \<Rightarrow>
    ('ad, 'ex, 's, 'h) sched \<times> (job_id \<times> string \<times> string \<times> 'ad) list \<Rightarrow>
    ('ad, 'ex, 's, 'h) sched \<times> (job_id \<times> string \<times> string \<times> 'ad) list" where
  "recover_scan1 E now ad st =
     (case st of (s, rs) \<Rightarrow>
        if int_attr0 E ad ''JobStatus'' \<noteq> StatusRunning then (s, rs)
        else
          let key = (int_attr0 E ad ''ClusterId'', int_attr0 E ad ''ProcId'') in
          if map_of (sd_running s) key \<noteq> None then (s, rs)
          else
            let claimID = str_attr0 E ad ''ClaimId'';
                slotName = str_attr0 E ad ''RemoteHost''
            in if claimID = [] then (requeueToIdle E now (fst key) (snd key) s, rs)
               else if \<not> leaseAlive E ad now then (requeueToIdle E now (fst key) (snd key) s, rs)
               else (s, rs @ [(key, claimID, slotName, copyAd E ad)]))"

definition recover_start :: "('ad, 'ex, 's, 'h, 'z) ext_scheme \<Rightarrow> job_id \<times> string \<times> string \<times> 'ad \<Rightarrow>
    ('ad, 'ex, 's, 'h) sched \<Rightarrow> ('ad, 'ex, 's, 'h) sched" where
  "recover_start E r s =
     (case r of (key, claimID, slotName, job) \<Rightarrow>
        let s = add_running key (fresh_run claimID slotName True) s;
            s = (if sd_userlog s
                 then log_core (ULDisconnected job ''Connection to starter lost (schedd restarted)''
                                  slotName (str_attr0 E job ''StartdIpAddr'')) s
                 else s)
        in spawn_go (ReconnectJob (fst key) (snd key) claimID job) s)"

definition handleRecover :: "('ad, 'ex, 's, 'h, 'z) ext_scheme \<Rightarrow> int \<Rightarrow> nat option \<Rightarrow> ('ad, 'ex, 's, 'h) sched \<Rightarrow>
    ('ad, 'ex, 's, 'h) sched" where
  "handleRecover E now done s =
     (let s = (if sd_draining s then s
               else let (s, toReconnect) = fold (recover_scan1 E now) (Scan E (sd_q s)) (s, [])
                    in fold (recover_start E) toReconnect s)
      in close_chan done s)"

definition handleReconnectFailed :: "('ad, 'ex, 's, 'h, 'z) ext_scheme \<Rightarrow> int \<Rightarrow> int \<Rightarrow> int \<Rightarrow> string \<Rightarrow> run_err option \<Rightarrow>
    ('ad, 'ex, 's, 'h) sched \<Rightarrow> ('ad, 'ex, 's, 'h) sched" where
  "handleReconnectFailed E now c p evClaim err s =
     (let ri = map_of (sd_running s) (c, p);
          s = (if ri \<noteq> None then del_running (c, p) (cancel_run (c, p) s) else s);
          runClaim = (case ri of None \<Rightarrow> [] | Some r \<Rightarrow> ri_claimID r);
          claimID = (if evClaim = [] then runClaim else evClaim);
          s = (if claimID \<noteq> [] then drop_match E claimID s else s);
          s = (if (case ri of None \<Rightarrow> False | Some r \<Rightarrow> ri_vacated r \<or> ri_detached r) then s
               else let s = log_job E c p (\<lambda>ad. ULReconnectFailed ad (errStr err) (str_attr0 E ad ''RemoteHost'')) s
                    in jobFailed E now c p (''reconnect failed: '' @ errStr err) False s);
          s = maybeFinishDrain s
      in case ri of None \<Rightarrow> s | Some r \<Rightarrow> reapWaiters r s)"

section \<open>Periodic policy\<close>

fun policyApplicable :: "ActionKind \<Rightarrow> int \<Rightarrow> bool" where
  "policyApplicable ActRemove status = (status \<noteq> 0 \<and> status \<noteq> StatusRemoved)"
| "policyApplicable ActHold status = (status = StatusIdle \<or> status = StatusRunning)"
| "policyApplicable ActRelease status = (status = StatusHeld)"
| "policyApplicable ActRemoveX status = False"

definition handlePolicyAction :: "('ad, 'ex, 's, 'h, 'z) ext_scheme \<Rightarrow> int \<Rightarrow> int \<Rightarrow> ActionRequest \<Rightarrow>
    ('ad, 'ex, 's, 'h) sched \<Rightarrow> ('ad, 'ex, 's, 'h) sched" where
  "handlePolicyAction E c p req s =
     (if (c, p) \<in> set (sd_policyPending s) then s
      else if \<not> policyApplicable (r_Kind req) (JobStatus E (sd_q s) c p) then s
      else spawn_go (PolicyApply c p req) (s\<lparr> sd_policyPending := set_add (c, p) (sd_policyPending s) \<rparr>))"

definition policy_request :: "ActionKind \<Rightarrow> string \<Rightarrow> int \<Rightarrow> int \<Rightarrow> ActionRequest" where
  "policy_request kind reason code sub =
     \<lparr> r_Kind = kind, r_Actor = policyActor, r_Reason = reason, r_HoldReasonCode = code,
       r_HoldReasonSub = sub, r_System = True \<rparr>"

text \<open>The goroutine started by \<open>handlePolicyAction\<close>.\<close>

definition policy_apply :: "('ad, 'ex, 's, 'h, 'z) ext_scheme \<Rightarrow> ('ad, 's, 'h) vacate_hook \<Rightarrow> int \<Rightarrow> int \<Rightarrow> int \<Rightarrow>
    ActionRequest \<Rightarrow> ('ad, 'ex, 's, 'h) sched \<Rightarrow> ('ad, 'ex, 's, 'h) sched" where
  "policy_apply E vac now c p req s =
     SubmitEvent (EvPolicyDone (c, p)) (s\<lparr> sd_q := snd (ApplyAction E vac now (sd_q s) c p req) \<rparr>)"

definition hasPeriodicExpr :: "('ad, 'ex, 'z) classad_ops_scheme \<Rightarrow> 'ad \<Rightarrow> int \<Rightarrow> bool" where
  "hasPeriodicExpr A ad state =
     (if has_attr A ad ''PeriodicRemove'' then True
      else if has_attr A ad ''PeriodicHold'' then True
      else state = StatusHeld \<and> has_attr A ad ''PeriodicRelease'')"

definition periodic_event :: "('ad, 'ex, 's, 'h, 'z) ext_scheme \<Rightarrow> int \<Rightarrow> 'ex system_policy option \<Rightarrow> 'ad \<Rightarrow>
    'ad event option" where
  "periodic_event E now sys shared =
     (let state = int_attr0 E shared ''JobStatus'' in
      if EmptySystem sys \<and> \<not> hasPeriodicExpr E shared state then None
      else
        let ad = set_int E ''CurrentTime'' now (copyAd E shared);
            c = int_attr0 E ad ''ClusterId'';
            p = int_attr0 E ad ''ProcId'';
            d = Analyze E ad PeriodicOnly sys state
        in case dc_Action d of
             Remove \<Rightarrow> Some (EvPolicyRemove c p (dc_Reason d))
           | Hold \<Rightarrow> Some (EvPolicyHold c p (dc_Reason d) (dc_HoldCode d) (dc_HoldSubCode d))
           | Release \<Rightarrow> Some (EvPolicyRelease c p (dc_Reason d))
           | _ \<Rightarrow> None)"

definition evaluatePeriodic :: "('ad, 'ex, 's, 'h, 'z) ext_scheme \<Rightarrow> int \<Rightarrow> ('ad, 'ex, 's, 'h) sched \<Rightarrow>
    ('ad, 'ex, 's, 'h) sched" where
  "evaluatePeriodic E now s =
     fold SubmitEvent (List.map_filter (periodic_event E now (sd_sysPolicy s)) (Scan E (sd_q s))) s"

section \<open>The lease sweep\<close>

definition renew_run :: "('ad, 'ex, 's, 'h, 'z) ext_scheme \<Rightarrow> int \<Rightarrow> job_id \<times> runInfo \<Rightarrow> ('ad, 'ex, 's, 'h) sched \<Rightarrow>
    ('ad, 'ex, 's, 'h) sched" where
  "renew_run E now kr s =
     (case kr of (key, ri) \<Rightarrow>
        if ri_vacated ri \<or> ri_detached ri then s
        else
          let s = s\<lparr> sd_matches := snd (RenewLeaseFor E now (ri_claimID ri) (3 * sd_sweepInterval s) (sd_matches s)) \<rparr>
          in if JobStatus E (sd_q s) (fst key) (snd key) = StatusRunning
             then modify_job E (fst key) (snd key) (set_int E ''LastJobLeaseRenewal'' now) s
             else s)"

text \<open>\<open>claimPublicID\<close> is the lookup key of the match table.\<close>

definition claimPublicID :: "('ad, 'ex, 's, 'h, 'z) ext_scheme \<Rightarrow> string \<Rightarrow> string" where
  "claimPublicID E claimID = (if sec_session_id E claimID = [] then claimID else sec_session_id E claimID)"

definition expire_rec :: "('ad, 'ex, 's, 'h, 'z) ext_scheme \<Rightarrow> int \<Rightarrow> 'ad match_rec \<Rightarrow> ('ad, 'ex, 's, 'h) sched \<Rightarrow>
    ('ad, 'ex, 's, 'h) sched" where
  "expire_rec E now rec s =
     (case List.find (\<lambda>(key, ri). \<not> ri_vacated ri \<and> claimPublicID E (ri_claimID ri) = m_publicID rec) (sd_running s) of
        None \<Rightarrow> s
      | Some (key, ri) \<Rightarrow>
          cancel_run key (requeueToIdle E now (fst key) (snd key) (set_run key (ri\<lparr> ri_vacated := True \<rparr>) s)))"

definition sweepExpired :: "('ad, 'ex, 's, 'h, 'z) ext_scheme \<Rightarrow> int \<Rightarrow> int \<Rightarrow> ('ad, 'ex, 's, 'h) sched \<Rightarrow>
    ('ad, 'ex, 's, 'h) sched" where
  "sweepExpired E now now' s =
     (let s = fold (renew_run E now) (sd_running s) s;
          (expired, matches) = ExpireSweep now' (sd_matches s);
          s = s\<lparr> sd_matches := matches \<rparr>
      in fold (expire_rec E now') expired s)"

section \<open>Dispatch\<close>

definition handle :: "('ad, 'ex, 's, 'h, 'z) ext_scheme \<Rightarrow> int \<Rightarrow> 'ad event \<Rightarrow> ('ad, 'ex, 's, 'h) sched \<Rightarrow>
    ('ad, 'ex, 's, 'h) sched" where
  "handle E now ev s =
     (case ev of
        EvMatch m \<Rightarrow> handleMatch E m s
      | EvStarted c p slotName claimID \<Rightarrow> handleStarted E now c p slotName claimID s
      | EvExited c p res err \<Rightarrow> handleExited E now c p res err s
      | EvFailed c p err panicked claimID released \<Rightarrow> handleFailed E now c p err panicked claimID released s
      | EvReschedule \<Rightarrow> nudgeAdvertise s
      | EvTeardown c p done \<Rightarrow> handleTeardown c p done s
      | EvDrain done \<Rightarrow> handleDrain E now done s
      | EvReconnectFailed c p claimID err \<Rightarrow> handleReconnectFailed E now c p claimID err s
      | EvRecover done \<Rightarrow> handleRecover E now done s
      | EvPolicyRemove c p reason \<Rightarrow> handlePolicyAction E c p (policy_request ActRemove reason 0 0) s
      | EvPolicyHold c p reason code sub \<Rightarrow> handlePolicyAction E c p (policy_request ActHold reason code sub) s
      | EvPolicyRelease c p reason \<Rightarrow> handlePolicyAction E c p (policy_request ActRelease reason 0 0) s
      | EvPolicyDone key \<Rightarrow> s\<lparr> sd_policyPending := removeAll key (sd_policyPending s) \<rparr>)"

definition OnMatch :: "'ad nmatch \<Rightarrow> ('ad, 'ex, 's, 'h) sched \<Rightarrow> ('ad, 'ex, 's, 'h) sched" where
  "OnMatch m s =
     SubmitEvent (EvMatch m)
       (s\<lparr> sd_stats := (sd_stats s)\<lparr> st_matchesReceived := Suc (st_matchesReceived (sd_stats s)) \<rparr> \<rparr>)"

section \<open>The per-job goroutines\<close>

text \<open>What the calls of \<open>runJob\<close> return, in the order it makes them.\<close>

record 'ad run_outcome =
  ro_import :: "string \<Rightarrow> string \<Rightarrow> string option"
  ro_startd :: "string \<Rightarrow> bool"
  ro_claim :: "(string \<times> 'ad option) list option"
  ro_activate :: bool
  ro_shadow :: bool
  ro_run :: "shadow_result option \<times> run_err option"

definition failed_event :: "int \<Rightarrow> int \<Rightarrow> string \<Rightarrow> string \<Rightarrow> 'ad event" where
  "failed_event c p txt claimID = EvFailed c p (Some (RunErr False False txt)) False claimID False"

text \<open>
  The events \<open>runJob\<close> submits when nothing panics, in order, and the match table afterwards. The
  texts of the errors are abbreviated to their prefix.
\<close>

definition run_activate :: "int \<Rightarrow> int \<Rightarrow> string \<Rightarrow> string \<Rightarrow> 'ad run_outcome \<Rightarrow> 'ad event list" where
  "run_activate c p slotName claimID o' =
     (if \<not> ro_activate o' then [failed_event c p ''ACTIVATE_CLAIM failed'' claimID]
      else if \<not> ro_shadow o' then [EvStarted c p slotName claimID, failed_event c p ''shadow.New'' claimID]
      else [EvStarted c p slotName claimID, EvExited c p (fst (ro_run o')) (snd (ro_run o'))])"

definition pick_slot :: "string \<Rightarrow> (string \<times> 'ad option) list \<Rightarrow> string \<times> 'ad option" where
  "pick_slot claimID slots =
     (case List.find (\<lambda>(cid, _). cid = claimID) slots of Some cs \<Rightarrow> cs | None \<Rightarrow> hd slots)"

definition run_claim :: "('ad, 'ex, 's, 'h, 'z) ext_scheme \<Rightarrow> int \<Rightarrow> int \<Rightarrow> 'ad nmatch \<Rightarrow> 'ad run_outcome \<Rightarrow>
    'ad match_table \<Rightarrow> 'ad event list \<times> 'ad match_table" where
  "run_claim E now aliveInterval m o' t =
     (let c = nm_Cluster m; p = nm_Proc m in
      case CreateFromClaim E (ro_import o') now (nm_ClaimID m) (nm_MatchAd m) aliveInterval t of
        (None, t) \<Rightarrow> ([failed_event c p ''import claim session'' (nm_ClaimID m)], t)
      | (Some _, t) \<Rightarrow>
          if \<not> ro_startd o' (nm_ClaimID m) then ([failed_event c p ''startd client'' (nm_ClaimID m)], t)
          else case ro_claim o' of
                 None \<Rightarrow> ([failed_event c p ''REQUEST_CLAIM failed'' (nm_ClaimID m)], t)
               | Some [] \<Rightarrow> (run_activate c p (nm_SlotName m) (nm_ClaimID m) o', t)
               | Some slots \<Rightarrow>
                   let (csClaim, csAd) = pick_slot (nm_ClaimID m) slots;
                       slotName = (case csAd of
                                     None \<Rightarrow> nm_SlotName m
                                   | Some ad \<Rightarrow> if str_attr0 E ad ''Name'' \<noteq> [] then str_attr0 E ad ''Name''
                                               else nm_SlotName m)
                   in if csClaim \<noteq> nm_ClaimID m then
                        (if \<not> ro_startd o' csClaim
                         then ([failed_event c p ''dslot startd client'' (nm_ClaimID m)], t)
                         else case CreateFromClaim E (ro_import o') now csClaim csAd aliveInterval
                                     (snd (RemoveClaim E (nm_ClaimID m) t)) of
                                (None, t) \<Rightarrow> ([failed_event c p ''import dslot claim session'' csClaim], t)
                              | (Some _, t) \<Rightarrow> (run_activate c p slotName csClaim o', t))
                      else (run_activate c p slotName (nm_ClaimID m) o',
                            snd (UpdateSlotAd E (nm_ClaimID m) csAd t)))"

definition reconnect_claim :: "('ad, 'ex, 's, 'h, 'z) ext_scheme \<Rightarrow> bool \<Rightarrow> int \<Rightarrow> int \<Rightarrow> int \<Rightarrow> int \<Rightarrow> string \<Rightarrow> 'ad \<Rightarrow>
    'ad run_outcome \<Rightarrow> 'ad match_table \<Rightarrow> 'ad event list \<times> 'ad ulog_call list \<times> 'ad match_table" where
  "reconnect_claim E ulset now aliveInterval c p claimID job o' t =
     (let failed = (\<lambda>err. [EvReconnectFailed c p claimID err]);
          txt = (\<lambda>s. Some (RunErr False False s))
      in case CreateFromClaim E (ro_import o') now claimID None aliveInterval t of
           (None, t) \<Rightarrow> (failed (txt ''import claim session''), [], t)
         | (Some _, t) \<Rightarrow>
             if \<not> ro_startd o' claimID then (failed (txt ''startd client''), [], t)
             else if \<not> ro_shadow o' then (failed (txt ''shadow.NewReconnect''), [], t)
             else let (res, err) = ro_run o' in
                  if (case err of None \<Rightarrow> False | Some e \<Rightarrow> is_reconnect_failed e) then (failed err, [], t)
                  else ([EvExited c p res err],
                        (if ulset
                         then [ULReconnected job (str_attr0 E job ''RemoteHost'') (str_attr0 E job ''StartdIpAddr'')
                                 (str_attr0 E job ''StartdIpAddr'')]
                         else []), t))"

text \<open>
  The deferred recovery of both goroutines: a panic after \<open>i\<close> events have been submitted replaces the
  events still to come by one failure, which is charged to the job. A reconnect that panics has not
  reached its log call.
\<close>

definition recovered :: "int \<Rightarrow> int \<Rightarrow> (nat \<times> string) option \<Rightarrow> 'ad event list \<Rightarrow> 'ad event list" where
  "recovered c p pan evs =
     (case pan of
        None \<Rightarrow> evs
      | Some (i, r) \<Rightarrow>
          if i < length evs
          then take i evs @ [EvFailed c p (Some (RunErr False False (''panic: '' @ r))) True [] False]
          else evs)"

definition runJob :: "('ad, 'ex, 's, 'h, 'z) ext_scheme \<Rightarrow> int \<Rightarrow> int \<Rightarrow> 'ad nmatch \<Rightarrow> 'ad run_outcome \<Rightarrow>
    (nat \<times> string) option \<Rightarrow> 'ad match_table \<Rightarrow> 'ad event list \<times> 'ad match_table" where
  "runJob E now aliveInterval m o' pan t =
     (let (evs, t) = run_claim E now aliveInterval m o' t
      in (recovered (nm_Cluster m) (nm_Proc m) pan evs, t))"

definition reconnectJob :: "('ad, 'ex, 's, 'h, 'z) ext_scheme \<Rightarrow> bool \<Rightarrow> int \<Rightarrow> int \<Rightarrow> int \<Rightarrow> int \<Rightarrow> string \<Rightarrow> 'ad \<Rightarrow>
    'ad run_outcome \<Rightarrow> (nat \<times> string) option \<Rightarrow> 'ad match_table \<Rightarrow> 'ad event list \<times> 'ad ulog_call list \<times> 'ad match_table" where
  "reconnectJob E ulset now aliveInterval c p claimID job o' pan t =
     (let (evs, ul, t) = reconnect_claim E ulset now aliveInterval c p claimID job o' t
      in (recovered c p pan evs, if recovered c p pan evs = evs then ul else [], t))"

text \<open>The hook that makes the shadow of one job panic once.\<close>

definition consumePanicHook :: "int \<Rightarrow> int \<Rightarrow> bool \<times> job_id \<Rightarrow> bool \<times> (bool \<times> job_id)" where
  "consumePanicHook c p hook =
     (case hook of (armed, job) \<Rightarrow> if \<not> armed \<or> job \<noteq> (c, p) then (False, hook) else (True, (False, job)))"

end
