(* ===== verification/PolicyProps.thy ===== *)
theory PolicyProps
  imports SchedCore TxnCommit
begin

text \<open>
  The policy engine of \<open>internal/policy\<close> against a specification of its precedence, and its composition with the
  action machine the scheduler core applies its decisions with.
\<close>

section \<open>The specification\<close>

text \<open>
  The policy as its documentation gives it: an ordered table of conditions and actions of which the first whose
  condition holds decides.
\<close>

definition job_or_system :: "('ad, 'ex, 'z) classad_ops_scheme \<Rightarrow> 'ad \<Rightarrow> string \<Rightarrow>
    ('ex system_policy \<Rightarrow> 'ex option) \<Rightarrow> 'ex system_policy option \<Rightarrow> bool" where
  "job_or_system A ad name sel sys =
     (fires A ad name \<or> (case sys of None \<Rightarrow> False | Some s \<Rightarrow> firesExpr A ad (sel s)))"

definition policy_table :: "('ad, 'ex, 'z) classad_ops_scheme \<Rightarrow> 'ad \<Rightarrow> policy_mode \<Rightarrow> 'ex system_policy option \<Rightarrow> int \<Rightarrow>
    (bool \<times> policy_action) list" where
  "policy_table A ad mode sys st =
     [(st = StatusRemoved \<and> mode = PeriodicOnly, Stay),
      (st = StatusRemoved, Remove),
      (st \<noteq> StatusHeld \<and> st \<noteq> StatusCompleted \<and> job_or_system A ad ''PeriodicHold'' s_holdExpr sys, Hold),
      (st = StatusHeld \<and> int_attr0 A ad ''HoldReasonCode'' \<noteq> HoldCodeUserRequest \<and>
         job_or_system A ad ''PeriodicRelease'' s_releaseExpr sys, Release),
      (job_or_system A ad ''PeriodicRemove'' s_removeExpr sys, Remove),
      (mode = PeriodicOnly, Stay),
      (fires A ad ''OnExitHold'', Hold),
      (onExitRemoveIsFalse A ad, Requeue),
      (True, CompleteJob)]"

definition first_rule :: "(bool \<times> 'a) list \<Rightarrow> 'a" where
  "first_rule rules = snd (hd (filter fst rules))"

lemma check_actions:
  "checkHold A ad sys = None \<longleftrightarrow> \<not> job_or_system A ad ''PeriodicHold'' s_holdExpr sys"
  "checkRelease A ad sys = None \<longleftrightarrow> \<not> job_or_system A ad ''PeriodicRelease'' s_releaseExpr sys"
  "checkRemove A ad sys = None \<longleftrightarrow> \<not> job_or_system A ad ''PeriodicRemove'' s_removeExpr sys"
  "checkHold A ad sys = Some d \<Longrightarrow> dc_Action d = Hold"
  "checkRelease A ad sys = Some d \<Longrightarrow> dc_Action d = Release"
  "checkRemove A ad sys = Some d \<Longrightarrow> dc_Action d = Remove"
  by (auto simp: checkHold_def checkRelease_def checkRemove_def job_or_system_def mk_decision_def Let_def
        split: if_splits option.splits)

lemma mk_decision_action [simp]: "dc_Action (mk_decision a f r) = a"
  by (simp add: mk_decision_def)

lemma first_rule_simps:
  "first_rule [(True, a)] = a" "first_rule ((b, a) # x # rules) = (if b then a else first_rule (x # rules))"
  by (simp_all add: first_rule_def)

lemma try_hold: "dc_Action (case (if b then checkHold A ad sys else None) of Some d \<Rightarrow> d | None \<Rightarrow> e) =
    (if b \<and> job_or_system A ad ''PeriodicHold'' s_holdExpr sys then Hold else dc_Action e)"
proof (cases "checkHold A ad sys")
  case None
  then show ?thesis using check_actions(1) [of A ad sys] by simp
next
  case (Some d)
  then show ?thesis using check_actions(1) [of A ad sys] check_actions(4) [OF Some] by simp
qed

lemma try_release: "dc_Action (case (if b then checkRelease A ad sys else None) of Some d \<Rightarrow> d | None \<Rightarrow> e) =
    (if b \<and> job_or_system A ad ''PeriodicRelease'' s_releaseExpr sys then Release else dc_Action e)"
proof (cases "checkRelease A ad sys")
  case None
  then show ?thesis using check_actions(2) [of A ad sys] by simp
next
  case (Some d)
  then show ?thesis using check_actions(2) [of A ad sys] check_actions(5) [OF Some] by simp
qed

lemma try_remove: "dc_Action (case checkRemove A ad sys of Some d \<Rightarrow> d | None \<Rightarrow> e) =
    (if job_or_system A ad ''PeriodicRemove'' s_removeExpr sys then Remove else dc_Action e)"
proof (cases "checkRemove A ad sys")
  case None
  then show ?thesis using check_actions(3) [of A ad sys] by simp
next
  case (Some d)
  then show ?thesis using check_actions(3) [of A ad sys] check_actions(6) [OF Some] by simp
qed

lemma on_exit_action: "dc_Action (on_exit A ad) = (if fires A ad ''OnExitHold'' then Hold
    else if onExitRemoveIsFalse A ad then Requeue else CompleteJob)"
  by (simp add: on_exit_def)

lemma analyze_action:
  assumes "st = (if state < 0 then int_attr0 A ad ''JobStatus'' else state)"
  shows "dc_Action (Analyze A ad mode sys state) =
    (if st = StatusRemoved then (if mode = PeriodicOnly then Stay else Remove)
     else if (st \<noteq> StatusHeld \<and> st \<noteq> StatusCompleted) \<and> job_or_system A ad ''PeriodicHold'' s_holdExpr sys then Hold
     else if (st = StatusHeld \<and> int_attr0 A ad ''HoldReasonCode'' \<noteq> HoldCodeUserRequest) \<and>
             job_or_system A ad ''PeriodicRelease'' s_releaseExpr sys then Release
     else if job_or_system A ad ''PeriodicRemove'' s_removeExpr sys then Remove
     else if mode = PeriodicOnly then Stay
     else if fires A ad ''OnExitHold'' then Hold
     else if onExitRemoveIsFalse A ad then Requeue else CompleteJob)"
  unfolding Analyze_def assms [symmetric] Let_def
  by (simp only: if_distrib [of dc_Action] try_hold try_release try_remove mk_decision_action on_exit_action)

definition ref_held_by_policy :: "(ref_ad, ref_store, ref_ad list) queue" where
  "ref_held_by_policy = snd (Modify refE ref_q1 1 0 (\<lambda>ad. set_int refE ''JobStatus'' StatusHeld
     (set_int refE ''HoldReasonCode'' 3 (set_bool refE ''PeriodicRelease'' True ad))))"

section \<open>Properties\<close>

text \<open>
  C13. The policy engine implements its table: for every ad, mode, system policy and state (a
  negative state stands for the ad's own) \<open>Analyze\<close> returns the action of the first row that applies.
\<close>

theorem analyze_first_rule:
  "dc_Action (Analyze A ad mode sys state) =
     first_rule (policy_table A ad mode sys (if state < 0 then int_attr0 A ad ''JobStatus'' else state))"
proof -
  define st where "st = (if state < 0 then int_attr0 A ad ''JobStatus'' else state)"
  show ?thesis
    unfolding st_def [symmetric] analyze_action [OF st_def] policy_table_def first_rule_simps conj_assoc
    by (cases "st = StatusRemoved"; cases "mode = PeriodicOnly"; simp only: simp_thms if_True if_False)
qed

definition policy_kind :: "policy_action \<Rightarrow> ActionKind option" where
  "policy_kind a = (case a of Hold \<Rightarrow> Some ActHold | Release \<Rightarrow> Some ActRelease | Remove \<Rightarrow> Some ActRemove | _ \<Rightarrow> None)"

text \<open>
  C14. Every periodic decision is one the action machine accepts: a hold, release or removal
  decided for a job in the queue passes the check of the corresponding action, except the release of a job whose
  input is still being spooled. A job held by its user (code 1) is never released.
\<close>

theorem periodic_decision_accepted:
  assumes "Get E q c p = Some ad"
    and "policy_kind (dc_Action (Analyze E ad PeriodicOnly sys (-1))) = Some k"
  shows "(CheckAction E vac now q c p (policy_request k reason code sub) = ArSuccess \<or>
          k = ActRelease \<and> int_attr0 E ad ''HoldReasonCode'' = 16) \<and>
     (k = ActRelease \<longrightarrow> int_attr0 E ad ''HoldReasonCode'' \<noteq> 1)"
  using assms
  by (auto simp: analyze_action policy_kind_def CheckAction_def actOnJob_def action_denied_def policy_request_def Let_def
        split: if_splits)

theorem periodic_decision_accepted_witness:
  "CheckAction refE None 300 ref_held_by_policy 1 0 (policy_request ActRelease [] 0 0) = ArSuccess"
proof -
  obtain ad where "Get refE ref_held_by_policy 1 0 = Some ad"
    "policy_kind (dc_Action (Analyze refE ad PeriodicOnly None (-1))) = Some ActRelease" "int_attr0 refE ad ''HoldReasonCode'' = 3"
  proof -
    have "map_option (\<lambda>ad. (policy_kind (dc_Action (Analyze refE ad PeriodicOnly None (-1))), int_attr0 refE ad ''HoldReasonCode''))
        (Get refE ref_held_by_policy 1 0) = Some (Some ActRelease, 3)" by code_simp
    then show thesis using that by auto
  qed
  then show ?thesis using periodic_decision_accepted by fastforce
qed

text \<open>
  When a running job's shadow has reported an exit, the policy always ends the run: the decision is to
  complete, requeue, hold or remove the job, never to let it stay or to release it.
\<close>

theorem exit_decision_ends_run:
  "dc_Action (exit_decision E now c p s) \<in> {CompleteJob, Requeue, Hold, Remove}"
  by (auto simp: exit_decision_def analyze_action [OF refl] split: option.splits)

end
