(* ===== verification/MatchProps.thy ===== *)
theory MatchProps
  imports Match Reference
begin

text \<open>
  The match table of \<open>internal/match\<close> behind the interface its clients use, the locale \<open>lease_table\<close>, and the
  properties of leases.
\<close>

section \<open>The interface of the lease table\<close>

text \<open>
  What the scheduler core relies on: the table is a finite map from public claim ids to lease deadlines
  (a deadline may be absent), of which renewing, dropping and sweeping have the obvious effect.
\<close>

definition past :: "int \<Rightarrow> int option option \<Rightarrow> bool" where
  "past now l = (case l of Some (Some d) \<Rightarrow> d < now | _ \<Rightarrow> False)"

locale lease_table =
  fixes inv :: "'t \<Rightarrow> bool"
    and lease :: "'t \<Rightarrow> string \<Rightarrow> int option option"
    and pub :: "string \<Rightarrow> string"
    and renew_for :: "int \<Rightarrow> string \<Rightarrow> int \<Rightarrow> 't \<Rightarrow> 't"
    and drop_claim :: "string \<Rightarrow> 't \<Rightarrow> 't"
    and sweep :: "int \<Rightarrow> 't \<Rightarrow> string list \<times> 't"
  assumes inv_renew: "inv t \<Longrightarrow> inv (renew_for now c d t)"
    and inv_drop: "inv t \<Longrightarrow> inv (drop_claim c t)"
    and inv_sweep: "inv t \<Longrightarrow> inv (snd (sweep now t))"
    and lease_renew: "inv t \<Longrightarrow> lease (renew_for now c d t) k =
          (if k = pub c \<and> lease t k \<noteq> None then Some (Some (now + d)) else lease t k)"
    and lease_drop: "inv t \<Longrightarrow> lease (drop_claim c t) k = (if k = pub c then None else lease t k)"
    and lease_sweep: "inv t \<Longrightarrow> lease (snd (sweep now t)) k = (if past now (lease t k) then None else lease t k)"
    and swept: "inv t \<Longrightarrow> k \<in> set (fst (sweep now t)) \<longleftrightarrow> past now (lease t k)"
begin

lemma renew_all:
  assumes "inv t"
  shows "inv (fold (\<lambda>c. renew_for now c d) cs t) \<and>
     lease (fold (\<lambda>c. renew_for now c d) cs t) k =
       (if k \<in> pub ` set cs \<and> lease t k \<noteq> None then Some (Some (now + d)) else lease t k)"
  using assms
proof (induction cs arbitrary: t)
  case (Cons c cs)
  from Cons.IH [OF inv_renew [OF Cons.prems], of now c d] show ?case
    using lease_renew [OF Cons.prems, of now c d k] by (cases "lease t k"; cases "k = pub c") simp_all
qed simp

text \<open>A claim that was just renewed is not swept before its lease is over.\<close>

lemma renewed_not_swept:
  assumes "inv t" and "c \<in> set cs" and "now' \<le> now + d"
  shows "pub c \<notin> set (fst (sweep now' (fold (\<lambda>c. renew_for now c d) cs t)))"
proof -
  have "\<not> past now' (lease (fold (\<lambda>c. renew_for now c d) cs t) (pub c))"
    using renew_all [OF assms(1), of now d cs "pub c"] assms(2,3) by (cases "lease t (pub c)") (simp_all add: past_def)
  then show ?thesis using swept [OF conjunct1 [OF renew_all [OF assms(1)]]] by blast
qed

lemma sweep_idem:
  assumes "inv t"
  shows "set (fst (sweep now (snd (sweep now t)))) = {}"
proof -
  have "\<not> past now (lease (snd (sweep now t)) k)" for k
    unfolding lease_sweep [OF assms] by (simp add: past_def)
  then show ?thesis by (simp add: swept [OF inv_sweep [OF assms]] set_eq_iff del: set_empty)
qed

end

section \<open>The match table provides it\<close>

definition match_inv :: "'ad match_table \<Rightarrow> bool" where
  "match_inv t = (distinct (map fst (mt_byPublic t)) \<and> (\<forall>(k, r) \<in> set (mt_byPublic t). m_publicID r = k))"

definition lease_of :: "'ad match_table \<Rightarrow> string \<Rightarrow> int option option" where
  "lease_of t k = map_option m_LeaseDeadline (map_of (mt_byPublic t) k)"

definition renew_claim :: "('ad, 'ex, 's, 'h, 'z) ext_scheme \<Rightarrow> int \<Rightarrow> string \<Rightarrow> int \<Rightarrow> 'ad match_table \<Rightarrow> 'ad match_table" where
  "renew_claim E now c d t = snd (RenewLeaseFor E now c d t)"

definition drop_of :: "('ad, 'ex, 's, 'h, 'z) ext_scheme \<Rightarrow> string \<Rightarrow> 'ad match_table \<Rightarrow> 'ad match_table" where
  "drop_of E c t = snd (RemoveClaim E c t)"

definition sweep_ids :: "int \<Rightarrow> 'ad match_table \<Rightarrow> string list \<times> 'ad match_table" where
  "sweep_ids now t = (case ExpireSweep now t of (recs, t) \<Rightarrow> (map m_publicID recs, t))"

lemma match_inv_update:
  "match_inv t \<Longrightarrow> m_publicID r = k \<Longrightarrow> match_inv (t\<lparr> mt_byPublic := AList.update k r (mt_byPublic t) \<rparr>)"
  using set_update_sub [of k r "mt_byPublic t"] by (auto simp: match_inv_def AList.distinct_update)

lemma match_inv_find: "match_inv t \<Longrightarrow> map_of (mt_byPublic t) k = Some r \<Longrightarrow> m_publicID r = k"
  by (auto simp: match_inv_def dest!: map_of_SomeD)

lemma match_inv_upd_rec:
  assumes "match_inv t" and "\<And>r. m_publicID (f r) = m_publicID r"
  shows "match_inv (snd (upd_rec E c f t))"
  using assms match_inv_find [OF assms(1)] by (auto simp: upd_rec_def intro!: match_inv_update split: option.splits)

lemma match_inv_ops:
  shows "match_inv NewTable" and "match_inv t \<Longrightarrow> match_inv (SetAlivesMissed n t)"
    and "match_inv t \<Longrightarrow> match_inv (snd (CreateFromClaim E imp now c ad ai t))"
    and "match_inv t \<Longrightarrow> match_inv (snd (RenewLease E now c t))"
    and "match_inv t \<Longrightarrow> match_inv (snd (RenewLeaseFor E now c d t))"
    and "match_inv t \<Longrightarrow> match_inv (snd (UpdateSlotAd E c ad t))"
    and "match_inv t \<Longrightarrow> match_inv (snd (RemoveClaim E c t))"
    and "match_inv t \<Longrightarrow> match_inv (snd (ExpireSweep now t))"
proof -
  show "match_inv NewTable" by (simp add: match_inv_def NewTable_def)
  show "match_inv (SetAlivesMissed n t)" if "match_inv t" using that by (simp add: match_inv_def SetAlivesMissed_def)
  show "match_inv (snd (CreateFromClaim E imp now c ad ai t))" if "match_inv t"
    using that by (auto simp: CreateFromClaim_def Let_def intro!: match_inv_update split: option.splits)
  show "match_inv (snd (RenewLease E now c t))" "match_inv (snd (RenewLeaseFor E now c d t))"
    "match_inv (snd (UpdateSlotAd E c ad t))" if "match_inv t"
    using that by (simp_all add: RenewLease_def RenewLeaseFor_def UpdateSlotAd_def match_inv_upd_rec)
  show "match_inv (snd (RemoveClaim E c t))" if "match_inv t"
    using that set_delete_sub [of "public_of E c" "mt_byPublic t"]
    by (auto simp: RemoveClaim_def match_inv_def AList.distinct_delete)
  show "match_inv (snd (ExpireSweep now t))" if "match_inv t"
    using that by (auto simp: ExpireSweep_def match_inv_def distinct_map_filter)
qed

lemma lease_sweep_eq:
  assumes "match_inv t"
  shows "lease_of (snd (ExpireSweep now t)) k = (if past now (lease_of t k) then None else lease_of t k)"
  using assms map_of_filter_rec [of "mt_byPublic t" "\<lambda>r. \<not> lease_expired now r" k]
  by (auto simp: ExpireSweep_def lease_of_def match_inv_def past_def lease_expired_def split: option.splits)

lemma swept_iff:
  assumes "match_inv t"
  shows "k \<in> m_publicID ` set (fst (ExpireSweep now t)) \<longleftrightarrow> past now (lease_of t k)"
proof
  assume "k \<in> m_publicID ` set (fst (ExpireSweep now t))"
  then obtain k' r where r: "(k', r) \<in> set (mt_byPublic t)" "lease_expired now r" "m_publicID r = k"
    by (auto simp: ExpireSweep_def)
  then have "map_of (mt_byPublic t) k = Some r" using assms by (auto simp: match_inv_def)
  then show "past now (lease_of t k)" using r(2) by (simp add: past_def lease_of_def lease_expired_def split: option.splits)
next
  assume "past now (lease_of t k)"
  then obtain r where r: "map_of (mt_byPublic t) k = Some r" "lease_expired now r"
    by (auto simp: past_def lease_of_def lease_expired_def split: option.splits)
  moreover have "m_publicID r = k" by (rule match_inv_find [OF assms r(1)])
  ultimately show "k \<in> m_publicID ` set (fst (ExpireSweep now t))"
    by (force simp: ExpireSweep_def dest: map_of_SomeD)
qed

interpretation lt: lease_table match_inv lease_of "public_of E" "renew_claim E" "drop_of E" sweep_ids
  for E :: "('ad, 'ex, 's, 'h, 'z) ext_scheme"
proof unfold_locales
  fix t :: "'ad match_table" and now d :: int and c k :: string
  assume inv: "match_inv t"
  show "match_inv (renew_claim E now c d t)" "match_inv (drop_of E c t)" "match_inv (snd (sweep_ids now t))"
    using match_inv_ops(5,7,8) [OF inv]
    by (simp_all add: renew_claim_def drop_of_def sweep_ids_def case_prod_beta)
  show "lease_of (renew_claim E now c d t) k =
      (if k = public_of E c \<and> lease_of t k \<noteq> None then Some (Some (now + d)) else lease_of t k)"
    by (auto simp: renew_claim_def RenewLeaseFor_def upd_rec_def lease_of_def split: option.splits)
  show "lease_of (drop_of E c t) k = (if k = public_of E c then None else lease_of t k)"
    by (simp add: drop_of_def RemoveClaim_def lease_of_def)
  show "lease_of (snd (sweep_ids now t)) k = (if past now (lease_of t k) then None else lease_of t k)"
    using lease_sweep_eq [OF inv] by (simp add: sweep_ids_def case_prod_beta)
  show "(k \<in> set (fst (sweep_ids now t))) = past now (lease_of t k)"
    using swept_iff [OF inv] by (simp add: sweep_ids_def case_prod_beta)
qed

section \<open>Reachable tables\<close>

inductive table_run :: "('ad, 'ex, 's, 'h, 'z) ext_scheme \<Rightarrow> 'ad match_table \<Rightarrow> bool"
  for E :: "('ad, 'ex, 's, 'h, 'z) ext_scheme" where
  new: "table_run E NewTable"
| alives: "table_run E t \<Longrightarrow> table_run E (SetAlivesMissed n t)"
| create: "table_run E t \<Longrightarrow> table_run E (snd (CreateFromClaim E imp now c ad ai t))"
| renew: "table_run E t \<Longrightarrow> table_run E (snd (RenewLease E now c t))"
| renew_for: "table_run E t \<Longrightarrow> table_run E (snd (RenewLeaseFor E now c d t))"
| slot: "table_run E t \<Longrightarrow> table_run E (snd (UpdateSlotAd E c ad t))"
| remove: "table_run E t \<Longrightarrow> table_run E (snd (RemoveClaim E c t))"
| sweep: "table_run E t \<Longrightarrow> table_run E (snd (ExpireSweep now t))"

lemma table_run_inv: "table_run E t \<Longrightarrow> match_inv t"
  by (induction rule: table_run.induct) (simp_all add: match_inv_ops)

text \<open>
  C15. The match table refines a map from public claim ids to lease deadlines: on every table
  that can be reached, creating, renewing and removing a claim and sweeping act on that map as their contract says,
  and a sweep reports exactly the claims whose deadline has passed.
\<close>

theorem match_table_refines:
  assumes "table_run E t"
  shows "lease_of (snd (CreateFromClaim E imp now c ad ai t)) =
       (if imp (claimSinful c) c = None then lease_of t
        else (lease_of t)(public_of E c \<mapsto> Some (now + leaseDuration t ai))) \<and>
     lease_of (snd (RenewLease E now c t)) =
       (case FindByClaimID E c t of None \<Rightarrow> lease_of t
        | Some r \<Rightarrow> (lease_of t)(public_of E c \<mapsto> Some (now + leaseDuration t (m_AliveInterval r)))) \<and>
     lease_of (snd (RemoveClaim E c t)) = (lease_of t)(public_of E c := None) \<and>
     lease_of (snd (ExpireSweep now t)) = (\<lambda>k. if past now (lease_of t k) then None else lease_of t k) \<and>
     m_publicID ` set (fst (ExpireSweep now t)) = {k. past now (lease_of t k)}"
proof (intro conjI)
  note inv = table_run_inv [OF assms]
  show "lease_of (snd (CreateFromClaim E imp now c ad ai t)) =
       (if imp (claimSinful c) c = None then lease_of t
        else (lease_of t)(public_of E c \<mapsto> Some (now + leaseDuration t ai)))"
    by (auto simp: CreateFromClaim_def lease_of_def Let_def fun_eq_iff split: option.splits)
  show "lease_of (snd (RenewLease E now c t)) =
       (case FindByClaimID E c t of None \<Rightarrow> lease_of t
        | Some r \<Rightarrow> (lease_of t)(public_of E c \<mapsto> Some (now + leaseDuration t (m_AliveInterval r))))"
    by (auto simp: RenewLease_def upd_rec_def FindByClaimID_def lease_of_def fun_eq_iff split: option.splits)
  show "lease_of (snd (RemoveClaim E c t)) = (lease_of t)(public_of E c := None)"
    by (simp add: RemoveClaim_def lease_of_def fun_eq_iff)
  show "lease_of (snd (ExpireSweep now t)) = (\<lambda>k. if past now (lease_of t k) then None else lease_of t k)"
    using lease_sweep_eq [OF inv] by blast
  show "m_publicID ` set (fst (ExpireSweep now t)) = {k. past now (lease_of t k)}"
    using swept_iff [OF inv] by blast
qed

definition ref_table :: "ref_ad match_table" where
  "ref_table = snd (CreateFromClaim refE (\<lambda>_ _. Some ''ses'') 100 ''<h:1>#1#2#secret'' None 300 NewTable)"

lemma ref_table_run: "table_run refE ref_table"
  unfolding ref_table_def by (rule table_run.create [OF table_run.new])

theorem match_table_refines_witness:
  "lease_of ref_table (public_of refE ''<h:1>#1#2#secret'') = Some (Some 1900) \<and>
   m_publicID ` set (fst (ExpireSweep 1901 ref_table)) = {k. past 1901 (lease_of ref_table k)}"
proof -
  have "lease_of ref_table (public_of refE ''<h:1>#1#2#secret'') = Some (Some 1900)" by code_simp
  then show ?thesis using match_table_refines [OF ref_table_run, of _ 1901] by blast
qed

text \<open>A lease whose nanoseconds fit 64 bits is the product of its factors, and positive.\<close>

lemma leaseDuration_fits:
  assumes "n = (if mt_alivesMissed t \<le> 0 then DefaultAlivesMissed else mt_alivesMissed t)" and "a = (if ai \<le> 0 then 1 else ai)"
    and "n * a * 10 ^ 9 < 2 ^ 63"
  shows "leaseDuration t ai = n * a \<and> 0 < n * a"
proof -
  have p: "0 < n * a" using assms(1,2) by simp
  have "int64_range d" "int64_range (d * 10 ^ 9)" if "0 < d" "d * 10 ^ 9 < 2 ^ 63" for d using that by (simp_all add: int64_range_def)
  from this [OF p assms(3)] show ?thesis
    using p by (simp add: leaseDuration_def assms(1,2) [symmetric] wrap64_id Let_def)
qed

text \<open>
  A keepalive protects its claim: when the ALIVE of a known claim arrives, the claim is still in the table after
  any sweep before the lease it gets is over.
\<close>

theorem alive_protects:
  assumes "table_run E t" and "handleALIVE E now c t = (interval, ev, t')" and "ae_Found ev"
    and "now' \<le> now + leaseDuration t interval"
  shows "FindByClaimID E c (snd (ExpireSweep now' t')) \<noteq> None"
proof -
  from assms(2,3) obtain r where r: "FindByClaimID E c t = Some r" "interval = m_AliveInterval r"
    and t': "t' = snd (RenewLease E now c t)"
    by (auto simp: handleALIVE_def split: option.splits)
  have "lease_of t' (public_of E c) = Some (Some (now + leaseDuration t interval))"
    using r by (simp add: t' RenewLease_def upd_rec_def FindByClaimID_def lease_of_def)
  moreover have "match_inv t'" using match_inv_ops(4) [OF table_run_inv [OF assms(1)]] by (simp add: t')
  ultimately have "lease_of (snd (ExpireSweep now' t')) (public_of E c) \<noteq> None"
    using assms(4) by (simp add: lease_sweep_eq past_def)
  then show ?thesis by (simp add: lease_of_def FindByClaimID_def)
qed

theorem alive_protects_witness:
  "FindByClaimID refE ''<h:1>#1#2#secret'' (snd (ExpireSweep 2100 ref_table)) = None \<and>
   FindByClaimID refE ''<h:1>#1#2#secret''
     (snd (ExpireSweep 2100 (snd (snd (handleALIVE refE 500 ''<h:1>#1#2#secret'' ref_table))))) \<noteq> None"
proof -
  let ?h = "handleALIVE refE 500 ''<h:1>#1#2#secret'' ref_table"
  have h: "ae_Found (fst (snd ?h))" "2100 \<le> 500 + leaseDuration ref_table (fst ?h)"
    "FindByClaimID refE ''<h:1>#1#2#secret'' (snd (ExpireSweep 2100 ref_table)) = None"
    by code_simp+
  from alive_protects [OF ref_table_run _ h(1,2)] h(3) show ?thesis by (metis prod.collapse)
qed

end
