(* ===== verification/NegotiateProps.thy ===== *)
theory NegotiateProps
  imports Negotiate TxnCommit
begin

text \<open>
  Negotiation: the request groups of \<open>internal/queue/rrl.go\<close> are the maximal runs of the ordered idle jobs, and a
  round of \<open>internal/negotiate\<close> assigns every job at most once, by rule induction over what a
  negotiator can send.
\<close>

section \<open>Request groups\<close>

text \<open>A job of the snapshot, as the grouping sees it: its checksum and its id.\<close>

definition summed :: "('ad, 'ex, 's, 'h, 'z) ext_scheme \<Rightarrow> string list \<Rightarrow> 'ad list \<Rightarrow> (64 word \<times> JobID) list" where
  "summed E projection ads =
     List.map_filter (\<lambda>ad. map_option (Pair (projection_checksum E ad projection)) (jobIDs E ad)) ads"

definition expand :: "'ad RequestGroup list \<Rightarrow> (64 word \<times> JobID) list" where
  "expand gs = concat (map (\<lambda>g. map (Pair (g_Checksum g)) (g_JobIDs g)) gs)"

abbreviation runs_differ :: "'ad RequestGroup list \<Rightarrow> bool" where
  "runs_differ \<equiv> successively (\<lambda>g h. g_Checksum g \<noteq> g_Checksum h)"

lemma summed_Nil [simp]: "summed E pr [] = []"
  by (simp add: summed_def map_filter_simps)

lemma summed_Cons: "summed E pr (ad # ads) = (case jobIDs E ad of None \<Rightarrow> summed E pr ads
    | Some jid \<Rightarrow> (projection_checksum E ad pr, jid) # summed E pr ads)"
  by (simp add: summed_def map_filter_simps split: option.splits)

lemma group_loop_expand:
  "expand (group_loop E pr ads cur) = (case cur of None \<Rightarrow> [] | Some g \<Rightarrow> expand [g]) @ summed E pr ads"
  by (induction E pr ads cur rule: group_loop.induct)
     (auto simp: expand_def summed_Cons Let_def split: option.splits if_splits)

lemma group_loop_nonempty:
  assumes "g \<in> set (group_loop E pr ads cur)" and "\<And>g0. cur = Some g0 \<Longrightarrow> g_JobIDs g0 \<noteq> []"
  shows "g_JobIDs g \<noteq> []"
  using assms
proof (induction ads arbitrary: cur)
  case (Cons ad ads)
  show ?case
  proof (cases "jobIDs E ad")
    case None
    then show ?thesis using Cons by simp
  next
    case (Some jid)
    let ?new = "\<lparr> g_Checksum = projection_checksum E ad pr, g_Rep = ad, g_JobIDs = [jid] \<rparr>"
    show ?thesis
    proof (cases cur)
      case None
      then show ?thesis using Cons.prems Cons.IH [of "Some ?new"] Some by (simp add: Let_def)
    next
      case (Some g0)
      then show ?thesis
        using Cons.prems Cons.IH [of "Some ?new"] Cons.IH [of "Some (g0\<lparr> g_JobIDs := g_JobIDs g0 @ [jid] \<rparr>)"]
          \<open>jobIDs E ad = Some jid\<close>
        by (auto simp: Let_def split: if_splits)
    qed
  qed
qed (auto split: option.splits)

text \<open>The first group of the rest keeps the checksum of the current group.\<close>

lemma group_loop_hd:
  "group_loop E pr ads (Some g) \<noteq> [] \<and> g_Checksum (hd (group_loop E pr ads (Some g))) = g_Checksum g"
  by (induction ads arbitrary: g) (auto simp: Let_def split: option.splits)

lemma group_loop_differ: "runs_differ (group_loop E pr ads cur)"
proof (induction E pr ads cur rule: group_loop.induct)
  case (2 E projection ad ads cur)
  then show ?case
    using group_loop_hd [of E projection ads]
    by (auto simp: Let_def successively_Cons split: option.splits)
qed (auto split: option.splits)

section \<open>Assignments of a round\<close>

lemma next_idle_from_spec:
  "next_idle_from E q ids i = (res, j) \<Longrightarrow>
   (case res of
      None \<Rightarrow> j = i + length ids \<and> (\<forall>jid \<in> set ids. JobStatus E q (fst jid) (snd jid) \<noteq> StatusIdle)
    | Some jid \<Rightarrow> i < j \<and> j \<le> i + length ids \<and> ids ! (j - i - 1) = jid \<and> JobStatus E q (fst jid) (snd jid) = StatusIdle \<and>
        (\<forall>jid' \<in> set (take (j - i - 1) ids). JobStatus E q (fst jid') (snd jid') \<noteq> StatusIdle))"
proof (induction E q ids i rule: next_idle_from.induct)
  case (2 E q jid ids i)
  show ?case
  proof (cases "JobStatus E q (fst jid) (snd jid) = StatusIdle")
    case True
    then show ?thesis using 2(2) by auto
  next
    case False
    then have n: "next_idle_from E q ids (Suc i) = (res, j)" using 2(2) by simp
    show ?thesis
    proof (cases res)
      case None
      then show ?thesis using 2(1) [OF False n] False by simp
    next
      case (Some k)
      then have k: "Suc i < j" "j \<le> Suc i + length ids" "ids ! (j - Suc i - 1) = k"
        "\<forall>jid' \<in> set (take (j - Suc i - 1) ids). JobStatus E q (fst jid') (snd jid') \<noteq> StatusIdle"
        "JobStatus E q (fst k) (snd k) = StatusIdle"
        using 2(1) [OF False n] by auto
      then obtain m where m: "j - i - 1 = Suc m" "m = j - Suc i - 1"
        by (metis Suc_diff_Suc Suc_lessE diff_Suc_1 diff_diff_left plus_1_eq_Suc add.commute)
      show ?thesis using k m Some False by simp
    qed
  qed
qed simp

text \<open>The jobs a round holds: those of the groups sent, then those still to be pulled.\<close>

definition round_ids :: "'ad round \<Rightarrow> JobID list" where
  "round_ids r = concat (map gs_ids (rd_states r)) @
     (case rd_next r of None \<Rightarrow> [] | Some gs \<Rightarrow> concat (map g_JobIDs gs))"

definition round_given :: "'ad round \<Rightarrow> JobID set" where
  "round_given r = (\<Union>i < length (rd_states r). set (take (gs_assignIdx (rd_states r ! i)) (gs_ids (rd_states r ! i))))"

definition round_inv :: "'ad round \<Rightarrow> bool" where
  "round_inv r = (distinct (round_ids r) \<and> (rd_next r = None \<longrightarrow> rd_states r = []) \<and>
     (\<forall>i \<in> ran (map_of (rd_byRep r)). i < length (rd_states r)))"

text \<open>
  The job a forwarded match carries; a match whose cluster is negative carries none, and its claim is released by the core.
  \<open>round_run E r js\<close>: the round \<open>r\<close> is reached, and \<open>js\<close> are the jobs carried by the matches forwarded for known request groups.
\<close>

definition carried :: "'ad nmatch \<Rightarrow> JobID list" where
  "carried m = (if nm_Cluster m < 0 then [] else [(nm_Cluster m, nm_Proc m)])"

inductive round_run :: "('ad, 'ex, 's, 'h, 'z) ext_scheme \<Rightarrow> 'ad round \<Rightarrow> JobID list \<Rightarrow> bool"
  for E :: "('ad, 'ex, 's, 'h, 'z) ext_scheme" where
  start: "round_run E (new_round owner projection) []"
| send: "round_run E r js \<Longrightarrow> distinct (List.map_filter (jobIDs E) (coll_ordered E (q_coll q) (shortName E (rd_owner r)))) \<Longrightarrow>
    sendRequests E q n r = (replies, r') \<Longrightarrow> round_run E r' js"
| reject: "round_run E r js \<Longrightarrow> round_run E (roundReject reason r) js"
| unknown: "round_run E r js \<Longrightarrow> map_of (rd_byRep r) (nm_Cluster m, nm_Proc m) = None \<Longrightarrow>
    roundMatch E q m r = (m', r') \<Longrightarrow> round_run E r' js"
| known: "round_run E r js \<Longrightarrow> map_of (rd_byRep r) (nm_Cluster m, nm_Proc m) = Some i \<Longrightarrow>
    roundMatch E q m r = (m', r') \<Longrightarrow> round_run E r' (js @ carried m')"

lemma snapshot_ids:
  "concat (map g_JobIDs (IdleRequestGroups E q owner pr)) =
     List.map_filter (jobIDs E) (coll_ordered E (q_coll q) (shortName E owner))"
proof -
  have "map snd (expand gs) = concat (map g_JobIDs gs)" for gs :: "'a RequestGroup list"
    by (induction gs) (simp_all add: expand_def comp_def)
  moreover have "map snd (summed E pr ads) = List.map_filter (jobIDs E) ads" for ads
    by (induction ads) (auto simp: summed_Cons map_filter_simps split: option.splits)
  ultimately show ?thesis
    using group_loop_expand [of E pr _ None] by (metis IdleRequestGroups_def append_Nil option.case(1))
qed

text \<open>Changing only the cursor or the rejection mark of a group keeps the jobs of the round.\<close>

lemma round_ids_update:
  assumes "i < length (rd_states r)" and "gs_ids gs = gs_ids (rd_states r ! i)"
  shows "round_ids (r\<lparr> rd_states := (rd_states r)[i := gs] \<rparr>) = round_ids r"
proof -
  have "map gs_ids ((rd_states r)[i := gs]) = map gs_ids (rd_states r)"
    using assms by (simp add: map_update list_update_same_conv)
  then show ?thesis by (simp add: round_ids_def)
qed

lemma round_inv_update:
  assumes "round_inv r" and "i < length (rd_states r)" and "gs_ids gs = gs_ids (rd_states r ! i)"
  shows "round_inv (r\<lparr> rd_states := (rd_states r)[i := gs] \<rparr>)"
  using assms round_ids_update [OF assms(2,3)] by (auto simp: round_inv_def)

lemma round_given_update:
  assumes "i < length (rd_states r)" and "gs_ids gs = gs_ids (rd_states r ! i)"
    and "gs_assignIdx (rd_states r ! i) \<le> gs_assignIdx gs"
  shows "round_given r \<union> set (take (gs_assignIdx gs) (gs_ids gs)) \<subseteq> round_given (r\<lparr> rd_states := (rd_states r)[i := gs] \<rparr>)"
proof -
  have sub: "set (take (gs_assignIdx (rd_states r ! k)) (gs_ids (rd_states r ! k))) \<subseteq>
      set (take (gs_assignIdx ((rd_states r)[i := gs] ! k)) (gs_ids ((rd_states r)[i := gs] ! k)))" if "k < length (rd_states r)" for k
    using assms that set_take_subset_set_take [OF assms(3), of "gs_ids gs"] by (cases "k = i") auto
  have "set (take (gs_assignIdx gs) (gs_ids gs)) \<subseteq> round_given (r\<lparr> rd_states := (rd_states r)[i := gs] \<rparr>)"
    using assms(1) by (auto simp: round_given_def intro!: bexI [of _ i])
  moreover have "round_given r \<subseteq> round_given (r\<lparr> rd_states := (rd_states r)[i := gs] \<rparr>)"
    using sub by (fastforce simp: round_given_def)
  ultimately show ?thesis by blast
qed

lemma nextIdle_fresh:
  assumes "round_inv r" and "i < length (rd_states r)" and "nextIdle E q (rd_states r ! i) = (Some jid, gs)"
  shows "jid \<notin> round_given r" and "jid \<in> set (take (gs_assignIdx gs) (gs_ids gs))"
    and "gs_ids gs = gs_ids (rd_states r ! i)" and "gs_assignIdx (rd_states r ! i) \<le> gs_assignIdx gs"
    and "JobStatus E q (fst jid) (snd jid) = StatusIdle"
proof -
  let ?g = "rd_states r ! i" let ?k = "gs_assignIdx ?g"
  from assms(3) obtain j where j: "next_idle_from E q (drop ?k (gs_ids ?g)) ?k = (Some jid, j)"
    and gs: "gs = ?g\<lparr> gs_assignIdx := j \<rparr>"
    by (auto simp: nextIdle_def split: if_splits prod.splits)
  note sp = next_idle_from_spec [OF j, simplified]
  have le: "j \<le> length (gs_ids ?g)" "?k < j"
    using sp by auto
  have n: "gs_ids ?g ! (j - 1) = jid" using sp le by (simp add: nth_drop)
  show "gs_ids gs = gs_ids ?g" "?k \<le> gs_assignIdx gs" "JobStatus E q (fst jid) (snd jid) = StatusIdle"
    using gs sp by auto
  show "jid \<in> set (take (gs_assignIdx gs) (gs_ids gs))"
    using n le gs by (auto simp: in_set_conv_nth intro!: exI [of _ "j - 1"])
  show "jid \<notin> round_given r"
  proof
    assume "jid \<in> round_given r"
    then obtain k where k: "k < length (rd_states r)" "jid \<in> set (take (gs_assignIdx (rd_states r ! k)) (gs_ids (rd_states r ! k)))"
      by (auto simp: round_given_def)
    have d: "distinct (concat (map gs_ids (rd_states r)))" using assms(1) by (simp add: round_inv_def round_ids_def)
    have "jid \<in> set (gs_ids ?g)" using n le nth_mem [of "j - 1" "gs_ids ?g"] by auto
    then have "k = i" using concat_map_disjoint [OF d k(1) assms(2)] in_set_takeD [OF k(2)] by blast
    then obtain m where "m < ?k" "m < length (gs_ids ?g)" "gs_ids ?g ! m = jid"
      using k(2) by (auto simp: in_set_conv_nth)
    then show False
      using n le concat_map_distinct [OF d assms(2)] by (auto simp: distinct_conv_nth)
  qed
qed

lemma pull_send:
  assumes "round_inv r" and "distinct (List.map_filter (jobIDs E) (coll_ordered E (q_coll q) (shortName E (rd_owner r))))"
  shows "case pull_next E q r of
       (None, r1) \<Rightarrow> round_inv r1 \<and> round_given r1 = round_given r \<and> rd_owner r1 = rd_owner r
     | (Some g, r1) \<Rightarrow> (let r2 = snd (sendGroup E g r1) in
         round_inv r2 \<and> round_given r2 = round_given r \<and> rd_owner r2 = rd_owner r)"
proof -
  define gs where "gs = (case rd_next r of None \<Rightarrow> IdleRequestGroups E q (rd_owner r) (rd_projection r) | Some gs \<Rightarrow> gs)"
  have d: "distinct (concat (map gs_ids (rd_states r)) @ concat (map g_JobIDs gs))"
    using assms snapshot_ids [of E q "rd_owner r" "rd_projection r"]
    by (auto simp: gs_def round_inv_def round_ids_def split: option.splits)
  have b: "\<forall>i \<in> ran (map_of (rd_byRep r)). i < length (rd_states r)" using assms(1) by (simp add: round_inv_def)
  show ?thesis
  proof (cases gs)
    case Nil
    then show ?thesis
      using d b by (simp add: pull_next_def gs_def [symmetric] round_inv_def round_ids_def round_given_def)
  next
    case (Cons g rest)
    let ?n = "length (rd_states r)"
    have "i < Suc ?n" if "i \<in> ran ((map_of (rd_byRep r))(rep \<mapsto> ?n))" for i rep
      using that b by (fastforce simp: ran_def split: if_splits)
    then show ?thesis
      using Cons d
      by (simp add: pull_next_def gs_def [symmetric] sendGroup_def Let_def round_inv_def round_ids_def round_given_def
            nth_append lessThan_Suc) blast
  qed
qed

lemma sendRequests_inv:
  assumes "sendRequests E q n r = (replies, r')" and "round_inv r"
    and "distinct (List.map_filter (jobIDs E) (coll_ordered E (q_coll q) (shortName E (rd_owner r))))"
  shows "round_inv r' \<and> round_given r' = round_given r"
  using assms
proof (induction n arbitrary: r replies)
  case (Suc n)
  obtain og r1 where p: "pull_next E q r = (og, r1)" by fastforce
  show ?case
  proof (cases og)
    case None
    then show ?thesis using Suc.prems pull_send [OF Suc.prems(2,3)] p by simp
  next
    case (Some g)
    obtain reply r2 where s2: "sendGroup E g r1 = (reply, r2)" by fastforce
    have "round_inv r2 \<and> round_given r2 = round_given r \<and> rd_owner r2 = rd_owner r"
      using pull_send [OF Suc.prems(2,3)] p Some s2 by (simp add: Let_def)
    then show ?thesis using Suc.IH [of r2] Suc.prems p Some s2 by (auto split: prod.splits)
  qed
qed simp

lemma roundMatch_state:
  assumes "roundMatch E q m r = (m', r')" and "map_of (rd_byRep r) (nm_Cluster m, nm_Proc m) = Some i"
    and "nextIdle E q (rd_states r ! i) = (res, gs)"
  shows "r' = r\<lparr> rd_states := (rd_states r)[i := gs] \<rparr> \<or>
     r' = r\<lparr> rd_states := (rd_states r)[i := gs], rd_matched := Suc (rd_matched r) \<rparr>"
  using assms by (auto simp: roundMatch_def Let_def split: option.splits if_splits)

lemma round_matched [simp]:
  "round_inv (r\<lparr> rd_matched := n \<rparr>) = round_inv r" "round_given (r\<lparr> rd_matched := n \<rparr>) = round_given r"
  by (simp_all add: round_inv_def round_ids_def round_given_def)

lemma nextIdle_None:
  assumes "nextIdle E q gs = (None, gs')"
  shows "gs_ids gs' = gs_ids gs \<and> gs_assignIdx gs \<le> gs_assignIdx gs'"
  using assms next_idle_from_spec [of E q "drop (gs_assignIdx gs) (gs_ids gs)" "gs_assignIdx gs"]
  by (auto simp: nextIdle_def split: if_splits prod.splits)

lemma byRep_bound: "round_inv r \<Longrightarrow> map_of (rd_byRep r) rep = Some i \<Longrightarrow> i < length (rd_states r)"
  unfolding round_inv_def by (blast intro: ranI)

lemma round_reject_inv:
  assumes "round_inv r"
  shows "round_inv (roundReject reason r) \<and> round_given (roundReject reason r) = round_given r"
proof -
  have "round_inv (r\<lparr> rd_states := (rd_states r)[i := (rd_states r ! i)\<lparr> gs_rejected := True \<rparr>] \<rparr>) \<and>
      round_given (r\<lparr> rd_states := (rd_states r)[i := (rd_states r ! i)\<lparr> gs_rejected := True \<rparr>] \<rparr>) = round_given r" for i
  proof (cases "i < length (rd_states r)")
    case True
    have "gs_ids ((rd_states r)[i := (rd_states r ! i)\<lparr> gs_rejected := True \<rparr>] ! k) = gs_ids (rd_states r ! k) \<and>
        gs_assignIdx ((rd_states r)[i := (rd_states r ! i)\<lparr> gs_rejected := True \<rparr>] ! k) = gs_assignIdx (rd_states r ! k)"
      if "k < length (rd_states r)" for k
      using that by (cases "k = i") simp_all
    then show ?thesis using round_inv_update [OF assms True] by (simp add: round_given_def cong: SUP_cong_simp)
  qed (simp add: assms list_update_beyond)
  then show ?thesis using assms by (simp add: roundReject_def Let_def split: option.splits)
qed

lemma round_run_inv:
  assumes "round_run E r js"
  shows "round_inv r \<and> distinct js \<and> set js \<subseteq> round_given r"
  using assms
proof (induction rule: round_run.induct)
  case (start owner projection)
  then show ?case by (simp add: new_round_def round_inv_def round_ids_def)
next
  case (send r js q n replies r')
  then show ?case using sendRequests_inv by blast
next
  case (reject r js reason)
  then show ?case using round_reject_inv by blast
next
  case (unknown r js m q m' r')
  then show ?case by (auto simp: roundMatch_def split: if_splits)
next
  case (known r js m i q m' r')
  have inv: "round_inv r" and i: "i < length (rd_states r)" using byRep_bound known by blast+
  obtain res gs where gs: "nextIdle E q (rd_states r ! i) = (res, gs)" by fastforce
  show ?case
  proof (cases res)
    case None
    note k = nextIdle_None [OF gs [unfolded None]]
    have "round_inv r' \<and> round_given r \<subseteq> round_given r'"
      using inv round_inv_update [OF _ i conjunct1 [OF k]] round_given_update [OF i conjunct1 [OF k] conjunct2 [OF k]]
        roundMatch_state [OF known.hyps(3,2) gs] by (elim disjE) simp_all
    moreover have "carried m' = []"
      using known.hyps(2,3) gs None by (auto simp: roundMatch_def carried_def Let_def)
    ultimately show ?thesis using known.IH by auto
  next
    case (Some jid)
    note f = nextIdle_fresh [OF inv i gs [unfolded Some]]
    have "round_inv r' \<and> round_given r \<union> set (take (gs_assignIdx gs) (gs_ids gs)) \<subseteq> round_given r'"
      using round_inv_update [OF inv i f(3)] round_given_update [OF i f(3,4)]
        roundMatch_state [OF known.hyps(3,2) gs] by (elim disjE) simp_all
    moreover have "carried m' \<in> {[], [jid]}"
      using known.hyps(2,3) gs Some by (auto simp: roundMatch_def carried_def Let_def split: if_splits)
    ultimately show ?thesis using known.IH f(1,2) by auto
  qed
qed

section \<open>A concrete round\<close>

definition ref_round :: "ref_ad round" where
  "ref_round = snd (sendRequests refE ref_q1 5 (new_round ''alice@pool'' []))"

definition ref_granted :: "ref_ad nmatch" where
  "ref_granted = \<lparr> nm_Cluster = 1, nm_Proc = 0, nm_ClaimID = ''claim'', nm_ExtraClaims = [], nm_SlotName = ''slot'', nm_MatchAd = None \<rparr>"

definition ref_round1 :: "ref_ad round" where
  "ref_round1 = snd (roundMatch refE ref_q1 ref_granted ref_round)"

section \<open>Properties\<close>

text \<open>
  C16. The resource-request groups are the maximal runs of equal checksum of the priority-ordered
  idle jobs: expanding them gives back every job with an id, in order and with its own checksum, no group is
  empty, and neighbouring groups differ.
\<close>

theorem request_groups:
  "expand (IdleRequestGroups E q submitter projection) =
     summed E projection (coll_ordered E (q_coll q) (shortName E submitter)) \<and>
   list_all (\<lambda>g. g_JobIDs g \<noteq> []) (IdleRequestGroups E q submitter projection) \<and>
   runs_differ (IdleRequestGroups E q submitter projection)"
  using group_loop_expand [of E projection _ None] group_loop_nonempty [of _ E projection _ None] group_loop_differ
  by (auto simp: IdleRequestGroups_def list_all_iff)

text \<open>
  C17. In a negotiation round no job is handed out twice: whatever the negotiator asks for, grants and rejects, the jobs
  that the matches forwarded to the scheduler core carry for known request groups are pairwise different and belong to
  groups that were sent, provided the ordered list of idle jobs the requests are built from names no job twice.
\<close>

theorem assigned_once:
  assumes "round_run E r js"
  shows "distinct js \<and> set js \<subseteq> set (concat (map gs_ids (rd_states r)))"
proof -
  have "round_given r \<subseteq> set (concat (map gs_ids (rd_states r)))"
    by (auto simp: round_given_def dest!: in_set_takeD intro: nth_mem)
  then show ?thesis using round_run_inv [OF assms] by blast
qed

theorem assigned_once_witness:
  "\<exists>r. round_run refE r [(1, 0), (1, 1)] \<and> distinct [(1, 0), (1, 1 :: int) :: int \<times> int] \<and>
     {(1, 0), (1, 1)} \<subseteq> set (concat (map gs_ids (rd_states r)))"
proof -
  let ?f = "\<lambda>r. roundMatch refE ref_q1 ref_granted r"
  have h: "distinct (List.map_filter (jobIDs refE) (coll_ordered refE (q_coll ref_q1)
      (shortName refE (rd_owner (new_round ''alice@pool'' [] :: ref_ad round)))))"
    "map_of (rd_byRep ref_round) (nm_Cluster ref_granted, nm_Proc ref_granted) = Some 0"
    "carried (fst (?f ref_round)) = [(1, 0)]"
    "map_of (rd_byRep ref_round1) (nm_Cluster ref_granted, nm_Proc ref_granted) = Some 0"
    "carried (fst (?f ref_round1)) = [(1, 1)]"
    by code_simp+
  have "round_run refE ref_round []"
    by (rule round_run.send [OF round_run.start h(1)]) (simp add: ref_round_def prod_eq_iff)
  then have "round_run refE ref_round1 ([] @ carried (fst (?f ref_round)))"
    by (rule round_run.known [OF _ h(2)]) (simp add: ref_round1_def)
  then have "round_run refE (snd (?f ref_round1)) (([] @ carried (fst (?f ref_round))) @ carried (fst (?f ref_round1)))"
    by (rule round_run.known [OF _ h(4)]) simp
  then have run: "round_run refE (snd (?f ref_round1)) [(1, 0), (1, 1)]" by (simp add: h(3,5))
  from assigned_once [OF run] run show ?thesis by (intro exI [of _ "snd (?f ref_round1)"]) simp
qed

text \<open>
  A match is given to the first job of its group, from the assignment cursor on, that is idle at that
  moment, and to none when the group was rejected.
\<close>

theorem next_idle_is_first:
  "fst (nextIdle E q gs) =
     (if gs_rejected gs then None
      else List.find (\<lambda>jid. JobStatus E q (fst jid) (snd jid) = StatusIdle) (drop (gs_assignIdx gs) (gs_ids gs)))"
proof -
  have "fst (next_idle_from E q ids i) = List.find (\<lambda>jid. JobStatus E q (fst jid) (snd jid) = StatusIdle) ids" for ids i
    by (induction E q ids i rule: next_idle_from.induct) auto
  then show ?thesis by (simp add: nextIdle_def case_prod_beta)
qed

text \<open>
  The auto-cluster id sent to the negotiator is a non-negative 32-bit integer for every 64-bit checksum, and
  the identity on checksums that are.
\<close>

theorem group_acid_bounds:
  "0 \<le> group_acid w \<and> group_acid w < 2 ^ 31 \<and> group_acid w = uint w mod 2 ^ 31"
proof -
  have "(ucast w :: 32 word) AND 0x7fffffff = take_bit 31 (ucast w)"
    by (simp add: take_bit_eq_mask mask_eq_exp_minus_1)
  then have "group_acid w = take_bit 31 (uint w)"
    by (simp add: group_acid_def unsigned_take_bit_eq unsigned_ucast_eq)
  then show ?thesis by (simp add: take_bit_eq_mod)
qed



end
