(* ===== verification/SchedProps.thy ===== *)
theory SchedProps
  imports ActionProps PolicyProps MatchProps NegotiateProps
begin

text \<open>
  The event loop of the scheduler core: its registry of runs implements a small machine of its own, whose invariant
  holds in every reachable state; drains complete; no job runs twice at once; the lease sweep spares live runs; and
  what a failed and a started run do to the job. The locale \<open>core_view\<close> says once which effects leave a part of
  the state alone, and is interpreted for the registry, the channels and the started goroutines.
\<close>

section \<open>The registry of runs\<close>

text \<open>
  The part of the core's state that says which jobs run: the registry, its gauge, whether the core drains, and the
  channel to close when the drain is over. Its own machine adds a run under a fresh key while the core does not drain,
  changes a run, ends a run, and starts a drain; ending the last run of a drain forgets the channel.
\<close>

type_synonym registry = "(job_id \<times> runInfo) list \<times> int \<times> bool \<times> nat option"

fun reg_add :: "job_id \<Rightarrow> runInfo \<Rightarrow> registry \<Rightarrow> registry" where
  "reg_add k ri (r, g, d, w) = (AList.update k ri r, g + 1, d, w)"

fun reg_set :: "job_id \<Rightarrow> runInfo \<Rightarrow> registry \<Rightarrow> registry" where
  "reg_set k ri (r, g, d, w) = (AList.update k ri r, g, d, w)"

fun reg_finish :: "registry \<Rightarrow> registry" where
  "reg_finish (r, g, d, w) = (r, g, d, if d \<and> r = [] then None else w)"

fun reg_del :: "job_id \<Rightarrow> registry \<Rightarrow> registry" where
  "reg_del k (r, g, d, w) = (if map_of r k = None then (r, g, d, w) else (AList.delete k r, g - 1, d, w))"

fun reg_drain :: "nat \<Rightarrow> registry \<Rightarrow> registry" where
  "reg_drain ch (r, g, d, w) = (r, g, True, if r = [] then w else Some ch)"

inductive reg_grow :: "registry \<Rightarrow> registry \<Rightarrow> bool" where
  add: "map_of (fst R) k = None \<Longrightarrow> \<not> fst (snd (snd R)) \<Longrightarrow> reg_grow R (reg_add k ri R)"
| change: "map_of (fst R) k \<noteq> None \<Longrightarrow> reg_grow R (reg_set k ri R)"
| drain: "reg_grow R (reg_drain ch R)"

inductive reg_step :: "registry \<Rightarrow> registry \<Rightarrow> bool" where
  grow: "reg_grow\<^sup>*\<^sup>* R R' \<Longrightarrow> reg_step R R'"
| finish: "reg_step R (reg_finish (reg_del k R))"

definition core :: "('ad, 'ex, 's, 'h) sched \<Rightarrow> (job_id \<times> runInfo) list \<times> int \<times> bool \<times> nat option" where
  "core s = (sd_running s, sd_runningGauge s, sd_draining s, sd_drainDone s)"

named_theorems core_frame \<open>effects that leave a part of the core's state alone\<close>

text \<open>A part of the state that the bookkeeping effects of the core leave alone, and so do the handlers built from them.\<close>

locale core_view =
  fixes F :: "('ad, 'ex, 's, 'h) sched \<Rightarrow> 'v"
  assumes view_effects [core_frame]:
    "F (SubmitEvent ev s) = F s" "F (nudgeAdvertise s) = F s" "F (nudgeMaterialize s) = F s" "F (releaseClaim cl s) = F s"
    "F (cancel_run k s) = F s" "F (log_core u s) = F s"
    and view_update [core_frame]:
    "F (s\<lparr> sd_q := q \<rparr>) = F s" "F (s\<lparr> sd_stats := st \<rparr>) = F s" "F (s\<lparr> sd_matches := t \<rparr>) = F s"
    "F (s\<lparr> sd_events := es \<rparr>) = F s" "F (s\<lparr> sd_policyPending := pp \<rparr>) = F s" "F (s\<lparr> sd_sysPolicy := sp \<rparr>) = F s"
begin

lemma view_modify [core_frame]: "F (modify_job E c p f s) = F s" "F (drop_match E cl s) = F s"
  by (simp_all add: modify_job_def drop_match_def view_update)

lemma view_log_job [core_frame]: "F (log_job E c p ev s) = F s"
  by (simp add: log_job_def view_effects split: option.splits)

lemma view_jobFailed [core_frame]: "F (jobFailed E now c p why count s) = F s"
  by (simp add: jobFailed_def Let_def view_log_job view_modify view_update split: option.splits)

lemma view_requeue [core_frame]: "F (requeueToIdle E now c p s) = F s"
  by (simp add: requeueToIdle_def view_modify)

lemma view_finish_exit [core_frame]: "F (finish_exit E now c p res s) = F s"
  by (simp add: finish_exit_def holdOnExit_def requeueOnExit_def complete_job_def Let_def view_log_job view_modify
        view_update view_effects split: policy_action.splits)

lemma view_renew [core_frame]: "F (renew_run E now kr s) = F s"
  by (simp add: renew_run_def Let_def view_modify view_update split: prod.split)

lemma view_fold: "(\<And>x s. F (f x s) = F s) \<Longrightarrow> F (fold f xs s) = F s"
  by (induction xs arbitrary: s) simp_all

lemma view_periodic [core_frame]: "F (evaluatePeriodic E now s) = F s"
  by (simp add: evaluatePeriodic_def view_fold view_effects)

lemma view_scan [core_frame]: "F (fst (fold (recover_scan1 E now) ads st)) = F (fst st)"
proof (induction ads arbitrary: st)
  case (Cons ad ads)
  have "F (fst (recover_scan1 E now ad st)) = F (fst st)"
    by (cases st) (simp add: recover_scan1_def Let_def view_requeue)
  then show ?case using Cons by simp
qed simp

end

interpretation regv: core_view core
  by unfold_locales (simp_all add: core_def SubmitEvent_def nudgeAdvertise_def nudgeMaterialize_def releaseClaim_def
      cancel_run_def log_core_def)

lemma core_effects [core_frame]:
  "core (spawn_go g s) = core s" "core (close_chan ch s) = core s" "core (reapWaiters ri s) = core s"
  by (simp_all add: core_def spawn_go_def close_chan_def reapWaiters_def split: option.splits)

lemma core_policy [core_frame]: "core (handlePolicyAction E c p req s) = core s"
  by (simp add: handlePolicyAction_def core_frame)

lemma core_eq: "core s' = core s \<Longrightarrow> sd_running s' = sd_running s \<and> sd_runningGauge s' = sd_runningGauge s \<and>
    sd_draining s' = sd_draining s \<and> sd_drainDone s' = sd_drainDone s"
  by (simp add: core_def)

section \<open>The invariant\<close>

fun reg_inv :: "registry \<Rightarrow> bool" where
  "reg_inv (r, g, d, w) = (distinct (map fst r) \<and> g = int (length r) \<and> (w \<noteq> None \<longrightarrow> d \<and> r \<noteq> []))"

lemma reg_grow_inv: "reg_grow R R' \<Longrightarrow> reg_inv R \<Longrightarrow> reg_inv R'"
proof (induction rule: reg_grow.induct)
  case (add R k ri)
  then show ?case by (cases R) (auto simp: map_of_eq_None_iff AList.distinct_update length_update_fresh)
next
  case (change R k ri)
  then show ?case by (cases R) (auto simp: map_of_eq_None_iff keys_update_hit length_update_hit)
next
  case (drain R ch)
  then show ?case by (cases R) auto
qed

lemma reg_step_inv: "reg_step R R' \<Longrightarrow> reg_inv R \<Longrightarrow> reg_inv R'"
proof (induction rule: reg_step.induct)
  case (grow R R')
  then show ?case by (induction rule: rtranclp_induct) (auto intro: reg_grow_inv)
next
  case (finish R k)
  then show ?case by (cases R; cases "map_of (fst R) k") (auto simp: length_delete_hit AList.distinct_delete)
qed

lemma reg_grow_keys: "reg_grow R R' \<Longrightarrow> fst ` set (fst R) \<subseteq> fst ` set (fst R')"
proof (induction rule: reg_grow.induct)
  case (add R k ri)
  then show ?case by (cases R) (auto simp: AList.dom_update [symmetric] dom_map_of_conv_image_fst [symmetric] AList.update_conv')
next
  case (change R k ri)
  then show ?case by (cases R) (auto simp: dom_map_of_conv_image_fst [symmetric] AList.update_conv')
next
  case (drain R ch)
  then show ?case by (cases R) auto
qed

lemma reg_grows_keys: "reg_grow\<^sup>*\<^sup>* R R' \<Longrightarrow> fst ` set (fst R) \<subseteq> fst ` set (fst R')"
  by (induction rule: rtranclp_induct) (auto dest!: reg_grow_keys)

section \<open>The handlers implement the registry machine\<close>

lemma core_running [simp]: "fst (core s) = sd_running s" "fst (snd (snd (core s))) = sd_draining s"
  by (simp_all add: core_def)

lemma core_reg [core_frame]:
  "core (add_running k ri s) = reg_add k ri (core s)" "core (set_run k ri s) = reg_set k ri (core s)"
  "core (maybeFinishDrain s) = reg_finish (core s)"
  by (simp_all add: core_def add_running_def set_run_def maybeFinishDrain_def close_chan_def split: option.splits)

lemma core_del: "map_of (sd_running s) k \<noteq> None \<Longrightarrow> core (del_running k s) = reg_del k (core s)"
  by (simp add: core_def del_running_def)

lemma core_del_none: "map_of (sd_running s) k = None \<Longrightarrow> reg_del k (core s) = core s"
  by (simp add: core_def)

lemma cancel_running [simp]: "sd_running (cancel_run k s) = sd_running s" "sd_running (close_chan ch s) = sd_running s"
  by (simp_all add: cancel_run_def close_chan_def split: option.split)

lemma core_exited: "core (handleExited E now c p res err s) = reg_finish (reg_del (c, p) (core s))"
  by (cases "map_of (sd_running s) (c, p)")
     (simp_all add: handleExited_def Let_def core_frame core_del core_del_none if_distrib [of core] split: option.splits)

lemma core_failed: "core (handleFailed E now c p err pn cl rel s) = reg_finish (reg_del (c, p) (core s))"
  by (cases "map_of (sd_running s) (c, p)")
     (simp_all add: handleFailed_def Let_def core_frame core_del core_del_none if_distrib [of core])

lemma core_reconnect_failed: "core (handleReconnectFailed E now c p cl err s) = reg_finish (reg_del (c, p) (core s))"
  by (cases "map_of (sd_running s) (c, p)")
     (simp_all add: handleReconnectFailed_def Let_def core_frame core_del core_del_none if_distrib [of core])

lemma core_match:
  "reg_grow\<^sup>*\<^sup>* (core s) (core (handleMatch E m s))"
  by (auto simp: handleMatch_def Let_def core_frame split: option.split intro!: r_into_rtranclp reg_grow.add)

lemma core_started: "reg_grow\<^sup>*\<^sup>* (core s) (core (handleStarted E now c p slot cl s))"
proof (cases "map_of (sd_running s) (c, p)")
  case None
  then show ?thesis by (simp add: handleStarted_def Let_def core_frame if_distrib [of core] split: prod.split)
next
  case (Some ri)
  let ?ri = "if cl \<noteq> [] then ri\<lparr> ri_slotName := slot, ri_claimID := cl \<rparr> else ri\<lparr> ri_slotName := slot \<rparr>"
  have "core (handleStarted E now c p slot cl s) = reg_set (c, p) ?ri (core s)"
    using Some by (simp add: handleStarted_def Let_def core_frame if_distrib [of core] split: prod.split)
  then show ?thesis using reg_grow.change [of "core s" "(c, p)" ?ri] Some by simp
qed

lemma core_teardown: "reg_grow\<^sup>*\<^sup>* (core s) (core (handleTeardown c p done s))"
  by (auto simp: handleTeardown_def Let_def core_frame split: option.split intro!: r_into_rtranclp reg_grow.change)

lemma fold_changes:
  assumes "\<And>x s. core (f x s) = core s \<or> (\<exists>ri. core (f x s) = reg_set (fst x) ri (core s))"
    and "fst ` set xs \<subseteq> fst ` set (sd_running s)"
  shows "reg_grow\<^sup>*\<^sup>* (core s) (core (fold f xs s))"
  using assms(2)
proof (induction xs arbitrary: s)
  case (Cons x xs)
  have keys: "fst ` set (sd_running (f x s)) = fst ` set (sd_running s) \<and> reg_grow\<^sup>*\<^sup>* (core s) (core (f x s))"
    using assms(1) [of x s]
  proof
    assume "core (f x s) = core s"
    then show ?thesis using core_eq [of "f x s" s] by simp
  next
    assume "\<exists>ri. core (f x s) = reg_set (fst x) ri (core s)"
    then obtain ri where u: "core (f x s) = reg_set (fst x) ri (core s)" ..
    have hit: "map_of (sd_running s) (fst x) \<noteq> None" using Cons.prems by (simp add: map_of_eq_None_iff)
    have "sd_running (f x s) = AList.update (fst x) ri (sd_running s)" using u by (simp add: core_def)
    then have "fst ` set (sd_running (f x s)) = fst ` set (sd_running s)"
      using Cons.prems by (metis insert_subset keys_update_hit list.set_map list.simps(15,9))
    then show ?thesis using reg_grow.change [of "core s" "fst x" ri] hit u by simp
  qed
  from Cons.IH [of "f x s"] keys Cons.prems show ?case by (auto intro: rtranclp_trans)
qed simp

lemma reg_set_ex [simp]: "\<exists>ri'. reg_set k ri R = reg_set k ri' R"
  by blast

lemma core_drain: "reg_grow\<^sup>*\<^sup>* (core s) (core (handleDrain E now ch s))"
proof -
  let ?s = "s\<lparr> sd_draining := True, sd_drainDone := if sd_running s = [] then sd_drainDone s else Some ch \<rparr>"
  have first: "reg_grow\<^sup>*\<^sup>* (core s) (core ?s)"
    using reg_grow.drain [of "core s" ch] by (simp add: core_def)
  have "reg_grow\<^sup>*\<^sup>* (core ?s) (core (handleDrain E now ch s))"
  proof (cases "sd_running s = []")
    case True
    then show ?thesis by (simp add: handleDrain_def core_frame)
  next
    case False
    have v: "reg_grow\<^sup>*\<^sup>* (core ?s) (core (fold (drain_vacate E now) (sd_running s) ?s))"
      by (rule fold_changes) (simp_all add: drain_vacate_def core_frame split: prod.split)
    have d: "reg_grow\<^sup>*\<^sup>* (core ?s) (core (fold drain_detach (sd_running s) ?s))"
      by (rule fold_changes) (simp_all add: drain_detach_def core_frame split: prod.split)
    show ?thesis using v d False by (simp add: handleDrain_def Let_def)
  qed
  with first show ?thesis by simp
qed

definition ad_key :: "('ad, 'ex, 's, 'h, 'z) ext_scheme \<Rightarrow> 'ad \<Rightarrow> job_id" where
  "ad_key E ad = (int_attr0 E ad ''ClusterId'', int_attr0 E ad ''ProcId'')"

definition scan_ids :: "('ad, 'ex, 's, 'h, 'z) ext_scheme \<Rightarrow> ('ad, 's, 'h) queue \<Rightarrow> job_id list" where
  "scan_ids E q = map (ad_key E) (Scan E q)"

lemma scan1_frame:
  "core (fst (recover_scan1 E now ad (s, rs))) = core s \<and>
   (\<exists>x. snd (recover_scan1 E now ad (s, rs)) = rs @ x \<and>
     map fst x \<in> {[], [ad_key E ad]} \<and>
     (x \<noteq> [] \<longrightarrow> map_of (sd_running s) (ad_key E ad) = None))"
  by (simp add: recover_scan1_def Let_def core_frame ad_key_def)

lemma scan_frame:
  assumes "distinct (map fst rs @ map (ad_key E) ads)"
    and "\<And>k. k \<in> fst ` set rs \<Longrightarrow> map_of (sd_running s) k = None"
    and "fold (recover_scan1 E now) ads (s, rs) = (s', rs')"
  shows "core s' = core s \<and> distinct (map fst rs') \<and> (\<forall>k\<in>fst ` set rs'. map_of (sd_running s') k = None)"
  using assms
proof (induction ads arbitrary: s rs)
  case (Cons ad ads)
  obtain s1 rs1 where one: "recover_scan1 E now ad (s, rs) = (s1, rs1)" by (cases "recover_scan1 E now ad (s, rs)")
  obtain x where c: "core s1 = core s" and x: "rs1 = rs @ x"
      "map fst x \<in> {[], [ad_key E ad]}"
      "x \<noteq> [] \<longrightarrow> map_of (sd_running s) (ad_key E ad) = None"
    using scan1_frame [of E now ad s rs] one by auto
  have r: "sd_running s1 = sd_running s" using core_eq [OF c] by simp
  have "distinct (map fst rs1 @ map (ad_key E) ads)"
  proof -
    have "map fst rs1 = map fst rs \<or> map fst rs1 = map fst rs @ [ad_key E ad]" using x(1,2) by auto
    then show ?thesis using Cons.prems(1) by (elim disjE) (simp_all only: list.map append.simps append_assoc distinct_append distinct.simps set_simps set_append, blast+)
  qed
  moreover have "map_of (sd_running s1) k = None" if "k \<in> fst ` set rs1" for k
  proof (cases "k \<in> fst ` set rs")
    case False
    then have "k \<in> fst ` set x" using that x(1) by auto
    then have "k = ad_key E ad" and "x \<noteq> []" using x(2) by auto
    then show ?thesis using x(3) r by simp
  qed (simp add: Cons.prems(2) r)
  moreover have "fold (recover_scan1 E now) ads (s1, rs1) = (s', rs')" using Cons.prems(3) one by simp
  ultimately show ?case using Cons.IH [of rs1 s1] c by simp
qed simp

lemma fold_adds:
  assumes "distinct (map fst rs)" and "\<forall>k\<in>fst ` set rs. map_of (sd_running s) k = None" and "\<not> sd_draining s"
  shows "reg_grow\<^sup>*\<^sup>* (core s) (core (fold (recover_start E) rs s))"
  using assms
proof (induction rs arbitrary: s)
  case (Cons x rs)
  obtain k cl sl job where x: "x = (k, cl, sl, job)" by (cases x)
  let ?ri = "fresh_run cl sl True"
  have u: "core (recover_start E x s) = reg_add k ?ri (core s)"
    by (simp add: x recover_start_def Let_def core_frame)
  have st: "reg_grow (core s) (core (recover_start E x s))"
    using reg_grow.add [of "core s" k ?ri] Cons.prems x u by simp
  have f: "sd_running (recover_start E x s) = AList.update k ?ri (sd_running s)" "\<not> sd_draining (recover_start E x s)"
    using u Cons.prems(3) by (simp_all add: core_def)
  have "\<forall>k\<in>fst ` set rs. map_of (sd_running (recover_start E x s)) k = None"
    using Cons.prems(1,2) f(1) x by (auto simp: AList.update_conv')
  from Cons.IH [OF _ this f(2)] Cons.prems(1) st show ?case by (simp add: converse_rtranclp_into_rtranclp)
qed simp

lemma core_recover:
  assumes "distinct (scan_ids E (sd_q s))"
  shows "reg_grow\<^sup>*\<^sup>* (core s) (core (handleRecover E now done s))"
proof (cases "sd_draining s")
  case False
  obtain s' rs where f: "fold (recover_scan1 E now) (Scan E (sd_q s)) (s, []) = (s', rs)"
    by (cases "fold (recover_scan1 E now) (Scan E (sd_q s)) (s, [])")
  note g = scan_frame [of "[]" E "Scan E (sd_q s)", OF _ _ f]
  have "core s' = core s" "distinct (map fst rs)" "\<forall>k\<in>fst ` set rs. map_of (sd_running s') k = None"
    using g assms by (auto simp: scan_ids_def)
  then show ?thesis using fold_adds [of rs s' E] core_eq [of s' s] False f
    by (simp add: handleRecover_def core_frame)
qed (simp add: handleRecover_def core_frame)


text \<open>The run an event ends.\<close>

fun ended :: "'ad event \<Rightarrow> job_id option" where
  "ended (EvExited c p res err) = Some (c, p)"
| "ended (EvFailed c p err pn cl rel) = Some (c, p)"
| "ended (EvReconnectFailed c p cl err) = Some (c, p)"
| "ended _ = None"

fun is_drain :: "'ad event \<Rightarrow> bool" where
  "is_drain (EvDrain ch) = True"
| "is_drain _ = False"

section \<open>The event loop\<close>

text \<open>
  The runs of the event loop: events leave the channel in order, other goroutines submit events, change the queue and
  the match table, and the timers fire. The recovery scan is assumed to list every job once.
\<close>

inductive core_run :: "('ad, 'ex, 's, 'h, 'z) ext_scheme \<Rightarrow> ('ad, 'ex, 's, 'h) sched \<Rightarrow> bool"
  for E :: "('ad, 'ex, 's, 'h, 'z) ext_scheme" where
  start: "core_run E (NewScheduler opts)"
| event: "core_run E s \<Longrightarrow> sd_events s = ev # evs \<Longrightarrow> distinct (scan_ids E (sd_q s)) \<Longrightarrow>
    core_run E (handle E now ev (s\<lparr> sd_events := evs \<rparr>))"
| submit: "core_run E s \<Longrightarrow> core_run E (SubmitEvent ev s)"
| sweep: "core_run E s \<Longrightarrow> core_run E (sweepExpired E now now' s)"
| periodic: "core_run E s \<Longrightarrow> core_run E (evaluatePeriodic E now s)"
| world: "core_run E s \<Longrightarrow> core_run E (s\<lparr> sd_q := q, sd_matches := t \<rparr>)"
| policy: "core_run E s \<Longrightarrow> core_run E (SetSysPolicy pol s)"

lemma core_handle:
  assumes "distinct (scan_ids E (sd_q s)) \<or> sd_draining s"
  shows "reg_step (core s) (core (handle E now ev s))"
proof (cases "ended ev")
  case None
  have rec: "reg_grow\<^sup>*\<^sup>* (core s) (core (handleRecover E now ch s))" for ch
    using assms core_recover [of E s now ch] by (cases "sd_draining s") (simp_all add: handleRecover_def core_frame)
  show ?thesis
    using None by (cases ev) (auto simp: handle_def core_match core_started core_teardown core_drain rec core_frame intro: reg_step.grow)
next
  case (Some k)
  then show ?thesis using reg_step.finish [of "core s" k]
    by (cases ev) (auto simp: handle_def core_exited core_failed core_reconnect_failed)
qed

lemma core_expire: "reg_grow\<^sup>*\<^sup>* (core s) (core (expire_rec E now rec s))"
proof (cases "List.find (\<lambda>(key, ri). \<not> ri_vacated ri \<and> claimPublicID E (ri_claimID ri) = m_publicID rec) (sd_running s)")
  case (Some kr)
  obtain key ri where kr: "kr = (key, ri)" by (cases kr)
  have "kr \<in> set (sd_running s)" using Some unfolding find_Some_iff by (metis nth_mem)
  then have "map_of (sd_running s) key \<noteq> None" using kr weak_map_of_SomeI [of key ri] by auto
  then show ?thesis using reg_grow.change [of "core s" key] Some kr by (simp add: expire_rec_def core_frame r_into_rtranclp)
qed (simp add: expire_rec_def)

lemma core_expire_all: "reg_grow\<^sup>*\<^sup>* (core s) (core (fold (expire_rec E now) rs s))"
  by (induction rs arbitrary: s) (auto intro: rtranclp_trans core_expire)

lemma core_sweep: "reg_grow\<^sup>*\<^sup>* (core s) (core (sweepExpired E now now' s))"
proof -
  let ?s = "fold (renew_run E now) (sd_running s) s"
  have "core (?s\<lparr> sd_matches := snd (ExpireSweep now' (sd_matches ?s)) \<rparr>) = core s"
    by (simp add: core_frame regv.view_fold)
  then show ?thesis
    using core_expire_all [of "?s\<lparr> sd_matches := snd (ExpireSweep now' (sd_matches ?s)) \<rparr>" E now'
        "fst (ExpireSweep now' (sd_matches ?s))"]
    by (simp add: sweepExpired_def Let_def case_prod_beta)
qed

lemma core_run_inv: "core_run E s \<Longrightarrow> reg_inv (core s)"
proof (induction rule: core_run.induct)
  case (start opts)
  then show ?case by (simp add: core_def NewScheduler_def)
next
  case (event s ev evs now)
  then show ?case using reg_step_inv [OF core_handle, of E "s\<lparr> sd_events := evs \<rparr>" now ev] by (simp add: core_frame)
next
  case (sweep s now now')
  then show ?case using reg_step_inv [OF reg_step.grow, OF core_sweep] by blast
qed (simp_all add: core_frame SetSysPolicy_def)

text \<open>
  C21. The registry of runs is consistent in every reachable state of the event loop: no job has two runs, the
  gauge that is advertised is the number of runs, and a drain in progress waits for at least one of them.
\<close>

theorem registry_consistent:
  assumes "core_run E s"
  shows "distinct (map fst (sd_running s)) \<and> ShadowsRunning s = int (length (sd_running s)) \<and>
     (sd_drainDone s \<noteq> None \<longrightarrow> sd_draining s \<and> sd_running s \<noteq> [])"
  using core_run_inv [OF assms] by (simp add: core_def ShadowsRunning_def)

section \<open>Draining\<close>

lemma reg_grow_draining:
  "reg_grow R R' \<Longrightarrow> fst (snd (snd R)) \<Longrightarrow> fst ` set (fst R') \<subseteq> fst ` set (fst R) \<and> fst (snd (snd R'))"
proof (induction rule: reg_grow.induct)
  case (change R k ri)
  then show ?case by (cases R) (auto simp: dom_map_of_conv_image_fst [symmetric] AList.update_conv')
next
  case (drain R ch)
  then show ?case by (cases R) auto
qed simp

lemma reg_step_draining:
  "reg_step R R' \<Longrightarrow> fst (snd (snd R)) \<Longrightarrow> fst ` set (fst R') \<subseteq> fst ` set (fst R) \<and> fst (snd (snd R'))"
proof (induction rule: reg_step.induct)
  case (grow R R')
  then show ?case by (induction rule: rtranclp_induct) (blast dest: reg_grow_draining)+
next
  case (finish R k)
  then show ?case by (cases R) (auto simp: AList.delete_eq)
qed

definition chans :: "('ad, 'ex, 's, 'h) sched \<Rightarrow> nat option \<times> nat list" where
  "chans s = (sd_drainDone s, sd_closed s)"

interpretation chanv: core_view chans
  by unfold_locales (simp_all add: chans_def SubmitEvent_def nudgeAdvertise_def nudgeMaterialize_def releaseClaim_def
      cancel_run_def log_core_def)

lemma chan_effects [core_frame]:
  "chans (spawn_go g s) = chans s" "chans (add_running k ri s) = chans s" "chans (set_run k ri s) = chans s"
  "chans (del_running k s) = chans s"
  by (simp_all add: chans_def spawn_go_def add_running_def set_run_def del_running_def)

definition kept :: "nat option \<times> nat list \<Rightarrow> nat option \<times> nat list \<Rightarrow> bool" where
  "kept x y = (set (snd x) \<subseteq> set (snd y) \<and> (fst y = fst x \<or> fst y = None \<and> set_option (fst x) \<subseteq> set (snd y)))"

lemma kept_refl [simp]: "kept x x" by (simp add: kept_def)

lemma kept_close: "kept (chans s) (chans (close_chan ch s))"
  by (auto simp: kept_def chans_def close_chan_def split: option.split)

lemma kept_finish: "chans s' = chans s \<Longrightarrow> kept (chans s) (chans (maybeFinishDrain s'))"
  by (auto simp: kept_def chans_def maybeFinishDrain_def close_chan_def split: option.split)

lemma kept_reap: "kept x (chans s) \<Longrightarrow> kept x (chans (reapWaiters ri s))"
  by (auto simp: kept_def chans_def reapWaiters_def)

lemma kept_recover: "kept (chans s) (chans (handleRecover E now ch s))"
proof -
  have go: "chans (fold (recover_start E) rs s') = chans s'" for rs s'
    by (rule chanv.view_fold) (simp add: recover_start_def Let_def core_frame split: prod.split)
  let ?f = "fold (recover_scan1 E now) (Scan E (sd_q s)) (s, [])"
  have "chans (fold (recover_start E) (snd ?f) (fst ?f)) = chans s" by (simp add: go core_frame)
  then show ?thesis using kept_close [of s ch] kept_close [of "fold (recover_start E) (snd ?f) (fst ?f)" ch]
    by (simp add: handleRecover_def Let_def case_prod_beta)
qed

lemma chan_started [core_frame]: "chans (handleStarted E now c p slot cl s) = chans s"
  by (cases "map_of (sd_running s) (c, p)")
     (simp_all add: handleStarted_def Let_def core_frame if_distrib [of chans] split: prod.split)

lemma kept_exited: "kept (chans s) (chans (handleExited E now c p res err s))"
  by (cases "map_of (sd_running s) (c, p)")
     (simp_all add: handleExited_def Let_def core_frame kept_finish kept_reap if_distrib [of chans] split: option.splits)

lemma kept_failed: "kept (chans s) (chans (handleFailed E now c p err pn cl rel s))"
  by (cases "map_of (sd_running s) (c, p)")
     (simp_all add: handleFailed_def Let_def core_frame kept_finish kept_reap if_distrib [of chans])

lemma kept_reconnect_failed: "kept (chans s) (chans (handleReconnectFailed E now c p cl err s))"
  by (cases "map_of (sd_running s) (c, p)")
     (simp_all add: handleReconnectFailed_def Let_def core_frame kept_finish kept_reap if_distrib [of chans])

lemma kept_handle: "\<not> is_drain ev \<Longrightarrow> kept (chans s) (chans (handle E now ev s))"
proof (cases ev)
  case (EvMatch m)
  then show ?thesis by (simp add: handle_def handleMatch_def Let_def core_frame split: option.split)
next
  case (EvTeardown c p ch)
  then show ?thesis by (simp add: handle_def handleTeardown_def Let_def core_frame kept_close split: option.split)
qed (simp_all add: handle_def core_frame handlePolicyAction_def kept_recover kept_exited kept_failed kept_reconnect_failed)

lemma ended_keys:
  assumes "sd_draining s"
  shows "fst ` set (sd_running (handle E now ev s)) \<subseteq> fst ` set (sd_running s) - set_option (ended ev)"
proof (cases "ended ev")
  case None
  then show ?thesis using reg_step_draining [OF core_handle [of E s now ev]] assms by simp
next
  case (Some k)
  then have "core (handle E now ev s) = reg_finish (reg_del k (core s))"
    by (cases ev) (auto simp: handle_def core_exited core_failed core_reconnect_failed)
  then have "sd_running (handle E now ev s) = AList.delete k (sd_running s)"
    by (auto simp: core_def map_of_eq_None_iff AList.delete_id split: if_splits)
  then show ?thesis using Some by (auto simp: AList.delete_eq)
qed

lemma drain_progress:
  assumes "reg_inv (core s)" and "sd_draining s" and "sd_drainDone s = Some d \<or> d \<in> set (sd_closed s)"
    and "\<not> list_ex is_drain es" and "fst ` set (sd_running s) \<subseteq> set (List.map_filter ended es)"
  shows "sd_running (fold (handle E now) es s) = [] \<and> d \<in> set (sd_closed (fold (handle E now) es s))"
  using assms
proof (induction es arbitrary: s)
  case Nil
  then show ?case by (auto simp: core_def)
next
  case (Cons ev es)
  let ?s = "handle E now ev s"
  have st: "reg_step (core s) (core ?s)" by (rule core_handle) (simp add: Cons.prems(2))
  have "reg_inv (core ?s)" using reg_step_inv [OF st] Cons.prems(1) by blast
  moreover have "sd_draining ?s" using reg_step_draining [OF st] Cons.prems(2) by simp
  moreover have "sd_drainDone ?s = Some d \<or> d \<in> set (sd_closed ?s)"
    using kept_handle [of ev s E now] Cons.prems(3,4) by (auto simp: kept_def chans_def)
  moreover have "fst ` set (sd_running ?s) \<subseteq> set (List.map_filter ended es)"
    using ended_keys [OF Cons.prems(2), of E now ev] Cons.prems(5)
    by (cases "ended ev") (auto simp: List.map_filter_simps)
  ultimately show ?case using Cons.IH [of ?s] Cons.prems(4) by simp
qed

text \<open>
  C22. A drain completes: once every run registered when it is under way has reported its end, by an exit, a failure
  or a failed reconnect, in any order and among any other events but a second drain, no run is left and the channel
  the shutdown waits on has been closed.
\<close>

theorem drain_completes:
  assumes "core_run E s" and "sd_drainDone s = Some d" and "\<not> list_ex is_drain es"
    and "fst ` set (sd_running s) \<subseteq> set (List.map_filter ended es)"
  shows "sd_running (fold (handle E now) es s) = [] \<and> d \<in> set (sd_closed (fold (handle E now) es s))"
  using drain_progress [of s d es E now] core_run_inv [OF assms(1)] assms(2-4) by (simp add: core_def)

section \<open>One run per job\<close>

fun run_key :: "'ad spawned \<Rightarrow> job_id option" where
  "run_key (RunJob m job) = Some (nm_Cluster m, nm_Proc m)"
| "run_key (ReconnectJob c p cl job) = Some (c, p)"
| "run_key (PolicyApply c p req) = None"

definition runs_of :: "job_id \<Rightarrow> ('ad, 'ex, 's, 'h) sched \<Rightarrow> 'ad spawned list" where
  "runs_of k s = filter (\<lambda>g. run_key g = Some k) (sd_spawned s)"

interpretation runv: core_view "runs_of k"
  by unfold_locales (simp_all add: runs_of_def SubmitEvent_def nudgeAdvertise_def nudgeMaterialize_def releaseClaim_def
      cancel_run_def log_core_def)

lemma runs_effects [core_frame]:
  "runs_of k (close_chan ch s) = runs_of k s" "runs_of k (reapWaiters r s) = runs_of k s"
  "runs_of k (add_running k' ri s) = runs_of k s" "runs_of k (set_run k' ri s) = runs_of k s"
  "runs_of k (del_running k' s) = runs_of k s" "runs_of k (maybeFinishDrain s) = runs_of k s"
  "run_key g \<noteq> Some k \<Longrightarrow> runs_of k (spawn_go g s) = runs_of k s"
  by (simp_all add: runs_of_def spawn_go_def close_chan_def reapWaiters_def add_running_def set_run_def del_running_def
        maybeFinishDrain_def split: option.splits)

lemma scan_reconnects:
  "k \<in> fst ` set (snd (fold (recover_scan1 E now) ads (s, rs))) \<Longrightarrow> k \<in> fst ` set rs \<or> map_of (sd_running s) k = None"
proof (induction ads arbitrary: s rs)
  case (Cons ad ads)
  obtain s1 rs1 where one: "recover_scan1 E now ad (s, rs) = (s1, rs1)" by (cases "recover_scan1 E now ad (s, rs)")
  obtain x where c: "core s1 = core s" and x: "rs1 = rs @ x" "map fst x \<in> {[], [ad_key E ad]}"
      "x \<noteq> [] \<longrightarrow> map_of (sd_running s) (ad_key E ad) = None"
    using scan1_frame [of E now ad s rs] one by auto
  have r: "sd_running s1 = sd_running s" using core_eq [OF c] by simp
  have "k \<in> fst ` set rs1 \<or> map_of (sd_running s1) k = None" using Cons one by simp
  then show ?case
  proof
    assume "k \<in> fst ` set rs1"
    then have "k \<in> fst ` set rs \<or> x \<noteq> [] \<and> k = ad_key E ad" using x(1,2) by (auto simp: image_Un)
    then show ?thesis using x(3) by (elim disjE) simp_all
  qed (simp add: r)
qed simp

lemma recover_runs:
  "k \<notin> fst ` set rs \<Longrightarrow> runs_of k (fold (recover_start E) rs s) = runs_of k s"
proof (induction rs arbitrary: s)
  case (Cons r rs)
  have "runs_of k (recover_start E r s) = runs_of k s"
    using Cons.prems by (cases r) (auto simp: recover_start_def Let_def core_frame)
  then show ?case using Cons by simp
qed simp

lemma recover_keys: "fst ` set (sd_running s) \<subseteq> fst ` set (sd_running (fold (recover_start E) rs s))"
proof (induction rs arbitrary: s)
  case (Cons r rs)
  obtain k cl sl job where r: "r = (k, cl, sl, job)" by (cases r)
  have "core (recover_start E r s) = reg_add k (fresh_run cl sl True) (core s)"
    by (simp add: r recover_start_def Let_def core_frame)
  then have "sd_running (recover_start E r s) = AList.update k (fresh_run cl sl True) (sd_running s)"
    by (simp add: core_def)
  then have "fst ` set (sd_running s) \<subseteq> fst ` set (sd_running (recover_start E r s))"
    by (auto simp: dom_map_of_conv_image_fst [symmetric] AList.update_conv')
  then show ?case using Cons.IH [of "recover_start E r s"] by simp
qed simp

lemma running_stays:
  assumes "ended ev \<noteq> Some k" and "k \<in> fst ` set (sd_running s)"
  shows "k \<in> fst ` set (sd_running (handle E now ev s))"
proof (cases "ended ev")
  case None
  show ?thesis
  proof (cases "\<exists>ch. ev = EvRecover ch")
    case True
    let ?f = "fold (recover_scan1 E now) (Scan E (sd_q s)) (s, [])"
    have "sd_running (fst ?f) = sd_running s"
      using regv.view_scan [of E now "Scan E (sd_q s)" "(s, [])"] core_eq [of "fst ?f" s] by simp
    then have "k \<in> fst ` set (sd_running (fold (recover_start E) (snd ?f) (fst ?f)))"
      using recover_keys [of "fst ?f" E "snd ?f"] assms(2) by auto
    then show ?thesis using True assms(2) by (elim exE) (simp add: handle_def handleRecover_def Let_def case_prod_beta)
  next
    case False
    then have "reg_grow\<^sup>*\<^sup>* (core s) (core (handle E now ev s))"
      using None by (cases ev) (auto simp: handle_def core_match core_started core_teardown core_drain core_frame)
    then show ?thesis using subsetD [OF reg_grows_keys, of "core s" "core (handle E now ev s)" k] assms(2) by simp
  qed
next
  case (Some k')
  then have "core (handle E now ev s) = reg_finish (reg_del k' (core s))"
    by (cases ev) (auto simp: handle_def core_exited core_failed core_reconnect_failed)
  then have "sd_running (handle E now ev s) = AList.delete k' (sd_running s)"
    by (auto simp: core_def map_of_eq_None_iff AList.delete_id split: if_splits)
  moreover have "k \<noteq> k'" using Some assms(1) by simp
  ultimately show ?thesis using assms(2) by (auto simp: AList.delete_eq image_iff)
qed

lemma runs_folds [core_frame]:
  "runs_of k (fold (drain_vacate E now) xs s) = runs_of k s" "runs_of k (fold drain_detach xs s) = runs_of k s"
  by (rule runv.view_fold, simp add: drain_vacate_def drain_detach_def core_frame split: prod.split)+

lemma runs_started [core_frame]: "runs_of k (handleStarted E now c p slot cl s) = runs_of k s"
  by (cases "map_of (sd_running s) (c, p)")
     (simp_all add: handleStarted_def Let_def core_frame if_distrib [of "runs_of k"] split: prod.split)

lemma runs_ended [core_frame]:
  "runs_of k (handleExited E now c p res err s) = runs_of k s"
  "runs_of k (handleFailed E now c p err' pn cl rel s) = runs_of k s"
  "runs_of k (handleReconnectFailed E now c p cl err' s) = runs_of k s"
  by (cases "map_of (sd_running s) (c, p)";
      simp add: handleExited_def handleFailed_def handleReconnectFailed_def Let_def core_frame if_distrib [of "runs_of k"]
        split: option.split)+

lemma runs_drain [core_frame]: "runs_of k (handleDrain E now ch s) = runs_of k s"
proof -
  have "runs_of k (s\<lparr> sd_draining := True \<rparr>) = runs_of k s"
    "runs_of k (s\<lparr> sd_draining := True, sd_drainDone := Some ch \<rparr>) = runs_of k s" by (simp_all add: runs_of_def)
  then show ?thesis by (simp add: handleDrain_def Let_def core_frame)
qed

lemma runs_other [core_frame]:
  "runs_of k (handleTeardown c p ch s) = runs_of k s" "runs_of k (handlePolicyAction E c p req s) = runs_of k s"
  by (simp_all add: handleTeardown_def handlePolicyAction_def Let_def core_frame split: option.split)

lemma runs_kept:
  assumes "k \<in> fst ` set (sd_running s)"
  shows "runs_of k (handle E now ev s) = runs_of k s"
proof (cases ev)
  case (EvMatch m)
  have "map_of (sd_running s) (nm_Cluster m, nm_Proc m) = None \<Longrightarrow> (nm_Cluster m, nm_Proc m) \<noteq> k"
    using assms by (auto simp: map_of_eq_None_iff)
  then show ?thesis
    using EvMatch by (cases "map_of (sd_running s) (nm_Cluster m, nm_Proc m)")
      (simp_all add: handle_def handleMatch_def Let_def core_frame split: option.split)
next
  case (EvRecover ch)
  let ?f = "fold (recover_scan1 E now) (Scan E (sd_q s)) (s, [])"
  have "k \<notin> fst ` set (snd ?f)"
    using scan_reconnects [of k E now "Scan E (sd_q s)" s "[]"] assms by (auto simp: map_of_eq_None_iff)
  then show ?thesis
    using EvRecover by (simp add: handle_def handleRecover_def Let_def case_prod_beta core_frame recover_runs)
qed (simp_all add: handle_def core_frame)

text \<open>
  C23. No job runs twice at once: while a run of a job is registered, no sequence of events that does not report its
  end, recovery and repeated matches included, starts another run or reconnect of that job, and the run stays
  registered.
\<close>

theorem no_double_run:
  assumes "k \<in> fst ` set (sd_running s)" and "k \<notin> set (List.map_filter ended es)"
  shows "runs_of k (fold (handle E now) es s) = runs_of k s \<and> k \<in> fst ` set (sd_running (fold (handle E now) es s))"
  using assms
proof (induction es arbitrary: s)
  case (Cons ev es)
  have e: "ended ev \<noteq> Some k" "k \<notin> set (List.map_filter ended es)"
    using Cons.prems(2) by (auto simp: List.map_filter_simps split: option.splits)
  show ?case
    using Cons.IH [OF running_stays [OF e(1) Cons.prems(1), of E now] e(2)] runs_kept [OF Cons.prems(1), of E now ev] by simp
qed simp

section \<open>The lease sweep\<close>

lemma claimPublicID_public [simp]: "claimPublicID E = public_of E"
  by (simp add: fun_eq_iff claimPublicID_def public_of_def Let_def)

definition live_run :: "job_id \<times> runInfo \<Rightarrow> bool" where
  "live_run kr = (\<not> ri_vacated (snd kr) \<and> \<not> ri_detached (snd kr))"

lemma renew_runs:
  "sd_matches (fold (renew_run E now) rs s) =
     fold (\<lambda>c. renew_claim E now c (3 * sd_sweepInterval s)) (map (\<lambda>kr. ri_claimID (snd kr)) (filter live_run rs)) (sd_matches s) \<and>
   sd_sweepInterval (fold (renew_run E now) rs s) = sd_sweepInterval s"
proof (induction rs arbitrary: s)
  case (Cons kr rs)
  have "sd_sweepInterval (renew_run E now kr s) = sd_sweepInterval s \<and>
      sd_matches (renew_run E now kr s) =
        (if live_run kr then renew_claim E now (ri_claimID (snd kr)) (3 * sd_sweepInterval s) (sd_matches s) else sd_matches s)"
    by (cases kr) (simp add: renew_run_def live_run_def renew_claim_def modify_job_def Let_def)
  then show ?case using Cons.IH [of "renew_run E now kr s"] by simp
qed simp

lemma expire_spares:
  assumes "distinct (map fst (sd_running s))" and "map_of (sd_running s) k = Some ri"
    and "public_of E (ri_claimID ri) \<notin> m_publicID ` set recs"
  shows "map_of (sd_running (fold (expire_rec E now) recs s)) k = Some ri"
  using assms
proof (induction recs arbitrary: s)
  case (Cons rec recs)
  let ?find = "List.find (\<lambda>(key, ri). \<not> ri_vacated ri \<and> public_of E (ri_claimID ri) = m_publicID rec) (sd_running s)"
  have "distinct (map fst (sd_running (expire_rec E now rec s))) \<and> map_of (sd_running (expire_rec E now rec s)) k = Some ri"
  proof (cases ?find)
    case None
    then show ?thesis using Cons.prems by (simp add: expire_rec_def)
  next
    case (Some kr)
    obtain key ri' where kr: "kr = (key, ri')" by (cases kr)
    have mem: "(key, ri') \<in> set (sd_running s)" and pub: "public_of E (ri_claimID ri') = m_publicID rec"
      using Some kr unfolding find_Some_iff by (auto, metis nth_mem)
    have "map_of (sd_running s) key = Some ri'" using mem Cons.prems(1) by simp
    then have "key \<noteq> k" using pub Cons.prems(2,3) by auto
    moreover have "sd_running (requeueToIdle E now c p s') = sd_running s'" for c p and s' :: "('a, 'b, 'c, 'd) sched"
      using core_eq [OF regv.view_requeue] by blast
    ultimately show ?thesis
      using Some kr Cons.prems(1,2) by (simp add: expire_rec_def set_run_def AList.distinct_update AList.update_conv')
  qed
  then show ?case using Cons.IH [of "expire_rec E now rec s"] Cons.prems(3) by simp
qed simp

text \<open>
  C24. The lease sweep never kills a live run: a registered run that was neither vacated nor detached is registered
  unchanged after the sweep, provided the sweep takes no longer than three sweep intervals.
\<close>

theorem sweep_spares_live_runs:
  assumes "core_run E s" and "table_run E (sd_matches s)" and "map_of (sd_running s) k = Some ri"
    and "\<not> ri_vacated ri" and "\<not> ri_detached ri" and "now' \<le> now + 3 * sd_sweepInterval s"
  shows "map_of (sd_running (sweepExpired E now now' s)) k = Some ri"
proof -
  let ?cs = "map (\<lambda>kr. ri_claimID (snd kr)) (filter live_run (sd_running s))"
  let ?r = "fold (renew_run E now) (sd_running s) s"
  let ?x = "ExpireSweep now' (sd_matches ?r)"
  have c: "ri_claimID ri \<in> set ?cs"
    using map_of_SomeD [OF assms(3)] assms(4,5) by (force simp: live_run_def)
  have "public_of E (ri_claimID ri) \<notin> m_publicID ` set (fst ?x)"
    using lt.renewed_not_swept [OF table_run_inv [OF assms(2)] c assms(6), of E] renew_runs [of E now "sd_running s" s]
    by (simp add: sweep_ids_def case_prod_beta)
  moreover have "core (?r\<lparr> sd_matches := snd ?x \<rparr>) = core s" by (simp add: core_frame regv.view_fold)
  then have "sd_running (?r\<lparr> sd_matches := snd ?x \<rparr>) = sd_running s" using core_eq by blast
  moreover have "distinct (map fst (sd_running s))" using core_run_inv [OF assms(1)] by (simp add: core_def)
  ultimately show ?thesis
    using expire_spares [of "?r\<lparr> sd_matches := snd ?x \<rparr>" k ri E "fst ?x" now'] assms(3)
    by (simp add: sweepExpired_def Let_def case_prod_beta)
qed

section \<open>The failure budget\<close>

lemma log_job_queue: "sd_q (log_job E c p ev s) = sd_q s"
  by (simp add: log_job_def log_core_def split: option.split)

context job_store
begin

lemma end_run_lookup:
  assumes "to_lower n \<notin> to_lower ` {''LastRemoteHost'', ''RemoteHost'', ''ClaimId'', ''StartdIpAddr'', ''LastJobLeaseRenewal''}"
  shows "lookup_attr E (end_run_ad E ad) n = lookup_attr E ad n"
  using assms by (auto simp: end_run_ad_def stripReconnectAttrs_def Let_def lookup_simps)

lemma failed_lookups:
  assumes "case lookup_attr E ad ''NumShadowExceptions'' of None \<Rightarrow> n = 0 | Some e \<Rightarrow> e = li n"
  shows "lookup_attr E (failed_ad E now m why count ad) ''JobStatus'' =
      Some (li (if count \<and> m \<le> wrap64 (n + 1) then StatusHeld else StatusIdle))"
    and "lookup_attr E (failed_ad E now m why count ad) ''NumShadowExceptions'' =
      (if count then Some (li (wrap64 (n + 1))) else lookup_attr E ad ''NumShadowExceptions'')"
proof -
  have l: "lookup_attr E (failed_prefix E now ad) ''NumShadowExceptions'' = lookup_attr E ad ''NumShadowExceptions''"
    by (simp add: failed_prefix_def Let_def lookup_simps end_run_lookup go_simps)
  have "int_attr0 E (failed_prefix E now ad) ''NumShadowExceptions'' = n"
    using assms l eval_int_absent eval_int_lit by (auto simp: int_attr0_def split: option.splits)
  then have x: "failed_excepts E count (failed_prefix E now ad) = (if count then wrap64 (n + 1) else 0)"
    by (simp add: failed_excepts_def)
  show "lookup_attr E (failed_ad E now m why count ad) ''JobStatus'' =
      Some (li (if count \<and> m \<le> wrap64 (n + 1) then StatusHeld else StatusIdle))"
    by (simp add: failed_ad_def Let_def x lookup_simps go_simps)
  show "lookup_attr E (failed_ad E now m why count ad) ''NumShadowExceptions'' =
      (if count then Some (li (wrap64 (n + 1))) else lookup_attr E ad ''NumShadowExceptions'')"
    using x by (cases count) (simp_all add: failed_ad_def Let_def lookup_simps go_simps l)
qed

lemma failed_effect:
  assumes "Get E (sd_q s) c p = Some ad" and "JobStatus E (sd_q s) c p = StatusRunning"
    and "case lookup_attr E ad ''NumShadowExceptions'' of None \<Rightarrow> n = 0 | Some e \<Rightarrow> e = li n"
    and "fst (Modify E (sd_q s) c p (failed_ad E now (sd_maxExceptions s) why count))"
  shows "JobStatus E (sd_q (jobFailed E now c p why count s)) c p =
       (if count \<and> sd_maxExceptions s \<le> wrap64 (n + 1) then StatusHeld else StatusIdle) \<and>
     (\<exists>ad'. Get E (sd_q (jobFailed E now c p why count s)) c p = Some ad' \<and>
        int_attr0 E ad' ''NumShadowExceptions'' = (if count then wrap64 (n + 1) else n))"
proof -
  let ?f = "failed_ad E now (sd_maxExceptions s) why count"
  let ?q = "snd (Modify E (sd_q s) c p ?f)"
  have q: "sd_q (jobFailed E now c p why count s) = ?q"
    using assms(1,2) by (simp add: jobFailed_def Let_def modify_job_def log_job_queue)
  have m: "Modify E (sd_q s) c p ?f = (True, ?q)" using assms(4) by (simp add: prod_eq_iff)
  from jq.modify_written [of "sd_q s" "(c, p)", unfolded fst_conv snd_conv, OF this] assms(1) obtain ad' where
    ad': "Get E ?q c p = Some ad'" "\<And>m e. lookup_attr E (?f ad) m = Some e \<Longrightarrow> lookup_attr E ad' m = Some e"
    by auto
  have "int_attr0 E ad' ''NumShadowExceptions'' = (if count then wrap64 (n + 1) else n)"
  proof (cases "count \<or> lookup_attr E ad ''NumShadowExceptions'' \<noteq> None")
    case True
    then have "lookup_attr E ad' ''NumShadowExceptions'' = Some (li (if count then wrap64 (n + 1) else n))"
      using ad'(2) failed_lookups(2) [OF assms(3)] assms(3) by (auto split: option.splits if_splits)
    then show ?thesis using eval_int_lit by (simp add: int_attr0_def)
  next
    case False
    then have "lookup_attr E ad' ''NumShadowExceptions'' = None"
      using Modify_absent [OF m assms(1) _ _ ad'(1)] failed_lookups(2) [OF assms(3)] by simp
    then show ?thesis using False assms(3) eval_int_absent by (simp add: int_attr0_def)
  qed
  then show ?thesis
    using status_lit [OF ad'(1) ad'(2) [OF failed_lookups(1) [OF assms(3)]]] ad'(1) by (simp add: q)
qed

lemma started_effect:
  assumes "Get E (sd_q s) c p = Some ad" and "\<And>x. coll_put E (q_coll (sd_q s)) (jobKey c p) x \<noteq> None"
  shows "JobStatus E (sd_q (handleStarted E now c p slot cl s)) c p = StatusRunning"
proof -
  let ?cl = "case map_of (sd_running s) (c, p) of Some ri \<Rightarrow> if cl = [] then ri_claimID ri else cl | None \<Rightarrow> cl"
  let ?f = "started_ad E now (sd_defaultJobLease s) slot ?cl"
  obtain st where "coll_put E (q_coll (sd_q s)) (jobKey c p) (?f ad) = Some st" using assms(2) by blast
  then have m: "Modify E (sd_q s) c p ?f = (True, (sd_q s)\<lparr> q_coll := st \<rparr>)"
    using assms(1) by (simp add: Modify_def)
  have "sd_q (handleStarted E now c p slot cl s) = (sd_q s)\<lparr> q_coll := st \<rparr>"
    using m by (cases "map_of (sd_running s) (c, p)"; cases "cl = []")
      (simp_all add: handleStarted_def Let_def log_job_queue nudgeMaterialize_def set_run_def)
  moreover have "lookup_attr E (?f ad) ''JobStatus'' = Some (li StatusRunning)" for ad
    by (simp add: started_ad_def Let_def lookup_simps go_simps)
  ultimately show ?thesis using Modify_status [OF m] by simp
qed

end

text \<open>
  C25. The failure budget: when the run of a job with \<open>n\<close> recorded exceptions, none being recorded before the first, fails and the
  store accepts the write, a failure that counts adds one, as a 64-bit integer, and holds the job exactly when the
  sum reaches the configured maximum; otherwise, and for a failure that does not count, the job goes back to idle. A recorded
  number at the end of the 64-bit range wraps, and the job is not held.
\<close>

theorem failure_budget:
  assumes "job_store E li ls lb own keys hlist" and "Get E (sd_q s) c p = Some ad"
    and "JobStatus E (sd_q s) c p = StatusRunning"
    and "case lookup_attr E ad ''NumShadowExceptions'' of None \<Rightarrow> n = 0 | Some e \<Rightarrow> e = li n"
    and "fst (Modify E (sd_q s) c p (failed_ad E now (sd_maxExceptions s) why count))"
  shows "JobStatus E (sd_q (jobFailed E now c p why count s)) c p =
       (if count \<and> sd_maxExceptions s \<le> wrap64 (n + 1) then StatusHeld else StatusIdle) \<and>
     (\<exists>ad'. Get E (sd_q (jobFailed E now c p why count s)) c p = Some ad' \<and>
        int_attr0 E ad' ''NumShadowExceptions'' = (if count then wrap64 (n + 1) else n))"
  by (rule job_store.failed_effect [OF assms])

text \<open>
  C26. The start of a run overrides the status of the job: whatever the status is when the report of the start is
  handled, it is running afterwards. A job held between its match and that report, whose hold found it idle and so
  vacated nothing, runs although it was held.
\<close>

theorem start_overrides_hold:
  assumes "job_store E li ls lb own keys hlist" and "Get E (sd_q s) c p = Some ad"
    and "\<And>x. coll_put E (q_coll (sd_q s)) (jobKey c p) x \<noteq> None"
  shows "JobStatus E (sd_q (handle E now (EvStarted c p slot cl) s)) c p = StatusRunning"
  using job_store.started_effect [OF assms] by (simp add: handle_def)

section \<open>A concrete run\<close>

definition ref_sched :: "(ref_ad, ref_ex, ref_store, ref_ad list) sched" where
  "ref_sched = NewScheduler \<lparr> so_Queue = ref_q1, so_Matches = NewTable, so_AliveInterval = 300, so_SweepInterval = 60,
     so_MaxShadowExceptions = 2, so_ReconnectDisabled = False, so_DefaultJobLease = 0, so_UserLog = True, so_SysPolicy = None \<rparr>"

definition ref_match :: "ref_ad nmatch" where
  "ref_match = ref_granted\<lparr> nm_Cluster := 1, nm_Proc := 0, nm_ClaimID := ''<h:1>#1#2#secret'', nm_SlotName := ''slot1'' \<rparr>"

definition ref_step :: "ref_ad event \<Rightarrow> (ref_ad, ref_ex, ref_store, ref_ad list) sched \<Rightarrow> (ref_ad, ref_ex, ref_store, ref_ad list) sched" where
  "ref_step ev s = handle refE 1000 ev ((SubmitEvent ev s)\<lparr> sd_events := [] \<rparr>)"

definition ref_matched :: "(ref_ad, ref_ex, ref_store, ref_ad list) sched" where
  "ref_matched = ref_step (EvMatch ref_match) ref_sched"

definition ref_draining :: "(ref_ad, ref_ex, ref_store, ref_ad list) sched" where
  "ref_draining = ref_step (EvDrain 7) ref_matched"

lemma ref_step_run:
  "core_run refE s \<Longrightarrow> sd_events s = [] \<Longrightarrow> distinct (scan_ids refE (sd_q s)) \<Longrightarrow> core_run refE (ref_step ev s)"
  unfolding ref_step_def
  by (rule core_run.event [OF core_run.submit]) (simp_all add: SubmitEvent_def)

lemma ref_matched_run: "core_run refE ref_matched"
  unfolding ref_matched_def by (rule ref_step_run) (simp add: ref_sched_def core_run.start, code_simp+)

lemma ref_draining_run: "core_run refE ref_draining"
  unfolding ref_draining_def by (rule ref_step_run [OF ref_matched_run]) code_simp+

theorem registry_consistent_witness:
  "map fst (sd_running ref_matched) = [(1, 0)] \<and> ShadowsRunning ref_matched = int (length (sd_running ref_matched))"
proof -
  have "map fst (sd_running ref_matched) = [(1, 0)]" by code_simp
  then show ?thesis using registry_consistent [OF ref_matched_run] by blast
qed

theorem drain_completes_witness:
  "sd_drainDone ref_draining = Some 7 \<and>
   7 \<in> set (sd_closed (fold (handle refE 1001) [EvReschedule, EvMatch ref_match, EvFailed 1 0 None False [] False] ref_draining))"
proof -
  have h: "sd_drainDone ref_draining = Some 7"
    "\<not> list_ex is_drain [EvReschedule, EvMatch ref_match, EvFailed 1 0 None False [] False]"
    "fst ` set (sd_running ref_draining) \<subseteq>
       set (List.map_filter ended [EvReschedule, EvMatch ref_match, EvFailed 1 0 None False [] False])"
    by code_simp+
  from drain_completes [OF ref_draining_run h] h(1) show ?thesis by blast
qed

theorem no_double_run_witness:
  "length (runs_of (1, 0) ref_matched) = 1 \<and>
   length (runs_of (1, 0) (fold (handle refE 1001) [EvMatch ref_match, EvRecover None] ref_matched)) = 1"
proof -
  have h: "(1, 0) \<in> fst ` set (sd_running ref_matched)"
    "(1, 0) \<notin> set (List.map_filter ended [EvMatch ref_match, EvRecover None])" "length (runs_of (1, 0) ref_matched) = 1"
    by code_simp+
  from no_double_run [OF h(1,2), of refE 1001] h(3) show ?thesis by simp
qed

theorem sweep_spares_live_runs_witness:
  "map_of (sd_running (sweepExpired refE 9000 9010 (ref_matched\<lparr> sd_q := ref_q1, sd_matches := ref_table \<rparr>))) (1, 0) \<noteq> None \<and>
   fst (ExpireSweep 9010 ref_table) \<noteq> []"
proof -
  let ?s = "ref_matched\<lparr> sd_q := ref_q1, sd_matches := ref_table \<rparr>"
  let ?ri = "fresh_run ''<h:1>#1#2#secret'' ''slot1'' False"
  have r: "core_run refE ?s" by (rule core_run.world [OF ref_matched_run])
  have t: "table_run refE (sd_matches ?s)" by (simp add: ref_table_run)
  have h: "map_of (sd_running ?s) (1, 0) = Some ?ri" "\<not> ri_vacated ?ri" "\<not> ri_detached ?ri"
      "9010 \<le> 9000 + 3 * sd_sweepInterval ?s" "fst (ExpireSweep 9010 ref_table) \<noteq> []"
    by code_simp+
  from sweep_spares_live_runs [OF r t h(1-4)] h(5) show ?thesis by simp
qed

text \<open>A first run, and a run of the same job with a recorded number of exceptions.\<close>

definition ref_first :: "(ref_ad, ref_ex, ref_store, ref_ad list) sched" where
  "ref_first = handle refE 1000 (EvStarted 1 0 ''slot1'' []) ref_matched"

definition ref_running :: "int \<Rightarrow> (ref_ad, ref_ex, ref_store, ref_ad list) sched" where
  "ref_running n = ref_first\<lparr> sd_q := snd (Modify refE (sd_q ref_first) 1 0 (set_int refE ''NumShadowExceptions'' n)) \<rparr>"

definition ref_fails :: "bool \<Rightarrow> (ref_ad, ref_ex, ref_store, ref_ad list) sched \<Rightarrow> int" where
  "ref_fails count s = JobStatus refE (sd_q (jobFailed refE 1002 1 0 ''lost'' count s)) 1 0"

definition ref_obs :: "(ref_ad, ref_ex, ref_store, ref_ad list) sched \<Rightarrow> ref_ex option option \<times> int \<times> int" where
  "ref_obs s = (map_option (\<lambda>ad. lookup_attr refE ad ''NumShadowExceptions'') (Get refE (sd_q s) 1 0),
     JobStatus refE (sd_q s) 1 0, sd_maxExceptions s)"

theorem failure_budget_witness:
  "ref_fails True ref_first = StatusIdle \<and> ref_fails True (ref_running 1) = StatusHeld \<and>
   ref_fails False (ref_running 1) = StatusIdle \<and> ref_fails True (ref_running 9223372036854775807) = StatusIdle"
proof -
  have l: "ref_obs ref_first = (Some None, StatusRunning, 2)" "ref_obs (ref_running 1) = (Some (Some (RInt 1)), StatusRunning, 2)"
    "ref_obs (ref_running 9223372036854775807) = (Some (Some (RInt 9223372036854775807)), StatusRunning, 2)"
    by code_simp+
  have w: "wrap64 1 = 1" "wrap64 2 = 2" "wrap64 9223372036854775808 = - 9223372036854775808" by code_simp+
  have m: "fst (Modify refE q 1 0 f)" if "Get refE q 1 0 = Some ad" for q ad f
    using that by (simp add: Modify_def refE_def [THEN arg_cong, of coll_put])
  have b: "ref_fails count s = (if count \<and> 2 \<le> wrap64 (n + 1) then StatusHeld else StatusIdle)"
    if obs: "ref_obs s = (Some e, StatusRunning, 2)" and n: "case e of None \<Rightarrow> n = 0 | Some e \<Rightarrow> e = RInt n" for s e n count
  proof -
    obtain ad where ad: "Get refE (sd_q s) 1 0 = Some ad" "lookup_attr refE ad ''NumShadowExceptions'' = e"
      using obs by (auto simp: ref_obs_def)
    have r: "JobStatus refE (sd_q s) 1 0 = StatusRunning" "sd_maxExceptions s = 2" using obs by (simp_all add: ref_obs_def)
    show ?thesis
      using failure_budget [OF ref.job_store_axioms ad(1) r(1) n [folded ad(2)] m [OF ad(1)], of 1002 "''lost''" count] r(2)
      by (simp add: ref_fails_def)
  qed
  show ?thesis
    using b [OF l(1), of 0 True] b [OF l(2), of 1 True] b [OF l(2), of 1 False] b [OF l(3), of 9223372036854775807 True] w
    by simp
qed

definition ref_held_run :: "(ref_ad, ref_ex, ref_store, ref_ad list) sched" where
  "ref_held_run = ref_matched\<lparr> sd_q := snd (ApplyAction refE None 1000 (sd_q ref_matched) 1 0 (ref_req ActHold ''alice@pool'')) \<rparr>"

theorem start_overrides_hold_witness:
  "JobStatus refE (sd_q ref_held_run) 1 0 = StatusHeld \<and>
   JobStatus refE (sd_q (handle refE 1001 (EvStarted 1 0 ''slot1'' []) ref_held_run)) 1 0 = StatusRunning"
proof -
  have g: "Get refE (sd_q ref_held_run) 1 0 \<noteq> None" by code_simp
  then obtain ad where ad: "Get refE (sd_q ref_held_run) 1 0 = Some ad" by blast
  have p: "coll_put refE (q_coll (sd_q ref_held_run)) (jobKey 1 0) x \<noteq> None" for x by (simp add: refE_def)
  have "JobStatus refE (sd_q ref_held_run) 1 0 = StatusHeld" by code_simp
  with start_overrides_hold [OF ref.job_store_axioms ad p] show ?thesis by blast
qed

end
