(* ===== verification/FactoryQueue.thy ===== *)
theory FactoryQueue
  imports Actions
begin

text \<open>
  The queue side of late materialization, \<open>internal/queue/factory.go\<close>: the factory
  set, the snapshot of a factory cluster with its live proc counts, the atomic commit
  of one materialized proc with the advance of the cluster's counters, pausing, and the
  reclamation of a drained factory (\<open>MaybeCleanupFactoryCluster\<close> of \<open>actions.go\<close>).
\<close>

section \<open>Attribute names\<close>

abbreviation (input) AttrMaterializeItemsFile :: string where "AttrMaterializeItemsFile \<equiv> ''JobMaterializeItemsFile''"
abbreviation (input) AttrMaterializeLimit :: string where "AttrMaterializeLimit \<equiv> ''JobMaterializeLimit''"
abbreviation (input) AttrMaterializeMaxIdle :: string where "AttrMaterializeMaxIdle \<equiv> ''JobMaterializeMaxIdle''"
abbreviation (input) AttrMaterializeNextProcId :: string where "AttrMaterializeNextProcId \<equiv> ''JobMaterializeNextProcId''"
abbreviation (input) AttrMaterializeNextRow :: string where "AttrMaterializeNextRow \<equiv> ''JobMaterializeNextRow''"
abbreviation (input) AttrMaterializePaused :: string where "AttrMaterializePaused \<equiv> ''JobMaterializePaused''"
abbreviation (input) AttrMaterializeDate :: string where "AttrMaterializeDate \<equiv> ''JobMaterializeDate''"
abbreviation (input) AttrMaterializeItemCount :: string where "AttrMaterializeItemCount \<equiv> ''JobMaterializeItemCount''"

abbreviation (input) PauseNoMoreItems :: int where "PauseNoMoreItems \<equiv> 3"

section \<open>The factory set\<close>

definition IsFactoryCluster :: "('ad, 's, 'h) queue \<Rightarrow> int \<Rightarrow> bool" where
  "IsFactoryCluster q c = (c \<in> set (q_factories q))"

definition FactoryClusters :: "('ad, 's, 'h) queue \<Rightarrow> int list" where
  "FactoryClusters q = q_factories q"

section \<open>Live counts of a cluster\<close>

record clusterCounts =
  cc_Total :: nat
  cc_Idle :: nat
  cc_Running :: nat
  cc_Held :: nat

definition cluster_tally :: "('ad, 'ex, 'z) classad_ops_scheme \<Rightarrow> 'ad \<Rightarrow> clusterCounts \<Rightarrow> clusterCounts" where
  "cluster_tally A ad cc =
     (let cc = cc\<lparr> cc_Total := Suc (cc_Total cc) \<rparr>;
          st = int_attr0 A ad ''JobStatus''
      in if st = StatusIdle then cc\<lparr> cc_Idle := Suc (cc_Idle cc) \<rparr>
         else if st = StatusRunning \<or> st = StatusTransferOut \<or> st = StatusSuspended
              then cc\<lparr> cc_Running := Suc (cc_Running cc) \<rparr>
         else if st = StatusHeld then cc\<lparr> cc_Held := Suc (cc_Held cc) \<rparr>
         else cc)"

abbreviation cluster_query :: "int \<Rightarrow> string" where
  "cluster_query c \<equiv> ''ClusterId == '' @ itoa c"

definition clusterStatusCounts :: "('ad, 'ex, 's, 'h, 'z) ext_scheme \<Rightarrow> ('ad, 's, 'h) queue \<Rightarrow> int \<Rightarrow> clusterCounts" where
  "clusterStatusCounts E q c =
     (let zero = \<lparr> cc_Total = 0, cc_Idle = 0, cc_Running = 0, cc_Held = 0 \<rparr>
      in if \<not> vm_parse E (cluster_query c)
         then fold (cluster_tally E) (filter (\<lambda>ad. int_attr0 E ad ''ClusterId'' = c) (coll_scan E (q_coll q))) zero
         else fold (cluster_tally E) (coll_query E (q_coll q) (cluster_query c)) zero)"

definition clusterProcCounts :: "('ad, 'ex, 's, 'h, 'z) ext_scheme \<Rightarrow> ('ad, 's, 'h) queue \<Rightarrow> int \<Rightarrow> nat \<times> nat" where
  "clusterProcCounts E q c =
     (let cc = clusterStatusCounts E q c in (cc_Total cc, cc_Idle cc))"

section \<open>Factory snapshots\<close>

record factory_info =
  fi_Cluster :: int
  fi_DigestFile :: string
  fi_ItemsFile :: string
  fi_Limit :: int
  fi_MaxIdle :: int
  fi_NextProcId :: int
  fi_NextRow :: int
  fi_ItemCount :: int
  fi_Paused :: int
  fi_TotalProcs :: nat
  fi_IdleProcs :: nat

definition FactoryInfo :: "('ad, 'ex, 's, 'h, 'z) ext_scheme \<Rightarrow> ('ad, 's, 'h) queue \<Rightarrow> int \<Rightarrow> factory_info option" where
  "FactoryInfo E q c =
     (case coll_get E (q_coll q) (jobKey c (-1)) of
        None \<Rightarrow> None
      | Some ad \<Rightarrow>
          let digest = str_attr0 E ad AttrMaterializeDigestFile in
          if digest = [] then None
          else let (total, idle) = clusterProcCounts E q c in
               Some \<lparr> fi_Cluster = c, fi_DigestFile = digest,
                      fi_ItemsFile = str_attr0 E ad AttrMaterializeItemsFile,
                      fi_Limit = intAttr E ad AttrMaterializeLimit (-1),
                      fi_MaxIdle = intAttr E ad AttrMaterializeMaxIdle (-1),
                      fi_NextProcId = intAttr E ad AttrMaterializeNextProcId 0,
                      fi_NextRow = intAttr E ad AttrMaterializeNextRow 0,
                      fi_ItemCount = intAttr E ad AttrMaterializeItemCount 0,
                      fi_Paused = intAttr E ad AttrMaterializePaused 0,
                      fi_TotalProcs = total, fi_IdleProcs = idle \<rparr>)"

definition FactoryClusterAds :: "('ad, 'ex, 's, 'h, 'z) ext_scheme \<Rightarrow> ('ad, 's, 'h) queue \<Rightarrow> 'ad list" where
  "FactoryClusterAds E q =
     List.map_filter (\<lambda>c.
       case coll_get E (q_coll q) (jobKey c (-1)) of
         None \<Rightarrow> None
       | Some ad \<Rightarrow>
           let cc = clusterStatusCounts E q c;
               ad = set_int E ''JobsRunning'' (int (cc_Running cc)) ad;
               ad = set_int E ''JobsIdle'' (int (cc_Idle cc)) ad;
               ad = set_int E ''JobsHeld'' (int (cc_Held cc)) ad
           in Some (set_int E ''JobsPresent'' (int (cc_Total cc)) ad)) (FactoryClusters q)"

section \<open>Materializing one proc\<close>

definition proc_ad :: "('ad, 'ex, 's, 'h, 'z) ext_scheme \<Rightarrow> int \<Rightarrow> ('ad, 's, 'h) queue \<Rightarrow> int \<Rightarrow> int \<Rightarrow> 'ad option \<Rightarrow> 'ad" where
  "proc_ad E now q c proc override =
     (let ad = (case override of Some ad \<Rightarrow> ad | None \<Rightarrow> new_ad E);
          ad = set_int E ''ProcId'' proc ad;
          ad = set_int E ''ClusterId'' c ad;
          ad = (if has_attr E ad ''JobStatus'' then ad else set_int E ''JobStatus'' StatusIdle ad);
          ad = (if has_attr E ad ''QDate'' then ad else set_int E ''QDate'' now ad);
          qdate = (case eval_int E ad ''QDate'' of Some v \<Rightarrow> v | None \<Rightarrow> now);
          ad = set_str E ''GlobalJobId'' (globalJobID q c proc qdate) ad
      in set_str E ''MyType'' ''Job'' ad)"

definition advance_ad :: "('ad, 'ex, 'z) classad_ops_scheme \<Rightarrow> int \<Rightarrow> int \<Rightarrow> int \<Rightarrow> 'ad \<Rightarrow> 'ad" where
  "advance_ad A nextProcId nextRow paused ad =
     (let ad = set_int A AttrMaterializeNextProcId nextProcId ad;
          ad = set_int A AttrMaterializeNextRow nextRow ad
      in if paused \<noteq> 0 then set_int A AttrMaterializePaused paused ad else ad)"

datatype mat_err = NoClusterAd int | MaterializeFailed int int

definition MaterializeProc :: "('ad, 'ex, 's, 'h, 'z) ext_scheme \<Rightarrow> int \<Rightarrow> ('ad, 's, 'h) queue \<Rightarrow> int \<Rightarrow> int \<Rightarrow> 'ad option \<Rightarrow>
    int \<Rightarrow> int \<Rightarrow> int \<Rightarrow> mat_err option \<times> ('ad, 's, 'h) queue" where
  "MaterializeProc E now q c proc override nextProcId nextRow paused =
     (case coll_get E (q_coll q) (jobKey c (-1)) of
        None \<Rightarrow> (Some (NoClusterAd c), q)
      | Some cluster \<Rightarrow>
          let procAd = proc_ad E now q c proc override;
              cluster = advance_ad E nextProcId nextRow paused cluster
          in case coll_update E (q_coll q) [(jobKey c proc, procAd), (jobKey c (-1), cluster)] of
               None \<Rightarrow> (Some (MaterializeFailed c proc), q)
             | Some s \<Rightarrow>
                 let q = q\<lparr> q_coll := s \<rparr> in
                 (None, if q_ulogSet q then
                          (case coll_get E (q_coll q) (jobKey c proc) of
                             Some ad \<Rightarrow> emit_ulog (ULSubmit ad) q
                           | None \<Rightarrow> q)
                        else q))"

definition PauseFactory :: "('ad, 'ex, 's, 'h, 'z) ext_scheme \<Rightarrow> ('ad, 's, 'h) queue \<Rightarrow> int \<Rightarrow> int \<Rightarrow> ('ad, 's, 'h) queue" where
  "PauseFactory E q c code =
     (case coll_get E (q_coll q) (jobKey c (-1)) of
        None \<Rightarrow> q
      | Some cluster \<Rightarrow>
          (case coll_put E (q_coll q) (jobKey c (-1)) (set_int E AttrMaterializePaused code cluster) of
             None \<Rightarrow> q
           | Some s \<Rightarrow> q\<lparr> q_coll := s \<rparr>))"

section \<open>Reclaiming a drained factory\<close>

abbreviation factory_done :: "factory_info \<Rightarrow> bool" where
  "factory_done fi \<equiv>
     (fi_Paused fi \<noteq> 0 \<or>
      (fi_Limit fi > 0 \<and> fi_NextProcId fi \<ge> fi_Limit fi) \<or>
      (fi_ItemCount fi > 0 \<and> fi_NextRow fi \<ge> fi_ItemCount fi \<and> fi_NextProcId fi \<ge> fi_NextRow fi))"

definition MaybeCleanupFactoryCluster :: "('ad, 'ex, 's, 'h, 'z) ext_scheme \<Rightarrow> ('ad, 's, 'h) queue \<Rightarrow> int \<Rightarrow>
    bool \<times> ('ad, 's, 'h) queue" where
  "MaybeCleanupFactoryCluster E q c =
     (if \<not> IsFactoryCluster q c then (False, q)
      else case FactoryInfo E q c of
             None \<Rightarrow> (False, q)
           | Some fi \<Rightarrow>
               if fi_TotalProcs fi > 0 then (False, q)
               else if \<not> factory_done fi then (False, q)
               else let q = q\<lparr> q_coll := coll_delete E (q_coll q) (jobKey c (-1)) \<rparr>
                    in (True, unnoteFactory c q))"

end
