(* ===== verification/Factory.thy ===== *)
theory Factory
  imports FactoryQueue
begin

text \<open>
  Late materialization, \<open>internal/factory\<close>: parsing a submit digest (\<open>digest.go\<close>) and
  itemdata (\<open>items.go\<close>), expanding one proc (\<open>materialize.go\<close>, \<open>attrmap.go\<close>), the spooled
  file names (\<open>spool.go\<close>) and the materialization engine (\<open>engine.go\<close>).

  The macro engine \<open>golang-htcondor/config\<close> is a parameter: a record of its operations over
  an abstract configuration. Files are read through a function from paths to results. An
  index out of range in Go is a panic that nothing recovers; the engine's steps have that
  outcome as a value.
\<close>

section \<open>The macro engine and files\<close>

record assign =
  a_key :: string
  a_value :: string
  a_expr :: bool

record 'c config_ops =
  cfg_empty :: 'c
  cfg_set :: "string \<Rightarrow> string \<Rightarrow> 'c \<Rightarrow> 'c"
  cfg_get :: "'c \<Rightarrow> string \<Rightarrow> string"
  cfg_parse :: "string \<Rightarrow> assign list option"

datatype file_result = FileData string | FileMissing | FileError

section \<open>Digests\<close>

record 'c digest =
  d_assigns :: "assign list"
  d_queueNum :: int
  d_varNames :: "string list"
  d_itemsFile :: string
  d_slice :: string
  d_cfg :: 'c

definition is_blank :: "char \<Rightarrow> bool" where
  "is_blank r = (r = CHR '' '' \<or> r = CHR 0x09)"

abbreviation is_queue_line :: "string \<Rightarrow> bool" where
  "is_queue_line t \<equiv>
     (5 \<le> length t \<and> equal_fold (take 5 t) ''queue'' \<and> (length t = 5 \<or> is_blank (t ! 5)))"

text \<open>
  The lines from the last to the first; \<open>rest\<close> are the reversed lines before the one looked at.
\<close>

fun split_queue_rev :: "string \<Rightarrow> string list \<Rightarrow> string \<times> string" where
  "split_queue_rev txt [] = (txt, [])"
| "split_queue_rev txt (l # rest) =
     (let t = trim_space l in
      if t = [] then split_queue_rev txt rest
      else if is_queue_line t then (join_with [CHR 0x0A] (rev rest), t)
      else (txt, []))"

definition splitQueueStatement :: "string \<Rightarrow> string \<times> string" where
  "splitQueueStatement txt = split_queue_rev txt (rev (split_on CHR 0x0A txt))"

text \<open>
  \<open>indexWord\<close> is called with non-empty words only (\<open>from\<close>, \<open>in\<close>, \<open>matching\<close>).
\<close>

function indexWord_from :: "string \<Rightarrow> string \<Rightarrow> nat \<Rightarrow> nat option" where
  "indexWord_from s w from =
     (case index_str (drop from s) w of
        None \<Rightarrow> None
      | Some i0 \<Rightarrow>
          let i = i0 + from;
              leftOK = (i = 0 \<or> is_blank (s ! (i - 1)));
              rightIdx = i + length w;
              rightOK = (rightIdx \<ge> length s \<or> is_blank (s ! rightIdx))
          in if leftOK \<and> rightOK then Some i
             else if w = [] then None
             else indexWord_from s w (i + length w))"
  by pat_completeness auto
termination
  by (relation "measure (\<lambda>(s, w, from). length s - from)")
     (auto dest!: index_str_bound simp: neq_Nil_conv)

declare indexWord_from.simps [simp del]

definition indexWord :: "string \<Rightarrow> string \<Rightarrow> nat option" where
  "indexWord s w = indexWord_from s w 0"

abbreviation var_sep :: "char \<Rightarrow> bool" where
  "var_sep r \<equiv> (r = CHR '','' \<or> is_blank r)"

text \<open>The optional leading count: the count and what follows it.\<close>

definition queue_count :: "string \<Rightarrow> int \<times> string" where
  "queue_count rest =
     (if rest = [] then (1, rest)
      else let first = (case index_any rest [CHR '' '', CHR 0x09] of Some sp \<Rightarrow> take sp rest | None \<Rightarrow> rest)
           in case atoi first of
                Some n \<Rightarrow> (n, trim_space (drop (length first) rest))
              | None \<Rightarrow> (1, rest))"

text \<open>The \<open>from\<close> clause: the slice and the items file.\<close>

abbreviation from_clause :: "string \<Rightarrow> string \<times> string" where
  "from_clause fromPart \<equiv>
     (if has_prefix fromPart ''['' then
        (case index_byte fromPart CHR '']'' of
           Some e \<Rightarrow> (take (e + 1) fromPart, trim_space (drop (e + 1) fromPart))
         | None \<Rightarrow> ([], fromPart))
      else ([], fromPart))"

definition parseQueueLine :: "string \<Rightarrow> 'c digest \<Rightarrow> 'c digest" where
  "parseQueueLine line d =
     (let (n, rest) = queue_count (trim_space (drop 5 line));
          d = d\<lparr> d_queueNum := (if n < 1 then 1 else n) \<rparr>;
          (varsPart, d) =
            (case indexWord rest ''from'' of
               Some idx \<Rightarrow>
                 (let (slice, items) = from_clause (trim_space (drop (idx + 4) rest))
                  in (trim_space (take idx rest), d\<lparr> d_slice := slice, d_itemsFile := items \<rparr>))
             | None \<Rightarrow>
                 (case indexWord rest ''in'' of
                    Some idx \<Rightarrow> (trim_space (take idx rest), d)
                  | None \<Rightarrow>
                      (case indexWord rest ''matching'' of
                         Some idx \<Rightarrow> (trim_space (take idx rest), d)
                       | None \<Rightarrow> (rest, d))))
      in d\<lparr> d_varNames := d_varNames d @ fields_func var_sep varsPart \<rparr>)"

definition ParseDigest :: "('c, 'z) config_ops_scheme \<Rightarrow> string \<Rightarrow> 'c digest option" where
  "ParseDigest C txt =
     (let (body, queueLine) = splitQueueStatement txt;
          d = \<lparr> d_assigns = [], d_queueNum = 1, d_varNames = [], d_itemsFile = [], d_slice = [],
                d_cfg = cfg_empty C \<rparr>;
          d = (if queueLine \<noteq> [] then parseQueueLine queueLine d else d)
      in case cfg_parse C body of
           None \<Rightarrow> None
         | Some stmts \<Rightarrow>
             Some (d\<lparr> d_assigns := stmts,
                      d_cfg := fold (\<lambda>a. cfg_set C (a_key a) (a_value a)) stmts (cfg_empty C) \<rparr>))"

definition ParseItems :: "string \<Rightarrow> string list" where
  "ParseItems data =
     (if data = [] then []
      else filter (\<lambda>l. l \<noteq> []) (map (\<lambda>l. trim_suffix l [CHR 0x0D]) (split_on CHR 0x0A data)))"

section \<open>Expanding one proc\<close>

abbreviation (input) ItemSeparator :: char where "ItemSeparator \<equiv> CHR 0x1F"

definition RowIndex :: "('c, 'z) digest_scheme \<Rightarrow> int \<Rightarrow> int" where
  "RowIndex d proc = go_div proc (d_queueNum d)"

definition Step :: "('c, 'z) digest_scheme \<Rightarrow> int \<Rightarrow> int" where
  "Step d proc = go_mod proc (d_queueNum d)"

definition setVar :: "('c, 'z) config_ops_scheme \<Rightarrow> string \<Rightarrow> string \<Rightarrow> 'c \<Rightarrow> 'c" where
  "setVar C name val cfg =
     (let cfg = cfg_set C name val cfg
      in if to_lower name \<noteq> name then cfg_set C (to_lower name) val cfg else cfg)"

definition splitRow :: "string \<Rightarrow> nat \<Rightarrow> string list" where
  "splitRow row nvars =
     (if row = [] then []
      else if ItemSeparator \<in> set row then split_on ItemSeparator row
      else if nvars \<le> 1 then [row]
      else fields_func is_space row)"

datatype attrKind = kindString | kindExpr | kindArgs | kindEnv

definition attrMap :: "(string \<times> string \<times> attrKind) list" where
  "attrMap =
    [(''executable'', ''Cmd'', kindString),
     (''arguments'', [], kindArgs),
     (''environment'', [], kindEnv),
     (''output'', ''Out'', kindString),
     (''error'', ''Err'', kindString),
     (''input'', ''In'', kindString),
     (''log'', ''UserLog'', kindString),
     (''initialdir'', ''Iwd'', kindString),
     (''initial_dir'', ''Iwd'', kindString),
     (''iwd'', ''Iwd'', kindString),
     (''transfer_input_files'', ''TransferInput'', kindString),
     (''transfer_output_files'', ''TransferOutput'', kindString),
     (''transfer_output_remaps'', ''TransferOutputRemaps'', kindString),
     (''request_cpus'', ''RequestCpus'', kindExpr),
     (''request_memory'', ''RequestMemory'', kindExpr),
     (''request_disk'', ''RequestDisk'', kindExpr),
     (''request_gpus'', ''RequestGpus'', kindExpr),
     (''priority'', ''JobPrio'', kindExpr),
     (''job_lease_duration'', ''JobLeaseDuration'', kindExpr),
     (''batch_name'', ''JobBatchName'', kindString)]"

definition trimMyPrefix :: "string \<Rightarrow> string" where
  "trimMyPrefix s = (if 3 \<le> length s \<and> equal_fold (take 3 s) ''my.'' then drop 3 s else s)"

definition isQuoted :: "string \<Rightarrow> bool" where
  "isQuoted raw =
     (let raw = trim_space raw
      in 2 \<le> length raw \<and> hd raw = CHR 0x22 \<and> last raw = CHR 0x22)"

text \<open>\<open>strings.ReplaceAll\<close> of a doubled double quote by a single one.\<close>

fun undouble :: "string \<Rightarrow> string" where
  "undouble (a # b # s) =
     (if a = CHR 0x22 \<and> b = CHR 0x22 then CHR 0x22 # undouble s else a # undouble (b # s))"
| "undouble s = s"

definition unquote :: "string \<Rightarrow> string" where
  "unquote s =
     (let s = trim_space s;
          s = (if 2 \<le> length s \<and> hd s = CHR 0x22 \<and> last s = CHR 0x22 then butlast (tl s) else s)
      in undouble s)"

definition setExpr :: "('ad, 'ex, 'z) classad_ops_scheme \<Rightarrow> string \<Rightarrow> string \<Rightarrow> 'ad \<Rightarrow> 'ad" where
  "setExpr A attr val ad =
     (case parse_expr A val of
        Some expr \<Rightarrow> insert_expr A attr expr ad
      | None \<Rightarrow> set_str A attr val ad)"

definition applyAssign :: "('ad, 'ex, 'z) classad_ops_scheme \<Rightarrow> ('c, 'y) config_ops_scheme \<Rightarrow> 'c \<Rightarrow> assign \<Rightarrow>
    'ad \<Rightarrow> 'ad" where
  "applyAssign A C cfg a ad =
     (let key = a_key a in
      if has_prefix (to_upper key) ''FACTORY.'' then
        (if to_lower (drop 8 key) = ''iwd'' then set_str A ''Iwd'' (cfg_get C cfg key) ad else ad)
      else if a_expr a \<or> has_prefix key ''+'' \<or> has_prefix (to_lower key) ''my.'' then
        setExpr A (trimMyPrefix (trim_prefix key ''+'')) (cfg_get C cfg key) ad
      else
        case map_of attrMap (to_lower key) of
          None \<Rightarrow> ad
        | Some (attr, kind) \<Rightarrow>
            let val = cfg_get C cfg key in
            case kind of
              kindArgs \<Rightarrow> if isQuoted (a_value a) then set_str A ''Arguments'' (unquote val) ad
                          else set_str A ''Args'' val ad
            | kindEnv \<Rightarrow> if isQuoted (a_value a) then set_str A ''Environment'' (unquote val) ad
                         else set_str A ''Env'' val ad
            | kindExpr \<Rightarrow> setExpr A attr val ad
            | kindString \<Rightarrow> set_str A attr val ad)"

definition live_vars :: "('c, 'z) config_ops_scheme \<Rightarrow> 'c digest \<Rightarrow> int \<Rightarrow> int \<Rightarrow> string \<Rightarrow> 'c" where
  "live_vars C d cluster proc rawRow =
     (let row = RowIndex d proc;
          step = Step d proc;
          cfg = setVar C ''Cluster'' (itoa cluster) (d_cfg d);
          cfg = setVar C ''ClusterId'' (itoa cluster) cfg;
          cfg = setVar C ''Process'' (itoa proc) cfg;
          cfg = setVar C ''ProcId'' (itoa proc) cfg;
          cfg = setVar C ''Node'' (itoa proc) cfg;
          cfg = setVar C ''Step'' (itoa step) cfg;
          cfg = setVar C ''Row'' (itoa row) cfg;
          cfg = setVar C ''ItemIndex'' (itoa row) cfg;
          fields = splitRow rawRow (length (d_varNames d))
      in if d_varNames d = [] then setVar C ''Item'' rawRow cfg
         else fold (\<lambda>(i, name). setVar C name (if i < length fields then fields ! i else []))
                (enumerate 0 (d_varNames d)) (setVar C ''Item'' [] cfg))"

text \<open>\<open>Materialize\<close>; its error result is always \<open>nil\<close>.\<close>

definition Materialize :: "('ad, 'ex, 'y) classad_ops_scheme \<Rightarrow> ('c, 'z) config_ops_scheme \<Rightarrow> 'c digest \<Rightarrow> int \<Rightarrow> int \<Rightarrow>
    string \<Rightarrow> 'ad \<times> 'c digest" where
  "Materialize A C d cluster proc rawRow =
     (let d = d\<lparr> d_cfg := live_vars C d cluster proc rawRow \<rparr>
      in (fold (applyAssign A C (d_cfg d)) (d_assigns d) (new_ad A), d))"

section \<open>Spooled file names\<close>

abbreviation spool_dir_name :: "int \<Rightarrow> string" where
  "spool_dir_name cluster \<equiv> itoa (go_mod cluster 10000)"

definition SpooledDigestPath :: "string \<Rightarrow> int \<Rightarrow> string" where
  "SpooledDigestPath spoolDir cluster =
     path_join [spoolDir, spool_dir_name cluster, ''condor_submit.'' @ itoa cluster @ ''.digest'']"

definition SpooledItemsPath :: "string \<Rightarrow> int \<Rightarrow> string" where
  "SpooledItemsPath spoolDir cluster =
     path_join [spoolDir, spool_dir_name cluster, ''condor_submit.'' @ itoa cluster @ ''.items'']"

section \<open>The engine\<close>

record 'c engine =
  en_cache :: "(int \<times> 'c digest \<times> string list) list"
  en_materialized :: nat

definition dropCache :: "int \<Rightarrow> 'c engine \<Rightarrow> 'c engine" where
  "dropCache c en = en\<lparr> en_cache := AList.delete c (en_cache en) \<rparr>"

definition loadFactory :: "('c, 'z) config_ops_scheme \<Rightarrow> (string \<Rightarrow> file_result) \<Rightarrow> int \<Rightarrow> factory_info \<Rightarrow> 'c engine \<Rightarrow>
    ('c digest \<times> string list) option \<times> 'c engine" where
  "loadFactory C readFile c fi en =
     (case map_of (en_cache en) c of
        Some fc \<Rightarrow> (Some fc, en)
      | None \<Rightarrow>
          (case readFile (fi_DigestFile fi) of
             FileData txt \<Rightarrow>
               (case ParseDigest C txt of
                  None \<Rightarrow> (None, en)
                | Some d \<Rightarrow>
                    (case (if fi_ItemsFile fi = [] then Some []
                           else case readFile (fi_ItemsFile fi) of
                                  FileData items \<Rightarrow> Some (ParseItems items)
                                | FileMissing \<Rightarrow> Some []
                                | FileError \<Rightarrow> None) of
                       None \<Rightarrow> (None, en)
                     | Some rows \<Rightarrow> (Some (d, rows), en\<lparr> en_cache := AList.update c (d, rows) (en_cache en) \<rparr>)))
           | _ \<Rightarrow> (None, en)))"

datatype ('q, 'd) loop_result =
    LoopDone 'q 'd int nat
  | LoopCommitFailed 'q 'd
  | LoopPanic

text \<open>
  The row of a proc: \<open>fc.rows[row]\<close> guarded by \<open>row < len(fc.rows)\<close> only; \<open>None\<close> is the
  index-out-of-range panic of a negative row.
\<close>

definition raw_row :: "string list \<Rightarrow> int \<Rightarrow> string option" where
  "raw_row rows row =
     (if row < int (length rows) then (if row < 0 then None else Some (rows ! nat row)) else Some [])"

function mat_loop :: "('ad, 'ex, 's, 'h, 'y) ext_scheme \<Rightarrow> ('c, 'z) config_ops_scheme \<Rightarrow> int \<Rightarrow> int \<Rightarrow> int \<Rightarrow> string list \<Rightarrow>
    int \<Rightarrow> ('ad, 's, 'h) queue \<Rightarrow> 'c digest \<Rightarrow> int \<Rightarrow> int \<Rightarrow> nat \<Rightarrow> (('ad, 's, 'h) queue, 'c digest) loop_result" where
  "mat_loop E C now c maxIdle rows limit q d idle next mat =
     (if \<not> next < limit then LoopDone q d next mat
      else if maxIdle \<ge> 0 \<and> idle \<ge> maxIdle then LoopDone q d next mat
      else
        case raw_row rows (RowIndex d next) of
          None \<Rightarrow> LoopPanic
        | Some rawRow \<Rightarrow>
            let (override, d) = Materialize E C d c next rawRow;
                next' = next + 1;
                nextRow = RowIndex d next';
                paused = (if next' \<ge> limit then PauseNoMoreItems else 0)
            in case MaterializeProc E now q c next (Some override) next' nextRow paused of
                 (Some _, q) \<Rightarrow> LoopCommitFailed q d
               | (None, q) \<Rightarrow> mat_loop E C now c maxIdle rows limit q d (idle + 1) next' (Suc mat))"
  by pat_completeness auto
termination
  by (relation "measure (\<lambda>(E, C, now, c, maxIdle, rows, limit, q, d, idle, next, mat). nat (limit - next))") auto

declare mat_loop.simps [simp del]

definition factory_limit :: "factory_info \<Rightarrow> int \<Rightarrow> nat \<Rightarrow> int" where
  "factory_limit fi queueNum nrows =
     (let rowCount = (if nrows = 0 then 1 else int nrows);
          total = wrap64 (queueNum * rowCount)
      in if fi_Limit fi > 0 \<and> fi_Limit fi < total then fi_Limit fi else total)"

text \<open>\<open>None\<close> is a panic.\<close>

definition materializeCluster :: "('ad, 'ex, 's, 'h, 'y) ext_scheme \<Rightarrow> ('c, 'z) config_ops_scheme \<Rightarrow>
    (string \<Rightarrow> file_result) \<Rightarrow> int \<Rightarrow> int \<Rightarrow> ('ad, 's, 'h) queue \<times> 'c engine \<Rightarrow>
    (('ad, 's, 'h) queue \<times> 'c engine) option" where
  "materializeCluster E C readFile now c qe =
     (case qe of (q, en) \<Rightarrow>
      case FactoryInfo E q c of
        None \<Rightarrow> Some (q, dropCache c en)
      | Some fi \<Rightarrow>
          if fi_Paused fi \<noteq> 0 then
            (case MaybeCleanupFactoryCluster E q c of
               (True, q) \<Rightarrow> Some (q, dropCache c en)
             | (False, q) \<Rightarrow> Some (q, en))
          else
            case loadFactory C readFile c fi en of
              (None, en) \<Rightarrow> Some (PauseFactory E q c PauseNoMoreItems, en)
            | (Some (d, rows), en) \<Rightarrow>
                let limit = factory_limit fi (d_queueNum d) (length rows) in
                case mat_loop E C now c (fi_MaxIdle fi) rows limit q d (int (fi_IdleProcs fi)) (fi_NextProcId fi) 0 of
                  LoopPanic \<Rightarrow> None
                | LoopCommitFailed q d \<Rightarrow> Some (q, en\<lparr> en_cache := AList.update c (d, rows) (en_cache en) \<rparr>)
                | LoopDone q d next mat \<Rightarrow>
                    let en = en\<lparr> en_cache := AList.update c (d, rows) (en_cache en),
                                 en_materialized := en_materialized en + mat \<rparr>
                    in Some (if next \<ge> limit then PauseFactory E q c PauseNoMoreItems else q, en))"

fun sweep_list :: "('ad, 'ex, 's, 'h, 'y) ext_scheme \<Rightarrow> ('c, 'z) config_ops_scheme \<Rightarrow> (string \<Rightarrow> file_result) \<Rightarrow> int \<Rightarrow>
    int list \<Rightarrow> ('ad, 's, 'h) queue \<times> 'c engine \<Rightarrow> (('ad, 's, 'h) queue \<times> 'c engine) option" where
  "sweep_list E C readFile now [] qe = Some qe"
| "sweep_list E C readFile now (c # cs) qe =
     (case materializeCluster E C readFile now c qe of
        None \<Rightarrow> None
      | Some qe \<Rightarrow> sweep_list E C readFile now cs qe)"

definition sweep :: "('ad, 'ex, 's, 'h, 'y) ext_scheme \<Rightarrow> ('c, 'z) config_ops_scheme \<Rightarrow> (string \<Rightarrow> file_result) \<Rightarrow> int \<Rightarrow>
    ('ad, 's, 'h) queue \<times> 'c engine \<Rightarrow> (('ad, 's, 'h) queue \<times> 'c engine) option" where
  "sweep E C readFile now qe = sweep_list E C readFile now (FactoryClusters (fst qe)) qe"

end
