(* ===== verification/FactoryProps.thy ===== *)
theory FactoryProps
  imports Factory TxnCommit
begin

text \<open>
  Late materialization: the arithmetic of rows and steps, the window of the materialization loop, the effect of
  one materialized proc on the store, and the engine's visit of a factory.
\<close>

section \<open>Rows and steps\<close>

lemma ParseDigest_queueNum: "ParseDigest C txt = Some d \<Longrightarrow> 1 \<le> d_queueNum d"
  by (auto simp: ParseDigest_def parseQueueLine_def Let_def split: prod.splits option.splits if_splits)

lemma Materialize_digest: "Materialize A C d c p row = (ad, d') \<Longrightarrow> d_queueNum d' = d_queueNum d"
  by (auto simp: Materialize_def Let_def)

lemma RowIndex_nonneg: "1 \<le> d_queueNum d \<Longrightarrow> 0 \<le> proc \<Longrightarrow> 0 \<le> RowIndex d proc"
  by (simp add: RowIndex_def go_div_nonneg pos_imp_zdiv_nonneg_iff)

lemma raw_row_total: "0 \<le> row \<Longrightarrow> raw_row rows row \<noteq> None"
  by (simp add: raw_row_def)

section \<open>One materialized proc\<close>

text \<open>What a finished run of the materialization loop has done.\<close>

definition loop_post :: "('ad, 'ex, 's, 'h, 'z) ext_scheme \<Rightarrow> ('s \<Rightarrow> string \<Rightarrow> 'm option) \<Rightarrow> ('ad, 's, 'h) queue \<Rightarrow> int \<Rightarrow> int \<Rightarrow> int \<Rightarrow>
    int \<Rightarrow> int \<Rightarrow> ('ad, 's, 'h) queue \<Rightarrow> int \<Rightarrow> bool" where
  "loop_post E own q c maxIdle limit idle next q' next' =
     (next \<le> next' \<and> (next < next' \<longrightarrow> next' \<le> limit) \<and>
      (next' < limit \<longrightarrow> 0 \<le> maxIdle \<and> maxIdle \<le> idle + (next' - next)) \<and>
      (0 \<le> maxIdle \<longrightarrow> next < next' \<longrightarrow> idle + (next' - next) \<le> maxIdle) \<and>
      (\<forall>i. next \<le> i \<and> i < next' \<longrightarrow> own (q_coll q') (jobKey c i) \<noteq> None) \<and>
      (if next < next' then \<exists>ad. Get E q' c (-1) = Some ad \<and> eval_int E ad ''JobMaterializeNextProcId'' = Some next'
       else q' = q) \<and>
      (\<forall>k. k \<noteq> jobKey c (-1) \<and> (\<forall>i. next \<le> i \<and> i < next' \<longrightarrow> k \<noteq> jobKey c i) \<longrightarrow> own (q_coll q') k = own (q_coll q) k))"

context job_store
begin

lemma proc_ad_ids:
  "lookup_attr E (proc_ad E now q c proc ov) ''ProcId'' = Some (li proc)"
  "lookup_attr E (proc_ad E now q c proc ov) ''ClusterId'' = Some (li c)"
  by (auto simp: proc_ad_def Let_def lookup_simps go_simps)

lemma advance_ad_next:
  "lookup_attr E (advance_ad E np nr paused ad) ''JobMaterializeNextProcId'' = Some (li np)"
  "lookup_attr E (advance_ad E np nr paused ad) ''JobMaterializeNextRow'' = Some (li nr)"
  by (auto simp: advance_ad_def Let_def lookup_simps go_simps)

lemma update_get:
  assumes "coll_update E s0 b = Some s" and "distinct (map fst b)" and "(k, a) \<in> set b"
  shows "\<exists>ad. coll_get E s k = Some ad \<and> (\<forall>n e. lookup_attr E a n = Some e \<longrightarrow> lookup_attr E ad n = Some e)"
proof -
  obtain m where m: "own s k = Some m" "\<forall>n. case lookup_attr E a n of Some e \<Rightarrow> m n = Some e
      | None \<Rightarrow> m n = None \<or> (\<exists>m0. own s0 k = Some m0 \<and> m n = m0 n)"
    using update_entry [OF assms] by blast
  obtain ad where ad: "coll_get E s k = Some ad" using own_Some_get [OF m(1)] by blast
  have "lookup_attr E ad n = Some e" if "lookup_attr E a n = Some e" for n e
    using m(2) [rule_format, of n] that get_own_attr [OF m(1) _ ad] by simp
  then show ?thesis using ad by blast
qed

lemma MaterializeProc_ok:
  assumes "MaterializeProc E now q c proc ov np nr paused = (None, q')" and "int64_pair c proc" and "0 \<le> proc"
  shows "\<exists>ad. Get E q' c proc = Some ad \<and> eval_int E ad ''ProcId'' = Some proc \<and> eval_int E ad ''ClusterId'' = Some c"
    and "\<exists>ad. Get E q' c (-1) = Some ad \<and> eval_int E ad ''JobMaterializeNextProcId'' = Some np \<and>
           eval_int E ad ''JobMaterializeNextRow'' = Some nr"
    and "k \<noteq> jobKey c proc \<Longrightarrow> k \<noteq> jobKey c (-1) \<Longrightarrow> own (q_coll q') k = own (q_coll q) k"
proof -
  from assms(1) obtain cl s where
    u: "coll_update E (q_coll q) [(jobKey c proc, proc_ad E now q c proc ov), (jobKey c (-1), advance_ad E np nr paused cl)] = Some s"
    and s: "q_coll q' = s"
    by (auto simp: MaterializeProc_def Let_def emit_ulog_def split: option.splits if_splits)
  have ne: "jobKey c proc \<noteq> jobKey c (-1)" using assms(3) by (simp add: jobKey_inj)
  then have d: "distinct (map fst [(jobKey c proc, proc_ad E now q c proc ov), (jobKey c (-1), advance_ad E np nr paused cl)])"
    by simp
  note got = update_get [OF u d]
  show "\<exists>ad. Get E q' c proc = Some ad \<and> eval_int E ad ''ProcId'' = Some proc \<and> eval_int E ad ''ClusterId'' = Some c"
    using got [of "jobKey c proc" "proc_ad E now q c proc ov"] proc_ad_ids by (auto simp: Get_def s eval_int_lit)
  show "\<exists>ad. Get E q' c (-1) = Some ad \<and> eval_int E ad ''JobMaterializeNextProcId'' = Some np \<and>
           eval_int E ad ''JobMaterializeNextRow'' = Some nr"
    using got [of "jobKey c (-1)" "advance_ad E np nr paused cl"] advance_ad_next by (auto simp: Get_def s eval_int_lit)
  show "own (q_coll q') k = own (q_coll q) k" if "k \<noteq> jobKey c proc" "k \<noteq> jobKey c (-1)"
    using update_other [OF u] that s by simp
qed

lemma loop_post_step:
  assumes step: "MaterializeProc E now q c next ov (next + 1) nr paused = (None, q1)"
    and rest: "loop_post E own q1 c maxIdle limit (idle + 1) (next + 1) q' next'"
    and "int64_pair c next" "0 \<le> next" "next < limit" "\<not> (0 \<le> maxIdle \<and> maxIdle \<le> idle)"
  shows "loop_post E own q c maxIdle limit idle next q' next'"
proof -
  note m = MaterializeProc_ok [OF step assms(3,4)]
  have le: "next + 1 \<le> next'" using rest by (simp add: loop_post_def)
  have keep: "own (q_coll q') k = own (q_coll q1) k"
    if "k \<noteq> jobKey c (-1)" "\<forall>i. next + 1 \<le> i \<and> i < next' \<longrightarrow> k \<noteq> jobKey c i" for k
    using rest that by (simp add: loop_post_def)
  have "own (q_coll q1) (jobKey c next) \<noteq> None" using m(1) get_Some_own by (fastforce simp: Get_def)
  then have self: "own (q_coll q') (jobKey c next) \<noteq> None"
    using keep [of "jobKey c next"] assms(4) by (simp add: jobKey_inj)
  have "own (q_coll q') (jobKey c i) \<noteq> None" if "next \<le> i" "i < next'" for i
    using rest self that by (cases "i = next") (simp_all add: loop_post_def)
  moreover have "own (q_coll q') k = own (q_coll q) k"
    if "k \<noteq> jobKey c (-1)" "\<forall>i. next \<le> i \<and> i < next' \<longrightarrow> k \<noteq> jobKey c i" for k
    using keep [of k] m(3) [of k] that le by simp
  moreover have "\<exists>ad. Get E q' c (-1) = Some ad \<and> eval_int E ad ''JobMaterializeNextProcId'' = Some next'"
  proof (cases "next + 1 = next'")
    case True
    then show ?thesis using rest m(2) by (auto simp: loop_post_def)
  next
    case False
    then show ?thesis using rest le by (simp add: loop_post_def)
  qed
  ultimately show ?thesis using rest le assms(5,6) by (auto simp: loop_post_def)
qed

lemma mat_loop_spec:
  assumes "1 \<le> d_queueNum d" and "0 \<le> next" and "int64_pair c limit"
  shows "case mat_loop E C now c maxIdle rows limit q d idle next mat of
      LoopPanic \<Rightarrow> False
    | LoopCommitFailed q' d' \<Rightarrow> d_queueNum d' = d_queueNum d
    | LoopDone q' d' next' mat' \<Rightarrow> d_queueNum d' = d_queueNum d \<and> int mat' = int mat + (next' - next) \<and> loop_post E own q c maxIdle limit idle next q' next'"
  using assms
proof (induction "nat (limit - next)" arbitrary: q d idle "next" mat rule: less_induct)
  case less
  note L = mat_loop.simps [of E C now c maxIdle rows limit q d idle "next" mat]
  show ?case
  proof (cases "next < limit \<and> \<not> (0 \<le> maxIdle \<and> maxIdle \<le> idle)")
    case False
    then have "mat_loop E C now c maxIdle rows limit q d idle next mat = LoopDone q d next mat"
      by (subst L) auto
    then show ?thesis using False by (auto simp: loop_post_def)
  next
    case True
    obtain row where row: "raw_row rows (RowIndex d next) = Some row"
      using raw_row_total RowIndex_nonneg less.prems(1,2) by blast
    obtain ov d1 where mt: "Materialize E C d c next row = (ov, d1)" by fastforce
    define paused where "paused = (if next + 1 \<ge> limit then PauseNoMoreItems else 0)"
    obtain err q1 where mp: "MaterializeProc E now q c next (Some ov) (next + 1) (RowIndex d1 (next + 1)) paused = (err, q1)"
      by fastforce
    have eq: "mat_loop E C now c maxIdle rows limit q d idle next mat =
        (case err of Some _ \<Rightarrow> LoopCommitFailed q1 d1
         | None \<Rightarrow> mat_loop E C now c maxIdle rows limit q1 d1 (idle + 1) (next + 1) (Suc mat))"
      using True row mt mp by (subst L) (auto simp: Let_def paused_def split: option.splits)
    show ?thesis
    proof (cases err)
      case (Some e)
      then show ?thesis using eq Materialize_digest [OF mt] by simp
    next
      case None
      have pr: "int64_pair c next" using less.prems(2,3) True by (auto simp: int64_pair_def int64_range_def)
      have "nat (limit - (next + 1)) < nat (limit - next)" using True by simp
      then have IH: "case mat_loop E C now c maxIdle rows limit q1 d1 (idle + 1) (next + 1) (Suc mat) of
          LoopPanic \<Rightarrow> False
        | LoopCommitFailed q' d' \<Rightarrow> d_queueNum d' = d_queueNum d
        | LoopDone q' d' next' mat' \<Rightarrow> d_queueNum d' = d_queueNum d \<and> int mat' = int (Suc mat) + (next' - (next + 1)) \<and>
            loop_post E own q1 c maxIdle limit (idle + 1) (next + 1) q' next'"
        using less.hyps [of "next + 1" d1 "Suc mat" q1 "idle + 1"] less.prems Materialize_digest [OF mt]
        by (simp split: loop_result.splits)
      show ?thesis
        using IH loop_post_step [OF mp [unfolded None] _ pr less.prems(2)] True eq None
        by (auto split: loop_result.splits)
    qed
  qed
qed

end

section \<open>The engine\<close>

definition cache_ok :: "'c engine \<Rightarrow> bool" where
  "cache_ok en = list_all (\<lambda>(_, d, _). 1 \<le> d_queueNum d) (en_cache en)"

lemma cache_update:
  "cache_ok en \<Longrightarrow> 1 \<le> d_queueNum d \<Longrightarrow> cache_ok (en\<lparr> en_cache := AList.update c (d, rows) (en_cache en) \<rparr>)"
  using set_update_sub [of c "(d, rows)" "en_cache en"] by (fastforce simp: cache_ok_def list_all_iff)

lemma cache_drop: "cache_ok en \<Longrightarrow> cache_ok (dropCache c en)"
  by (auto simp: cache_ok_def list_all_iff dropCache_def AList.delete_eq)

lemma loadFactory_ok:
  assumes "loadFactory C readFile c fi en = (r, en')" and "cache_ok en"
  shows "cache_ok en' \<and> (case r of None \<Rightarrow> True | Some (d, rows) \<Rightarrow> 1 \<le> d_queueNum d)"
proof (cases "map_of (en_cache en) c")
  case (Some dr)
  then have "r = Some dr" "en' = en" using assms(1) by (auto simp: loadFactory_def)
  then show ?thesis
    using assms(2) map_of_SomeD [OF Some] by (cases dr) (auto simp: cache_ok_def list_all_iff)
next
  case None
  then show ?thesis
    using assms ParseDigest_queueNum cache_update
    by (fastforce simp: loadFactory_def split: file_result.splits option.splits if_splits)
qed

section \<open>A concrete factory\<close>

definition ref_config :: "(string \<times> string) list config_ops" where
  "ref_config = \<lparr> cfg_empty = [], cfg_set = AList.update, cfg_get = (\<lambda>cfg k. case map_of cfg k of Some v \<Rightarrow> v | None \<Rightarrow> []),
     cfg_parse = (\<lambda>_. Some []) \<rparr>"

definition ref_files :: "string \<Rightarrow> file_result" where
  "ref_files f = (if f = ''d'' then FileData ''queue 3'' else FileMissing)"

definition ref_fac :: "(ref_ad, ref_store, ref_ad list) queue" where
  "ref_fac = ref_commit ''alice@pool'' [DoNewCluster,
     DoSetAttribute 1 (-1) ''JobMaterializeDigestFile'' [CHR 0x22, CHR ''d'', CHR 0x22],
     DoSetAttribute 1 (-1) ''JobMaterializeMaxIdle'' ''2''] (ref_queue [] [])"

definition ref_fac_at :: "int \<Rightarrow> (ref_ad, ref_store, ref_ad list) queue" where
  "ref_fac_at n = snd (Modify refE ref_fac 1 (-1) (set_int refE ''JobMaterializeNextProcId'' n))"

definition ref_engine :: "(string \<times> string) list engine" where
  "ref_engine = \<lparr> en_cache = [], en_materialized = 0 \<rparr>"

definition ref_digest :: "(string \<times> string) list digest" where
  "ref_digest = the (ParseDigest ref_config ''queue 3'')"

section \<open>Properties\<close>

text \<open>
  The expansion of \<open>queue N\<close> over the rows is a bijection: for any parsed digest and any proc
  id from 0, the proc is \<open>N\<close> times its row plus its step, and the step is between 0 and
  \<open>N\<close> exclusive.
\<close>

theorem row_step_roundtrip:
  assumes "ParseDigest C txt = Some d" and "0 \<le> proc"
  shows "proc = RowIndex d proc * d_queueNum d + Step d proc \<and> 0 \<le> Step d proc \<and> Step d proc < d_queueNum d"
  using ParseDigest_queueNum [OF assms(1)] assms(2) by (simp add: RowIndex_def Step_def go_div_nonneg go_mod_nonneg)

theorem row_step_roundtrip_witness: "RowIndex ref_digest 7 = 2 \<and> Step ref_digest 7 = 1"
proof -
  have h: "ParseDigest ref_config ''queue 3'' = Some ref_digest" "d_queueNum ref_digest = 3"
    by code_simp+
  show ?thesis using row_step_roundtrip [OF h(1), of 7] h(2) by simp presburger
qed

text \<open>
  C19. The materialization loop respects its window. From a non-negative next proc it never panics, and when it
  stops it has created exactly the procs from the old to the new next-proc id, one per count; it went past
  neither the limit nor the idle maximum, and stopped only because it reached one of them; the new next-proc id
  is persisted in the cluster ad; and no other ad changed.
\<close>

theorem materialization_window:
  assumes "job_store E li ls lb own keys hlist" and "1 \<le> d_queueNum d" and "0 \<le> next" and "int64_pair c limit"
  shows "case mat_loop E C now c maxIdle rows limit q d idle next 0 of
      LoopPanic \<Rightarrow> False
    | LoopCommitFailed q' d' \<Rightarrow> True
    | LoopDone q' d' next' mat \<Rightarrow> int mat = next' - next \<and> loop_post E own q c maxIdle limit idle next q' next'"
  using job_store.mat_loop_spec [OF assms, where mat = 0 and q = q and C = C and now = now and rows = rows and
      maxIdle = maxIdle and idle = idle]
  by (auto split: loop_result.splits)

theorem materialization_window_witness:
  "case mat_loop refE ref_config 50 1 2 [] 3 ref_fac ref_digest 0 0 0 of
      LoopDone q' d' next' mat \<Rightarrow> next' = 2 \<and> mat = 2 \<and> loop_post refE ref_own ref_fac 1 2 3 0 0 q' 2
    | _ \<Rightarrow> False"
proof -
  have h: "1 \<le> d_queueNum ref_digest" "int64_pair 1 3"
    "case mat_loop refE ref_config 50 1 2 [] 3 ref_fac ref_digest 0 0 0 of LoopDone q' d' next' mat \<Rightarrow> next' = 2 | _ \<Rightarrow> False"
    by code_simp+
  show ?thesis
    using h(3) materialization_window [OF ref.job_store_axioms h(1) order_refl h(2), where C = ref_config and now = 50 and maxIdle = 2 and
        rows = "[]" and q = ref_fac and idle = 0]
    by (auto split: loop_result.splits)
qed

text \<open>
  Visiting a factory whose next-proc id is not negative, and whose limit is a 64-bit integer, never panics, and
  keeps the digests of the engine's cache well formed.
\<close>

theorem factory_visit_safe:
  assumes "job_store E li ls lb own keys hlist" and "FactoryInfo E q c = Some fi" and "0 \<le> fi_NextProcId fi"
    and "cache_ok en"
    and "\<And>d rows en'. loadFactory C readFile c fi en = (Some (d, rows), en') \<Longrightarrow> int64_pair c (factory_limit fi (d_queueNum d) (length rows))"
  shows "\<exists>q' en'. materializeCluster E C readFile now c (q, en) = Some (q', en') \<and> cache_ok en'"
proof (cases "fi_Paused fi = 0")
  case False
  then show ?thesis using assms(2,4) cache_drop by (auto simp: materializeCluster_def split: prod.splits bool.splits)
next
  case True
  obtain r en1 where ld: "loadFactory C readFile c fi en = (r, en1)" by fastforce
  note ok = loadFactory_ok [OF ld assms(4)]
  show ?thesis
  proof (cases r)
    case None
    then show ?thesis using assms(2) True ld ok by (simp add: materializeCluster_def)
  next
    case (Some dr)
    obtain d rows where dr: "dr = (d, rows)" by fastforce
    define limit where "limit = factory_limit fi (d_queueNum d) (length rows)"
    have qn: "1 \<le> d_queueNum d" and c1: "cache_ok en1" using ok Some dr by simp_all
    have "int64_pair c limit" using assms(5) ld Some dr by (simp add: limit_def)
    from job_store.mat_loop_spec [OF assms(1) qn assms(3) this, where mat = 0 and q = q and C = C and now = now and
        rows = rows and maxIdle = "fi_MaxIdle fi" and idle = "int (fi_IdleProcs fi)"]
    show ?thesis
      using assms(2) True ld Some dr qn cache_update [OF c1, of _ c rows]
      by (auto simp: materializeCluster_def limit_def [symmetric] cache_ok_def split: loop_result.splits)
  qed
qed

theorem factory_visit_safe_witness:
  "\<exists>q' en'. materializeCluster refE ref_config ref_files 50 1 (ref_fac, ref_engine) = Some (q', en') \<and> cache_ok en'"
proof -
  have h: "map_option (\<lambda>fi. (fi_NextProcId fi, fi_Limit fi, fi_DigestFile fi, fi_ItemsFile fi)) (FactoryInfo refE ref_fac 1) =
      Some (0, -1, ''d'', [])" "ParseDigest ref_config ''queue 3'' = Some ref_digest" "d_queueNum ref_digest = 3"
    "int64_pair 1 3" "cache_ok ref_engine"
    by code_simp+
  from h(1) obtain fi where fi: "FactoryInfo refE ref_fac 1 = Some fi" "fi_NextProcId fi = 0" "fi_Limit fi = -1"
    "fi_DigestFile fi = ''d''" "fi_ItemsFile fi = []" by auto
  have "int64_pair 1 (factory_limit fi (d_queueNum d) (length rows))"
    if "loadFactory ref_config ref_files 1 fi ref_engine = (Some (d, rows), en')" for d rows en'
    using that fi h(2-4) by (auto simp: loadFactory_def ref_engine_def ref_files_def factory_limit_def wrap64_id int64_pair_def)
  from factory_visit_safe [OF ref.job_store_axioms fi(1) _ h(5) this] fi(2) show ?thesis by simp
qed

text \<open>
  C20. An unpaused factory below its idle maximum, whose next-proc id is at most minus the procs of a row and whose total number
  of procs fits 64 bits, brings the engine down: the row of the proc is computed by a
  division that rounds towards zero, is negative, passes the upper-bound check and indexes the rows out of range.
\<close>

theorem negative_next_proc_panics:
  assumes "FactoryInfo E q c = Some fi" and "fi_Paused fi = 0" and "loadFactory C readFile c fi en = (Some (d, rows), en')"
    and "1 \<le> d_queueNum d" and "d_queueNum d * max 1 (int (length rows)) < 2 ^ 63" and "fi_NextProcId fi \<le> - d_queueNum d"
    and "fi_MaxIdle fi < 0 \<or> int (fi_IdleProcs fi) < fi_MaxIdle fi"
  shows "materializeCluster E C readFile now c (q, en) = None"
proof -
  let ?rows = "if length rows = 0 then 1 else int (length rows)"
  have t: "0 \<le> d_queueNum d * ?rows" and "d_queueNum d * ?rows < 2 ^ 63"
    using assms(4,5) by (cases rows; simp add: max_def)+
  then have w: "wrap64 (d_queueNum d * ?rows) = d_queueNum d * ?rows" by (intro wrap64_id) (unfold int64_range_def, linarith)
  have "fi_NextProcId fi < 0" using assms(4,6) by simp
  moreover define total where "total = d_queueNum d * ?rows"
  moreover have "factory_limit fi (d_queueNum d) (length rows) = (if fi_Limit fi > 0 \<and> fi_Limit fi < total then fi_Limit fi else total)"
    by (simp only: factory_limit_def Let_def w total_def)
  ultimately have lim: "fi_NextProcId fi < factory_limit fi (d_queueNum d) (length rows)" using t by auto
  have "RowIndex d (fi_NextProcId fi) < 0" using go_div_neg [OF assms(6)] assms(4) by (simp add: RowIndex_def)
  then have "raw_row rows (RowIndex d (fi_NextProcId fi)) = None" by (simp add: raw_row_def)
  then have "mat_loop E C now c (fi_MaxIdle fi) rows (factory_limit fi (d_queueNum d) (length rows)) q d (int (fi_IdleProcs fi))
      (fi_NextProcId fi) 0 = LoopPanic"
    using lim assms(7) by (subst mat_loop.simps) auto
  then show ?thesis using assms(1-3) by (simp add: materializeCluster_def)
qed

theorem negative_next_proc_panics_witness:
  "materializeCluster refE ref_config ref_files 50 1 (ref_fac_at (-3), ref_engine) = None"
proof -
  have h: "map_option (\<lambda>fi. (fi_Paused fi, fi_NextProcId fi, fi_MaxIdle fi, fi_IdleProcs fi, fi_DigestFile fi, fi_ItemsFile fi)) (FactoryInfo refE (ref_fac_at (-3)) 1) = Some (0, -3, 2, 0, ''d'', [])"
    "ParseDigest ref_config ''queue 3'' = Some ref_digest" "d_queueNum ref_digest = 3"
    by code_simp+
  from h(1) obtain fi where fi: "FactoryInfo refE (ref_fac_at (-3)) 1 = Some fi" "fi_Paused fi = 0" "fi_NextProcId fi = -3"
    "fi_MaxIdle fi = 2" "fi_IdleProcs fi = 0" "fi_DigestFile fi = ''d''" "fi_ItemsFile fi = []" by auto
  have "loadFactory ref_config ref_files 1 fi ref_engine = (Some (ref_digest, []), ref_engine\<lparr> en_cache := [(1, ref_digest, [])] \<rparr>)"
    using fi h(2) by (simp add: loadFactory_def ref_engine_def ref_files_def)
  from negative_next_proc_panics [OF fi(1,2) this] show ?thesis using fi h(3) by simp
qed

end
