(* ===== verification/Qmgmt.thy ===== *)
theory Qmgmt
  imports Factory
begin

text \<open>
  The QMGMT server, \<open>internal/qmgmt/handler.go\<close>: one definition per operation over decoded
  requests, the connection state that outlives a transaction, and the loop. A request whose
  arguments cannot be read ends the connection (\<open>BadArgs\<close>). Replies are the messages the
  server sends; sending does not fail here: a peer that is gone is a request list that ends. The
  files stored under the spool directory are recorded.
\<close>

abbreviation (input) ePERM :: int where "ePERM \<equiv> 1"
abbreviation (input) eNOENT :: int where "eNOENT \<equiv> 2"
abbreviation (input) eACCES :: int where "eACCES \<equiv> 13"
abbreviation (input) eINVAL :: int where "eINVAL \<equiv> 22"

definition terrnoFor :: "txn_err \<Rightarrow> int" where
  "terrnoFor err = (if isAuthzError err then eACCES else eINVAL)"

record ('ad, 's, 'h) qm_conn =
  qm_q :: "('ad, 's, 'h) queue"
  qm_authUser :: string
  qm_writable :: bool
  qm_allowProtected :: bool
  qm_txn :: "'ad txn"
  qm_scanState :: "'ad list"
  qm_scanPos :: nat
  qm_files :: "(string \<times> string) list"

datatype attr_kind = AttrInt | AttrFloat | AttrString | AttrExpr

datatype qm_op =
    OpCloseSocket
  | OpGetCapabilities
  | OpBeginTransaction
  | OpAbortTransaction
  | OpCommitTransaction
  | OpNewCluster
  | OpNewProc int
  | OpSetAttribute int int string string bool
  | OpDeleteAttribute int int string
  | OpDestroyProc int int
  | OpDestroyCluster int
  | OpSetEffectiveOwner string
  | OpSetAllowProtectedChanges int
  | OpGetJobAd int int
  | OpGetAttribute attr_kind int int string
  | OpGetJobByConstraint string
  | OpGetNextJobByConstraint int string
  | OpGetAllJobsByConstraint string
  | OpSendSpoolFile
  | OpSendSpoolFileIfNeeded
  | OpSetJobFactory int int string
  | OpSetMaterializeData
  | OpSendMaterializeData int string
  | BadArgs
  | OpUnsupported int

text \<open>What is put into a reply message, in order; a message is sent as a whole by \<open>FinishMessage\<close>.\<close>

datatype 'ad wire_item = WInt int | WStr string | WReal float64 | WAd 'ad | WAdServerTime 'ad

type_synonym 'ad message = "'ad wire_item list"

text \<open>
  What the server is built with and calls: the spool directory, storing a spool file with its
  directory, the text of an error, \<open>hqmgmt.WriteReply\<close> and \<open>EvaluateAttrReal\<close>.
\<close>

record 'ad qm_env =
  qe_spoolDir :: string
  qe_writeFile :: "string \<Rightarrow> string \<Rightarrow> bool"
  qe_errText :: "txn_err \<Rightarrow> string"
  qe_writeReply :: "int \<Rightarrow> int \<Rightarrow> 'ad message"
  qe_evalReal :: "'ad \<Rightarrow> string \<Rightarrow> float64 option"

definition qm_caps :: "('ad, 'ex, 'z) classad_ops_scheme \<Rightarrow> 'ad" where
  "qm_caps A =
     (let caps = set_bool A ''LateMaterialize'' True (new_ad A);
          caps = set_int A ''LateMaterializeVersion'' 2 caps
      in set_bool A ''UseJobsets'' False caps)"

definition begin_conn :: "('ad, 'ex, 's, 'h, 'z) ext_scheme \<Rightarrow> ('ad, 's, 'h) qm_conn \<Rightarrow> ('ad, 's, 'h) qm_conn" where
  "begin_conn E cn =
     cn\<lparr> qm_txn := snd (SetAllowProtectedChanges (qm_allowProtected cn) (BeginTxn E (qm_q cn) (qm_authUser cn))) \<rparr>"

definition new_conn :: "('ad, 'ex, 's, 'h, 'z) ext_scheme \<Rightarrow> ('ad, 's, 'h) queue \<Rightarrow> string \<Rightarrow> bool \<Rightarrow> ('ad, 's, 'h) qm_conn" where
  "new_conn E q authUser writable =
     begin_conn E \<lparr> qm_q = q, qm_authUser = authUser, qm_writable = writable, qm_allowProtected = False,
                    qm_txn = BeginTxn E q authUser, qm_scanState = [], qm_scanPos = 0, qm_files = [] \<rparr>"

section \<open>Constraints\<close>

definition compileConstraint :: "('ad, 'ex, 's, 'h, 'z) ext_scheme \<Rightarrow> string \<Rightarrow> string option" where
  "compileConstraint E constraint =
     (if constraint = [] \<or> constraint = ''true'' \<or> constraint = ''TRUE'' then None
      else if vm_parse E constraint then Some constraint else None)"

definition qm_snapshot :: "('ad, 'ex, 's, 'h, 'z) ext_scheme \<Rightarrow> ('ad, 's, 'h) queue \<Rightarrow> string \<Rightarrow> 'ad list" where
  "qm_snapshot E q constraint =
     (case compileConstraint E constraint of Some c \<Rightarrow> Query E q c | None \<Rightarrow> Scan E q)"

definition firstMatch :: "('ad, 'ex, 's, 'h, 'z) ext_scheme \<Rightarrow> ('ad, 's, 'h) queue \<Rightarrow> string \<Rightarrow> 'ad option" where
  "firstMatch E q constraint = (case qm_snapshot E q constraint of [] \<Rightarrow> None | ad # _ \<Rightarrow> Some ad)"

section \<open>Job factories\<close>

text \<open>A sequence of \<open>SetAttribute\<close> calls on the cluster ad that stops at the first error.\<close>

fun set_all :: "('ad, 'ex, 's, 'h, 'z) ext_scheme \<Rightarrow> ('ad, 's, 'h) queue \<Rightarrow> int \<Rightarrow> (string \<times> string) list \<Rightarrow> 'ad txn \<Rightarrow>
    bool \<times> 'ad txn" where
  "set_all E q cluster [] t = (True, t)"
| "set_all E q cluster ((name, expr) # rest) t =
     (case SetAttribute E q cluster (-1) name expr t of
        (Some _, t) \<Rightarrow> (False, t)
      | (None, t) \<Rightarrow> set_all E q cluster rest t)"

definition factory_attrs :: "int \<Rightarrow> int \<Rightarrow> string \<Rightarrow> (string \<times> string) list" where
  "factory_attrs now num path =
     [(AttrMaterializeLimit, itoa num), (AttrMaterializeDigestFile, go_quote path),
      (AttrMaterializeNextProcId, ''0''), (AttrMaterializeNextRow, ''0''),
      (AttrMaterializePaused, ''0''), (AttrMaterializeDate, itoa now)]"

definition store_file :: "string \<Rightarrow> string \<Rightarrow> ('ad, 's, 'h) qm_conn \<Rightarrow> ('ad, 's, 'h) qm_conn" where
  "store_file path data cn = cn\<lparr> qm_files := AList.update path data (qm_files cn) \<rparr>"

definition setJobFactory :: "('ad, 'ex, 's, 'h, 'z) ext_scheme \<Rightarrow> 'ad qm_env \<Rightarrow> int \<Rightarrow> int \<Rightarrow> int \<Rightarrow> string \<Rightarrow>
    ('ad, 's, 'h) qm_conn \<Rightarrow> bool \<times> ('ad, 's, 'h) qm_conn" where
  "setJobFactory E V now cluster num digest cn =
     (let path = SpooledDigestPath (qe_spoolDir V) cluster in
      if \<not> qe_writeFile V path digest then (False, cn)
      else let cn = store_file path digest cn;
               (ok, t) = set_all E (qm_q cn) cluster (factory_attrs now num path) (qm_txn cn)
           in (ok, cn\<lparr> qm_txn := t \<rparr>))"

definition sendMaterializeData :: "('ad, 'ex, 's, 'h, 'z) ext_scheme \<Rightarrow> 'ad qm_env \<Rightarrow> int \<Rightarrow> string \<Rightarrow>
    ('ad, 's, 'h) qm_conn \<Rightarrow> (string \<times> nat) option \<times> ('ad, 's, 'h) qm_conn" where
  "sendMaterializeData E V cluster data cn =
     (let path = SpooledItemsPath (qe_spoolDir V) cluster in
      if \<not> qe_writeFile V path data then (None, cn)
      else let cn = store_file path data cn;
               count = length (ParseItems data);
               (ok, t) = set_all E (qm_q cn) cluster
                           [(AttrMaterializeItemsFile, go_quote path),
                            (AttrMaterializeItemCount, itoa (int count))] (qm_txn cn);
               cn = cn\<lparr> qm_txn := t \<rparr>
           in (if ok then Some (path, count) else None, cn))"

section \<open>Replies\<close>

definition qm_reply :: "'ad qm_env \<Rightarrow> int \<Rightarrow> int \<Rightarrow> 'ad message list" where
  "qm_reply V rval terrno = [qe_writeReply V rval terrno]"

definition replyAd :: "'ad \<Rightarrow> 'ad message list" where
  "replyAd ad = [[WInt 0, WAd ad]]"

definition error_ad :: "('ad, 'ex, 'z) classad_ops_scheme \<Rightarrow> int \<Rightarrow> string \<Rightarrow> 'ad" where
  "error_ad A code reason = set_str A ''ErrorReason'' reason (set_int A ''ErrorCode'' code (new_ad A))"

definition replyCommit :: "('ad, 'ex, 'z) classad_ops_scheme \<Rightarrow> 'ad qm_env \<Rightarrow> txn_err option \<Rightarrow> 'ad message list" where
  "replyCommit A V cerr =
     (case cerr of
        Some e \<Rightarrow> [[WInt (-1), WInt eINVAL, WAd (error_ad A 2 (qe_errText V e))]]
      | None \<Rightarrow> [[WInt 0, WAd (new_ad A)]])"

definition replyNewClusterErr :: "('ad, 'ex, 'z) classad_ops_scheme \<Rightarrow> 'ad qm_env \<Rightarrow> txn_err \<Rightarrow> 'ad message list" where
  "replyNewClusterErr A V cerr =
     (let terrno = terrnoFor cerr
      in [[WInt (-1), WInt terrno, WAd (error_ad A terrno (qe_errText V cerr))]])"

definition replyMaterializeData :: "string \<Rightarrow> nat \<Rightarrow> int \<Rightarrow> int \<Rightarrow> 'ad message list" where
  "replyMaterializeData filename count rval terrno =
     [[WStr filename, WInt (int count), WInt rval] @ (if rval < 0 then [WInt terrno] else [])]"

definition replyGetAttribute :: "('ad, 'ex, 's, 'h, 'z) ext_scheme \<Rightarrow> 'ad qm_env \<Rightarrow> attr_kind \<Rightarrow> int \<Rightarrow> int \<Rightarrow>
    string \<Rightarrow> ('ad, 's, 'h) qm_conn \<Rightarrow> 'ad message list" where
  "replyGetAttribute E V kind cluster proc name cn =
     (case GetAttribute E (qm_q cn) (qm_txn cn) cluster proc name of
        None \<Rightarrow> qm_reply V (-1) eNOENT
      | Some valStr \<Rightarrow>
          let ad = GetJobAd E (qm_q cn) (qm_txn cn) cluster proc
          in [[WInt 0,
               (case kind of
                  AttrInt \<Rightarrow> WInt (case ad of None \<Rightarrow> 0 | Some ad \<Rightarrow> int_attr0 E ad name)
                | AttrFloat \<Rightarrow>
                    WReal (case ad of
                             None \<Rightarrow> Finite 0
                           | Some ad \<Rightarrow> (case qe_evalReal V ad name of Some f \<Rightarrow> f | None \<Rightarrow> Finite 0))
                | _ \<Rightarrow> WStr valStr)]])"

definition streamAllJobs :: "('ad, 'ex, 's, 'h, 'z) ext_scheme \<Rightarrow> ('ad, 's, 'h) queue \<Rightarrow> string \<Rightarrow> 'ad message list" where
  "streamAllJobs E q constraint =
     [concat (map (\<lambda>ad. [WInt 0, WAdServerTime ad]) (qm_snapshot E q constraint)) @ [WInt (-1), WInt eNOENT]]"

text \<open>The reply to a write: \<open>0\<close>, or \<open>-1\<close> with the code of the error.\<close>

definition err_reply :: "'ad qm_env \<Rightarrow> txn_err option \<Rightarrow> 'ad message list" where
  "err_reply V err = (case err of None \<Rightarrow> qm_reply V 0 0 | Some e \<Rightarrow> qm_reply V (-1) (terrnoFor e))"

section \<open>Operations\<close>

text \<open>The replies an operation sends and the connection after it.\<close>

type_synonym ('ad, 's, 'h) qm_result = "'ad message list \<times> ('ad, 's, 'h) qm_conn"

definition qm_commit :: "('ad, 'ex, 's, 'h, 'z) ext_scheme \<Rightarrow> 'ad qm_env \<Rightarrow> int \<Rightarrow> ('ad, 's, 'h) qm_conn \<Rightarrow>
    ('ad, 's, 'h) qm_result" where
  "qm_commit E V now cn =
     (let (cerr, q, t) = CommitTxn E now (qm_q cn) (qm_txn cn)
      in (replyCommit E V cerr, begin_conn E (cn\<lparr> qm_q := q, qm_txn := t \<rparr>)))"

definition qm_newCluster :: "('ad, 'ex, 's, 'h, 'z) ext_scheme \<Rightarrow> 'ad qm_env \<Rightarrow> ('ad, 's, 'h) qm_conn \<Rightarrow>
    ('ad, 's, 'h) qm_result" where
  "qm_newCluster E V cn =
     (if \<not> qm_writable cn then (qm_reply V (-1) ePERM, cn)
      else let (res, q, t) = NewCluster E (qm_q cn) (qm_txn cn);
               cn = cn\<lparr> qm_q := q, qm_txn := t \<rparr>
           in case res of
                Inl err \<Rightarrow> (replyNewClusterErr E V err, cn)
              | Inr cid \<Rightarrow> (qm_reply V cid 0, cn))"

definition qm_newProc :: "('ad, 'ex, 's, 'h, 'z) ext_scheme \<Rightarrow> 'ad qm_env \<Rightarrow> int \<Rightarrow> ('ad, 's, 'h) qm_conn \<Rightarrow>
    ('ad, 's, 'h) qm_result" where
  "qm_newProc E V cluster cn =
     (if \<not> qm_writable cn then (qm_reply V (-1) ePERM, cn)
      else let (res, t) = NewProc E cluster (qm_txn cn);
               cn = cn\<lparr> qm_txn := t \<rparr>
           in case res of
                Inl err \<Rightarrow> (qm_reply V (-1) (terrnoFor err), cn)
              | Inr p \<Rightarrow> (qm_reply V p 0, cn))"

definition qm_setAttribute :: "('ad, 'ex, 's, 'h, 'z) ext_scheme \<Rightarrow> 'ad qm_env \<Rightarrow> int \<Rightarrow> int \<Rightarrow> string \<Rightarrow> string \<Rightarrow> bool \<Rightarrow>
    ('ad, 's, 'h) qm_conn \<Rightarrow> ('ad, 's, 'h) qm_result" where
  "qm_setAttribute E V cluster proc val name noAck cn =
     (if \<not> qm_writable cn then
        (if \<not> noAck then (qm_reply V (-1) ePERM, cn)
         else ([], cn\<lparr> qm_txn := AddError ''read-only connection'' (qm_txn cn) \<rparr>))
      else
        let (serr, t) = SetAttribute E (qm_q cn) cluster proc name val (qm_txn cn) in
        if noAck then
          ([], cn\<lparr> qm_txn := (case serr of None \<Rightarrow> t | Some e \<Rightarrow> AddError (qe_errText V e) t) \<rparr>)
        else (err_reply V serr, cn\<lparr> qm_txn := t \<rparr>))"

text \<open>An operation that only a writable connection may run on its transaction.\<close>

definition qm_write :: "'ad qm_env \<Rightarrow> ('ad txn \<Rightarrow> txn_err option \<times> 'ad txn) \<Rightarrow> ('ad, 's, 'h) qm_conn \<Rightarrow>
    ('ad, 's, 'h) qm_result" where
  "qm_write V f cn =
     (if \<not> qm_writable cn then (qm_reply V (-1) ePERM, cn)
      else let (err, t) = f (qm_txn cn) in (err_reply V err, cn\<lparr> qm_txn := t \<rparr>))"

definition qm_deleteAttribute :: "('ad, 'ex, 's, 'h, 'z) ext_scheme \<Rightarrow> 'ad qm_env \<Rightarrow> int \<Rightarrow> int \<Rightarrow> string \<Rightarrow>
    ('ad, 's, 'h) qm_conn \<Rightarrow> ('ad, 's, 'h) qm_result" where
  "qm_deleteAttribute E V cluster proc name cn = qm_write V (DeleteAttribute E (qm_q cn) cluster proc name) cn"

definition qm_destroyProc :: "('ad, 'ex, 's, 'h, 'z) ext_scheme \<Rightarrow> 'ad qm_env \<Rightarrow> int \<Rightarrow> int \<Rightarrow>
    ('ad, 's, 'h) qm_conn \<Rightarrow> ('ad, 's, 'h) qm_result" where
  "qm_destroyProc E V cluster proc cn = qm_write V (DestroyProc E (qm_q cn) cluster proc) cn"

definition qm_destroyCluster :: "('ad, 'ex, 's, 'h, 'z) ext_scheme \<Rightarrow> 'ad qm_env \<Rightarrow> int \<Rightarrow>
    ('ad, 's, 'h) qm_conn \<Rightarrow> ('ad, 's, 'h) qm_result" where
  "qm_destroyCluster E V cluster cn = qm_write V (DestroyCluster E (qm_q cn) cluster) cn"

definition qm_effectiveOwner :: "('ad, 'ex, 's, 'h, 'z) ext_scheme \<Rightarrow> 'ad qm_env \<Rightarrow> string \<Rightarrow> ('ad, 's, 'h) qm_conn \<Rightarrow>
    ('ad, 's, 'h) qm_result" where
  "qm_effectiveOwner E V owner cn =
     (let (err, t) = SetEffectiveOwner E (qm_q cn) owner (qm_txn cn)
      in (case err of None \<Rightarrow> qm_reply V 0 0 | Some _ \<Rightarrow> qm_reply V (-1) eACCES, cn\<lparr> qm_txn := t \<rparr>))"

definition qm_allowProt :: "'ad qm_env \<Rightarrow> int \<Rightarrow> ('ad, 's, 'h) qm_conn \<Rightarrow> ('ad, 's, 'h) qm_result" where
  "qm_allowProt V val cn =
     (let cn = cn\<lparr> qm_allowProtected := (val \<noteq> 0) \<rparr>;
          (old, t) = SetAllowProtectedChanges (qm_allowProtected cn) (qm_txn cn)
      in (qm_reply V (if old then 1 else 0) 0, cn\<lparr> qm_txn := t \<rparr>))"

text \<open>The reply with an ad that may be missing.\<close>

definition found_ad :: "'ad qm_env \<Rightarrow> 'ad option \<Rightarrow> 'ad message list" where
  "found_ad V ad = (case ad of None \<Rightarrow> qm_reply V (-1) eNOENT | Some ad \<Rightarrow> replyAd ad)"

definition qm_getJobAd :: "('ad, 'ex, 's, 'h, 'z) ext_scheme \<Rightarrow> 'ad qm_env \<Rightarrow> int \<Rightarrow> int \<Rightarrow> ('ad, 's, 'h) qm_conn \<Rightarrow>
    ('ad, 's, 'h) qm_result" where
  "qm_getJobAd E V cluster proc cn = (found_ad V (GetJobAd E (qm_q cn) (qm_txn cn) cluster proc), cn)"

definition qm_getJobByConstraint :: "('ad, 'ex, 's, 'h, 'z) ext_scheme \<Rightarrow> 'ad qm_env \<Rightarrow> string \<Rightarrow> ('ad, 's, 'h) qm_conn \<Rightarrow>
    ('ad, 's, 'h) qm_result" where
  "qm_getJobByConstraint E V constraint cn = (found_ad V (firstMatch E (qm_q cn) constraint), cn)"

definition qm_nextJob :: "('ad, 'ex, 's, 'h, 'z) ext_scheme \<Rightarrow> 'ad qm_env \<Rightarrow> int \<Rightarrow> string \<Rightarrow> ('ad, 's, 'h) qm_conn \<Rightarrow>
    ('ad, 's, 'h) qm_result" where
  "qm_nextJob E V initScan constraint cn =
     (let cn = (if initScan = 1
                then cn\<lparr> qm_scanState := qm_snapshot E (qm_q cn) constraint, qm_scanPos := 0 \<rparr> else cn)
      in if qm_scanPos cn \<ge> length (qm_scanState cn) then (qm_reply V (-1) eNOENT, cn)
         else (replyAd (qm_scanState cn ! qm_scanPos cn), cn\<lparr> qm_scanPos := Suc (qm_scanPos cn) \<rparr>))"

definition qm_setJobFactory :: "('ad, 'ex, 's, 'h, 'z) ext_scheme \<Rightarrow> 'ad qm_env \<Rightarrow> int \<Rightarrow> int \<Rightarrow> int \<Rightarrow> string \<Rightarrow>
    ('ad, 's, 'h) qm_conn \<Rightarrow> ('ad, 's, 'h) qm_result" where
  "qm_setJobFactory E V now cluster num txt cn =
     (if \<not> qm_writable cn then (qm_reply V (-1) ePERM, cn)
      else if cluster \<noteq> ActiveCluster (qm_txn cn) then (qm_reply V (-1) ePERM, cn)
      else case setJobFactory E V now cluster num txt cn of
             (False, cn) \<Rightarrow> (qm_reply V (-1) eINVAL, cn)
           | (True, cn) \<Rightarrow> (qm_reply V 0 0, cn))"

definition qm_sendMaterializeData :: "('ad, 'ex, 's, 'h, 'z) ext_scheme \<Rightarrow> 'ad qm_env \<Rightarrow> int \<Rightarrow> string \<Rightarrow>
    ('ad, 's, 'h) qm_conn \<Rightarrow> ('ad, 's, 'h) qm_result" where
  "qm_sendMaterializeData E V cluster data cn =
     (if \<not> qm_writable cn \<or> cluster \<noteq> ActiveCluster (qm_txn cn) then (replyMaterializeData [] 0 (-1) ePERM, cn)
      else case sendMaterializeData E V cluster data cn of
             (None, cn) \<Rightarrow> (replyMaterializeData [] 0 (-1) eINVAL, cn)
           | (Some (path, count), cn) \<Rightarrow> (replyMaterializeData path count 0 0, cn))"

section \<open>The loop\<close>

text \<open>One operation: whether the loop goes on, the replies, and the connection.\<close>

definition qm_abort :: "('ad, 's, 'h) qm_conn \<Rightarrow> ('ad, 's, 'h) qm_conn" where
  "qm_abort cn = cn\<lparr> qm_txn := AbortTxn (qm_txn cn) \<rparr>"

definition qm_step :: "('ad, 'ex, 's, 'h, 'z) ext_scheme \<Rightarrow> 'ad qm_env \<Rightarrow> int \<Rightarrow> qm_op \<Rightarrow> ('ad, 's, 'h) qm_conn \<Rightarrow>
    bool \<times> ('ad, 's, 'h) qm_result" where
  "qm_step E V now op cn =
     (case op of
        OpCloseSocket \<Rightarrow> (False, [], qm_abort cn)
      | OpGetCapabilities \<Rightarrow> (True, [[WAd (qm_caps E)]], cn)
      | OpBeginTransaction \<Rightarrow> (True, qm_reply V 0 0, begin_conn E (qm_abort cn))
      | OpAbortTransaction \<Rightarrow> (True, qm_reply V 0 0, begin_conn E (qm_abort cn))
      | OpCommitTransaction \<Rightarrow> (True, qm_commit E V now cn)
      | OpNewCluster \<Rightarrow> (True, qm_newCluster E V cn)
      | OpNewProc cluster \<Rightarrow> (True, qm_newProc E V cluster cn)
      | OpSetAttribute cluster proc val name noAck \<Rightarrow>
          (True, qm_setAttribute E V cluster proc val name noAck cn)
      | OpDeleteAttribute cluster proc name \<Rightarrow> (True, qm_deleteAttribute E V cluster proc name cn)
      | OpDestroyProc cluster proc \<Rightarrow> (True, qm_destroyProc E V cluster proc cn)
      | OpDestroyCluster cluster \<Rightarrow> (True, qm_destroyCluster E V cluster cn)
      | OpSetEffectiveOwner owner \<Rightarrow> (True, qm_effectiveOwner E V owner cn)
      | OpSetAllowProtectedChanges val \<Rightarrow> (True, qm_allowProt V val cn)
      | OpGetJobAd cluster proc \<Rightarrow> (True, qm_getJobAd E V cluster proc cn)
      | OpGetAttribute kind cluster proc name \<Rightarrow> (True, replyGetAttribute E V kind cluster proc name cn, cn)
      | OpGetJobByConstraint constraint \<Rightarrow> (True, qm_getJobByConstraint E V constraint cn)
      | OpGetNextJobByConstraint initScan constraint \<Rightarrow> (True, qm_nextJob E V initScan constraint cn)
      | OpGetAllJobsByConstraint constraint \<Rightarrow> (True, streamAllJobs E (qm_q cn) constraint, cn)
      | OpSendSpoolFile \<Rightarrow> (True, [[WInt (-2), WInt eINVAL]], cn)
      | OpSendSpoolFileIfNeeded \<Rightarrow> (True, [[WInt (-2)]], cn)
      | OpSetJobFactory cluster num txt \<Rightarrow> (True, qm_setJobFactory E V now cluster num txt cn)
      | OpSetMaterializeData \<Rightarrow> (True, qm_reply V (-1) ePERM, cn)
      | OpSendMaterializeData cluster data \<Rightarrow> (True, qm_sendMaterializeData E V cluster data cn)
      | BadArgs \<Rightarrow> (False, [], cn)
      | OpUnsupported n \<Rightarrow> (False, [], qm_abort cn))"

text \<open>The requests of a connection, each with the time it is handled; the peer hangs up after the last.\<close>

fun qm_loop :: "('ad, 'ex, 's, 'h, 'z) ext_scheme \<Rightarrow> 'ad qm_env \<Rightarrow> (int \<times> qm_op) list \<Rightarrow> ('ad, 's, 'h) qm_conn \<Rightarrow>
    ('ad, 's, 'h) qm_result" where
  "qm_loop E V [] cn = ([], qm_abort cn)"
| "qm_loop E V ((now, op) # reqs) cn =
     (case qm_step E V now op cn of
        (False, ms, cn) \<Rightarrow> (ms, cn)
      | (True, ms, cn) \<Rightarrow> (let (more, cn) = qm_loop E V reqs cn in (ms @ more, cn)))"

definition HandleQmgmt :: "('ad, 'ex, 's, 'h, 'z) ext_scheme \<Rightarrow> 'ad qm_env \<Rightarrow> string \<Rightarrow> bool \<Rightarrow> (int \<times> qm_op) list \<Rightarrow>
    ('ad, 's, 'h) queue \<Rightarrow> ('ad, 's, 'h) qm_result" where
  "HandleQmgmt E V authUser writable reqs q = qm_loop E V reqs (new_conn E q authUser writable)"

end
