(* ===== verification/QmgmtProps.thy ===== *)
theory QmgmtProps
  imports Qmgmt TxnCommit
begin

text \<open>
  Properties of whole QMGMT connections: for every sequence of requests, what a connection
  without the right to write leaves of the queue, and that the replies keep the framing the
  client reads.
\<close>

section \<open>Framing\<close>

text \<open>The reply of a standard operation: a result from 0, or a negative one with an error number.\<close>

fun std_frame :: "'ad message \<Rightarrow> bool" where
  "std_frame [WInt r] = (0 \<le> r)"
| "std_frame [WInt r, WInt e] = (r < 0)"
| "std_frame _ = False"

fun stream_frame :: "'ad message \<Rightarrow> bool" where
  "stream_frame [WInt r, WInt e] = (r < 0)"
| "stream_frame (WInt r # WAdServerTime ad # m) = (r = 0 \<and> stream_frame m)"
| "stream_frame _ = False"

fun ad_frame :: "'ad message \<Rightarrow> bool" where
  "ad_frame [WInt r, WAd ad] = (r = 0)"
| "ad_frame [WInt r, WInt e] = (r < 0)"
| "ad_frame _ = False"

fun commit_frame :: "'ad message \<Rightarrow> bool" where
  "commit_frame [WInt r, WAd ad] = (r = 0)"
| "commit_frame [WInt r, WInt e, WAd ad] = (r < 0)"
| "commit_frame _ = False"

fun value_frame :: "attr_kind \<Rightarrow> 'ad message \<Rightarrow> bool" where
  "value_frame k [WInt r, WInt v] = (r < 0 \<or> r = 0 \<and> k = AttrInt)"
| "value_frame k [WInt r, WReal f] = (r = 0 \<and> k = AttrFloat)"
| "value_frame k [WInt r, WStr s] = (r = 0 \<and> k \<in> {AttrString, AttrExpr})"
| "value_frame k _ = False"

fun data_frame :: "'ad message \<Rightarrow> bool" where
  "data_frame [WStr path, WInt n, WInt r] = (0 \<le> r)"
| "data_frame [WStr path, WInt n, WInt r, WInt e] = (r < 0)"
| "data_frame _ = False"

text \<open>A failed \<open>NewCluster\<close> carries an error ad after the error number.\<close>

fun cluster_frame :: "'ad message \<Rightarrow> bool" where
  "cluster_frame [WInt r] = (0 \<le> r)"
| "cluster_frame [WInt r, WInt e, WAd ad] = (r < 0)"
| "cluster_frame _ = False"

definition frame :: "qm_op \<Rightarrow> 'ad message \<Rightarrow> bool" where
  "frame op m =
     (case op of
        OpGetCapabilities \<Rightarrow> (case m of [WAd _] \<Rightarrow> True | _ \<Rightarrow> False)
      | OpCommitTransaction \<Rightarrow> commit_frame m
      | OpNewCluster \<Rightarrow> cluster_frame m
      | OpGetJobAd _ _ \<Rightarrow> ad_frame m
      | OpGetJobByConstraint _ \<Rightarrow> ad_frame m
      | OpGetNextJobByConstraint _ _ \<Rightarrow> ad_frame m
      | OpGetAttribute k _ _ _ \<Rightarrow> value_frame k m
      | OpGetAllJobsByConstraint _ \<Rightarrow> stream_frame m
      | OpSendSpoolFileIfNeeded \<Rightarrow> m = [WInt (-2)]
      | OpSendMaterializeData _ _ \<Rightarrow> data_frame m
      | _ \<Rightarrow> std_frame m)"

definition ends :: "qm_op \<Rightarrow> bool" where
  "ends op = (case op of OpCloseSocket \<Rightarrow> True | BadArgs \<Rightarrow> True | OpUnsupported _ \<Rightarrow> True | _ \<Rightarrow> False)"

definition no_reply :: "qm_op \<Rightarrow> bool" where
  "no_reply op = (case op of OpSetAttribute _ _ _ _ noAck \<Rightarrow> noAck | _ \<Rightarrow> False)"

text \<open>
  A client that reads one message, of the operation's shape, for every request but the
  unacknowledged ones reads exactly the messages sent.
\<close>

fun in_sync :: "qm_op list \<Rightarrow> 'ad message list \<Rightarrow> bool" where
  "in_sync [] ms = (ms = [])"
| "in_sync (op # ops) ms =
     (if ends op then ms = []
      else if no_reply op then in_sync ops ms
      else case ms of [] \<Rightarrow> False | m # ms \<Rightarrow> frame op m \<and> in_sync ops ms)"

lemma stream_frame_jobs: "stream_frame (concat (map (\<lambda>ad. [WInt 0, WAdServerTime ad]) ads) @ [WInt (-1), WInt e])"
  by (induction ads) auto

lemmas qm_op_defs = qm_commit_def qm_newCluster_def qm_newProc_def qm_setAttribute_def qm_write_def
  qm_deleteAttribute_def qm_destroyProc_def qm_destroyCluster_def qm_effectiveOwner_def qm_allowProt_def
  qm_getJobAd_def qm_getJobByConstraint_def qm_nextJob_def qm_setJobFactory_def setJobFactory_def
  qm_sendMaterializeData_def sendMaterializeData_def store_file_def qm_abort_def begin_conn_def

lemmas qm_reply_defs = qm_reply_def replyAd_def replyCommit_def replyNewClusterErr_def replyMaterializeData_def
  replyGetAttribute_def streamAllJobs_def err_reply_def found_ad_def

lemma writable_kept: "qm_writable (snd (snd (qm_step E V now op cn))) = qm_writable cn"
  by (cases op)
     (simp_all add: qm_step_def qm_op_defs Let_def split: prod.splits sum.splits option.splits bool.splits)

lemma qm_step_goes_on: "fst (qm_step E V now op cn) \<longleftrightarrow> \<not> ends op"
  by (cases op) (simp_all add: qm_step_def ends_def)

text \<open>\<open>hqmgmt.WriteReply\<close> writes the result, and the error number after a negative one.\<close>

definition write_reply_spec :: "'ad qm_env \<Rightarrow> bool" where
  "write_reply_spec V = (\<forall>r e. qe_writeReply V r e = (if r < 0 then [WInt r, WInt e] else [WInt r]))"

lemma reply_frame:
  assumes "write_reply_spec V"
  shows "\<exists>m. qm_reply V r e = [m] \<and> std_frame m" "r < 0 \<Longrightarrow> qm_reply V r e = [[WInt r, WInt e]]"
    "0 \<le> r \<Longrightarrow> qm_reply V r e = [[WInt r]]"
  using assms by (simp_all add: qm_reply_def write_reply_spec_def)

lemma err_reply_frame: "write_reply_spec V \<Longrightarrow> \<exists>m. err_reply V err = [m] \<and> std_frame m"
  by (simp add: err_reply_def reply_frame split: option.splits)

lemma found_ad_frame: "write_reply_spec V \<Longrightarrow> \<exists>m. found_ad V ad = [m] \<and> ad_frame m"
  by (simp add: found_ad_def replyAd_def reply_frame split: option.splits)

lemma write_frame: "write_reply_spec V \<Longrightarrow> \<exists>m. fst (qm_write V f cn) = [m] \<and> std_frame m"
  by (simp add: qm_write_def err_reply_frame reply_frame split: prod.splits)

lemma fold_frame: "(\<And>x q. f (g x q) = f q) \<Longrightarrow> f (fold g xs q) = f q"
  by (induction xs arbitrary: q) simp_all

lemma commit_nextID: "q_nextID (fst (snd (CommitTxn E now q t))) = q_nextID q"
proof -
  have d: "q_nextID (fold (commit_delete E) ks q) = q_nextID q" for ks and q
    by (rule fold_frame) (simp add: commit_delete_def unnoteFactory_def Let_def split: option.splits)
  have n: "q_nextID (fold (commit_note E t) es q) = q_nextID q" for es t and q
    by (rule fold_frame) (simp add: commit_note_def noteFactory_def Let_def split: option.splits prod.splits)
  have u: "q_nextID (fold (commit_submit E t) ks q) = q_nextID q" for ks t and q
    by (rule fold_frame) (simp add: commit_submit_def emit_ulog_def Let_def split: option.splits prod.splits)
  show ?thesis by (simp add: CommitTxn_def Let_def d n u split: option.splits)
qed

lemma step_nextID: "0 < q_nextID (qm_q cn) \<Longrightarrow> 0 < q_nextID (qm_q (snd (snd (qm_step E V now op cn))))"
  using commit_nextID [of E now "qm_q cn" "qm_txn cn"]
  by (cases op)
     (auto simp: qm_step_def qm_op_defs NewCluster_def Let_def
        split: prod.splits sum.splits option.splits bool.splits dest!: alloc_keeps)

lemma new_cluster_id: "NewCluster E q t = (Inr cid, q', t') \<Longrightarrow> cid = q_nextID q"
  by (auto simp: NewCluster_def Let_def split: if_splits option.splits prod.splits dest: alloc_id)

lemma step_framed:
  assumes "write_reply_spec V" and "0 < q_nextID (qm_q cn)" and "\<not> ends op" and "qm_writable cn \<or> op \<noteq> OpNewCluster"
  shows "if no_reply op then fst (snd (qm_step E V now op cn)) = []
         else \<exists>m. fst (snd (qm_step E V now op cn)) = [m] \<and> frame op m"
  using assms
  by (cases op)
     (auto simp: qm_step_def ends_def no_reply_def frame_def stream_frame_jobs
       qm_deleteAttribute_def qm_destroyProc_def qm_destroyCluster_def write_frame reply_frame
       qm_commit_def replyCommit_def qm_newCluster_def replyNewClusterErr_def qm_newProc_def qm_setAttribute_def
       err_reply_frame qm_effectiveOwner_def qm_allowProt_def qm_getJobAd_def found_ad_frame
       qm_getJobByConstraint_def qm_nextJob_def replyAd_def replyGetAttribute_def streamAllJobs_def
       qm_setJobFactory_def qm_sendMaterializeData_def replyMaterializeData_def Let_def
       split: prod.splits sum.splits option.splits bool.splits attr_kind.splits dest!: new_cluster_id)

lemma loop_in_sync:
  assumes "write_reply_spec V" and "0 < q_nextID (qm_q cn)" and "qm_writable cn \<or> OpNewCluster \<notin> set (map snd reqs)"
  shows "in_sync (map snd reqs) (fst (qm_loop E V reqs cn))"
  using assms(2,3)
proof (induction reqs arbitrary: cn)
  case (Cons r reqs)
  obtain now op where r: "r = (now, op)" by (cases r)
  obtain b ms cn' where st: "qm_step E V now op cn = (b, ms, cn')" by (cases "qm_step E V now op cn") auto
  show ?case
  proof (cases "ends op")
    case True
    then have "ms = []" using st by (cases op) (auto simp: qm_step_def ends_def)
    then show ?thesis using True st qm_step_goes_on [of E V now op cn] by (simp add: r)
  next
    case False
    have b: b using False st qm_step_goes_on [of E V now op cn] by simp
    have ih: "in_sync (map snd reqs) (fst (qm_loop E V reqs cn'))"
      using Cons.IH [of cn'] step_nextID [OF Cons.prems(1), of E V now op] writable_kept [of E V now op cn] st Cons.prems(2) by auto
    have w: "qm_writable cn \<or> op \<noteq> OpNewCluster" using Cons.prems(2) by (auto simp: r)
    show ?thesis using step_framed [OF assms(1) Cons.prems(1) False w, of E now] False b st ih
      by (auto simp: r split: prod.splits if_splits)
  qed
qed simp

section \<open>Connections without the right to write\<close>

definition powerless :: "('ad, 's, 'h) qm_conn \<Rightarrow> bool" where
  "powerless cn = (empty_txn (qm_txn cn) \<and> (\<not> qm_writable cn \<or> anonymous (qm_txn cn)))"

lemma begin_powerless:
  "empty_txn (BeginTxn E q u)" "u = [] \<or> isUnmapped E u \<Longrightarrow> anonymous (BeginTxn E q u)"
  by (auto simp: BeginTxn_def empty_txn_def anonymous_def Let_def)

lemma anonymous_ops:
  assumes "anonymous t"
  shows "SetAttribute E q c p n v t = (Some (if v = [] then EmptyValueErr n else AnonymousErr), t)"
    and "DeleteAttribute E q c p n t = (Some AnonymousErr, t)"
    and "DestroyProc E q c p t = (Some AnonymousErr, t)" and "DestroyCluster E q c t = (Some AnonymousErr, t)"
    and "NewProc E c t = (Inl AnonymousErr, t)" and "NewCluster E q t = (Inl AnonymousErr, q, t)"
  using assms
  by (simp_all add: SetAttribute_def authorize_def DeleteAttribute_def DestroyProc_def DestroyCluster_def NewProc_def
      NewCluster_def)

lemma set_all_anonymous: "anonymous t \<Longrightarrow> set_all E q c kvs t = (kvs = [], t)"
  by (induction kvs) (auto simp: anonymous_ops)

lemma empty_txn_kept:
  "empty_txn (snd (SetEffectiveOwner E q owner t)) = empty_txn t"
  "empty_txn (snd (SetAllowProtectedChanges v t)) = empty_txn t" "empty_txn (AddError msg t) = empty_txn t"
  "anonymous (snd (SetEffectiveOwner E q owner t)) = anonymous t"
  "anonymous (snd (SetAllowProtectedChanges v t)) = anonymous t" "anonymous (AddError msg t) = anonymous t"
  by (simp_all add: empty_txn_def anonymous_def SetEffectiveOwner_def SetAllowProtectedChanges_def AddError_def Let_def)

lemma empty_txn_pairs:
  "SetEffectiveOwner E q owner t = (r, t') \<Longrightarrow> empty_txn t' = empty_txn t \<and> anonymous t' = anonymous t"
  "SetAllowProtectedChanges v t = (b, t') \<Longrightarrow> empty_txn t' = empty_txn t \<and> anonymous t' = anonymous t"
  using empty_txn_kept(1,4) [of E q owner t] empty_txn_kept(2,5) [of v t] by simp_all

text \<open>The identity of the connection stays that of its transactions.\<close>

definition conn_ok :: "('ad, 'ex, 's, 'h, 'z) ext_scheme \<Rightarrow> ('ad, 's, 'h) qm_conn \<Rightarrow> bool" where
  "conn_ok E cn = (powerless cn \<and> (\<not> qm_writable cn \<or> qm_authUser cn = [] \<or> isUnmapped E (qm_authUser cn)))"

lemma step_powerless:
  assumes "conn_ok E cn"
  shows "qm_q (snd (snd (qm_step E V now op cn))) = qm_q cn"
    and "fst (qm_step E V now op cn) \<Longrightarrow> conn_ok E (snd (snd (qm_step E V now op cn)))"
    and "\<not> qm_writable cn \<Longrightarrow> qm_files (snd (snd (qm_step E V now op cn))) = qm_files cn"
proof -
  have e: "empty_txn (qm_txn cn)" "\<not> qm_writable cn \<or> anonymous (qm_txn cn)"
    using assms by (auto simp: conn_ok_def powerless_def)
  show "qm_q (snd (snd (qm_step E V now op cn))) = qm_q cn"
    using e commit_empty [OF e(1), of E now "qm_q cn"]
    by (cases op)
       (auto simp: qm_step_def qm_op_defs anonymous_ops set_all_anonymous Let_def
          split: prod.splits option.splits sum.splits bool.splits if_splits)
  show "\<not> qm_writable cn \<Longrightarrow> qm_files (snd (snd (qm_step E V now op cn))) = qm_files cn"
    by (cases op) (auto simp: qm_step_def qm_op_defs Let_def split: prod.splits option.splits sum.splits)
  show "fst (qm_step E V now op cn) \<Longrightarrow> conn_ok E (snd (snd (qm_step E V now op cn)))"
    using assms
    by (cases op)
       (auto simp: conn_ok_def powerless_def begin_powerless qm_step_def qm_op_defs anonymous_ops set_all_anonymous
          empty_txn_kept Let_def
          split: prod.splits option.splits sum.splits bool.splits if_splits dest: empty_txn_pairs)
qed

lemma loop_powerless:
  assumes "conn_ok E cn"
  shows "qm_q (snd (qm_loop E V reqs cn)) = qm_q cn \<and>
         (\<not> qm_writable cn \<longrightarrow> qm_files (snd (qm_loop E V reqs cn)) = qm_files cn)"
  using assms
proof (induction reqs arbitrary: cn)
  case (Cons r reqs)
  obtain now op where r: "r = (now, op)" by (cases r)
  obtain b ms cn' where st: "qm_step E V now op cn = (b, ms, cn')" by (cases "qm_step E V now op cn") auto
  have q: "qm_q cn' = qm_q cn" "\<not> qm_writable cn \<Longrightarrow> qm_files cn' = qm_files cn" "b \<Longrightarrow> conn_ok E cn'"
    "qm_writable cn' = qm_writable cn"
    using step_powerless [OF Cons.prems, of V now op] writable_kept [of E V now op cn] st by simp_all
  show ?case
  proof (cases b)
    case True
    then show ?thesis using Cons.IH [OF q(3) [OF True]] q st
      by (cases "qm_loop E V reqs cn'") (simp add: r)
  next
    case False
    then show ?thesis using q st by (simp add: r)
  qed
qed (simp add: qm_abort_def)

lemma new_conn_ok: "\<not> w \<or> u = [] \<or> isUnmapped E u \<Longrightarrow> conn_ok E (new_conn E q u w)"
  by (auto simp: conn_ok_def powerless_def new_conn_def begin_conn_def empty_txn_kept begin_powerless)

lemma new_conn_simps [simp]:
  "qm_q (new_conn E q u w) = q" "qm_writable (new_conn E q u w) = w" "qm_files (new_conn E q u w) = []"
  by (simp_all add: new_conn_def begin_conn_def)

definition ref_env :: "ref_ad qm_env" where
  "ref_env =
     \<lparr> qe_spoolDir = ''/spool'', qe_writeFile = (\<lambda>path data. True), qe_errText = (\<lambda>e. ''error''),
       qe_writeReply = (\<lambda>r e. if r < 0 then [WInt r, WInt e] else [WInt r]), qe_evalReal = (\<lambda>ad n. None) \<rparr>"

text \<open>
  C3. A QMGMT connection opened for reading, or by a peer that is not authenticated or not mapped,
  leaves the queue exactly as it was, whatever requests it sends in whatever order, commits
  included; one opened for reading stores no file either.
\<close>

theorem powerless_session:
  assumes "\<not> writable \<or> u = [] \<or> isUnmapped E u"
  shows "qm_q (snd (HandleQmgmt E V u writable reqs q)) = q \<and>
         (writable \<or> qm_files (snd (HandleQmgmt E V u writable reqs q)) = [])"
  using loop_powerless [OF new_conn_ok [OF assms], of V reqs q]
  by (cases writable) (simp_all add: HandleQmgmt_def)

theorem powerless_session_witness:
  "qm_q (snd (HandleQmgmt refE ref_env ''alice@pool'' False
      [(1, OpNewCluster), (2, OpDestroyProc 1 0), (3, OpCommitTransaction)] ref_q1)) = ref_q1"
  using powerless_session [of False "''alice@pool''" refE ref_env
    "[(1, OpNewCluster), (2, OpDestroyProc 1 0), (3, OpCommitTransaction)]" ref_q1] by blast

text \<open>
  C39. The replies of a connection keep the protocol in step. For every sequence of requests on a writable connection, and for
  every one without a NewCluster on a read-only connection, a client that reads one message for each request that is not
  an unacknowledged SetAttribute finds the messages sent, each of the shape of its operation, and no other, when the counter of
  cluster ids is positive. A NewCluster refused on a read-only connection breaks this: its reply lacks the error ad that the
  client reads after a failed NewCluster.
\<close>

theorem replies_in_sync:
  assumes "write_reply_spec V" and "0 < q_nextID q"
  shows "(writable \<or> OpNewCluster \<notin> set (map snd reqs) \<longrightarrow>
            in_sync (map snd reqs) (fst (HandleQmgmt E V u writable reqs q))) \<and>
         \<not> in_sync [OpNewCluster] (fst (HandleQmgmt E V u False [(now, OpNewCluster)] q))"
proof -
  have "fst (HandleQmgmt E V u False [(now, OpNewCluster)] q) = [[WInt (-1), WInt ePERM]]"
    using assms(1) by (simp add: HandleQmgmt_def qm_step_def qm_newCluster_def reply_frame(2))
  then have "\<not> in_sync [OpNewCluster] (fst (HandleQmgmt E V u False [(now, OpNewCluster)] q))"
    by (simp add: ends_def no_reply_def frame_def)
  then show ?thesis
    using loop_in_sync [OF assms(1), of "new_conn E q u writable" reqs E] assms(2) by (auto simp: HandleQmgmt_def)
qed

theorem replies_in_sync_witness:
  "in_sync [OpNewCluster, OpCommitTransaction]
     (fst (HandleQmgmt refE ref_env ''alice@pool'' True [(1, OpNewCluster), (2, OpCommitTransaction)] ref_q1)) \<and>
   \<not> in_sync [OpNewCluster] (fst (HandleQmgmt refE ref_env ''alice@pool'' False [(1, OpNewCluster)] ref_q1))"
proof -
  have "write_reply_spec ref_env" by (simp add: write_reply_spec_def ref_env_def)
  moreover have "0 < q_nextID ref_q1" by code_simp
  ultimately show ?thesis
    using replies_in_sync [of ref_env ref_q1 True "[(1, OpNewCluster), (2, OpCommitTransaction)]" refE "''alice@pool''" 1]
    by (simp del: in_sync.simps)
qed

text \<open>
  A peer without an identity can write into the spool directory: on a fresh writable connection a
  SetJobFactory for cluster -1 passes the check of the active cluster, the digest is stored, and
  only then is the request refused.
\<close>

theorem anonymous_stores_digest:
  assumes "u = [] \<or> isUnmapped E u" and "qe_writeFile V (SpooledDigestPath (qe_spoolDir V) (-1)) txt"
  shows "HandleQmgmt E V u True [(now, OpSetJobFactory (-1) num txt)] q =
           (qm_reply V (-1) eINVAL,
            (qm_abort (new_conn E q u True))\<lparr> qm_files := [(SpooledDigestPath (qe_spoolDir V) (-1), txt)] \<rparr>)"
proof -
  have a: "anonymous (qm_txn (new_conn E q u True))"
    using assms(1) by (simp add: new_conn_def begin_conn_def empty_txn_kept begin_powerless)
  have t: "ActiveCluster (qm_txn (new_conn E q u True)) = -1"
    by (simp add: new_conn_def begin_conn_def ActiveCluster_def SetAllowProtectedChanges_def BeginTxn_def Let_def)
  show ?thesis using assms(2)
    by (simp add: HandleQmgmt_def qm_step_def qm_setJobFactory_def setJobFactory_def a t store_file_def
        anonymous_ops [OF a] factory_attrs_def qm_abort_def Let_def)
qed

theorem anonymous_stores_digest_witness:
  "qm_files (snd (HandleQmgmt refE ref_env [] True [(7, OpSetJobFactory (-1) 5 ''queue 1'')] ref_q1)) =
     [(SpooledDigestPath ''/spool'' (-1), ''queue 1'')]"
  using anonymous_stores_digest [of "[]" refE ref_env "''queue 1''" 7 5 ref_q1] by (simp add: ref_env_def)

end
