(* ===== verification/JobQuery.thy ===== *)
theory JobQuery
  imports FactoryQueue
begin

text \<open>
  QUERY_JOB_ADS, \<open>internal/query/query.go\<close>: building the query from the request ad, the
  stream of job ads with limit, and the summary ad that ends it. A compiled query is its
  source text; \<open>None\<close> matches every ad. The projection and the server-time flag go to the
  wire encoder with each ad. Replies are written without error.
\<close>

abbreviation my_jobs_on :: "string \<Rightarrow> bool" where
  "my_jobs_on mj \<equiv> (mj \<noteq> ''false'' \<and> mj \<noteq> ''FALSE'' \<and> mj \<noteq> ''0'')"

definition ownerClause :: "('ad, 'ex, 's, 'h, 'z) ext_scheme \<Rightarrow> ('ad, 's, 'h) queue \<Rightarrow> 'ad \<Rightarrow> string \<Rightarrow> string" where
  "ownerClause E q queryAd authUser =
     (case lookup_attr E queryAd ''MyJobs'' of
        None \<Rightarrow> []
      | Some expr \<Rightarrow>
          if my_jobs_on (trim_space (expr_string E expr)) \<and> authUser \<noteq> [] \<and> \<not> IsSuperUser E q authUser
          then ''('' @ (if CHR ''@'' \<in> set authUser then ''User'' else ''Owner'') @ '' == '' @ go_quote authUser @ '')''
          else [])"

abbreviation query_constraint :: "('ad, 'ex, 'z) classad_ops_scheme \<Rightarrow> 'ad \<Rightarrow> string" where
  "query_constraint A queryAd \<equiv>
     (case lookup_attr A queryAd ''Requirements'' of
        None \<Rightarrow> ''true''
      | Some expr \<Rightarrow>
          let str = trim_space (expr_string A expr) in if str \<noteq> [] then str else ''true'')"

abbreviation proj_sep :: "char \<Rightarrow> bool" where
  "proj_sep r \<equiv> (r \<in> {CHR '','', CHR '' '', CHR 0x09, CHR 0x0A, CHR 0x0D})"

definition buildQuery :: "('ad, 'ex, 's, 'h, 'z) ext_scheme \<Rightarrow> ('ad, 's, 'h) queue \<Rightarrow> 'ad \<Rightarrow> string \<Rightarrow>
    string option \<times> string list" where
  "buildQuery E q queryAd authUser =
     (let constraint = query_constraint E queryAd;
          clause = ownerClause E q queryAd authUser;
          full = (if clause \<noteq> [] then ''('' @ constraint @ '') && '' @ clause else constraint);
          query = (if full \<noteq> ''true'' \<and> full \<noteq> ''TRUE'' then
                     (if vm_parse E full then Some full
                      else if clause \<noteq> [] \<and> vm_parse E clause then Some clause
                      else None)
                   else None);
          proj = str_attr0 E queryAd ''Projection''
      in (query, if trim_space proj \<noteq> [] then fields_func proj_sep proj else []))"

definition bool_attr :: "('ad, 'ex, 'z) classad_ops_scheme \<Rightarrow> 'ad \<Rightarrow> string \<Rightarrow> bool \<Rightarrow> bool" where
  "bool_attr A ad n def = (case eval_bool A ad n of Some b \<Rightarrow> b | None \<Rightarrow> def)"

definition tallyCount :: "('ad, 'ex, 'z) classad_ops_scheme \<Rightarrow> 'ad \<Rightarrow> queue_counts \<Rightarrow> queue_counts" where
  "tallyCount A ad c = tally_status (int_attr0 A ad ''JobStatus'') (c\<lparr> n_Total := Suc (n_Total c) \<rparr>)"

text \<open>The loop over \<open>emit\<close>: the ads streamed, stopping at the limit; \<open>n\<close> were sent before.\<close>

fun emit_loop :: "int \<Rightarrow> 'ad list \<Rightarrow> nat \<Rightarrow> 'ad list" where
  "emit_loop limit [] n = []"
| "emit_loop limit (ad # ads) n =
     (if limit \<ge> 0 \<and> int n \<ge> limit then [] else ad # emit_loop limit ads (Suc n))"

definition query_ads :: "('ad, 'ex, 's, 'h, 'z) ext_scheme \<Rightarrow> ('ad, 's, 'h) queue \<Rightarrow> string option \<Rightarrow> bool \<Rightarrow> bool \<Rightarrow> int \<Rightarrow>
    'ad list" where
  "query_ads E q query noProcAds includeClusterAds limit =
     (let procs = (if noProcAds then []
                   else emit_loop limit (case query of Some c \<Rightarrow> Query E q c | None \<Rightarrow> Scan E q) 0);
          clusters = (if includeClusterAds
                      then emit_loop limit
                             (filter (\<lambda>ad. case query of None \<Rightarrow> True | Some c \<Rightarrow> vm_matches E c ad)
                                (FactoryClusterAds E q)) (length procs)
                      else [])
      in procs @ clusters)"

definition done_ad :: "('ad, 'ex, 'z) classad_ops_scheme \<Rightarrow> int \<Rightarrow> queue_counts \<Rightarrow> 'ad" where
  "done_ad A now counts =
     (let ad = set_int A ''Owner'' 0 (new_ad A);
          ad = set_int A ''ErrorCode'' 0 ad;
          ad = set_int A ''ServerTime'' now ad;
          ad = set_str A ''MyType'' ''Summary'' ad
      in fold (\<lambda>prefix ad.
             let ad = set_int A (prefix @ ''Jobs'') (int (n_Total counts)) ad;
                 ad = set_int A (prefix @ ''Idle'') (int (n_Idle counts)) ad;
                 ad = set_int A (prefix @ ''Running'') (int (n_Running counts)) ad;
                 ad = set_int A (prefix @ ''Removed'') (int (n_Removed counts)) ad;
                 ad = set_int A (prefix @ ''Completed'') (int (n_Completed counts)) ad;
                 ad = set_int A (prefix @ ''Held'') (int (n_Held counts)) ad
             in set_int A (prefix @ ''Suspended'') (int (n_Suspended counts)) ad)
           [''Allusers'', [], ''My''] ad)"

datatype 'ad query_reply = QJobAd 'ad "string list" bool | QDone 'ad

definition HandleQuery :: "('ad, 'ex, 's, 'h, 'z) ext_scheme \<Rightarrow> int \<Rightarrow> ('ad, 's, 'h) queue \<Rightarrow> string \<Rightarrow> 'ad \<Rightarrow>
    'ad query_reply list" where
  "HandleQuery E now q authUser queryAd =
     (let (query, projection) = buildQuery E q queryAd authUser;
          sendServerTime = bool_attr E queryAd ''SendServerTime'' True;
          summaryOnly = bool_attr E queryAd ''SummaryOnly'' False;
          limit = intAttr E queryAd ''LimitResults'' (-1);
          includeClusterAds = bool_attr E queryAd ''IncludeClusterAd'' False;
          noProcAds = bool_attr E queryAd ''NoProcAds'' False;
          ads = (if summaryOnly then [] else query_ads E q query noProcAds includeClusterAds limit);
          counts = (if summaryOnly then Counts E q else fold (tallyCount E) ads zero_counts)
      in map (\<lambda>ad. QJobAd ad projection sendServerTime) ads @ [QDone (done_ad E now counts)])"

end
