(* ===== verification/Identity.thy ===== *)
theory Identity
  imports Queue
begin

text \<open>
  \<open>internal/identity/identity.go\<close>: the name of an authenticated caller and the local account
  of a job. \<open>AuthorizationUser\<close> of the connection is an argument (\<open>None\<close> is a nil
  connection).
\<close>

abbreviation (input) unauthenticatedUser :: string where "unauthenticatedUser \<equiv> ''unauthenticated''"

definition Caller :: "('ad, 'ex, 's, 'h, 'z) ext_scheme \<Rightarrow> string option \<Rightarrow> string" where
  "Caller E c =
     (case c of
        None \<Rightarrow> []
      | Some authorizationUser \<Rightarrow>
          let user = trim_space authorizationUser;
              (name, domain) = split_fqu E user
          in if name = [] \<or> equal_fold name unauthenticatedUser \<or> equal_fold domain (unmapped_domain E)
             then [] else user)"

datatype account_err = NotLocalAccount string | AccountNotPermitted string

definition JobAccount :: "('ad, 'ex, 's, 'h, 'z) ext_scheme \<Rightarrow> 'ad \<Rightarrow> account_err + string" where
  "JobAccount E ad =
     (let user = str_attr0 E ad ''User'' in
      if equal_fold (snd (split_fqu E user)) (unmapped_domain E) then Inl (NotLocalAccount user)
      else
        let owner = trim_space (str_attr0 E ad ''Owner'') in
        if equal_fold owner unauthenticatedUser then Inl (NotLocalAccount owner)
        else if owner = ''root'' \<or> owner = ''LOCAL_SYSTEM'' then Inl (AccountNotPermitted owner)
        else if owner = ''condor'' then Inr []
        else Inr owner)"

end
