(* ===== verification/Spool.thy ===== *)
theory Spool
  imports Identity "HOL-Library.List_Lexorder" "HOL-Library.Char_ord" "HOL-Library.Word"
begin

text \<open>
  Sandbox spooling, \<open>internal/spool/spool.go\<close>: the sandbox of a job, the checks before and the rewrite of the job ad
  after its input was received, the choice of the output files to send back, and the sink that lands a received
  file, shared in shape with the shadow's.

  The file system and the file-transfer stream are the environment. What receiving a sandbox, sending one, creating a
  directory, \<open>os.Stat\<close> and \<open>filepath.WalkDir\<close> answer are arguments, and the operations the handlers ask the
  privilege-separation layer for are recorded. The values of a message are those decoded from it. Other
  connections may change the queue while files are transferred, by the argument \<open>meanwhile\<close>.
\<close>

unbundle bit_operations_syntax

section \<open>Paths\<close>

text \<open>\<open>filepath.Base\<close>, which is \<open>path.Base\<close> on Unix, and \<open>filepath.Dir\<close>.\<close>

definition path_base :: "string \<Rightarrow> string" where
  "path_base p =
     (if p = [] then ''.''
      else let q = rev (dropWhile (\<lambda>c. c = CHR ''/'') (rev p))
           in if q = [] then ''/'' else last (split_on CHR ''/'' q))"

definition path_dir :: "string \<Rightarrow> string" where
  "path_dir p =
     path_clean (case last_index_byte p CHR ''/'' of None \<Rightarrow> [] | Some i \<Rightarrow> take (Suc i) p)"

definition SandboxDir :: "string \<Rightarrow> int \<Rightarrow> int \<Rightarrow> string" where
  "SandboxDir spoolDir c p =
     path_join [spoolDir, itoa (go_mod c 10000), itoa (go_mod p 10000),
                ''cluster'' @ itoa c @ ''.proc'' @ itoa p @ ''.subproc0'']"

section \<open>Small helpers\<close>

abbreviation (input) SpoolingInput :: int where "SpoolingInput \<equiv> 16"

definition isNullFile :: "string \<Rightarrow> bool" where
  "isNullFile s = (s = [] \<or> s = ''/dev/null'' \<or> equal_fold s ''UNDEFINED'')"

abbreviation url_alpha :: "char \<Rightarrow> bool" where
  "url_alpha ch \<equiv> (let n = of_char ch :: nat in (97 \<le> n \<and> n \<le> 122) \<or> (65 \<le> n \<and> n \<le> 90))"

abbreviation url_other :: "char \<Rightarrow> bool" where
  "url_other ch \<equiv> (is_digit ch \<or> ch \<in> {CHR ''+'', CHR ''-'', CHR ''.''})"

definition isURL :: "string \<Rightarrow> bool" where
  "isURL s =
     (case index_str s ''://'' of
        None \<Rightarrow> False
      | Some i \<Rightarrow> i > 0 \<and> url_alpha (hd s) \<and> list_all (\<lambda>ch. url_alpha ch \<or> url_other ch) (take i s))"

abbreviation list_sep :: "char \<Rightarrow> bool" where
  "list_sep r \<equiv> (r \<in> {CHR '','', CHR '' '', CHR 0x09, CHR 0x0A})"

definition splitFileList :: "string \<Rightarrow> string list" where
  "splitFileList lst = filter (\<lambda>f. f \<noteq> []) (map trim_space (fields_func list_sep lst))"

definition jobIDsOf :: "('ad, 'ex, 'z) classad_ops_scheme \<Rightarrow> 'ad \<Rightarrow> int \<times> int \<times> bool" where
  "jobIDsOf A ad =
     (case (eval_int A ad ''ClusterId'', eval_int A ad ''ProcId'') of
        (Some c, Some p) \<Rightarrow> (c, p, True)
      | _ \<Rightarrow> (0, 0, False))"

definition moveAttr :: "('ad, 'ex, 'z) classad_ops_scheme \<Rightarrow> string \<Rightarrow> string \<Rightarrow> 'ad \<Rightarrow> 'ad" where
  "moveAttr A from to ad =
     (case lookup_attr A ad from of
        Some expr \<Rightarrow> delete_attr A from (insert_expr A to expr ad)
      | None \<Rightarrow> ad)"

section \<open>Rewriting a spooled job ad\<close>

definition transferExecutable :: "('ad, 'ex, 'z) classad_ops_scheme \<Rightarrow> 'ad \<Rightarrow> bool" where
  "transferExecutable A ad = (case eval_bool A ad ''TransferExecutable'' of Some b \<Rightarrow> b | None \<Rightarrow> True)"

definition rewriteBasename :: "('ad, 'ex, 'z) classad_ops_scheme \<Rightarrow> string \<Rightarrow> 'ad \<Rightarrow> 'ad" where
  "rewriteBasename A attr ad =
     (case eval_str A ad attr of
        None \<Rightarrow> ad
      | Some val \<Rightarrow>
          if val = [] \<or> isNullFile val then ad
          else let base = path_base val
               in if base = val then ad
                  else set_str A attr base (set_str A (''SUBMIT_'' @ attr) val ad))"

fun basename_list :: "string list \<Rightarrow> bool \<times> string list" where
  "basename_list [] = (False, [])"
| "basename_list (e # es) =
     (let (changed, out) = basename_list es; e = trim_space e
      in if e = [] then (changed, out)
         else if isURL e then (changed, e # out)
         else (path_base e \<noteq> e \<or> changed, path_base e # out))"

definition rewriteBasenameList :: "('ad, 'ex, 'z) classad_ops_scheme \<Rightarrow> string \<Rightarrow> 'ad \<Rightarrow> 'ad" where
  "rewriteBasenameList A attr ad =
     (case eval_str A ad attr of
        None \<Rightarrow> ad
      | Some val \<Rightarrow>
          if val = [] then ad
          else let (changed, out) = basename_list (split_on CHR '','' val)
               in if \<not> changed then ad
                  else set_str A attr (join_with '','' out) (set_str A (''SUBMIT_'' @ attr) val ad))"

definition suppressRemaps :: "('ad, 'ex, 'z) classad_ops_scheme \<Rightarrow> 'ad \<Rightarrow> 'ad" where
  "suppressRemaps A ad =
     (case eval_str A ad ''TransferOutputRemaps'' of
        Some remaps \<Rightarrow>
          if remaps \<noteq> []
          then delete_attr A ''TransferOutputRemaps'' (set_str A ''SUBMIT_TransferOutputRemaps'' remaps ad)
          else ad
      | None \<Rightarrow> ad)"

definition rewriteCmd :: "('ad, 'ex, 'z) classad_ops_scheme \<Rightarrow> 'ad \<Rightarrow> 'ad" where
  "rewriteCmd A ad = (if transferExecutable A ad then rewriteBasename A ''Cmd'' ad else ad)"

definition rewriteIn :: "('ad, 'ex, 'z) classad_ops_scheme \<Rightarrow> 'ad \<Rightarrow> 'ad" where
  "rewriteIn A ad =
     (if (case eval_bool A ad ''TransferIn'' of Some b \<Rightarrow> b | None \<Rightarrow> True) then rewriteBasename A ''In'' ad else ad)"

definition rewriteSpooledJobAd :: "('ad, 'ex, 'z) classad_ops_scheme \<Rightarrow> string \<Rightarrow> 'ad \<Rightarrow> 'ad" where
  "rewriteSpooledJobAd A spoolDir ad =
     (if has_attr A ad ''SUBMIT_Iwd'' then ad
      else
        let ad = set_str A ''SUBMIT_Iwd'' (str_attr0 A ad ''Iwd'') ad;
            ad = set_str A ''Iwd'' spoolDir ad;
            ad = suppressRemaps A ad;
            ad = rewriteCmd A ad;
            ad = rewriteIn A ad;
            ad = rewriteBasename A ''UserLog'' ad
        in rewriteBasenameList A ''TransferInput'' ad)"

definition releaseSpoolHold :: "('ad, 'ex, 'z) classad_ops_scheme \<Rightarrow> int \<Rightarrow> 'ad \<Rightarrow> 'ad" where
  "releaseSpoolHold A now ad =
     (let status = int_attr0 A ad ''JobStatus'' in
      if status \<noteq> StatusHeld then ad
      else
        let release = (case eval_int A ad ''JobStatusOnRelease'' of
                         Some v \<Rightarrow> if v > 0 then v else StatusIdle
                       | None \<Rightarrow> StatusIdle);
            ad = set_int A ''LastJobStatus'' status ad;
            ad = moveAttr A ''HoldReason'' ''LastHoldReason'' ad;
            ad = moveAttr A ''HoldReasonCode'' ''LastHoldReasonCode'' ad;
            ad = moveAttr A ''HoldReasonSubCode'' ''LastHoldReasonSubCode'' ad;
            ad = delete_attr A ''JobStatusOnRelease'' ad;
            ad = set_str A ''ReleaseReason'' ''Data files spooled'' ad;
            ad = set_int A ''JobStatus'' release ad;
            ad = set_int A ''EnteredCurrentStatus'' now ad
        in set_int A ''LastSuspensionTime'' 0 ad)"

section \<open>SPOOL_JOB_FILES\<close>

datatype spool_err =
    SpRead
  | SpBadCount int
  | SpNotFound int int
  | SpNotOwner string int int
  | SpAccount int int account_err
  | SpStaged int int
  | SpHeldOther int int int
  | SpMkdir string
  | SpReceive int int
  | SpConstraint string
  | SpSend int int

definition ownerOf :: "('ad, 'ex, 's, 'h, 'z) ext_scheme \<Rightarrow> ('ad, 's, 'h) queue \<Rightarrow> int \<Rightarrow> int \<Rightarrow> spool_err + string" where
  "ownerOf E q c p =
     (case Get E q c p of
        None \<Rightarrow> Inl (SpNotFound c p)
      | Some ad \<Rightarrow> (case JobAccount E ad of Inl e \<Rightarrow> Inl (SpAccount c p e) | Inr owner \<Rightarrow> Inr owner))"

definition preSpoolCheck :: "('ad, 'ex, 's, 'h, 'z) ext_scheme \<Rightarrow> string \<Rightarrow> int \<Rightarrow> int \<Rightarrow> int \<Rightarrow> ('ad, 's, 'h) queue \<Rightarrow>
    spool_err option \<times> ('ad, 's, 'h) queue" where
  "preSpoolCheck E authUser c p now q =
     (case Get E q c p of
        None \<Rightarrow> (Some (SpNotFound c p), q)
      | Some ad \<Rightarrow>
          if \<not> OwnsJobAd E q authUser (Some ad) then (Some (SpNotOwner authUser c p), q)
          else case JobAccount E ad of
                 Inl e \<Rightarrow> (Some (SpAccount c p e), q)
               | Inr _ \<Rightarrow>
                   if int_attr0 E ad ''StageInFinish'' \<noteq> 0 then (Some (SpStaged c p), q)
                   else if int_attr0 E ad ''JobStatus'' = StatusHeld \<and> int_attr0 E ad ''HoldReasonCode'' \<noteq> SpoolingInput
                        then (Some (SpHeldOther c p (int_attr0 E ad ''HoldReasonCode'')), q)
                   else (None, snd (Modify E q c p (set_int E ''StageInStart'' now))))"

definition finish_ad :: "('ad, 'ex, 'z) classad_ops_scheme \<Rightarrow> string \<Rightarrow> int \<Rightarrow> 'ad \<Rightarrow> 'ad" where
  "finish_ad A dir now ad =
     (let ad = (if int_attr0 A ad ''StageInFinish'' = 0 then set_int A ''StageInFinish'' (now - 1) ad else ad)
      in releaseSpoolHold A now (rewriteSpooledJobAd A dir ad))"

definition finishSpool :: "('ad, 'ex, 's, 'h, 'z) ext_scheme \<Rightarrow> string \<Rightarrow> int \<Rightarrow> int \<Rightarrow> int \<Rightarrow> ('ad, 's, 'h) queue \<Rightarrow>
    ('ad, 's, 'h) queue" where
  "finishSpool E spoolDir now c p q = snd (Modify E q c p (finish_ad E (SandboxDir spoolDir c p) now))"

text \<open>The \<open>{cluster, proc}\<close> pairs of the second message, whose integers are given.\<close>

fun read_pairs :: "nat \<Rightarrow> int list \<Rightarrow> (int \<times> int) list option" where
  "read_pairs 0 ints = Some []"
| "read_pairs (Suc n) (c # p # ints) = map_option (Cons (c, p)) (read_pairs n ints)"
| "read_pairs (Suc n) ints = None"

fun pre_spool_all :: "('ad, 'ex, 's, 'h, 'z) ext_scheme \<Rightarrow> string \<Rightarrow> int \<Rightarrow> (int \<times> int) list \<Rightarrow> ('ad, 's, 'h) queue \<Rightarrow>
    spool_err option \<times> ('ad, 's, 'h) queue" where
  "pre_spool_all E authUser now [] q = (None, q)"
| "pre_spool_all E authUser now (j # js) q =
     (case preSpoolCheck E authUser (fst j) (snd j) now q of
        (Some e, q) \<Rightarrow> (Some e, q)
      | (None, q) \<Rightarrow> pre_spool_all E authUser now js q)"

text \<open>A file of the sandbox: regular or not, its mode and its size.\<close>

record file_info =
  fi_regular :: bool
  fi_mode :: int
  fi_size :: int

text \<open>What the environment answers, and what a call asks of it.\<close>

record ('ad, 's, 'h) spool_env =
  se_mkdir :: "string \<Rightarrow> string \<Rightarrow> bool"
  se_receive :: "int \<Rightarrow> int \<Rightarrow> bool"
  se_send :: "int \<Rightarrow> int \<Rightarrow> bool"
  se_stat :: "string \<Rightarrow> file_info option"
  se_walk :: "string \<Rightarrow> (string \<times> file_info) list option option"
  se_meanwhile :: "('ad, 's, 'h) queue \<Rightarrow> ('ad, 's, 'h) queue"

text \<open>\<open>clk j\<close> is the clock when job \<open>j\<close> is written. The receiving loop: the sandboxes received, as pairs of account and directory.\<close>

fun receive_all :: "('ad, 'ex, 's, 'h, 'z) ext_scheme \<Rightarrow> ('ad, 's, 'h) spool_env \<Rightarrow> string \<Rightarrow> (int \<times> int) list \<Rightarrow>
    ('ad, 's, 'h) queue \<Rightarrow> spool_err option \<times> (string \<times> string) list \<times> ('ad, 's, 'h) queue" where
  "receive_all E env spoolDir [] q = (None, [], q)"
| "receive_all E env spoolDir (j # js) q =
     (let dir = SandboxDir spoolDir (fst j) (snd j) in
      case ownerOf E q (fst j) (snd j) of
        Inl e \<Rightarrow> (Some e, [], q)
      | Inr owner \<Rightarrow>
          if \<not> se_mkdir env owner dir then (Some (SpMkdir dir), [], q)
          else if \<not> se_receive env (fst j) (snd j) then (Some (SpReceive (fst j) (snd j)), [], se_meanwhile env q)
          else let (err, rs, q) = receive_all E env spoolDir js (se_meanwhile env q)
               in (err, (owner, dir) # rs, q))"

text \<open>
  The ownership changes asked for a received sandbox: only as root and for an account that resolves, every
  path the walk of the sandbox reaches.
\<close>

definition chownSandbox :: "int \<Rightarrow> (string \<Rightarrow> (int \<times> int) option) \<Rightarrow> (string \<Rightarrow> string list) \<Rightarrow> string \<times> string \<Rightarrow>
    (string \<times> int \<times> int) list" where
  "chownSandbox euid lookupUser paths od =
     (case od of (owner, dir) \<Rightarrow>
        if owner = [] \<or> euid \<noteq> 0 then []
        else case lookupUser owner of
               None \<Rightarrow> []
             | Some (uid, gid) \<Rightarrow> map (\<lambda>p. (p, uid, gid)) (paths dir))"

definition doSpool :: "('ad, 'ex, 's, 'h, 'z) ext_scheme \<Rightarrow> ('ad, 's, 'h) spool_env \<Rightarrow> string \<Rightarrow> int \<Rightarrow> (int \<times> int \<Rightarrow> int) \<Rightarrow> string \<Rightarrow> int option \<Rightarrow>
    int list \<Rightarrow> ('ad, 's, 'h) queue \<Rightarrow> spool_err option \<times> (string \<times> string) list \<times> ('ad, 's, 'h) queue" where
  "doSpool E env spoolDir now clk authUser count ints q =
     (case count of
        None \<Rightarrow> (Some SpRead, [], q)
      | Some n \<Rightarrow>
          if n \<le> 0 then (Some (SpBadCount n), [], q)
          else case read_pairs (nat n) ints of
                 None \<Rightarrow> (Some SpRead, [], q)
               | Some jobs \<Rightarrow>
                   (case pre_spool_all E authUser now jobs q of
                      (Some e, q) \<Rightarrow> (Some e, [], q)
                    | (None, q) \<Rightarrow>
                        (case receive_all E env spoolDir jobs q of
                           (Some e, rs, q) \<Rightarrow> (Some e, rs, q)
                         | (None, rs, q) \<Rightarrow>
                             (None, rs, fold (\<lambda>j. finishSpool E spoolDir (clk j) (fst j) (snd j)) jobs q))))"

section \<open>TRANSFER_DATA\<close>

definition transfer_ads :: "('ad, 'ex, 's, 'h, 'z) ext_scheme \<Rightarrow> ('ad, 's, 'h) queue \<Rightarrow> string \<Rightarrow> 'ad list \<Rightarrow> 'ad list" where
  "transfer_ads E q authUser ads =
     filter (\<lambda>ad. OwnsJobAd E q authUser (Some ad) \<and> (case JobAccount E ad of Inl _ \<Rightarrow> False | Inr _ \<Rightarrow> True)) ads"

record file_spec =
  fs_wire :: string
  fs_perm :: int
  fs_bytes :: int
  fs_src :: string

abbreviation perm_of :: "int \<Rightarrow> int" where
  "perm_of mode \<equiv> mode AND 0x1ff"

definition output_lists :: "('ad, 'ex, 'z) classad_ops_scheme \<Rightarrow> 'ad \<Rightarrow> string list option" where
  "output_lists A ad =
     (if str_attr0 A ad ''SpooledOutputFiles'' \<noteq> [] then Some (splitFileList (str_attr0 A ad ''SpooledOutputFiles''))
      else if str_attr0 A ad ''TransferOutput'' \<noteq> [] then Some (splitFileList (str_attr0 A ad ''TransferOutput''))
      else if str_attr0 A ad ''TransferOutputFiles'' \<noteq> []
           then Some (splitFileList (str_attr0 A ad ''TransferOutputFiles''))
      else None)"

abbreviation ride_along :: "('ad, 'ex, 'z) classad_ops_scheme \<Rightarrow> 'ad \<Rightarrow> string list" where
  "ride_along A ad \<equiv>
     List.map_filter (\<lambda>attr. case eval_str A ad attr of
                          Some v \<Rightarrow> if \<not> isNullFile v \<and> \<not> path_is_abs v then Some v else None
                        | None \<Rightarrow> None) [''Out'', ''Err'', ''UserLog'']"

text \<open>\<open>stat\<close> answers for a name: symbolic links are followed by the file system and do not show.\<close>

fun list_specs :: "(string \<Rightarrow> file_info option) \<Rightarrow> string \<Rightarrow> string list \<Rightarrow> string list \<Rightarrow> file_spec list" where
  "list_specs stat dir [] seen = []"
| "list_specs stat dir (n # ns) seen =
     (let name = path_clean n in
      if name = [] \<or> name = ''.'' \<or> name \<in> set seen \<or> has_prefix name ''../'' \<or> path_is_abs name
      then list_specs stat dir ns seen
      else let src = path_join [dir, name]; rest = list_specs stat dir ns (name # seen)
           in case stat src of
                Some info \<Rightarrow>
                  if fi_regular info
                  then \<lparr> fs_wire = name, fs_perm = perm_of (fi_mode info), fs_bytes = fi_size info, fs_src = src \<rparr> # rest
                  else rest
              | None \<Rightarrow> rest)"

text \<open>\<open>walk dir\<close>: \<open>None\<close> when the directory is missing, an error, or the files below it by relative path.\<close>

definition collectSandbox :: "(string \<Rightarrow> (string \<times> file_info) list option option) \<Rightarrow> string \<Rightarrow> (file_spec list \<times> int) option" where
  "collectSandbox walk dir =
     (case walk dir of
        None \<Rightarrow> Some ([], 0)
      | Some None \<Rightarrow> None
      | Some (Some files) \<Rightarrow>
          let specs = map (\<lambda>(rel, info). \<lparr> fs_wire = rel, fs_perm = perm_of (fi_mode info), fs_bytes = fi_size info,
                                           fs_src = path_join [dir, rel] \<rparr>)
                        (filter (\<lambda>(rel, info). fi_regular info) files)
          in Some (sort_key fs_wire specs, sum_list (map fs_bytes specs)))"

definition outputSpecs :: "('ad, 'ex, 'z) classad_ops_scheme \<Rightarrow> (string \<Rightarrow> file_info option) \<Rightarrow>
    (string \<Rightarrow> (string \<times> file_info) list option option) \<Rightarrow> 'ad \<Rightarrow> string \<Rightarrow> (file_spec list \<times> int) option" where
  "outputSpecs A stat walk ad dir =
     (case output_lists A ad of
        None \<Rightarrow> collectSandbox walk dir
      | Some names \<Rightarrow>
          let specs = list_specs stat dir (names @ ride_along A ad) []
          in Some (specs, sum_list (map fs_bytes specs)))"

text \<open>
  What is sent back for a job: its ad, then the sandbox as a sender stream, the total size first, each file
  read as the account of the job, and the end with our acknowledgement.
\<close>

datatype 'ad xfer_msg = XCount nat | XJobAd 'ad | XPreamble int | XFile string file_spec | XFinished | XAck

definition sendSandbox :: "('ad, 'ex, 's, 'h, 'z) ext_scheme \<Rightarrow> ('ad, 's, 'h) spool_env \<Rightarrow> string \<Rightarrow> 'ad \<Rightarrow> int \<Rightarrow> int \<Rightarrow>
    'ad xfer_msg list option" where
  "sendSandbox E env spoolDir ad c p =
     (case JobAccount E ad of
        Inl _ \<Rightarrow> None
      | Inr owner \<Rightarrow>
          (case outputSpecs E (se_stat env) (se_walk env) ad (SandboxDir spoolDir c p) of
             None \<Rightarrow> None
           | Some (specs, bytes) \<Rightarrow>
               if se_send env c p then Some ([XPreamble bytes] @ map (XFile owner) specs @ [XFinished, XAck]) else None))"

fun send_all :: "('ad, 'ex, 's, 'h, 'z) ext_scheme \<Rightarrow> ('ad, 's, 'h) spool_env \<Rightarrow> string \<Rightarrow> (int \<times> int \<Rightarrow> int) \<Rightarrow> 'ad list \<Rightarrow>
    ('ad, 's, 'h) queue \<Rightarrow> spool_err option \<times> 'ad xfer_msg list \<times> ('ad, 's, 'h) queue" where
  "send_all E env spoolDir clk [] q = (None, [], q)"
| "send_all E env spoolDir clk (ad # ads) q =
     (case jobIDsOf E ad of (cl, pr, _) \<Rightarrow>
        (case sendSandbox E env spoolDir ad cl pr of
           None \<Rightarrow> (Some (SpSend cl pr), [XJobAd ad], se_meanwhile env q)
         | Some sent \<Rightarrow>
             let (err, more, q) = send_all E env spoolDir clk ads
                   (snd (Modify E (se_meanwhile env q) cl pr (set_int E ''StageOutFinish'' (clk (cl, pr)))))
             in (err, XJobAd ad # sent @ more, q)))"

definition doTransfer :: "('ad, 'ex, 's, 'h, 'z) ext_scheme \<Rightarrow> ('ad, 's, 'h) spool_env \<Rightarrow> string \<Rightarrow> (int \<times> int \<Rightarrow> int) \<Rightarrow> string \<Rightarrow>
    string option \<Rightarrow> ('ad, 's, 'h) queue \<Rightarrow> spool_err option \<times> 'ad xfer_msg list \<times> ('ad, 's, 'h) queue" where
  "doTransfer E env spoolDir clk authUser constraint q =
     (case constraint of
        None \<Rightarrow> (Some SpRead, [], q)
      | Some c \<Rightarrow>
          (case SpoolQuery E q c of
             None \<Rightarrow> (Some (SpConstraint c), [], q)
           | Some ads \<Rightarrow>
               let owned = transfer_ads E q authUser ads;
                   (err, sent, q) = send_all E env spoolDir clk owned q
               in (err, XCount (length owned) # sent, q)))"

section \<open>Sinks\<close>

text \<open>The destination of a received name below \<open>base\<close>; \<open>None\<close> is the refusal.\<close>

definition dest :: "string \<Rightarrow> string \<Rightarrow> string option" where
  "dest base name =
     (let clean = path_clean name in
      if path_is_abs clean \<or> clean = ''..'' \<or> has_prefix clean ''../'' then None
      else Some (path_join [base, clean]))"

datatype fs_op = FsMkdirAll string string | FsCreate string string int

definition sink_Mkdir :: "string \<Rightarrow> string \<Rightarrow> string \<Rightarrow> fs_op list option" where
  "sink_Mkdir base owner name = (case dest base name of None \<Rightarrow> None | Some dst \<Rightarrow> Some [FsMkdirAll owner dst])"

definition sink_File :: "string \<Rightarrow> string \<Rightarrow> string \<Rightarrow> int \<Rightarrow> fs_op list option" where
  "sink_File base owner name mode =
     (case dest base name of
        None \<Rightarrow> None
      | Some dst \<Rightarrow>
          Some [FsMkdirAll owner (path_dir dst),
                FsCreate owner dst (if perm_of mode = 0 then 0x1a4 else perm_of mode)])"

end
