(* ===== verification/SpoolProps.thy ===== *)
theory SpoolProps
  imports Spool SchedProps
begin

text \<open>
  Where received files may land, what is sent back to whom, and what finishing a spool does to the job.
\<close>

section \<open>Clean paths\<close>

definition path_comps :: "string \<Rightarrow> string list" where
  "path_comps p = clean_comps (path_is_abs p) [] (split_on CHR ''/'' p)"

definition plain :: "string \<Rightarrow> bool" where
  "plain c = (c \<noteq> [] \<and> c \<noteq> ''.'' \<and> c \<noteq> ''..'')"

lemma clean_comps_append:
  "clean_comps r acc (xs @ ys) = clean_comps r (rev (clean_comps r acc xs)) ys"
  by (induction r acc xs rule: clean_comps.induct) (auto split: list.split)

lemma clean_comps_plain: "list_all plain ys \<Longrightarrow> clean_comps r acc ys = rev acc @ ys"
  by (induction ys arbitrary: acc) (auto simp: plain_def)

lemma clean_comps_shape:
  assumes "\<exists>n zs. acc = zs @ replicate n ''..'' \<and> list_all plain zs"
  shows "\<exists>n zs. clean_comps False acc xs = replicate n ''..'' @ zs \<and> list_all plain zs"
  using assms
proof (induction xs arbitrary: acc)
  case Nil
  then show ?case by (auto simp: list_all_iff intro!: exI [of _ "rev _"])
next
  case (Cons c cs)
  note IH = Cons.IH
  obtain n zs where acc: "acc = zs @ replicate n ''..''" "list_all plain zs" using Cons.prems by blast
  consider "c = [] \<or> c = ''.''" | "c = ''..''" | "plain c" by (auto simp: plain_def)
  then show ?case
  proof cases
    case 1
    then show ?thesis using Cons by auto
  next
    case 2
    show ?thesis
    proof (cases zs)
      case Nil
      have "clean_comps False acc (c # cs) = clean_comps False (replicate (Suc n) ''..'') cs"
        using 2 acc Nil by (cases n) simp_all
      then show ?thesis using IH [of "replicate (Suc n) ''..''"] by (metis append_Nil list.pred_inject(1))
    next
      case (Cons z zs')
      then have "clean_comps False acc (c # cs) = clean_comps False (zs' @ replicate n ''..'') cs"
        using 2 acc by (simp add: plain_def)
      then show ?thesis using IH [of "zs' @ replicate n ''..''"] acc(2) Cons by auto
    qed
  next
    case 3
    then have "clean_comps False acc (c # cs) = clean_comps False ((c # zs) @ replicate n ''..'') cs"
      using acc by (simp add: plain_def)
    moreover have "list_all plain (c # zs)" using 3 acc(2) by simp
    ultimately show ?thesis using IH [of "(c # zs) @ replicate n ''..''"] by metis
  qed
qed

lemma clean_rel_shape:
  "\<exists>n zs. clean_comps False [] xs = replicate n ''..'' @ zs \<and> list_all plain zs"
  by (rule clean_comps_shape) (intro exI [of _ 0] exI [of _ "[]"], simp)

lemma split_join_on: "cs \<noteq> [] \<Longrightarrow> list_all (\<lambda>f. c \<notin> set f) cs \<Longrightarrow> split_on c (join_with [c] cs) = cs"
proof (induction cs)
  case (Cons s cs)
  have "split_on c s = [s]" using Cons.prems(2) by (induction s) auto
  then show ?case using Cons by (cases cs) (simp_all add: split_on_append)
qed simp

lemma split_on_snoc: "split_on c (a @ [c] @ b) = split_on c a @ split_on c b"
  by (induction a) (auto split: list.split)

lemma clean_no_slash:
  "x \<noteq> CHR ''.'' \<Longrightarrow> list_all (\<lambda>f. x \<notin> set f) acc \<Longrightarrow> list_all (\<lambda>f. x \<notin> set f) cs \<Longrightarrow>
   list_all (\<lambda>f. x \<notin> set f) (clean_comps r acc cs)"
proof (induction cs arbitrary: acc)
  case Nil
  then show ?case by (simp add: list_all_iff)
next
  case (Cons c cs)
  then show ?case by (cases acc; cases "c = ''..''"; cases "c = [] \<or> c = ''.''") (simp_all split: if_split)
qed

lemma path_comps_no_slash: "list_all (\<lambda>f. CHR ''/'' \<notin> set f) (path_comps p)"
  unfolding path_comps_def by (rule clean_no_slash) (auto simp: list_all_iff dest: split_on_no_sep)

lemma clean_rel:
  assumes "\<not> path_is_abs name" and "path_clean name \<noteq> ''..''" and "\<not> has_prefix (path_clean name) ''../''"
  shows "list_all plain (path_comps name)"
proof -
  obtain n zs where sh: "path_comps name = replicate n ''..'' @ zs" "list_all plain zs"
    using clean_rel_shape [of "split_on CHR ''/'' name"] assms(1) unfolding path_comps_def by auto
  have cl: "path_clean name = (if join_with ''/'' (path_comps name) = [] then ''.'' else join_with ''/'' (path_comps name))"
    using assms(1) by (simp add: path_clean_def path_comps_def Let_def)
  have "n = 0"
  proof (rule ccontr)
    assume "n \<noteq> 0"
    then obtain m where n: "n = Suc m" by (cases n) auto
    have "path_clean name = ''..'' \<or> has_prefix (path_clean name) ''../''"
      unfolding cl sh(1) n by (cases "replicate m ''..'' @ zs") (simp_all add: has_prefix_def)
    then show False using assms(2,3) by blast
  qed
  then show ?thesis using sh by simp
qed

lemma join_head:
  assumes "cs \<noteq> []" and "list_all (\<lambda>f. f \<noteq> [] \<and> x \<notin> set f) cs"
  shows "\<exists>y ys. join_with sep cs = y # ys \<and> y \<noteq> x"
proof -
  obtain c cs' where cs: "cs = c # cs'" using assms(1) by (cases cs) auto
  obtain y ys where c: "c = y # ys" using assms(2) cs by (cases c) auto
  have "y \<noteq> x" using assms(2) cs c by auto
  then show ?thesis by (cases cs') (simp_all add: cs c)
qed

lemma clean_comps_rooted: "list_all plain acc \<Longrightarrow> list_all plain (clean_comps True acc xs)"
proof (induction xs arbitrary: acc)
  case (Cons c cs)
  then show ?case by (cases acc) (simp_all add: plain_def)
qed (simp add: list_all_iff)

lemma clean_comps_dots: "clean_comps False (replicate m ''..'') (replicate n ''..'' @ zs) = clean_comps False (replicate (m + n) ''..'') zs"
proof (induction n arbitrary: m)
  case (Suc n)
  then show ?case using Suc [of "Suc m"] by (cases m) simp_all
qed simp

lemma path_comps_fixed: "clean_comps (path_is_abs p) [] (path_comps p) = path_comps p"
proof (cases "path_is_abs p")
  case True
  then show ?thesis
    using clean_comps_plain [OF clean_comps_rooted [of "[]" "split_on CHR ''/'' p"], of True "[]"] by (simp add: path_comps_def)
next
  case False
  obtain n zs where sh: "path_comps p = replicate n ''..'' @ zs" "list_all plain zs"
    using clean_rel_shape [of "split_on CHR ''/'' p"] False unfolding path_comps_def by auto
  then show ?thesis using False clean_comps_dots [of 0 n zs] clean_comps_plain [OF sh(2), of False "replicate n ''..''"] by simp
qed

lemma plain_nonempty: "list_all plain zs \<Longrightarrow> list_all (\<lambda>f. f \<noteq> []) zs"
  by (induction zs) (simp_all add: plain_def)

lemma path_comps_parts: "list_all (\<lambda>f. f \<noteq> [] \<and> CHR ''/'' \<notin> set f) (path_comps p)"
proof -
  have "list_all (\<lambda>f. f \<noteq> []) (path_comps p)"
  proof (cases "path_is_abs p")
    case True
    then show ?thesis
      using plain_nonempty [OF clean_comps_rooted [of "[]" "split_on CHR ''/'' p"]] by (simp add: path_comps_def)
  next
    case False
    obtain n zs where sh: "path_comps p = replicate n ''..'' @ zs" "list_all plain zs"
      using clean_rel_shape [of "split_on CHR ''/'' p"] False unfolding path_comps_def by auto
    have "list_all (\<lambda>f. f \<noteq> []) (replicate n ''..'')" by (induction n) simp_all
    then show ?thesis using sh(1) plain_nonempty [OF sh(2)] by simp
  qed
  then show ?thesis using path_comps_no_slash [of p] by (simp add: list_all_iff)
qed

lemma join_comps_head: "path_comps p \<noteq> [] \<Longrightarrow> \<exists>y ys. join_with ''/'' (path_comps p) = y # ys \<and> y \<noteq> CHR ''/''"
  by (rule join_head [OF _ path_comps_parts])

lemma path_clean_comps:
  "path_clean p = (if path_is_abs p then CHR ''/'' # join_with ''/'' (path_comps p)
                   else if path_comps p = [] then ''.'' else join_with ''/'' (path_comps p))"
proof -
  have e: "path_clean p = (if path_is_abs p then CHR ''/'' # join_with ''/'' (path_comps p)
      else if join_with ''/'' (path_comps p) = [] then ''.'' else join_with ''/'' (path_comps p))"
    unfolding path_clean_def path_comps_def Let_def ..
  show ?thesis
  proof (cases "path_comps p = []")
    case False
    then obtain y ys where "join_with ''/'' (path_comps p) = y # ys" using join_comps_head by blast
    then show ?thesis using False by (simp add: e)
  qed (simp add: e)
qed

lemma abs_Cons [simp]: "path_is_abs (y # ys) = (y = CHR ''/'')" "\<not> path_is_abs []"
  by (simp_all add: path_is_abs_def has_prefix_def)

lemma abs_clean: "path_is_abs (path_clean p) = path_is_abs p"
proof (cases "path_comps p = []")
  case False
  then obtain y ys where "join_with ''/'' (path_comps p) = y # ys" "y \<noteq> CHR ''/''" using join_comps_head by blast
  then show ?thesis using False by (simp add: path_clean_comps)
qed (simp add: path_clean_comps)

lemma path_clean_nonempty: "path_clean p \<noteq> []"
proof (cases "path_comps p = []")
  case False
  then obtain y ys where "join_with ''/'' (path_comps p) = y # ys" using join_comps_head by blast
  then show ?thesis using False by (simp add: path_clean_comps)
qed (simp add: path_clean_comps)

lemma split_comps: "clean_comps r acc (split_on CHR ''/'' (join_with ''/'' (path_comps p))) = clean_comps r acc (path_comps p)"
  using split_join_on [of "path_comps p" "CHR ''/''"] path_comps_no_slash [of p] by (cases "path_comps p = []") simp_all

lemma path_comps_clean: "path_comps (path_clean p) = path_comps p"
proof -
  have "path_comps (path_clean p) = clean_comps (path_is_abs p) [] (split_on CHR ''/'' (path_clean p))"
    by (simp only: path_comps_def abs_clean)
  also have "\<dots> = clean_comps (path_is_abs p) [] (path_comps p)"
    using split_comps [of _ "[]" p] by (cases "path_is_abs p"; cases "path_comps p = []") (simp_all add: path_clean_comps)
  finally show ?thesis by (simp only: path_comps_fixed)
qed

lemma path_join_comps:
  assumes "list_all plain (path_comps name)" and "\<not> path_is_abs name"
  shows "path_comps (path_join [base, path_clean name]) = path_comps base @ path_comps name \<and>
     path_is_abs (path_join [base, path_clean name]) = path_is_abs base"
proof -
  note ne = path_clean_nonempty [of name]
  have cl: "clean_comps r acc (split_on CHR ''/'' (path_clean name)) = rev acc @ path_comps name" for r acc
    using assms split_comps [of r acc name] clean_comps_plain [OF assms(1)]
    by (cases "path_comps name = []") (simp_all add: path_clean_comps)
  show ?thesis
  proof (cases "base = []")
    case True
    then show ?thesis using ne assms(2) by (simp add: path_join_def path_comps_clean abs_clean path_comps_def [of "[]"])
  next
    case False
    let ?p = "base @ ''/'' @ path_clean name"
    have a: "path_is_abs ?p = path_is_abs base" using False by (cases base) simp_all
    have "path_comps ?p = path_comps base @ path_comps name"
      unfolding path_comps_def [of ?p] a split_on_snoc clean_comps_append cl by (simp add: path_comps_def [of base])
    then show ?thesis using False ne a by (simp add: path_join_def path_comps_clean abs_clean)
  qed
qed

text \<open>
  C31. A received file never leaves its sandbox: whatever name the peer sends, the destination a sink accepts has the
  components of the sandbox directory followed by components none of which is dot-dot, and is absolute exactly when the
  sandbox is.
\<close>

theorem sink_confined:
  assumes "dest base name = Some dst"
  shows "\<exists>rest. path_comps dst = path_comps base @ rest \<and> ''..'' \<notin> set rest \<and> path_is_abs dst = path_is_abs base"
proof -
  have d: "dst = path_join [base, path_clean name]" "\<not> path_is_abs name" "path_clean name \<noteq> ''..''"
      "\<not> has_prefix (path_clean name) ''../''"
    using assms by (auto simp: dest_def Let_def abs_clean split: if_splits)
  note p = clean_rel [OF d(2-4)]
  have "''..'' \<notin> set (path_comps name)" using p by (auto simp: list_all_iff plain_def)
  then show ?thesis using path_join_comps [OF p d(2), of base] d(1) by blast
qed

theorem sink_confined_witness:
  "dest ''/spool/1/0/sb'' ''a/../../../etc/passwd'' = None \<and> dest ''/spool/1/0/sb'' ''out/../data//x'' = Some ''/spool/1/0/sb/data/x'' \<and>
   (\<exists>rest. path_comps ''/spool/1/0/sb/data/x'' = path_comps ''/spool/1/0/sb'' @ rest \<and> ''..'' \<notin> set rest)"
proof -
  have "dest ''/spool/1/0/sb'' ''a/../../../etc/passwd'' = None"
    "dest ''/spool/1/0/sb'' ''out/../data//x'' = Some ''/spool/1/0/sb/data/x''" by code_simp+
  then show ?thesis using sink_confined by blast
qed

section \<open>What is sent back\<close>

text \<open>A name relative to a directory that does not leave it.\<close>

definition below :: "string \<Rightarrow> bool" where
  "below rel = (path_clean rel = rel \<and> \<not> path_is_abs rel \<and> list_all plain (path_comps rel))"

definition in_dir :: "string \<Rightarrow> string \<Rightarrow> bool" where
  "in_dir dir p = (\<exists>rest. path_comps p = path_comps dir @ rest \<and> ''..'' \<notin> set rest)"

lemma below_in_dir:
  assumes "list_all plain (path_comps rel)" and "\<not> path_is_abs rel"
  shows "in_dir dir (path_join [dir, path_clean rel])"
proof -
  have "''..'' \<notin> set (path_comps rel)" using assms(1) by (auto simp: list_all_iff plain_def)
  then show ?thesis using path_join_comps [OF assms, of dir] by (auto simp: in_dir_def)
qed

lemma list_specs_in_dir:
  assumes "\<And>info. stat (path_join [dir, ''..'']) = Some info \<Longrightarrow> \<not> fi_regular info"
  shows "spec \<in> set (list_specs stat dir ns seen) \<Longrightarrow> in_dir dir (fs_src spec)"
proof (induction ns arbitrary: seen)
  case (Cons n ns)
  show ?case
  proof (cases "spec \<in> set (list_specs stat dir ns seen) \<or> spec \<in> set (list_specs stat dir ns (path_clean n # seen))")
    case True
    then show ?thesis using Cons.IH by blast
  next
    case False
    then have n: "fs_src spec = path_join [dir, path_clean n]" "\<not> has_prefix (path_clean n) ''../''" "\<not> path_is_abs (path_clean n)"
      "\<exists>info. stat (path_join [dir, path_clean n]) = Some info \<and> fi_regular info"
      using Cons.prems by (auto simp: Let_def split: if_splits option.splits)
    then have d: "path_clean n \<noteq> ''..''" using assms by auto
    have a: "\<not> path_is_abs n" using n(3) by (simp add: abs_clean)
    show ?thesis using below_in_dir [OF clean_rel [OF a d n(2)] a] n(1) by simp
  qed
qed simp

text \<open>
  What the file system answers: the parent of a sandbox is no regular file, and a walk gives names below the
  directory it walks.
\<close>

definition fs_ok :: "('ad, 's, 'h) spool_env \<Rightarrow> string \<Rightarrow> bool" where
  "fs_ok env spoolDir =
     ((\<forall>c p info. se_stat env (path_join [SandboxDir spoolDir c p, ''..'']) = Some info \<longrightarrow> \<not> fi_regular info) \<and>
      (\<forall>dir files rel info. se_walk env dir = Some (Some files) \<longrightarrow> (rel, info) \<in> set files \<longrightarrow> below rel))"

lemma specs_in_dir:
  assumes "fs_ok env spoolDir" and "dir = SandboxDir spoolDir c p"
    and "outputSpecs E (se_stat env) (se_walk env) ad dir = Some (specs, n)" and "spec \<in> set specs"
  shows "in_dir dir (fs_src spec)"
proof (cases "output_lists E ad")
  case None
  then obtain files rel info where w: "se_walk env dir = Some (Some files)" and
    r: "(rel, info) \<in> set files" "fs_src spec = path_join [dir, rel]"
    using assms(3,4) by (auto simp: outputSpecs_def collectSandbox_def Let_def split: option.splits)
  then have "below rel" using assms(1) w unfolding fs_ok_def by blast
  then show ?thesis using below_in_dir [of rel dir] r(2) by (simp add: below_def)
next
  case (Some names)
  then show ?thesis using assms list_specs_in_dir [of "se_stat env" dir]
    by (auto simp: outputSpecs_def fs_ok_def Let_def)
qed

definition served :: "('ad, 'ex, 's, 'h, 'z) ext_scheme \<Rightarrow> string \<Rightarrow> 'ad set \<Rightarrow> 'ad xfer_msg \<Rightarrow> bool" where
  "served E spoolDir ads m =
     (case m of
        XJobAd ad \<Rightarrow> ad \<in> ads
      | XFile owner spec \<Rightarrow>
          (\<exists>ad \<in> ads. JobAccount E ad = Inr owner \<and>
             in_dir (SandboxDir spoolDir (fst (jobIDsOf E ad)) (fst (snd (jobIDsOf E ad)))) (fs_src spec))
      | _ \<Rightarrow> True)"

lemma send_all_served:
  assumes "fs_ok env spoolDir" and "send_all E env spoolDir clk ads q = (err, msgs, q')"
  shows "\<forall>m \<in> set msgs. served E spoolDir (set ads) m"
  using assms(2)
proof (induction ads arbitrary: q err msgs q')
  case (Cons ad ads)
  have mono: "served E spoolDir (set ads) m \<Longrightarrow> served E spoolDir (set (ad # ads)) m" for m
    by (cases m) (auto simp: served_def)
  obtain c p b where ids: "jobIDsOf E ad = (c, p, b)" by (cases "jobIDsOf E ad")
  show ?case
  proof (cases "sendSandbox E env spoolDir ad c p")
    case None
    then show ?thesis using Cons.prems ids by (auto simp: served_def)
  next
    case (Some sent)
    let ?q = "snd (Modify E (se_meanwhile env q) c p (set_int E ''StageOutFinish'' (clk (c, p))))"
    obtain err2 more q2 where rec: "send_all E env spoolDir clk ads ?q = (err2, more, q2)" by (cases "send_all E env spoolDir clk ads ?q")
    obtain owner specs n where o: "JobAccount E ad = Inr owner"
      "outputSpecs E (se_stat env) (se_walk env) ad (SandboxDir spoolDir c p) = Some (specs, n)"
      "sent = [XPreamble n] @ map (XFile owner) specs @ [XFinished, XAck]"
      using Some by (auto simp: sendSandbox_def split: sum.splits option.splits if_splits)
    have "served E spoolDir (set (ad # ads)) m" if "m \<in> set sent" for m
      using that o ids specs_in_dir [OF assms(1) refl o(2)] by (auto simp: served_def)
    moreover have "served E spoolDir (set (ad # ads)) m" if "m \<in> set more" for m
      using mono Cons.IH [OF rec] that by blast
    moreover have "msgs = XJobAd ad # sent @ more" using Cons.prems ids Some rec by simp
    ultimately show ?thesis by (auto simp: served_def)
  qed
qed simp

text \<open>
  C35. TRANSFER_DATA sends a caller nothing of somebody else: every job ad sent is of a job the caller owns, or any if it
  is a super user, and every file sent is read as the account of such a job and lies in the sandbox of that job,
  whatever names the job ad lists.
\<close>

theorem transfer_confined:
  assumes "fs_ok env spoolDir" and "doTransfer E env spoolDir clk authUser constraint q = (err, msgs, q')"
  shows "\<forall>m \<in> set msgs. served E spoolDir {ad. OwnsJobAd E q authUser (Some ad)} m"
proof -
  have mono: "served E spoolDir A m \<Longrightarrow> A \<subseteq> B \<Longrightarrow> served E spoolDir B m" for A B m
    by (cases m) (auto simp: served_def)
  have own: "set (transfer_ads E q authUser ads) \<subseteq> {ad. OwnsJobAd E q authUser (Some ad)}" for ads
    by (auto simp: transfer_ads_def)
  show ?thesis
  proof (cases "constraint = None \<or> SpoolQuery E q (the constraint) = None")
    case True
    then show ?thesis using assms(2) by (auto simp: doTransfer_def split: option.splits)
  next
    case False
    then obtain c ads where c: "constraint = Some c" "SpoolQuery E q c = Some ads" by auto
    let ?own = "transfer_ads E q authUser ads"
    obtain e sent q2 where r: "send_all E env spoolDir clk ?own q = (e, sent, q2)" by (cases "send_all E env spoolDir clk ?own q")
    have "msgs = XCount (length ?own) # sent" using assms(2) c r by (simp add: doTransfer_def Let_def)
    moreover have "served E spoolDir {ad. OwnsJobAd E q authUser (Some ad)} m" if "m \<in> set sent" for m
      using send_all_served [OF assms(1) r] that mono own by blast
    ultimately show ?thesis by (simp add: served_def)
  qed
qed

text \<open>A spool directory whose every sandbox holds one file.\<close>

definition ref_out_env :: "(ref_ad, ref_store, ref_ad list) spool_env" where
  "ref_out_env = \<lparr> se_mkdir = (\<lambda>_ _. True), se_receive = (\<lambda>_ _. True), se_send = (\<lambda>_ _. True), se_stat = (\<lambda>_. None),
     se_walk = (\<lambda>_. Some (Some [(''out.txt'', \<lparr> fi_regular = True, fi_mode = 420, fi_size = 7 \<rparr>)])),
     se_meanwhile = (\<lambda>q. q) \<rparr>"

definition ref_sent :: "string \<Rightarrow> ref_ad xfer_msg list" where
  "ref_sent u = fst (snd (doTransfer refE ref_out_env ''/spool'' (\<lambda>_. 1000) u (Some ''true'') ref_q1))"

definition file_of :: "'ad xfer_msg \<Rightarrow> (string \<times> string) option" where
  "file_of m = (case m of XFile owner spec \<Rightarrow> Some (owner, fs_src spec) | _ \<Rightarrow> None)"

theorem transfer_confined_witness:
  "List.map_filter file_of (ref_sent ''alice@pool'') =
     [(''alice'', ''/spool/1/0/cluster1.proc0.subproc0/out.txt''), (''alice'', ''/spool/1/1/cluster1.proc1.subproc0/out.txt'')] \<and>
   List.map_filter file_of (ref_sent ''bob@pool'') = [] \<and>
   list_all (served refE ''/spool'' {ad. OwnsJobAd refE ref_q1 ''alice@pool'' (Some ad)}) (ref_sent ''alice@pool'')"
proof -
  have "below ''out.txt''" by code_simp
  then have ok: "fs_ok ref_out_env ''/spool''" by (auto simp: fs_ok_def ref_out_env_def)
  have "List.map_filter file_of (ref_sent ''alice@pool'') =
      [(''alice'', ''/spool/1/0/cluster1.proc0.subproc0/out.txt''), (''alice'', ''/spool/1/1/cluster1.proc1.subproc0/out.txt'')]"
    "List.map_filter file_of (ref_sent ''bob@pool'') = []" by code_simp+
  then show ?thesis unfolding ref_sent_def list_all_iff using transfer_confined [OF ok] by (metis prod.collapse)
qed

section \<open>Finishing a spool\<close>

lemma spool_lower [go_simps]:
  "to_lower ''StageInFinish'' = ''stageinfinish''" "to_lower ''SUBMIT_Iwd'' = ''submit_iwd''" "to_lower ''Iwd'' = ''iwd''"
  "to_lower ''TransferOutputRemaps'' = ''transferoutputremaps''"
  "to_lower ''SUBMIT_TransferOutputRemaps'' = ''submit_transferoutputremaps''"
  "to_lower ''Cmd'' = ''cmd''" "to_lower ''In'' = ''in''" "to_lower ''UserLog'' = ''userlog''"
  "to_lower ''TransferInput'' = ''transferinput''" "to_lower ''SUBMIT_Cmd'' = ''submit_cmd''" "to_lower ''SUBMIT_In'' = ''submit_in''"
  "to_lower ''SUBMIT_UserLog'' = ''submit_userlog''" "to_lower ''SUBMIT_TransferInput'' = ''submit_transferinput''"
  "to_lower ''LastHoldReason'' = ''lastholdreason''" "to_lower ''LastHoldReasonCode'' = ''lastholdreasoncode''"
  "to_lower ''LastHoldReasonSubCode'' = ''lastholdreasonsubcode''" "to_lower ''LastSuspensionTime'' = ''lastsuspensiontime''"
  by code_simp+

context classad
begin

lemma rewriteBasename_lookup:
  "to_lower attr \<noteq> to_lower n \<Longrightarrow> to_lower (''SUBMIT_'' @ attr) \<noteq> to_lower n \<Longrightarrow>
   lookup_attr A (rewriteBasename A attr ad) n = lookup_attr A ad n"
  by (simp add: rewriteBasename_def Let_def lookup_set_str split: option.split)

lemma rewriteBasenameList_lookup:
  "to_lower attr \<noteq> to_lower n \<Longrightarrow> to_lower (''SUBMIT_'' @ attr) \<noteq> to_lower n \<Longrightarrow>
   lookup_attr A (rewriteBasenameList A attr ad) n = lookup_attr A ad n"
  by (simp add: rewriteBasenameList_def Let_def case_prod_beta lookup_set_str split: option.split)

lemma moveAttr_lookup:
  "to_lower from \<noteq> to_lower n \<Longrightarrow> to_lower to \<noteq> to_lower n \<Longrightarrow> lookup_attr A (moveAttr A from to ad) n = lookup_attr A ad n"
  by (simp add: moveAttr_def lookup_insert lookup_delete split: option.split)

lemma rewrite_steps_lookup:
  assumes "n \<in> {''JobStatus'', ''JobStatusOnRelease''}"
  shows "lookup_attr A (suppressRemaps A ad) n = lookup_attr A ad n" "lookup_attr A (rewriteCmd A ad) n = lookup_attr A ad n"
    "lookup_attr A (rewriteIn A ad) n = lookup_attr A ad n"
  using assms by (auto simp: suppressRemaps_def rewriteCmd_def rewriteIn_def rewriteBasename_lookup lookup_set_str lookup_delete
        go_simps split: option.split)

lemma rewrite_spooled_lookup:
  "n \<in> {''JobStatus'', ''JobStatusOnRelease''} \<Longrightarrow> lookup_attr A (rewriteSpooledJobAd A dir ad) n = lookup_attr A ad n"
  using rewrite_steps_lookup [of n]
  by (auto simp: rewriteSpooledJobAd_def rewriteBasename_lookup rewriteBasenameList_lookup lookup_set_str go_simps Let_def)

lemma finish_lookup:
  assumes "lookup_attr A ad ''JobStatus'' = Some (li StatusHeld)" and "lookup_attr A ad ''JobStatusOnRelease'' = None"
  shows "lookup_attr A (finish_ad A dir now ad) ''JobStatus'' = Some (li StatusIdle)"
proof -
  let ?ad = "rewriteSpooledJobAd A dir (if int_attr0 A ad ''StageInFinish'' = 0 then set_int A ''StageInFinish'' (now - 1) ad else ad)"
  have "lookup_attr A ?ad ''JobStatus'' = Some (li StatusHeld)" "lookup_attr A ?ad ''JobStatusOnRelease'' = None"
    using assms by (simp_all add: rewrite_spooled_lookup lookup_set_int go_simps)
  then have "int_attr0 A ?ad ''JobStatus'' = StatusHeld" "eval_int A ?ad ''JobStatusOnRelease'' = None"
    by (simp_all add: int_attr0_def eval_int_lit eval_int_absent)
  then show ?thesis
    unfolding finish_ad_def Let_def releaseSpoolHold_def by (simp add: Let_def lookup_set_int go_simps)
qed

end

context job_store
begin

lemma finish_effect:
  assumes "Get E q c p = Some ad" and "lookup_attr E ad ''JobStatus'' = Some (li StatusHeld)"
    and "lookup_attr E ad ''JobStatusOnRelease'' = None" and "\<And>x. coll_put E (q_coll q) (jobKey c p) x \<noteq> None"
  shows "JobStatus E (finishSpool E spoolDir now c p q) c p = StatusIdle"
proof -
  let ?f = "finish_ad E (SandboxDir spoolDir c p) now"
  obtain st where "coll_put E (q_coll q) (jobKey c p) (?f ad) = Some st" using assms(4) by blast
  then have m: "Modify E q c p ?f = (True, q\<lparr> q_coll := st \<rparr>)" using assms(1) by (simp add: Modify_def)
  from jq.modify_written [of q "(c, p)", unfolded fst_conv snd_conv, OF m] assms(1) obtain ad' where
    "Get E (q\<lparr> q_coll := st \<rparr>) c p = Some ad'" "lookup_attr E ad' ''JobStatus'' = Some (li StatusIdle)"
    using finish_lookup [OF assms(2,3), of "SandboxDir spoolDir c p" now] by auto
  then show ?thesis using m by (simp add: finishSpool_def status_lit)
qed

end

text \<open>
  C33. Finishing a spool releases whatever hold the job wears: a job that is held when its input has arrived goes to
  idle, whatever its hold code is. The check before the transfer lets an idle
  job be spooled for, and a user's hold placed on it while its files are received is lost.
\<close>

theorem spool_releases_any_hold:
  assumes "job_store E li ls lb own keys hlist" and "Get E q c p = Some ad"
    and "lookup_attr E ad ''JobStatus'' = Some (li StatusHeld)" and "lookup_attr E ad ''JobStatusOnRelease'' = None"
    and "\<And>x. coll_put E (q_coll q) (jobKey c p) x \<noteq> None"
  shows "JobStatus E (finishSpool E spoolDir now c p q) c p = StatusIdle"
  by (rule job_store.finish_effect [OF assms])

text \<open>The idle job of the reference queue, held by its user while the files arrive.\<close>

definition ref_hold_code :: "(ref_ad, ref_store, ref_ad list) queue \<Rightarrow> int option" where
  "ref_hold_code q = (case Get refE q 1 0 of Some ad \<Rightarrow> eval_int refE ad ''HoldReasonCode'' | None \<Rightarrow> None)"

definition ref_spool_env :: "(ref_ad, ref_store, ref_ad list) spool_env" where
  "ref_spool_env = \<lparr> se_mkdir = (\<lambda>_ _. True), se_receive = (\<lambda>_ _. True), se_send = (\<lambda>_ _. True), se_stat = (\<lambda>_. None), se_walk = (\<lambda>_. None),
     se_meanwhile = (\<lambda>q. snd (ApplyAction refE None 1000 q 1 0 (ref_req ActHold ''alice@pool''))) \<rparr>"

definition ref_checked :: "(ref_ad, ref_store, ref_ad list) queue" where
  "ref_checked = se_meanwhile ref_spool_env (snd (preSpoolCheck refE ''alice@pool'' 1 0 1000 ref_q1))"

theorem spool_releases_any_hold_witness:
  "fst (preSpoolCheck refE ''alice@pool'' 1 0 1000 ref_q1) = None \<and> ref_hold_code ref_checked = Some 1 \<and>
   JobStatus refE (finishSpool refE ''/spool'' 1010 1 0 ref_checked) 1 0 = StatusIdle"
proof -
  have l: "map_option (\<lambda>ad. (lookup_attr refE ad ''JobStatus'', lookup_attr refE ad ''JobStatusOnRelease''))
      (Get refE ref_checked 1 0) = Some (Some (RInt StatusHeld), None)" by code_simp
  then obtain ad where ad: "Get refE ref_checked 1 0 = Some ad" by blast
  have p: "coll_put refE (q_coll ref_checked) (jobKey 1 0) x \<noteq> None" for x by (simp add: refE_def)
  have "fst (preSpoolCheck refE ''alice@pool'' 1 0 1000 ref_q1) = None" "ref_hold_code ref_checked = Some 1" by code_simp+
  moreover have "lookup_attr refE ad ''JobStatus'' = Some (RInt StatusHeld)" "lookup_attr refE ad ''JobStatusOnRelease'' = None"
    using l ad by simp_all
  ultimately show ?thesis using spool_releases_any_hold [OF ref.job_store_axioms ad _ _ p] by blast
qed

end
