(* ===== verification/UserLog.thy ===== *)
theory UserLog
  imports Queue "HOL-Library.Multiset"
begin

text \<open>
  The user-log manager, \<open>internal/userlog/manager.go\<close>: where an event goes, the bounded per-file buffers, the ready
  queue and the pool of writers that drains them.

  A \<open>fileState\<close> is a pointer in the source: a producer keeps it after the file was forgotten. File states
  therefore live in a heap, never freed, and \<open>ul_files\<close> maps a path to the index of its current state. An event
  record of the third-party writer is the call that built it. Writing an event appends it to \<open>ul_written\<close>
  with the index of the file state it came from. The order in which Go ranges over a map is the argument
  \<open>ord\<close>. Each definition from \<open>fileFor\<close> on is one critical section of the source: what a goroutine does
  under a lock, or one channel operation.
\<close>

section \<open>Configuration\<close>

record ulog_config =
  uc_Workers :: int
  uc_QueueDepth :: int
  uc_SubmitTimeout :: int
  uc_IdleTimeout :: int
  uc_MaxFiles :: int

definition withDefaults :: "ulog_config \<Rightarrow> ulog_config" where
  "withDefaults c =
     \<lparr> uc_Workers = (if uc_Workers c \<le> 0 then 32 else uc_Workers c),
       uc_QueueDepth = (if uc_QueueDepth c \<le> 0 then 1024 else uc_QueueDepth c),
       uc_SubmitTimeout = (if uc_SubmitTimeout c \<le> 0 then 5 * 10 ^ 9 else uc_SubmitTimeout c),
       uc_IdleTimeout = (if uc_IdleTimeout c \<le> 0 then 60 * 10 ^ 9 else uc_IdleTimeout c),
       uc_MaxFiles = (if uc_MaxFiles c \<le> 0 then 8192 else uc_MaxFiles c) \<rparr>"

section \<open>Where an event goes\<close>

type_synonym procKey = "int \<times> int \<times> int"

definition resolve :: "('ad, 'ex, 'z) classad_ops_scheme \<Rightarrow> 'ad option \<Rightarrow> (string \<times> procKey) option" where
  "resolve A ad =
     (case ad of
        None \<Rightarrow> None
      | Some ad \<Rightarrow>
          let path = str_attr0 A ad ''UserLog'' in
          if path = [] then None
          else
            let iwd = str_attr0 A ad ''Iwd'';
                path = (if \<not> path_is_abs path \<and> iwd \<noteq> [] then path_join [iwd, path] else path)
            in Some (path, int_attr0 A ad ''ClusterId'', int_attr0 A ad ''ProcId'', 0))"

datatype log_event =
    SubmitEv string
  | ExecuteEv string string
  | TerminatedEv bool int
  | EvictedEv string
  | AbortedEv string
  | HeldEv string int int
  | ReleasedEv string
  | DisconnectedEv string string string
  | ReconnectedEv string string string
  | ReconnectFailedEv string string

text \<open>
  The event methods: the job ad, the record, and whether the producer may block. An event with an empty
  mandatory field is not written.
\<close>

definition log_method :: "string \<Rightarrow> 'ad ulog_call \<Rightarrow> ('ad \<times> log_event \<times> bool) option" where
  "log_method scheddSinful call =
     (case call of
        ULSubmit ad \<Rightarrow> Some (ad, SubmitEv scheddSinful, True)
      | ULExecute ad host slot \<Rightarrow> Some (ad, ExecuteEv host slot, False)
      | ULTerminated ad bySignal code \<Rightarrow> Some (ad, TerminatedEv bySignal code, False)
      | ULEvicted ad reason \<Rightarrow> Some (ad, EvictedEv reason, False)
      | ULAborted ad reason \<Rightarrow> Some (ad, AbortedEv reason, True)
      | ULHeld ad reason code sub \<Rightarrow> Some (ad, HeldEv reason code sub, True)
      | ULHeldCore ad reason code sub \<Rightarrow> Some (ad, HeldEv reason code sub, False)
      | ULReleased ad reason \<Rightarrow> Some (ad, ReleasedEv reason, True)
      | ULDisconnected ad reason startdName startdAddr \<Rightarrow>
          if startdName = [] \<or> startdAddr = [] \<or> reason = [] then None
          else Some (ad, DisconnectedEv reason startdName startdAddr, True)
      | ULReconnected ad startdName startdAddr starterAddr \<Rightarrow>
          if startdName = [] \<or> startdAddr = [] \<or> starterAddr = [] then None
          else Some (ad, ReconnectedEv startdName startdAddr starterAddr, True)
      | ULReconnectFailed ad reason startdName \<Rightarrow>
          if reason = [] \<or> startdName = [] then None
          else Some (ad, ReconnectFailedEv reason startdName, True))"

section \<open>State\<close>

record queuedEvent =
  qe_key :: procKey
  qe_rec :: log_event

record fileState =
  fl_path :: string
  fl_ch :: "queuedEvent list"
  fl_owned :: bool
  fl_enqueued :: bool
  fl_lastActive :: int
  fl_writers :: "procKey list"
  fl_dropped :: nat

record manager =
  ul_cfg :: ulog_config
  ul_files :: "(string \<times> nat) list"
  ul_heap :: "fileState list"
  ul_ready :: "nat list"
  ul_closing :: bool
  ul_quit :: bool
  ul_dropped :: nat
  ul_written :: "(nat \<times> queuedEvent) list"

definition newManager :: "ulog_config \<Rightarrow> manager" where
  "newManager cfg =
     \<lparr> ul_cfg = withDefaults cfg, ul_files = [], ul_heap = [], ul_ready = [], ul_closing = False, ul_quit = False,
       ul_dropped = 0, ul_written = [] \<rparr>"

definition depth :: "manager \<Rightarrow> nat" where
  "depth m = nat (uc_QueueDepth (ul_cfg m))"

definition max_files :: "manager \<Rightarrow> nat" where
  "max_files m = nat (uc_MaxFiles (ul_cfg m))"

definition upd_file :: "nat \<Rightarrow> (fileState \<Rightarrow> fileState) \<Rightarrow> manager \<Rightarrow> manager" where
  "upd_file i f m = m\<lparr> ul_heap := (ul_heap m)[i := f (ul_heap m ! i)] \<rparr>"

definition drop_event :: "manager \<Rightarrow> manager" where
  "drop_event m = m\<lparr> ul_dropped := Suc (ul_dropped m) \<rparr>"

definition Dropped :: "manager \<Rightarrow> nat" where
  "Dropped m = ul_dropped m"

definition NumFiles :: "manager \<Rightarrow> nat" where
  "NumFiles m = length (ul_files m)"

section \<open>Producers\<close>

definition idle_file :: "fileState \<Rightarrow> bool" where
  "idle_file f = (\<not> fl_owned f \<and> \<not> fl_enqueued f \<and> fl_ch f = [])"

definition evictIdleLocked :: "((string \<times> nat) list \<Rightarrow> (string \<times> nat) list) \<Rightarrow> manager \<Rightarrow> bool \<times> manager" where
  "evictIdleLocked ord m =
     (case List.find (\<lambda>(p, i). idle_file (ul_heap m ! i)) (ord (ul_files m)) of
        None \<Rightarrow> (False, m)
      | Some (p, i) \<Rightarrow> (True, m\<lparr> ul_files := AList.delete p (ul_files m) \<rparr>))"

definition new_file :: "string \<Rightarrow> int \<Rightarrow> fileState" where
  "new_file path now =
     \<lparr> fl_path = path, fl_ch = [], fl_owned = False, fl_enqueued = False, fl_lastActive = now, fl_writers = [],
       fl_dropped = 0 \<rparr>"

definition fileFor :: "((string \<times> nat) list \<Rightarrow> (string \<times> nat) list) \<Rightarrow> int \<Rightarrow> string \<Rightarrow> manager \<Rightarrow> nat option \<times> manager" where
  "fileFor ord now path m =
     (if ul_closing m then (None, m)
      else case map_of (ul_files m) path of
             Some i \<Rightarrow> (Some i, m)
           | None \<Rightarrow>
               let (ok, m) = (if max_files m \<le> length (ul_files m) then evictIdleLocked ord m else (True, m))
               in if \<not> ok then (None, m)
                  else (Some (length (ul_heap m)),
                        m\<lparr> ul_heap := ul_heap m @ [new_file path now],
                           ul_files := AList.update path (length (ul_heap m)) (ul_files m) \<rparr>))"

definition has_room :: "nat \<Rightarrow> manager \<Rightarrow> bool" where
  "has_room i m = (length (fl_ch (ul_heap m ! i)) < depth m)"

definition send_event :: "nat \<Rightarrow> queuedEvent \<Rightarrow> manager \<Rightarrow> manager" where
  "send_event i ev m = upd_file i (\<lambda>f. f\<lparr> fl_ch := fl_ch f @ [ev] \<rparr>) m"

definition refuse_event :: "nat \<Rightarrow> manager \<Rightarrow> manager" where
  "refuse_event i m = drop_event (upd_file i (\<lambda>f. f\<lparr> fl_dropped := Suc (fl_dropped f) \<rparr>) m)"

definition need_ready :: "nat \<Rightarrow> manager \<Rightarrow> bool" where
  "need_ready i m = (\<not> fl_owned (ul_heap m ! i) \<and> \<not> fl_enqueued (ul_heap m ! i))"

definition set_enqueued :: "nat \<Rightarrow> bool \<Rightarrow> manager \<Rightarrow> manager" where
  "set_enqueued i b m = upd_file i (\<lambda>f. f\<lparr> fl_enqueued := b \<rparr>) m"

definition ready_room :: "manager \<Rightarrow> bool" where
  "ready_room m = (length (ul_ready m) < max_files m)"

definition push_ready :: "nat \<Rightarrow> manager \<Rightarrow> manager" where
  "push_ready i m =
     (if ready_room m then m\<lparr> ul_ready := ul_ready m @ [i] \<rparr> else drop_event (set_enqueued i False m))"

text \<open>
  A whole call, run without interruption. \<open>timeout\<close> says that the timer, or the shutdown, won the race of a
  blocking send.
\<close>

definition enqueue :: "((string \<times> nat) list \<Rightarrow> (string \<times> nat) list) \<Rightarrow> int \<Rightarrow> bool \<Rightarrow> string \<Rightarrow> procKey \<Rightarrow> log_event \<Rightarrow> bool \<Rightarrow>
    manager \<Rightarrow> manager" where
  "enqueue ord now timeout path key rec block m =
     (case fileFor ord now path m of
        (None, m) \<Rightarrow> drop_event m
      | (Some i, m) \<Rightarrow>
          if (if block then timeout \<or> \<not> has_room i m else \<not> has_room i m) then refuse_event i m
          else
            let m = send_event i \<lparr> qe_key = key, qe_rec = rec \<rparr> m
            in if need_ready i m then push_ready i (set_enqueued i True m) else m)"

definition emit_log :: "('ad, 'ex, 'z) classad_ops_scheme \<Rightarrow> ((string \<times> nat) list \<Rightarrow> (string \<times> nat) list) \<Rightarrow> int \<Rightarrow> bool \<Rightarrow> string \<Rightarrow>
    'ad ulog_call \<Rightarrow> manager \<Rightarrow> manager" where
  "emit_log A ord now timeout scheddSinful call m =
     (case log_method scheddSinful call of
        None \<Rightarrow> m
      | Some (ad, rec, block) \<Rightarrow>
          (case resolve A (Some ad) of
             None \<Rightarrow> m
           | Some (path, key) \<Rightarrow> enqueue ord now timeout path key rec block m))"

section \<open>Workers\<close>

definition claim_file :: "nat \<Rightarrow> manager \<Rightarrow> manager" where
  "claim_file i m = upd_file i (\<lambda>f. f\<lparr> fl_enqueued := False, fl_owned := True \<rparr>) m"

definition recv_event :: "nat \<Rightarrow> manager \<Rightarrow> manager" where
  "recv_event i m = upd_file i (\<lambda>f. f\<lparr> fl_ch := tl (fl_ch f) \<rparr>) m"

text \<open>A failed write is only logged: an event counts as written once it was handed to the writer.\<close>

definition write_event :: "nat \<Rightarrow> queuedEvent \<Rightarrow> manager \<Rightarrow> manager" where
  "write_event i ev m =
     (upd_file i (\<lambda>f. f\<lparr> fl_writers := set_add (qe_key ev) (fl_writers f) \<rparr>) m)
       \<lparr> ul_written := ul_written m @ [(i, ev)] \<rparr>"

definition release_file :: "nat \<Rightarrow> int \<Rightarrow> manager \<Rightarrow> manager" where
  "release_file i now m = upd_file i (\<lambda>f. f\<lparr> fl_owned := False, fl_lastActive := now \<rparr>) m"

section \<open>Reaper and shutdown\<close>

definition reap_file :: "int \<Rightarrow> string \<times> nat \<Rightarrow> manager \<Rightarrow> manager" where
  "reap_file now pf m =
     (case pf of (p, i) \<Rightarrow>
        if idle_file (ul_heap m ! i) \<and> uc_IdleTimeout (ul_cfg m) \<le> now - fl_lastActive (ul_heap m ! i)
        then m\<lparr> ul_files := AList.delete p (ul_files m) \<rparr> else m)"

definition reap :: "((string \<times> nat) list \<Rightarrow> (string \<times> nat) list) \<Rightarrow> int \<Rightarrow> manager \<Rightarrow> manager" where
  "reap ord now m = fold (reap_file now) (ord (ul_files m)) m"

definition close_signal :: "nat \<Rightarrow> manager \<Rightarrow> manager" where
  "close_signal i m =
     (if need_ready i m \<and> fl_ch (ul_heap m ! i) \<noteq> [] \<and> ready_room m
      then (set_enqueued i True m)\<lparr> ul_ready := ul_ready m @ [i] \<rparr> else m)"

definition close_begin :: "((string \<times> nat) list \<Rightarrow> (string \<times> nat) list) \<Rightarrow> manager \<Rightarrow> manager" where
  "close_begin ord m =
     (if ul_closing m then m
      else fold (\<lambda>(p, i). close_signal i) (ord (ul_files m)) (m\<lparr> ul_closing := True \<rparr>))"

definition buffered :: "manager \<Rightarrow> nat" where
  "buffered m =
     sum_list (map (\<lambda>(p, i). length (fl_ch (ul_heap m ! i)) + (if fl_owned (ul_heap m ! i) then 1 else 0)) (ul_files m))"

definition close_quit :: "manager \<Rightarrow> manager" where
  "close_quit m = m\<lparr> ul_quit := True \<rparr>"

section \<open>The pool as a transition system\<close>

text \<open>
  Where a producer is in \<open>enqueue\<close>: it has the file state and is about to send, it has sent and is about to look
  whether to signal, or it has set the flag and is about to push. Where a worker is: waiting, holding a file
  it has popped but not claimed, draining, or writing an event.
\<close>

datatype producer = PSend nat queuedEvent bool | PSignal nat | PPush nat

datatype worker = WIdle | WPopped nat | WDrain nat | WWrite nat queuedEvent

text \<open>
  \<open>pl_sent\<close> is the history of accepted sends, \<open>pl_full\<close> whether the ready queue was ever found full by a producer.
\<close>

record pool =
  pl_m :: manager
  pl_prod :: "producer multiset"
  pl_work :: "worker multiset"
  pl_sent :: "(nat \<times> queuedEvent) list"
  pl_full :: bool

definition newPool :: "ulog_config \<Rightarrow> pool" where
  "newPool cfg =
     \<lparr> pl_m = newManager cfg, pl_prod = {#},
       pl_work = replicate_mset (nat (uc_Workers (ul_cfg (newManager cfg)))) WIdle, pl_sent = [], pl_full = False \<rparr>"

text \<open>
  The reaper and the shutdown look at one file state at a time, under its lock, so their loops are steps of one file
  each.
\<close>

inductive pool_step :: "pool \<Rightarrow> pool \<Rightarrow> bool" where
  call: "set (ord (ul_files (pl_m s))) = set (ul_files (pl_m s)) \<Longrightarrow> fileFor ord now path (pl_m s) = (Some i, m) \<Longrightarrow>
    pool_step s (s\<lparr> pl_m := m, pl_prod := add_mset (PSend i ev block) (pl_prod s) \<rparr>)"
| call_refused: "set (ord (ul_files (pl_m s))) = set (ul_files (pl_m s)) \<Longrightarrow> fileFor ord now path (pl_m s) = (None, m) \<Longrightarrow>
    pool_step s (s\<lparr> pl_m := drop_event m \<rparr>)"
| send: "pl_prod s = add_mset (PSend i ev block) P \<Longrightarrow> has_room i (pl_m s) \<Longrightarrow>
    pool_step s (s\<lparr> pl_m := send_event i ev (pl_m s), pl_prod := add_mset (PSignal i) P, pl_sent := pl_sent s @ [(i, ev)] \<rparr>)"
| refuse: "pl_prod s = add_mset (PSend i ev block) P \<Longrightarrow> block \<or> \<not> has_room i (pl_m s) \<Longrightarrow>
    pool_step s (s\<lparr> pl_m := refuse_event i (pl_m s), pl_prod := P \<rparr>)"
| signal: "pl_prod s = add_mset (PSignal i) P \<Longrightarrow> need_ready i (pl_m s) \<Longrightarrow>
    pool_step s (s\<lparr> pl_m := set_enqueued i True (pl_m s), pl_prod := add_mset (PPush i) P \<rparr>)"
| no_signal: "pl_prod s = add_mset (PSignal i) P \<Longrightarrow> \<not> need_ready i (pl_m s) \<Longrightarrow> pool_step s (s\<lparr> pl_prod := P \<rparr>)"
| push: "pl_prod s = add_mset (PPush i) P \<Longrightarrow>
    pool_step s (s\<lparr> pl_m := push_ready i (pl_m s), pl_prod := P, pl_full := pl_full s \<or> \<not> ready_room (pl_m s) \<rparr>)"
| pop: "pl_work s = add_mset WIdle W \<Longrightarrow> ul_ready (pl_m s) = i # is \<Longrightarrow>
    pool_step s (s\<lparr> pl_m := (pl_m s)\<lparr> ul_ready := is \<rparr>, pl_work := add_mset (WPopped i) W \<rparr>)"
| claim: "pl_work s = add_mset (WPopped i) W \<Longrightarrow>
    pool_step s (s\<lparr> pl_m := claim_file i (pl_m s), pl_work := add_mset (WDrain i) W \<rparr>)"
| recv: "pl_work s = add_mset (WDrain i) W \<Longrightarrow> fl_ch (ul_heap (pl_m s) ! i) = ev # evs \<Longrightarrow>
    pool_step s (s\<lparr> pl_m := recv_event i (pl_m s), pl_work := add_mset (WWrite i ev) W \<rparr>)"
| wrote: "pl_work s = add_mset (WWrite i ev) W \<Longrightarrow>
    pool_step s (s\<lparr> pl_m := write_event i ev (pl_m s), pl_work := add_mset (WDrain i) W \<rparr>)"
| release: "pl_work s = add_mset (WDrain i) W \<Longrightarrow> fl_ch (ul_heap (pl_m s) ! i) = [] \<Longrightarrow>
    pool_step s (s\<lparr> pl_m := release_file i now (pl_m s), pl_work := add_mset WIdle W \<rparr>)"
| leave: "pl_work s = add_mset WIdle W \<Longrightarrow> ul_quit (pl_m s) \<Longrightarrow> pool_step s (s\<lparr> pl_work := W \<rparr>)"
| reaped: "pf \<in> set (ul_files (pl_m s)) \<Longrightarrow> pool_step s (s\<lparr> pl_m := reap_file now pf (pl_m s) \<rparr>)"
| closing: "pool_step s (s\<lparr> pl_m := (pl_m s)\<lparr> ul_closing := True \<rparr> \<rparr>)"
| close_file: "ul_closing (pl_m s) \<Longrightarrow> (p, i) \<in> set (ul_files (pl_m s)) \<Longrightarrow> pool_step s (s\<lparr> pl_m := close_signal i (pl_m s) \<rparr>)"
| quit: "pool_step s (s\<lparr> pl_m := close_quit (pl_m s) \<rparr>)"

definition pool_run :: "ulog_config \<Rightarrow> pool \<Rightarrow> bool" where
  "pool_run cfg s = pool_step\<^sup>*\<^sup>* (newPool cfg) s"

end
