(* ===== verification/UserLogProps.thy ===== *)
theory UserLogProps
  imports UserLog
begin

text \<open>
  The pool of user-log writers: ownership of a file state and its place in the ready queue are held by exactly
  one goroutine, events leave a file state in the order they entered it, and no file state with events is forgotten.
\<close>

section \<open>Who holds a file state\<close>

definition tokens :: "nat \<Rightarrow> pool \<Rightarrow> nat" where
  "tokens i s = count_list (ul_ready (pl_m s)) i + count (pl_work s) (WPopped i) + count (pl_prod s) (PPush i)"

fun owns :: "nat \<Rightarrow> worker \<Rightarrow> bool" where
  "owns i (WDrain j) = (i = j)"
| "owns i (WWrite j ev) = (i = j)"
| "owns i _ = False"

definition owners :: "nat \<Rightarrow> pool \<Rightarrow> nat" where
  "owners i s = size (filter_mset (owns i) (pl_work s))"

definition of_file :: "nat \<Rightarrow> (nat \<times> queuedEvent) list \<Rightarrow> queuedEvent list" where
  "of_file i xs = map snd (filter (\<lambda>x. fst x = i) xs)"

lemma of_file_append [simp]: "of_file i (xs @ [(j, ev)]) = of_file i xs @ (if j = i then [ev] else [])"
  by (simp add: of_file_def)

definition file_at :: "nat \<Rightarrow> pool \<Rightarrow> fileState" where
  "file_at i s = ul_heap (pl_m s) ! i"

definition in_order :: "nat \<Rightarrow> pool \<Rightarrow> bool" where
  "in_order i s =
     ((\<forall>ev. WWrite i ev \<in># pl_work s \<longrightarrow> of_file i (pl_sent s) = of_file i (ul_written (pl_m s)) @ ev # fl_ch (file_at i s)) \<and>
      ((\<forall>ev. WWrite i ev \<notin># pl_work s) \<longrightarrow> of_file i (pl_sent s) = of_file i (ul_written (pl_m s)) @ fl_ch (file_at i s)))"

definition file_ok :: "nat \<Rightarrow> pool \<Rightarrow> bool" where
  "file_ok i s =
     (tokens i s = (if fl_enqueued (file_at i s) then 1 else 0) \<and>
      owners i s = (if fl_owned (file_at i s) then 1 else 0) \<and>
      \<not> (fl_owned (file_at i s) \<and> fl_enqueued (file_at i s)) \<and>
      length (fl_ch (file_at i s)) \<le> depth (pl_m s) \<and> in_order i s)"

fun prod_file :: "producer \<Rightarrow> nat" where
  "prod_file (PSend i ev b) = i" | "prod_file (PSignal i) = i" | "prod_file (PPush i) = i"

fun work_file :: "worker \<Rightarrow> nat option" where
  "work_file WIdle = None" | "work_file (WPopped i) = Some i" | "work_file (WDrain i) = Some i" | "work_file (WWrite i ev) = Some i"

definition ids_ok :: "pool \<Rightarrow> bool" where
  "ids_ok s =
     (let n = length (ul_heap (pl_m s)) in
      (\<forall>i \<in> set (ul_ready (pl_m s)). i < n) \<and> (\<forall>x. x \<in># pl_prod s \<longrightarrow> prod_file x < n) \<and>
      (\<forall>w i. w \<in># pl_work s \<longrightarrow> work_file w = Some i \<longrightarrow> i < n) \<and> (\<forall>x \<in> set (ul_files (pl_m s)). snd x < n) \<and>
      (\<forall>x \<in> set (pl_sent s). fst x < n) \<and> (\<forall>x \<in> set (ul_written (pl_m s)). fst x < n))"

definition pool_inv :: "pool \<Rightarrow> bool" where
  "pool_inv s = (ids_ok s \<and> (\<forall>i < length (ul_heap (pl_m s)). file_ok i s))"

lemma new_pool_inv: "pool_inv (newPool cfg)"
  by (simp add: pool_inv_def ids_ok_def newPool_def newManager_def Let_def)

text \<open>A step of one file state leaves the others as they were.\<close>

lemma upd_file_simps [simp]:
  "ul_ready (upd_file i f m) = ul_ready m" "ul_cfg (upd_file i f m) = ul_cfg m" "ul_files (upd_file i f m) = ul_files m"
  "ul_written (upd_file i f m) = ul_written m" "length (ul_heap (upd_file i f m)) = length (ul_heap m)"
  "ul_closing (upd_file i f m) = ul_closing m" "ul_quit (upd_file i f m) = ul_quit m"
  by (simp_all add: upd_file_def)

lemma upd_file_nth:
  "i < length (ul_heap m) \<Longrightarrow> ul_heap (upd_file i f m) ! j = (if j = i then f (ul_heap m ! i) else ul_heap m ! j)"
  by (simp add: upd_file_def nth_list_update)

lemma drop_event_simps [simp]:
  "ul_ready (drop_event m) = ul_ready m" "ul_cfg (drop_event m) = ul_cfg m" "ul_files (drop_event m) = ul_files m"
  "ul_written (drop_event m) = ul_written m" "ul_heap (drop_event m) = ul_heap m"
  by (simp_all add: drop_event_def)

lemma depth_cong: "ul_cfg m = ul_cfg m' \<Longrightarrow> depth m = depth m'"
  by (simp add: depth_def)

lemma push_ready_simps [simp]:
  "ul_cfg (push_ready i m) = ul_cfg m" "ul_files (push_ready i m) = ul_files m"
  "ul_written (push_ready i m) = ul_written m" "length (ul_heap (push_ready i m)) = length (ul_heap m)"
  by (simp_all add: push_ready_def set_enqueued_def)

lemma evict_frame:
  assumes "evictIdleLocked ord m = (b, m')"
  shows "\<exists>fs. m' = m\<lparr> ul_files := fs \<rparr> \<and> set fs \<subseteq> set (ul_files m)"
proof (cases "List.find (\<lambda>(p, i). idle_file (ul_heap m ! i)) (ord (ul_files m))")
  case None
  then have "m' = m\<lparr> ul_files := ul_files m \<rparr>" using assms by (simp add: evictIdleLocked_def)
  then show ?thesis by blast
next
  case (Some pi)
  then have "m' = m\<lparr> ul_files := AList.delete (fst pi) (ul_files m) \<rparr>"
    using assms by (cases pi) (simp add: evictIdleLocked_def)
  then show ?thesis using set_delete_sub [of "fst pi" "ul_files m"] by blast
qed

lemma fileFor_frame:
  assumes "fileFor ord now path m = (r, m')"
  shows "\<exists>fs. (m' = m\<lparr> ul_files := fs \<rparr> \<and> set fs \<subseteq> set (ul_files m) \<and> (\<forall>i. r = Some i \<longrightarrow> (path, i) \<in> set (ul_files m)) \<or>
    m' = m\<lparr> ul_heap := ul_heap m @ [new_file path now], ul_files := fs \<rparr> \<and> set fs \<subseteq> insert (path, length (ul_heap m)) (set (ul_files m)) \<and>
      r = Some (length (ul_heap m)))"
proof -
  define em where "em = (if max_files m \<le> length (ul_files m) then evictIdleLocked ord m else (True, m))"
  obtain ok m1 where em: "em = (ok, m1)" by (cases em)
  obtain fs where m1: "m1 = m\<lparr> ul_files := fs \<rparr>" and fs: "set fs \<subseteq> set (ul_files m)"
  proof (cases "max_files m \<le> length (ul_files m)")
    case True
    then show ?thesis using em evict_frame [of ord m ok m1] that by (auto simp: em_def)
  next
    case False
    then have "m1 = m\<lparr> ul_files := ul_files m \<rparr>" using em by (simp add: em_def)
    then show ?thesis using that by blast
  qed
  have triv: "m = m\<lparr> ul_files := ul_files m \<rparr>" by simp
  have upd: "set (AList.update path (length (ul_heap m)) fs) \<subseteq> insert (path, length (ul_heap m)) (set (ul_files m))"
    using set_update_sub [of path "length (ul_heap m)" fs] fs by blast
  show ?thesis
  proof (cases "ul_closing m")
    case True
    then have "r = None \<and> m' = m\<lparr> ul_files := ul_files m \<rparr>" using assms by (simp add: fileFor_def)
    then show ?thesis by blast
  next
    case open': False
    show ?thesis
    proof (cases "map_of (ul_files m) path")
      case (Some i)
      then have "r = Some i \<and> m' = m\<lparr> ul_files := ul_files m \<rparr>" using assms open' by (simp add: fileFor_def)
      then show ?thesis using map_of_SomeD [OF Some] by blast
    next
      case None
      then have "(r, m') = (if \<not> ok then (None, m1) else (Some (length (ul_heap m)),
          m\<lparr> ul_heap := ul_heap m @ [new_file path now], ul_files := AList.update path (length (ul_heap m)) fs \<rparr>))"
        using assms open' em m1 by (cases ok) (simp_all add: fileFor_def em_def [symmetric])
      then show ?thesis using upd fs m1 by (cases ok) auto
    qed
  qed
qed

section \<open>Preservation\<close>

lemma owners_pos: "w \<in># pl_work s \<Longrightarrow> owns i w \<Longrightarrow> owners i s \<noteq> 0"
  by (auto simp: owners_def)

lemma owners_one:
  assumes "owners i s \<le> 1" and "pl_work s = add_mset w W" and "owns i w"
  shows "\<forall>x. x \<in># W \<longrightarrow> \<not> owns i x"
  using assms by (auto simp: owners_def)

lemma files_frame:
  assumes "pool_inv s" and "ul_ready m = ul_ready (pl_m s)" and "ul_cfg m = ul_cfg (pl_m s)"
    and "ul_written m = ul_written (pl_m s)"
    and "ul_heap m = ul_heap (pl_m s)" and "set (ul_files m) \<subseteq> set (ul_files (pl_m s))"
  shows "pool_inv (s\<lparr> pl_m := m \<rparr>)"
  using assms
  by (auto simp: pool_inv_def ids_ok_def file_ok_def tokens_def owners_def file_at_def in_order_def depth_def Let_def)

lemma new_file_frame:
  assumes "pool_inv s" and "set fs \<subseteq> insert (path, length (ul_heap (pl_m s))) (set (ul_files (pl_m s)))"
  shows "pool_inv (s\<lparr> pl_m := (pl_m s)\<lparr> ul_heap := ul_heap (pl_m s) @ [new_file path now], ul_files := fs \<rparr> \<rparr>)"
    (is "pool_inv ?s")
proof -
  let ?n = "length (ul_heap (pl_m s))"
  have ids: "ids_ok s" using assms by (simp add: pool_inv_def)
  then have "ids_ok ?s" using assms(2) by (fastforce simp: ids_ok_def Let_def)
  moreover have "file_ok j ?s" if "j < Suc ?n" for j
  proof (cases "j = ?n")
    case False
    then have "file_ok j s" using that assms(1) by (simp add: pool_inv_def)
    then show ?thesis using False that
      by (simp add: file_ok_def tokens_def owners_def file_at_def in_order_def depth_def nth_append)
  next
    case True
    have ready: "?n \<notin> set (ul_ready (pl_m s))" using ids by (auto simp: ids_ok_def Let_def)
    have push: "PPush ?n \<notin># pl_prod s" using ids prod_file.simps(3) [of ?n] unfolding ids_ok_def Let_def by force
    have work: "work_file w \<noteq> Some ?n" if "w \<in># pl_work s" for w
      using ids that unfolding ids_ok_def Let_def by (metis less_irrefl)
    have popped: "WPopped ?n \<notin># pl_work s" using work by fastforce
    have wr: "WWrite ?n ev \<notin># pl_work s" for ev using work by fastforce
    have own: "\<not> owns ?n w" if "w \<in># pl_work s" for w using work [OF that] by (cases w) auto
    have own0: "filter_mset (owns ?n) (pl_work s) = {#}" 
      using own filter_mset_cong [of "pl_work s" "pl_work s" "owns ?n" "\<lambda>_. False"] by simp
    have sent: "of_file ?n (pl_sent s) = []" "of_file ?n (ul_written (pl_m s)) = []"
      using ids by (auto simp: ids_ok_def Let_def of_file_def filter_empty_conv)
    show ?thesis using True ready push popped wr own0 sent
      by (simp add: file_ok_def tokens_def owners_def file_at_def in_order_def new_file_def nth_append
          count_list_0_iff not_in_iff [symmetric])
  qed
  ultimately show ?thesis by (simp add: pool_inv_def)
qed

lemmas file_defs = file_ok_def tokens_def owners_def file_at_def in_order_def

lemma depth_eq [simp]:
  "depth (upd_file i f m) = depth m" "depth (drop_event m) = depth m" "depth (push_ready i m) = depth m"
  by (simp_all add: depth_def)

text \<open>
  A step that concerns the file state \<open>i\<close>: it is enough to look at \<open>i\<close> when everything the invariant says of the others
  is untouched.
\<close>

definition same_file :: "nat \<Rightarrow> pool \<Rightarrow> pool \<Rightarrow> bool" where
  "same_file j s s' =
     (tokens j s' = tokens j s \<and> owners j s' = owners j s \<and> file_at j s' = file_at j s \<and>
      of_file j (pl_sent s') = of_file j (pl_sent s) \<and> of_file j (ul_written (pl_m s')) = of_file j (ul_written (pl_m s)) \<and>
      (\<forall>ev. WWrite j ev \<in># pl_work s' \<longleftrightarrow> WWrite j ev \<in># pl_work s))"

lemma step_at:
  assumes "pool_inv s" and "ids_ok s'" and "length (ul_heap (pl_m s')) = length (ul_heap (pl_m s))"
    and "depth (pl_m s') = depth (pl_m s)"
    and "\<And>j. j \<noteq> i \<Longrightarrow> same_file j s s'"
    and "i < length (ul_heap (pl_m s)) \<Longrightarrow> file_ok i s \<Longrightarrow> file_ok i s'"
  shows "pool_inv s'"
proof -
  have "file_ok j s'" if "j < length (ul_heap (pl_m s))" for j
  proof (cases "j = i")
    case True
    then show ?thesis using assms(1,6) that by (simp add: pool_inv_def)
  next
    case False
    have "file_ok j s" using assms(1) that by (simp add: pool_inv_def)
    then show ?thesis using assms(5) [OF False] assms(4) by (simp add: same_file_def file_ok_def in_order_def)
  qed
  then show ?thesis using assms(2,3) by (simp add: pool_inv_def)
qed

lemma same_file_upd:
  assumes "j \<noteq> i"
  shows "file_at j (s\<lparr> pl_m := upd_file i f m \<rparr>) = file_at j (s\<lparr> pl_m := m \<rparr>)"
  using assms by (simp add: file_at_def upd_file_def)

lemma step_send:
  assumes "pool_inv s" and "pl_prod s = add_mset (PSend i ev b) P" and "has_room i (pl_m s)"
  shows "pool_inv (s\<lparr> pl_m := send_event i ev (pl_m s), pl_prod := add_mset (PSignal i) P, pl_sent := pl_sent s @ [(i, ev)] \<rparr>)"
    (is "pool_inv ?s")
proof (rule step_at [OF assms(1), where i = i])
  have ids: "ids_ok s" using assms(1) by (simp add: pool_inv_def)
  then show "ids_ok ?s" using assms(2) by (auto simp: ids_ok_def Let_def send_event_def)
  show "same_file j s ?s" if "j \<noteq> i" for j
    using that assms(2) by (simp add: same_file_def file_defs send_event_def upd_file_def)
  show "file_ok i ?s" if "i < length (ul_heap (pl_m s))" and "file_ok i s"
    using that assms(2,3) by (simp add: file_defs send_event_def upd_file_nth has_room_def)
qed (simp_all add: send_event_def)

lemma step_signal:
  assumes "pool_inv s" and "pl_prod s = add_mset (PSignal i) P" and "need_ready i (pl_m s)"
  shows "pool_inv (s\<lparr> pl_m := set_enqueued i True (pl_m s), pl_prod := add_mset (PPush i) P \<rparr>)" (is "pool_inv ?s")
proof (rule step_at [OF assms(1), where i = i])
  have ids: "ids_ok s" using assms(1) by (simp add: pool_inv_def)
  then show "ids_ok ?s" using assms(2) by (auto simp: ids_ok_def Let_def set_enqueued_def)
  show "same_file j s ?s" if "j \<noteq> i" for j
    using that assms(2) by (simp add: same_file_def file_defs set_enqueued_def upd_file_def)
  show "file_ok i ?s" if "i < length (ul_heap (pl_m s))" and "file_ok i s"
    using that assms(2,3) by (simp add: file_defs set_enqueued_def upd_file_nth need_ready_def)
qed (simp_all add: set_enqueued_def)

lemma step_push:
  assumes "pool_inv s" and "pl_prod s = add_mset (PPush i) P"
  shows "pool_inv (s\<lparr> pl_m := push_ready i (pl_m s), pl_prod := P, pl_full := full \<rparr>)" (is "pool_inv ?s")
proof (rule step_at [OF assms(1), where i = i])
  have ids: "ids_ok s" using assms(1) by (simp add: pool_inv_def)
  then show "ids_ok ?s" using assms(2) by (auto simp: ids_ok_def Let_def push_ready_def set_enqueued_def)
  show "same_file j s ?s" if "j \<noteq> i" for j
    using that assms(2) by (simp add: same_file_def file_defs push_ready_def set_enqueued_def upd_file_def drop_event_def)
  show "file_ok i ?s" if "i < length (ul_heap (pl_m s))" and "file_ok i s"
    using that assms(2)
    by (simp add: file_defs push_ready_def set_enqueued_def upd_file_nth depth_def split: if_splits)
qed simp_all

lemma step_pop:
  assumes "pool_inv s" and "pl_work s = add_mset WIdle W" and "ul_ready (pl_m s) = i # is"
  shows "pool_inv (s\<lparr> pl_m := (pl_m s)\<lparr> ul_ready := is \<rparr>, pl_work := add_mset (WPopped i) W \<rparr>)" (is "pool_inv ?s")
proof (rule step_at [OF assms(1), where i = i])
  have ids: "ids_ok s" using assms(1) by (simp add: pool_inv_def)
  then show "ids_ok ?s" using assms(2,3) by (auto simp: ids_ok_def Let_def)
  show "same_file j s ?s" if "j \<noteq> i" for j
    using that assms(2,3) by (simp add: same_file_def file_defs)
  show "file_ok i ?s" if "i < length (ul_heap (pl_m s))" and "file_ok i s"
    using that assms(2,3) by (simp add: file_defs depth_def)
qed (simp_all add: depth_def)

lemma step_claim:
  assumes "pool_inv s" and "pl_work s = add_mset (WPopped i) W"
  shows "pool_inv (s\<lparr> pl_m := claim_file i (pl_m s), pl_work := add_mset (WDrain i) W \<rparr>)" (is "pool_inv ?s")
proof (rule step_at [OF assms(1), where i = i])
  have ids: "ids_ok s" using assms(1) by (simp add: pool_inv_def)
  then show "ids_ok ?s" using assms(2) by (auto simp: ids_ok_def Let_def claim_file_def)
  show "same_file j s ?s" if "j \<noteq> i" for j
    using that assms(2) by (simp add: same_file_def file_defs claim_file_def upd_file_def)
  show "file_ok i ?s" if "i < length (ul_heap (pl_m s))" and "file_ok i s"
    using that assms(2) by (simp add: file_defs claim_file_def upd_file_nth split: if_splits)
qed (simp_all add: claim_file_def)

lemma step_recv:
  assumes "pool_inv s" and "pl_work s = add_mset (WDrain i) W" and "fl_ch (ul_heap (pl_m s) ! i) = ev # evs"
  shows "pool_inv (s\<lparr> pl_m := recv_event i (pl_m s), pl_work := add_mset (WWrite i ev) W \<rparr>)" (is "pool_inv ?s")
proof (rule step_at [OF assms(1), where i = i])
  have ids: "ids_ok s" using assms(1) by (simp add: pool_inv_def)
  then show "ids_ok ?s" using assms(2) by (auto simp: ids_ok_def Let_def recv_event_def)
  show "same_file j s ?s" if "j \<noteq> i" for j
    using that assms(2) by (simp add: same_file_def file_defs recv_event_def upd_file_def)
  show "file_ok i ?s" if "i < length (ul_heap (pl_m s))" and ok: "file_ok i s"
  proof -
    have "\<forall>x. x \<in># W \<longrightarrow> \<not> owns i x"
      using ok by (intro owners_one [OF _ assms(2)]) (simp_all add: file_ok_def)
    then have "\<forall>e. WWrite i e \<notin># W" by fastforce
    then show ?thesis using that assms(2,3) by (simp add: file_defs recv_event_def upd_file_nth)
  qed
qed (simp_all add: recv_event_def)

lemma step_wrote:
  assumes "pool_inv s" and "pl_work s = add_mset (WWrite i ev) W"
  shows "pool_inv (s\<lparr> pl_m := write_event i ev (pl_m s), pl_work := add_mset (WDrain i) W \<rparr>)" (is "pool_inv ?s")
proof (rule step_at [OF assms(1), where i = i])
  have ids: "ids_ok s" using assms(1) by (simp add: pool_inv_def)
  then show "ids_ok ?s" using assms(2) by (auto simp: ids_ok_def Let_def write_event_def)
  show "same_file j s ?s" if "j \<noteq> i" for j
    using that assms(2) by (simp add: same_file_def file_defs write_event_def upd_file_def)
  show "file_ok i ?s" if "i < length (ul_heap (pl_m s))" and ok: "file_ok i s"
  proof -
    have "\<forall>x. x \<in># W \<longrightarrow> \<not> owns i x"
      using ok by (intro owners_one [OF _ assms(2)]) (simp_all add: file_ok_def)
    then have "\<forall>e. WWrite i e \<notin># W" by fastforce
    then show ?thesis using that assms(2) by (simp add: file_defs write_event_def upd_file_nth depth_def)
  qed
qed (simp_all add: write_event_def depth_def)

lemma step_release:
  assumes "pool_inv s" and "pl_work s = add_mset (WDrain i) W"
  shows "pool_inv (s\<lparr> pl_m := release_file i now (pl_m s), pl_work := add_mset WIdle W \<rparr>)" (is "pool_inv ?s")
proof (rule step_at [OF assms(1), where i = i])
  have ids: "ids_ok s" using assms(1) by (simp add: pool_inv_def)
  then show "ids_ok ?s" using assms(2) by (auto simp: ids_ok_def Let_def release_file_def)
  show "same_file j s ?s" if "j \<noteq> i" for j
    using that assms(2) by (simp add: same_file_def file_defs release_file_def upd_file_def)
  show "file_ok i ?s" if "i < length (ul_heap (pl_m s))" and "file_ok i s"
    using that assms(2) by (simp add: file_defs release_file_def upd_file_nth split: if_splits)
qed (simp_all add: release_file_def)

lemma step_close_file:
  assumes "pool_inv s" and "(p, i) \<in> set (ul_files (pl_m s))"
  shows "pool_inv (s\<lparr> pl_m := close_signal i (pl_m s) \<rparr>)" (is "pool_inv ?s")
proof (rule step_at [OF assms(1), where i = i])
  have ids: "ids_ok s" using assms(1) by (simp add: pool_inv_def)
  then show "ids_ok ?s" using assms(2) by (fastforce simp: ids_ok_def Let_def close_signal_def set_enqueued_def)
  show "same_file j s ?s" if "j \<noteq> i" for j
    using that by (simp add: same_file_def file_defs close_signal_def set_enqueued_def upd_file_def)
  show "file_ok i ?s" if "i < length (ul_heap (pl_m s))" and "file_ok i s"
    using that
    by (cases "need_ready i (pl_m s) \<and> fl_ch (ul_heap (pl_m s) ! i) \<noteq> [] \<and> ready_room (pl_m s)")
      (simp_all add: file_defs close_signal_def set_enqueued_def upd_file_nth need_ready_def depth_def del: de_Morgan_conj)
qed (simp_all add: close_signal_def set_enqueued_def depth_def)

lemma step_refuse:
  assumes "pool_inv s" and "pl_prod s = add_mset (PSend i ev b) P"
  shows "pool_inv (s\<lparr> pl_m := refuse_event i (pl_m s), pl_prod := P \<rparr>)" (is "pool_inv ?s")
proof (rule step_at [OF assms(1), where i = i])
  have ids: "ids_ok s" using assms(1) by (simp add: pool_inv_def)
  then show "ids_ok ?s" using assms(2) by (auto simp: ids_ok_def Let_def refuse_event_def)
  show "same_file j s ?s" if "j \<noteq> i" for j
    using that assms(2) by (simp add: same_file_def file_defs refuse_event_def upd_file_def)
  show "file_ok i ?s" if "i < length (ul_heap (pl_m s))" and "file_ok i s"
    using that assms(2) by (simp add: file_defs refuse_event_def upd_file_nth)
qed (simp_all add: refuse_event_def)

lemma inv_prod:
  assumes "pool_inv s" and "\<And>x. x \<in># P \<Longrightarrow> prod_file x < length (ul_heap (pl_m s))"
    and "\<And>i. count P (PPush i) = count (pl_prod s) (PPush i)"
  shows "pool_inv (s\<lparr> pl_prod := P \<rparr>)"
  using assms by (simp add: pool_inv_def ids_ok_def file_defs Let_def)

lemma step_call:
  assumes "pool_inv s" and "fileFor ord now path (pl_m s) = (r, m)"
  shows "pool_inv (s\<lparr> pl_m := m \<rparr>) \<and> (\<forall>i. r = Some i \<longrightarrow> i < length (ul_heap m))"
proof -
  have files: "\<forall>x \<in> set (ul_files (pl_m s)). snd x < length (ul_heap (pl_m s))"
    using assms(1) by (simp add: pool_inv_def ids_ok_def Let_def)
  obtain fs where "m = (pl_m s)\<lparr> ul_files := fs \<rparr> \<and> set fs \<subseteq> set (ul_files (pl_m s)) \<and> (\<forall>i. r = Some i \<longrightarrow> (path, i) \<in> set (ul_files (pl_m s))) \<or>
      m = (pl_m s)\<lparr> ul_heap := ul_heap (pl_m s) @ [new_file path now], ul_files := fs \<rparr> \<and>
      set fs \<subseteq> insert (path, length (ul_heap (pl_m s))) (set (ul_files (pl_m s))) \<and> r = Some (length (ul_heap (pl_m s)))"
    using fileFor_frame [OF assms(2)] by blast
  then show ?thesis
  proof (elim disjE conjE)
    assume m: "m = (pl_m s)\<lparr> ul_files := fs \<rparr>" and sub: "set fs \<subseteq> set (ul_files (pl_m s))"
      and r: "\<forall>i. r = Some i \<longrightarrow> (path, i) \<in> set (ul_files (pl_m s))"
    have "pool_inv (s\<lparr> pl_m := m \<rparr>)" by (rule files_frame [OF assms(1)]) (use m sub in simp_all)
    then show ?thesis using r files m by force
  next
    assume m: "m = (pl_m s)\<lparr> ul_heap := ul_heap (pl_m s) @ [new_file path now], ul_files := fs \<rparr>"
      and sub: "set fs \<subseteq> insert (path, length (ul_heap (pl_m s))) (set (ul_files (pl_m s)))"
      and r: "r = Some (length (ul_heap (pl_m s)))"
    show ?thesis using new_file_frame [OF assms(1) sub, of now] r by (simp add: m)
  qed
qed

lemma inv_work:
  assumes "pool_inv s" and "pl_work s = add_mset WIdle W"
  shows "pool_inv (s\<lparr> pl_work := W \<rparr>)"
  using assms by (auto simp: pool_inv_def ids_ok_def file_defs Let_def)

lemma reap_file_sub: "\<exists>fs. reap_file now pf m = m\<lparr> ul_files := fs \<rparr> \<and> set fs \<subseteq> set (ul_files m)"
proof (cases "reap_file now pf m = m")
  case True
  then have "reap_file now pf m = m\<lparr> ul_files := ul_files m \<rparr>" by simp
  then show ?thesis by blast
next
  case False
  then have "reap_file now pf m = m\<lparr> ul_files := AList.delete (fst pf) (ul_files m) \<rparr>"
    by (auto simp: reap_file_def split: prod.splits if_splits)
  then show ?thesis using set_delete_sub [of "fst pf" "ul_files m"] by blast
qed

lemma pool_step_inv:
  assumes "pool_step s s'" and inv: "pool_inv s"
  shows "pool_inv s'"
  using assms(1)
proof cases
  case (call ord now path i m ev block)
  have 1: "pool_inv (s\<lparr> pl_m := m \<rparr>)" and "i < length (ul_heap m)" using step_call [OF inv call(3)] by auto
  moreover have "\<forall>x. x \<in># pl_prod s \<longrightarrow> prod_file x < length (ul_heap m)"
    using 1 by (simp add: pool_inv_def ids_ok_def Let_def)
  ultimately have "pool_inv (s\<lparr> pl_m := m \<rparr>\<lparr> pl_prod := add_mset (PSend i ev block) (pl_prod s) \<rparr>)"
    by (intro inv_prod) auto
  then show ?thesis using call(1) by simp
next
  case (call_refused ord now path m)
  have "pool_inv (s\<lparr> pl_m := m \<rparr>)" using step_call [OF inv call_refused(3)] by simp
  then have "pool_inv (s\<lparr> pl_m := m \<rparr>\<lparr> pl_m := drop_event m \<rparr>)" by (rule files_frame) simp_all
  then show ?thesis using call_refused(1) by simp
next
  case (no_signal i P)
  have "pool_inv (s\<lparr> pl_prod := P \<rparr>)"
    using inv no_signal(2) by (intro inv_prod [OF inv]) (auto simp: pool_inv_def ids_ok_def Let_def)
  then show ?thesis using no_signal(1) by simp
next
  case (reaped pf now)
  obtain fs where "reap_file now pf (pl_m s) = (pl_m s)\<lparr> ul_files := fs \<rparr>" and "set fs \<subseteq> set (ul_files (pl_m s))"
    using reap_file_sub by blast
  then have "pool_inv (s\<lparr> pl_m := reap_file now pf (pl_m s) \<rparr>)" by (intro files_frame [OF inv]) simp_all
  then show ?thesis using reaped(1) by simp
next
  case closing
  have "pool_inv (s\<lparr> pl_m := (pl_m s)\<lparr> ul_closing := True \<rparr> \<rparr>)" by (rule files_frame [OF inv]) simp_all
  then show ?thesis using closing by simp
next
  case quit
  have "pool_inv (s\<lparr> pl_m := close_quit (pl_m s) \<rparr>)" by (rule files_frame [OF inv]) (simp_all add: close_quit_def)
  then show ?thesis using quit by simp
qed (hypsubst, blast intro: inv step_send step_signal step_push step_pop step_claim step_recv step_wrote step_release
     step_close_file step_refuse inv_work)+

lemma pool_run_inv: "pool_run cfg s \<Longrightarrow> pool_inv s"
  unfolding pool_run_def by (induction rule: rtranclp_induct) (auto simp: new_pool_inv intro: pool_step_inv)

section \<open>Wake-ups and the cap on tracked files\<close>

definition awake :: "pool \<Rightarrow> bool" where
  "awake s =
     (pl_full s \<or> (\<forall>i < length (ul_heap (pl_m s)). fl_ch (file_at i s) \<noteq> [] \<longrightarrow>
        fl_owned (file_at i s) \<or> fl_enqueued (file_at i s) \<or> PSignal i \<in># pl_prod s))"

lemma awake_upd:
  assumes "awake s" and "\<not> full \<Longrightarrow> \<not> pl_full s" and "length (ul_heap m) = length (ul_heap (pl_m s))"
    and "\<And>j. j < length (ul_heap m) \<Longrightarrow> j \<noteq> i \<Longrightarrow> ul_heap m ! j = ul_heap (pl_m s) ! j"
    and "\<And>j. j \<noteq> i \<Longrightarrow> PSignal j \<in># pl_prod s \<Longrightarrow> PSignal j \<in># P"
    and "\<not> full \<Longrightarrow> i < length (ul_heap m) \<Longrightarrow> fl_ch (ul_heap m ! i) \<noteq> [] \<Longrightarrow>
      (fl_owned (ul_heap (pl_m s) ! i) \<or> fl_enqueued (ul_heap (pl_m s) ! i) \<or> PSignal i \<in># pl_prod s \<or> fl_ch (ul_heap (pl_m s) ! i) = []) \<Longrightarrow>
      fl_owned (ul_heap m ! i) \<or> fl_enqueued (ul_heap m ! i) \<or> PSignal i \<in># P"
  shows "awake (s\<lparr> pl_m := m, pl_prod := P, pl_work := W, pl_sent := S, pl_full := full \<rparr>)"
proof (cases full)
  case False
  have "fl_owned (ul_heap m ! j) \<or> fl_enqueued (ul_heap m ! j) \<or> PSignal j \<in># P"
    if "j < length (ul_heap m)" and "fl_ch (ul_heap m ! j) \<noteq> []" for j
    using assms(1,2) False that assms(3) assms(4,5) [of j] assms(6) unfolding awake_def file_at_def
    by (cases "j = i") auto
  then show ?thesis by (simp add: awake_def file_at_def)
qed (simp add: awake_def)

lemma awake_same:
  assumes "awake s" and "pl_prod s' = pl_prod s" and "pl_full s' = pl_full s" and "ul_heap (pl_m s') = ul_heap (pl_m s)"
  shows "awake s'"
  using assms by (simp add: awake_def file_at_def)

lemma awake_file_step:
  assumes "awake s" and "i < length (ul_heap (pl_m s))"
    and "fl_ch (f (ul_heap (pl_m s) ! i)) \<noteq> [] \<Longrightarrow>
      fl_owned (f (ul_heap (pl_m s) ! i)) \<or> fl_enqueued (f (ul_heap (pl_m s) ! i)) \<or> PSignal i \<in># P"
    and "\<And>j. j \<noteq> i \<Longrightarrow> PSignal j \<in># pl_prod s \<Longrightarrow> PSignal j \<in># P"
    and "ul_heap m = (ul_heap (pl_m s))[i := f (ul_heap (pl_m s) ! i)]"
  shows "awake (s\<lparr> pl_m := m, pl_prod := P, pl_work := W, pl_sent := S \<rparr>)"
proof -
  have "awake (s\<lparr> pl_m := m, pl_prod := P, pl_work := W, pl_sent := S, pl_full := pl_full s \<rparr>)"
    by (rule awake_upd [OF assms(1), where i = i]) (use assms(2-5) in auto)
  then show ?thesis by simp
qed

lemma ids_okD:
  assumes "pool_inv s"
  shows "x \<in># pl_prod s \<Longrightarrow> prod_file x < length (ul_heap (pl_m s))"
    and "w \<in># pl_work s \<Longrightarrow> work_file w = Some i \<Longrightarrow> i < length (ul_heap (pl_m s))"
    and "(p, i) \<in> set (ul_files (pl_m s)) \<Longrightarrow> i < length (ul_heap (pl_m s))"
  using assms by (auto simp: pool_inv_def ids_ok_def Let_def)

lemma owned_of_worker:
  assumes "pool_inv s" and "w \<in># pl_work s" and "owns i w"
  shows "fl_owned (ul_heap (pl_m s) ! i)"
proof -
  have "work_file w = Some i" using assms(3) by (cases w) auto
  then have "i < length (ul_heap (pl_m s))" using ids_okD(2) [OF assms(1,2)] by simp
  then have "file_ok i s" using assms(1) by (simp add: pool_inv_def)
  then show ?thesis using owners_pos [OF assms(2,3)] by (simp add: file_ok_def file_at_def split: if_splits)
qed

lemma awake_call:
  assumes "awake s" and "fileFor ord now path (pl_m s) = (r, m)"
    and "ul_heap m' = ul_heap m" and "set_mset (pl_prod s) \<subseteq> set_mset P"
  shows "awake (s\<lparr> pl_m := m', pl_prod := P \<rparr>)"
proof -
  have "ul_heap m = ul_heap (pl_m s) \<or> ul_heap m = ul_heap (pl_m s) @ [new_file path now]"
    using fileFor_frame [OF assms(2)] by auto
  then have "j < length (ul_heap (pl_m s)) \<and> ul_heap m ! j = ul_heap (pl_m s) ! j"
    if "j < length (ul_heap m)" and "fl_ch (ul_heap m ! j) \<noteq> []" for j
    using that by (auto simp: nth_append new_file_def split: if_splits)
  then show ?thesis using assms(1,3,4) unfolding awake_def file_at_def by (simp add: subset_iff) metis
qed

lemma awake_release:
  assumes "awake s" and "i < length (ul_heap (pl_m s))" and "fl_ch (ul_heap (pl_m s) ! i) = []"
  shows "awake (s\<lparr> pl_m := release_file i now (pl_m s), pl_work := W \<rparr>)"
  using awake_file_step [OF assms(1,2), where f = "\<lambda>f. f\<lparr> fl_owned := False, fl_lastActive := now \<rparr>" and P = "pl_prod s" and m = "release_file i now (pl_m s)" and W = W and S = "pl_sent s"]
    assms(3) by (simp add: release_file_def upd_file_def)

lemma awake_owned:
  assumes "awake s" and "i < length (ul_heap (pl_m s))" and "ul_heap m = (ul_heap (pl_m s))[i := f (ul_heap (pl_m s) ! i)]"
    and "fl_owned (f (ul_heap (pl_m s) ! i))"
  shows "awake (s\<lparr> pl_m := m, pl_work := W \<rparr>)"
  using awake_file_step [OF assms(1,2), where f = f and P = "pl_prod s" and m = m and W = W and S = "pl_sent s"] assms(3,4) by simp

lemma awake_prod:
  assumes "awake s" and "i < length (ul_heap (pl_m s))" and "pl_prod s = add_mset x P" and "prod_file x = i"
    and "\<And>j. j \<noteq> i \<Longrightarrow> PSignal j \<in># P \<Longrightarrow> PSignal j \<in># P'"
    and "ul_heap m = (ul_heap (pl_m s))[i := f (ul_heap (pl_m s) ! i)]"
    and "fl_ch (f (ul_heap (pl_m s) ! i)) \<noteq> [] \<Longrightarrow>
      fl_owned (f (ul_heap (pl_m s) ! i)) \<or> fl_enqueued (f (ul_heap (pl_m s) ! i)) \<or> PSignal i \<in># P'"
  shows "awake (s\<lparr> pl_m := m, pl_prod := P', pl_sent := S \<rparr>)"
proof -
  have "PSignal j \<in># P'" if "j \<noteq> i" and "PSignal j \<in># pl_prod s" for j
    using that assms(3-5) by auto
  then show ?thesis
    using awake_file_step [OF assms(1,2), where f = f and P = P' and m = m and W = "pl_work s" and S = S] assms(6,7) by simp
qed

lemma pool_step_awake:
  assumes "pool_step s s'" and inv: "pool_inv s" and aw: "awake s"
  shows "awake s'"
  using assms(1)
proof cases
  case (call ord now path i m ev block)
  then show ?thesis using awake_call [OF aw call(3), of m "add_mset (PSend i ev block) (pl_prod s)"] by auto
next
  case (call_refused ord now path m)
  then show ?thesis using awake_call [OF aw call_refused(3), of "drop_event m" "pl_prod s"] by auto
next
  case (send i ev block P)
  have "i < length (ul_heap (pl_m s))" using ids_okD(1) [OF inv, of "PSend i ev block"] send(2) by simp
  then show ?thesis unfolding send(1)
    by (rule awake_prod [OF aw _ send(2), where f = "\<lambda>f. f\<lparr> fl_ch := fl_ch f @ [ev] \<rparr>"]) (auto simp: send_event_def upd_file_def)
next
  case (refuse i ev block P)
  have i: "i < length (ul_heap (pl_m s))" using ids_okD(1) [OF inv, of "PSend i ev block"] refuse(2) by simp
  have sig: "PSignal j \<in># P" if "PSignal j \<in># pl_prod s" for j using that refuse(2) by simp
  have heap: "ul_heap (refuse_event i (pl_m s)) = (ul_heap (pl_m s))[i := (\<lambda>f. f\<lparr> fl_dropped := Suc (fl_dropped f) \<rparr>) (ul_heap (pl_m s) ! i)]"
    by (simp add: refuse_event_def upd_file_def)
  have "awake (s\<lparr> pl_m := refuse_event i (pl_m s), pl_prod := P, pl_work := pl_work s, pl_sent := pl_sent s, pl_full := pl_full s \<rparr>)"
    by (rule awake_upd [OF aw, where i = i]) (use i sig aw in \<open>auto simp: heap awake_def file_at_def\<close>)
  then show ?thesis unfolding refuse(1) by simp
next
  case (signal i P)
  have "i < length (ul_heap (pl_m s))" using ids_okD(1) [OF inv, of "PSignal i"] signal(2) by simp
  then have "awake (s\<lparr> pl_m := set_enqueued i True (pl_m s), pl_prod := add_mset (PPush i) P, pl_sent := pl_sent s \<rparr>)"
    by (rule awake_prod [OF aw _ signal(2), where f = "\<lambda>f. f\<lparr> fl_enqueued := True \<rparr>"]) (auto simp: set_enqueued_def upd_file_def)
  then show ?thesis unfolding signal(1) by simp
next
  case (no_signal i P)
  have "i < length (ul_heap (pl_m s))" using ids_okD(1) [OF inv, of "PSignal i"] no_signal(2) by simp
  then have "awake (s\<lparr> pl_m := pl_m s, pl_prod := P, pl_sent := pl_sent s \<rparr>)"
    by (rule awake_prod [OF aw _ no_signal(2), where f = id]) (use no_signal(3) in \<open>auto simp: need_ready_def\<close>)
  then show ?thesis unfolding no_signal(1) by simp
next
  case (push i P)
  have i: "i < length (ul_heap (pl_m s))" using ids_okD(1) [OF inv, of "PPush i"] push(2) by simp
  have sig: "PSignal j \<in># P" if "PSignal j \<in># pl_prod s" for j using that push(2) by simp
  have "awake (s\<lparr> pl_m := push_ready i (pl_m s), pl_prod := P, pl_work := pl_work s, pl_sent := pl_sent s,
      pl_full := pl_full s \<or> \<not> ready_room (pl_m s) \<rparr>)"
    by (rule awake_upd [OF aw, where i = i])
      (use i sig aw in \<open>auto simp: push_ready_def set_enqueued_def upd_file_def awake_def file_at_def\<close>)
  then show ?thesis unfolding push(1) by simp
next
  case (claim i W)
  have "i < length (ul_heap (pl_m s))" using ids_okD(2) [OF inv, of "WPopped i"] claim(2) by simp
  then show ?thesis unfolding claim(1)
    by (rule awake_owned [OF aw, where f = "\<lambda>f. f\<lparr> fl_enqueued := False, fl_owned := True \<rparr>"]) (simp_all add: claim_file_def upd_file_def)
next
  case (recv i W ev evs)
  have "fl_owned (ul_heap (pl_m s) ! i)" using owned_of_worker [OF inv, of "WDrain i"] recv(2) by simp
  moreover have "i < length (ul_heap (pl_m s))" using ids_okD(2) [OF inv, of "WDrain i"] recv(2) by simp
  ultimately show ?thesis unfolding recv(1)
    by (intro awake_owned [OF aw, where f = "\<lambda>f. f\<lparr> fl_ch := tl (fl_ch f) \<rparr>"]) (simp_all add: recv_event_def upd_file_def)
next
  case (wrote i ev W)
  have "fl_owned (ul_heap (pl_m s) ! i)" using owned_of_worker [OF inv, of "WWrite i ev"] wrote(2) by simp
  moreover have "i < length (ul_heap (pl_m s))" using ids_okD(2) [OF inv, of "WWrite i ev"] wrote(2) by simp
  ultimately show ?thesis unfolding wrote(1)
    by (intro awake_owned [OF aw, where f = "\<lambda>f. f\<lparr> fl_writers := set_add (qe_key ev) (fl_writers f) \<rparr>"])
      (simp_all add: write_event_def upd_file_def)
next
  case (release i W now)
  have "i < length (ul_heap (pl_m s))" using ids_okD(2) [OF inv, of "WDrain i"] release(2) by simp
  then show ?thesis unfolding release(1) using awake_release [OF aw] release(3) by simp
next
  case (reaped pf now)
  obtain fs where "reap_file now pf (pl_m s) = (pl_m s)\<lparr> ul_files := fs \<rparr>" using reap_file_sub by blast
  then show ?thesis using awake_same [OF aw] reaped(1) by simp
next
  case (close_file p i)
  have i: "i < length (ul_heap (pl_m s))" using ids_okD(3) [OF inv close_file(3)] .
  have "awake (s\<lparr> pl_m := close_signal i (pl_m s), pl_prod := pl_prod s, pl_work := pl_work s, pl_sent := pl_sent s, pl_full := pl_full s \<rparr>)"
    by (rule awake_upd [OF aw, where i = i])
      (use i aw in \<open>auto simp: close_signal_def set_enqueued_def upd_file_def awake_def file_at_def\<close>)
  then show ?thesis unfolding close_file(1) by simp
qed (use awake_same [OF aw] in \<open>simp_all add: close_quit_def\<close>)

lemma pool_run_awake: "pool_run cfg s \<Longrightarrow> awake s"
  unfolding pool_run_def
proof (induction rule: rtranclp_induct)
  case base
  show ?case by (simp add: awake_def newPool_def newManager_def)
next
  case (step s s')
  then have "pool_inv s" using pool_run_inv [of cfg s] by (simp add: pool_run_def)
  then show ?case using pool_step_awake step by blast
qed

lemma evict_shorter:
  assumes "evictIdleLocked ord m = (True, m')" and "set (ord (ul_files m)) = set (ul_files m)"
  shows "length (ul_files m') < length (ul_files m)"
proof -
  obtain p i where f: "List.find (\<lambda>(p, i). idle_file (ul_heap m ! i)) (ord (ul_files m)) = Some (p, i)"
    and m': "m' = m\<lparr> ul_files := AList.delete p (ul_files m) \<rparr>"
    using assms(1) by (auto simp: evictIdleLocked_def split: option.splits)
  have "(p, i) \<in> set (ul_files m)" using f assms(2) by (auto simp: find_Some_iff in_set_conv_nth)
  then have "length (filter (\<lambda>x. p \<noteq> fst x) (ul_files m)) < length (ul_files m)"
    by (intro length_filter_less [of "(p, i)"]) auto
  then show ?thesis by (simp add: m' AList.delete_eq case_prod_beta')
qed

lemma evict_le: "evictIdleLocked ord m = (b, m') \<Longrightarrow> length (ul_files m') \<le> length (ul_files m)"
  by (auto simp: evictIdleLocked_def AList.delete_eq split: option.splits)

lemma length_update_le: "length (AList.update k v xs) \<le> Suc (length xs)"
  by (induction xs) auto

lemma fileFor_cap:
  assumes "fileFor ord now path m = (r, m')" and "set (ord (ul_files m)) = set (ul_files m)"
    and "NumFiles m \<le> max_files m" and "0 < max_files m"
  shows "NumFiles m' \<le> max_files m"
proof -
  define em where "em = (if max_files m \<le> length (ul_files m) then evictIdleLocked ord m else (True, m))"
  obtain ok m1 where em: "em = (ok, m1)" by (cases em)
  have le: "length (ul_files m1) \<le> max_files m"
    using em assms(3) evict_le [of ord m ok m1] by (auto simp: em_def NumFiles_def split: if_splits)
  have less: "length (ul_files m1) < max_files m" if ok
    using em that assms(3) assms(2) evict_shorter [of ord m m1] by (auto simp: em_def NumFiles_def split: if_splits)
  have res: "ul_closing m \<Longrightarrow> m' = m" "map_of (ul_files m) path \<noteq> None \<Longrightarrow> m' = m"
    using assms(1) by (auto simp: fileFor_def split: if_splits)
  have "length (ul_files m') \<le> (if ok then Suc (length (ul_files m1)) else length (ul_files m1))"
    if "\<not> ul_closing m" and "map_of (ul_files m) path = None"
    using assms(1) that em length_update_le [of path "length (ul_heap m1)" "ul_files m1"]
    by (cases ok) (auto simp: fileFor_def em_def [symmetric])
  then have "\<not> ul_closing m \<Longrightarrow> map_of (ul_files m) path = None \<Longrightarrow> length (ul_files m') \<le> max_files m"
    using le less by (cases ok) auto
  then show ?thesis using res assms(3) unfolding NumFiles_def by auto
qed

lemma max_files_pos: "0 < max_files (newManager cfg)"
  by (simp add: max_files_def newManager_def withDefaults_def Let_def)

lemma pool_step_cap:
  assumes "pool_step s s'" and "NumFiles (pl_m s) \<le> max_files (pl_m s)" and "0 < max_files (pl_m s)"
  shows "NumFiles (pl_m s') \<le> max_files (pl_m s') \<and> ul_cfg (pl_m s') = ul_cfg (pl_m s)"
  using assms(1)
proof cases
  case (call ord now path i m ev block)
  have "ul_cfg m = ul_cfg (pl_m s)" using fileFor_frame [OF call(3)] by auto
  then show ?thesis using fileFor_cap [OF call(3,2) assms(2,3)] call(1)
    by (simp add: NumFiles_def max_files_def)
next
  case (call_refused ord now path m)
  have "ul_cfg m = ul_cfg (pl_m s)" using fileFor_frame [OF call_refused(3)] by auto
  then show ?thesis using fileFor_cap [OF call_refused(3,2) assms(2,3)] call_refused(1)
    by (simp add: NumFiles_def max_files_def)
next
  case (reaped pf now)
  obtain p i where pf: "pf = (p, i)" by (cases pf)
  have "length (AList.delete p (ul_files (pl_m s))) \<le> length (ul_files (pl_m s))" by (simp add: AList.delete_eq)
  then show ?thesis using reaped(1) assms(2) by (simp add: pf reap_file_def NumFiles_def max_files_def)
qed (use assms(2) in \<open>simp_all add: NumFiles_def max_files_def send_event_def refuse_event_def set_enqueued_def
      claim_file_def recv_event_def write_event_def release_file_def close_signal_def close_quit_def\<close>)

lemma pool_run_cap: "pool_run cfg s \<Longrightarrow> NumFiles (pl_m s) \<le> max_files (pl_m s) \<and> ul_cfg (pl_m s) = withDefaults cfg"
  unfolding pool_run_def
proof (induction rule: rtranclp_induct)
  case base
  show ?case by (simp add: newPool_def newManager_def NumFiles_def)
next
  case (step s s')
  have "max_files (pl_m s) = max_files (newManager cfg)" using step.IH by (simp add: max_files_def newManager_def)
  then have "0 < max_files (pl_m s)" using max_files_pos by simp
  then show ?case using pool_step_cap [OF step.hyps(2)] step.IH by simp
qed

section \<open>Running the pool\<close>

text \<open>Named moves, so that a schedule can be replayed.\<close>

datatype move = MCall string queuedEvent bool | MSend nat queuedEvent bool | MSignal nat | MPush nat
  | MPop | MClaim nat | MRecv nat | MWrote nat queuedEvent | MRelease nat

fun pool_exec :: "move \<Rightarrow> pool \<Rightarrow> pool option" where
  "pool_exec (MCall path ev block) s =
     (case fileFor id 0 path (pl_m s) of
        (Some i, m) \<Rightarrow> Some (s\<lparr> pl_m := m, pl_prod := add_mset (PSend i ev block) (pl_prod s) \<rparr>)
      | (None, m) \<Rightarrow> Some (s\<lparr> pl_m := drop_event m \<rparr>))"
| "pool_exec (MSend i ev block) s =
     (if PSend i ev block \<in># pl_prod s \<and> has_room i (pl_m s)
      then Some (s\<lparr> pl_m := send_event i ev (pl_m s), pl_prod := add_mset (PSignal i) (pl_prod s - {#PSend i ev block#}),
                    pl_sent := pl_sent s @ [(i, ev)] \<rparr>) else None)"
| "pool_exec (MSignal i) s =
     (if PSignal i \<in># pl_prod s
      then if need_ready i (pl_m s)
           then Some (s\<lparr> pl_m := set_enqueued i True (pl_m s), pl_prod := add_mset (PPush i) (pl_prod s - {#PSignal i#}) \<rparr>)
           else Some (s\<lparr> pl_prod := pl_prod s - {#PSignal i#} \<rparr>)
      else None)"
| "pool_exec (MPush i) s =
     (if PPush i \<in># pl_prod s
      then Some (s\<lparr> pl_m := push_ready i (pl_m s), pl_prod := pl_prod s - {#PPush i#}, pl_full := pl_full s \<or> \<not> ready_room (pl_m s) \<rparr>)
      else None)"
| "pool_exec MPop s =
     (case ul_ready (pl_m s) of
        i # is \<Rightarrow> if WIdle \<in># pl_work s
                  then Some (s\<lparr> pl_m := (pl_m s)\<lparr> ul_ready := is \<rparr>, pl_work := add_mset (WPopped i) (pl_work s - {#WIdle#}) \<rparr>)
                  else None
      | [] \<Rightarrow> None)"
| "pool_exec (MClaim i) s =
     (if WPopped i \<in># pl_work s
      then Some (s\<lparr> pl_m := claim_file i (pl_m s), pl_work := add_mset (WDrain i) (pl_work s - {#WPopped i#}) \<rparr>) else None)"
| "pool_exec (MRecv i) s =
     (case fl_ch (ul_heap (pl_m s) ! i) of
        ev # evs \<Rightarrow> if WDrain i \<in># pl_work s
                     then Some (s\<lparr> pl_m := recv_event i (pl_m s), pl_work := add_mset (WWrite i ev) (pl_work s - {#WDrain i#}) \<rparr>)
                     else None
      | [] \<Rightarrow> None)"
| "pool_exec (MWrote i ev) s =
     (if WWrite i ev \<in># pl_work s
      then Some (s\<lparr> pl_m := write_event i ev (pl_m s), pl_work := add_mset (WDrain i) (pl_work s - {#WWrite i ev#}) \<rparr>) else None)"
| "pool_exec (MRelease i) s =
     (if WDrain i \<in># pl_work s \<and> fl_ch (ul_heap (pl_m s) ! i) = []
      then Some (s\<lparr> pl_m := release_file i 0 (pl_m s), pl_work := add_mset WIdle (pl_work s - {#WDrain i#}) \<rparr>) else None)"

fun pool_execs :: "move list \<Rightarrow> pool \<Rightarrow> pool option" where
  "pool_execs [] s = Some s"
| "pool_execs (mv # mvs) s = (case pool_exec mv s of None \<Rightarrow> None | Some s' \<Rightarrow> pool_execs mvs s')"

lemma mset_take: "x \<in># M \<Longrightarrow> M = add_mset x (M - {#x#})"
  by simp

lemma pool_exec_step:
  assumes "pool_exec mv s = Some s'"
  shows "pool_step s s'"
proof (cases mv)
  case (MCall path ev block)
  obtain r m where f: "fileFor id 0 path (pl_m s) = (r, m)" by (cases "fileFor id 0 path (pl_m s)")
  show ?thesis
  proof (cases r)
    case None
    then show ?thesis using assms MCall f pool_step.call_refused [of id s 0 path m] by simp
  next
    case (Some i)
    then show ?thesis using assms MCall f pool_step.call [of id s 0 path i m] by auto
  qed
next
  case (MSend i ev block)
  then show ?thesis using assms pool_step.send [OF mset_take] by (auto split: if_splits)
next
  case (MSignal i)
  then show ?thesis using assms pool_step.signal [OF mset_take] pool_step.no_signal [OF mset_take] by (auto split: if_splits)
next
  case (MPush i)
  then show ?thesis using assms pool_step.push [OF mset_take] by (auto split: if_splits)
next
  case MPop
  then show ?thesis using assms pool_step.pop [OF mset_take] by (auto split: if_splits list.splits)
next
  case (MClaim i)
  then show ?thesis using assms pool_step.claim [OF mset_take] by (auto split: if_splits)
next
  case (MRecv i)
  then show ?thesis using assms pool_step.recv [OF mset_take] by (auto split: if_splits list.splits)
next
  case (MWrote i ev)
  then show ?thesis using assms pool_step.wrote [OF mset_take] by (auto split: if_splits)
next
  case (MRelease i)
  then show ?thesis using assms pool_step.release [OF mset_take] by (auto split: if_splits)
qed

lemma pool_execs_run:
  assumes "pool_execs mvs (newPool cfg) = Some s"
  shows "pool_run cfg s"
proof -
  have "pool_step\<^sup>*\<^sup>* a s" if "pool_execs mvs a = Some s" for a
    using that
  proof (induction mvs arbitrary: a)
    case (Cons mv mvs)
    then obtain b where "pool_exec mv a = Some b" and "pool_execs mvs b = Some s" by (auto split: option.splits)
    then show ?case using Cons.IH pool_exec_step converse_rtranclp_into_rtranclp [of pool_step a b s] by blast
  qed simp
  then show ?thesis using assms by (simp add: pool_run_def)
qed

definition one_event :: queuedEvent where
  "one_event = \<lparr> qe_key = (1, 0, 0), qe_rec = ReleasedEv ''x'' \<rparr>"

definition two_event :: queuedEvent where
  "two_event = \<lparr> qe_key = (1, 1, 0), qe_rec = ReleasedEv ''y'' \<rparr>"

definition small_cfg :: ulog_config where
  "small_cfg = \<lparr> uc_Workers = 2, uc_QueueDepth = 4, uc_SubmitTimeout = 5, uc_IdleTimeout = 60, uc_MaxFiles = 1 \<rparr>"

definition one_write :: "move list" where
  "one_write = [MCall ''a.log'' one_event True, MSend 0 one_event True, MSignal 0, MPush 0, MPop, MClaim 0, MRecv 0, MWrote 0 one_event, MRelease 0]"

text \<open>
  A producer holds a file state that it has not sent to yet, so the state looks idle and is evicted for another path;
  the next event for the first path gets a fresh state.
\<close>

definition two_states :: "move list" where
  "two_states = [MCall ''a.log'' one_event True, MCall ''b.log'' two_event True, MCall ''a.log'' two_event True,
     MSend 0 one_event True, MSignal 0, MPush 0]"

section \<open>Properties\<close>

text \<open>
  C29. In every interleaving of producers, workers, reaper and shutdown, each file state is drained by at most one
  worker, its buffer never exceeds the queue depth, the number of tracked files never exceeds the cap, and the events
  accepted for it are, in order, those written, then at most one being written, then those buffered.\<close>

theorem userlog_fifo:
  assumes "pool_run cfg s" and "i < length (ul_heap (pl_m s))"
  shows "owners i s \<le> 1 \<and> length (fl_ch (file_at i s)) \<le> depth (pl_m s) \<and> NumFiles (pl_m s) \<le> max_files (pl_m s) \<and>
    (\<exists>mid. length mid \<le> 1 \<and> of_file i (pl_sent s) = of_file i (ul_written (pl_m s)) @ mid @ fl_ch (file_at i s))"
proof -
  have ok: "file_ok i s" using pool_run_inv [OF assms(1)] assms(2) by (simp add: pool_inv_def)
  have "\<exists>mid. length mid \<le> 1 \<and> of_file i (pl_sent s) = of_file i (ul_written (pl_m s)) @ mid @ fl_ch (file_at i s)"
  proof (cases "\<exists>ev. WWrite i ev \<in># pl_work s")
    case True
    then obtain ev where "WWrite i ev \<in># pl_work s" by blast
    then show ?thesis using ok by (intro exI [of _ "[ev]"]) (simp add: file_ok_def in_order_def)
  next
    case False
    then show ?thesis using ok by (intro exI [of _ "[]"]) (simp add: file_ok_def in_order_def)
  qed
  then show ?thesis using ok pool_run_cap [OF assms(1)] by (simp add: file_ok_def)
qed

theorem userlog_fifo_witness:
  "\<exists>s. pool_execs (take 7 one_write) (newPool small_cfg) = Some s \<and> owners 0 s \<le> 1"
proof -
  obtain s where s: "pool_execs (take 7 one_write) (newPool small_cfg) = Some s"
    and "0 < length (ul_heap (pl_m s))"
  proof -
    have "(case pool_execs (take 7 one_write) (newPool small_cfg) of None \<Rightarrow> False | Some s \<Rightarrow> 0 < length (ul_heap (pl_m s)))"
      by code_simp
    then show thesis using that by (auto split: option.splits)
  qed
  then show ?thesis using userlog_fifo [OF pool_execs_run [OF s], of 0] by blast
qed

text \<open>
  C30. No wake-up is lost: as long as the ready queue never overflowed, once no producer is inside a call, every worker
  waits and the ready queue is empty, every accepted event of every file state has been written, in order.\<close>

theorem userlog_all_written:
  assumes "pool_run cfg s" and "\<not> pl_full s" and "pl_prod s = {#}" and "\<forall>w \<in># pl_work s. w = WIdle"
    and "ul_ready (pl_m s) = []"
  shows "of_file i (ul_written (pl_m s)) = of_file i (pl_sent s)"
proof (cases "i < length (ul_heap (pl_m s))")
  case False
  then have "of_file i (ul_written (pl_m s)) = []" and "of_file i (pl_sent s) = []"
    using pool_run_inv [OF assms(1)] by (auto simp: pool_inv_def ids_ok_def Let_def of_file_def filter_empty_conv)
  then show ?thesis by simp
next
  case True
  then have ok: "file_ok i s" using pool_run_inv [OF assms(1)] by (simp add: pool_inv_def)
  have none: "w \<notin># pl_work s" if "w \<noteq> WIdle" for w using assms(4) that by blast
  then have "tokens i s = 0" using assms(3,5) by (simp add: tokens_def not_in_iff [symmetric])
  moreover have "owners i s = 0"
  proof -
    have "filter_mset (owns i) (pl_work s) = filter_mset (\<lambda>_. False) (pl_work s)"
      using assms(4) by (intro filter_mset_cong) auto
    then show ?thesis by (simp add: owners_def)
  qed
  ultimately have "\<not> fl_owned (file_at i s) \<and> \<not> fl_enqueued (file_at i s)" using ok by (simp add: file_ok_def split: if_splits)
  then have "fl_ch (file_at i s) = []" using pool_run_awake [OF assms(1)] True assms(2,3) by (auto simp: awake_def)
  then show ?thesis using ok none by (simp add: file_ok_def in_order_def)
qed

theorem userlog_all_written_witness:
  "\<exists>s. pool_execs one_write (newPool small_cfg) = Some s \<and> of_file 0 (ul_written (pl_m s)) = of_file 0 (pl_sent s)"
proof -
  obtain s where s: "pool_execs one_write (newPool small_cfg) = Some s"
    and "\<not> pl_full s" "pl_prod s = {#}" "\<forall>w \<in># pl_work s. w = WIdle" "ul_ready (pl_m s) = []"
  proof -
    have "(case pool_execs one_write (newPool small_cfg) of None \<Rightarrow> False
        | Some s \<Rightarrow> \<not> pl_full s \<and> pl_prod s = {#} \<and> (\<forall>w \<in># pl_work s. w = WIdle) \<and> ul_ready (pl_m s) = [])"
      by code_simp
    then show thesis using that by (auto split: option.splits)
  qed
  then show ?thesis using userlog_all_written [OF pool_execs_run [OF s], of 0] by blast
qed

text \<open>
  C34. With a cap of one tracked file the exclusive ownership of a file and the bound on the ready queue fail: a schedule
  leads to two workers that write the same path at the same time, and another to a producer that finds the ready queue
  full, counts its event as dropped, and leaves it in a buffer that nobody is going to drain.\<close>

theorem userlog_two_writers:
  "(\<exists>s. pool_run small_cfg s \<and> WWrite 0 one_event \<in># pl_work s \<and> WWrite 2 two_event \<in># pl_work s \<and>
      fl_path (file_at 0 s) = fl_path (file_at 2 s)) \<and>
   (\<exists>s. pool_run small_cfg s \<and> pl_full s \<and> Dropped (pl_m s) = 1 \<and> fl_ch (file_at 2 s) = [two_event] \<and>
      2 \<notin> set (ul_ready (pl_m s)) \<and> \<not> fl_enqueued (file_at 2 s) \<and> \<not> fl_owned (file_at 2 s))"
proof
  have "(case pool_execs (two_states @ [MPop, MClaim 0, MRecv 0, MSend 2 two_event True, MSignal 2, MPush 2, MPop, MClaim 2, MRecv 2]) (newPool small_cfg) of
      None \<Rightarrow> False
    | Some s \<Rightarrow> WWrite 0 one_event \<in># pl_work s \<and> WWrite 2 two_event \<in># pl_work s \<and> fl_path (file_at 0 s) = fl_path (file_at 2 s))"
    by code_simp
  then show "\<exists>s. pool_run small_cfg s \<and> WWrite 0 one_event \<in># pl_work s \<and> WWrite 2 two_event \<in># pl_work s \<and>
      fl_path (file_at 0 s) = fl_path (file_at 2 s)"
    using pool_execs_run by (auto split: option.splits)
  have "(case pool_execs (two_states @ [MSend 2 two_event True, MSignal 2, MPush 2]) (newPool small_cfg) of
      None \<Rightarrow> False
    | Some s \<Rightarrow> pl_full s \<and> Dropped (pl_m s) = 1 \<and> fl_ch (file_at 2 s) = [two_event] \<and>
        2 \<notin> set (ul_ready (pl_m s)) \<and> \<not> fl_enqueued (file_at 2 s) \<and> \<not> fl_owned (file_at 2 s))"
    by code_simp
  then show "\<exists>s. pool_run small_cfg s \<and> pl_full s \<and> Dropped (pl_m s) = 1 \<and> fl_ch (file_at 2 s) = [two_event] \<and>
      2 \<notin> set (ul_ready (pl_m s)) \<and> \<not> fl_enqueued (file_at 2 s) \<and> \<not> fl_owned (file_at 2 s)"
    using pool_execs_run by (auto split: option.splits)
qed

end
