(* ===== verification/ShadowTransfer.thy ===== *)
theory ShadowTransfer
  imports Spool Sched
begin

text \<open>
  The shadow as a file-transfer server, \<open>shadow/transfer.go\<close>: transfer keys and the routes of an endpoint, the input
  files a shadow offers, the sink that lands the output of a job in its directory, and the security sessions derived from
  a claim id.

  The transfer protocol is third-party code: what \<open>ServeUpload\<close> and \<open>ServeDownload\<close> answer is an argument. A sink is
  the data it is built from; what it asks of the privilege-separation layer is the list of operations it returns.
  \<open>os.Stat\<close> is an argument, as are the random bits and the clock of a transfer key.
\<close>

section \<open>Transfer keys\<close>

abbreviation (input) stdoutRemapName :: string where "stdoutRemapName \<equiv> ''_condor_stdout''"
abbreviation (input) stderrRemapName :: string where "stderrRemapName \<equiv> ''_condor_stderr''"

text \<open>\<open>%x\<close> of an unsigned number.\<close>

fun utox :: "nat \<Rightarrow> string" where
  "utox n = (if n < 16 then [hex_digit n] else utox (n div 16) @ [hex_digit (n mod 16)])"

declare utox.simps [simp del]

text \<open>The key and the advanced sequence counter. The counter is 64 bits wide and wraps.\<close>

definition generateTransferKey :: "64 word \<Rightarrow> 64 word \<Rightarrow> 32 word \<Rightarrow> 32 word \<Rightarrow> string \<times> 64 word" where
  "generateTransferKey transferSeq now r0 r1 =
     (let seq = transferSeq + 1
      in (utox (unat seq) @ ''#'' @ utox (unat now) @ utox (unat r0) @ utox (unat r1), seq))"

section \<open>Sinks and plans\<close>

record iwd_sink =
  is_iwd :: string
  is_remap :: "(string \<times> string) list"
  is_owner :: string

definition iwd_dest :: "iwd_sink \<Rightarrow> string \<Rightarrow> string option" where
  "iwd_dest s name =
     (let name = (case map_of (is_remap s) name of Some r \<Rightarrow> r | None \<Rightarrow> name);
          clean = path_clean name
      in if path_is_abs clean \<or> clean = ''..'' \<or> has_prefix clean ''../'' then None
         else Some (path_join [is_iwd s, clean]))"

definition iwd_Mkdir :: "iwd_sink \<Rightarrow> string \<Rightarrow> fs_op list option" where
  "iwd_Mkdir s name = (case iwd_dest s name of None \<Rightarrow> None | Some dst \<Rightarrow> Some [FsMkdirAll (is_owner s) dst])"

definition iwd_File :: "iwd_sink \<Rightarrow> string \<Rightarrow> int \<Rightarrow> fs_op list option" where
  "iwd_File s name mode =
     (case iwd_dest s name of
        None \<Rightarrow> None
      | Some dst \<Rightarrow>
          Some [FsMkdirAll (is_owner s) (path_dir dst),
                FsCreate (is_owner s) dst (if perm_of mode = 0 then 0x1a4 else perm_of mode)])"

datatype transfer_err =
    TeAccount account_err
  | TeInput string
  | TeNoIwd
  | TeNoClaim
  | TeNoSession
  | TeImport
  | TeNoRoute string
  | TeRead
  | TeProtocol

definition resolveAgainst :: "string \<Rightarrow> string \<Rightarrow> string" where
  "resolveAgainst base p = (if path_is_abs p \<or> base = [] then p else path_join [base, p])"

text \<open>The closure \<open>add\<close>: the files so far, or the first input that cannot be read. The names seen are those of the files.\<close>

definition plan_add :: "(string \<Rightarrow> file_info option) \<Rightarrow> string \<Rightarrow> string \<Rightarrow> transfer_err + file_spec list \<Rightarrow>
    transfer_err + file_spec list" where
  "plan_add stat wireName source r =
     (case r of
        Inl e \<Rightarrow> Inl e
      | Inr files \<Rightarrow>
          if wireName = [] \<or> wireName \<in> fs_wire ` set files then Inr files
          else (case stat source of
                  None \<Rightarrow> Inl (TeInput source)
                | Some info \<Rightarrow>
                    Inr (files @ [\<lparr> fs_wire = wireName, fs_perm = perm_of (fi_mode info), fs_bytes = fi_size info,
                                    fs_src = source \<rparr>])))"

definition plan_executable :: "('ad, 'ex, 'z) classad_ops_scheme \<Rightarrow> (string \<Rightarrow> file_info option) \<Rightarrow> 'ad \<Rightarrow>
    transfer_err + file_spec list \<Rightarrow> transfer_err + file_spec list" where
  "plan_executable A stat ad r =
     (let cmd = str_attr0 A ad ''Cmd'' in
      if (case eval_bool A ad ''TransferExecutable'' of Some v \<Rightarrow> v | None \<Rightarrow> True) \<and> cmd \<noteq> []
      then plan_add stat (path_base cmd) (resolveAgainst (str_attr0 A ad ''Iwd'') cmd) r else r)"

definition plan_inputs :: "(string \<Rightarrow> file_info option) \<Rightarrow> string \<Rightarrow> string list \<Rightarrow>
    transfer_err + file_spec list \<Rightarrow> transfer_err + file_spec list" where
  "plan_inputs stat iwd fs r = fold (\<lambda>f. plan_add stat (path_base f) (resolveAgainst iwd f)) fs r"

text \<open>The files and the account they are opened as.\<close>

definition buildInputPlan :: "('ad, 'ex, 's, 'h, 'z) ext_scheme \<Rightarrow> (string \<Rightarrow> file_info option) \<Rightarrow> 'ad \<Rightarrow>
    transfer_err + (file_spec list \<times> string)" where
  "buildInputPlan E stat ad =
     (case JobAccount E ad of
        Inl e \<Rightarrow> Inl (TeAccount e)
      | Inr owner \<Rightarrow>
          (case plan_inputs stat (str_attr0 E ad ''Iwd'') (splitFileList (str_attr0 E ad ''TransferInput''))
                  (plan_executable E stat ad (Inr [])) of
             Inl e \<Rightarrow> Inl e
           | Inr files \<Rightarrow> Inr (files, owner)))"

definition std_remap :: "string \<Rightarrow> string \<Rightarrow> (string \<times> string) list" where
  "std_remap sandbox out = (if out \<noteq> [] \<and> out \<noteq> sandbox \<and> out \<noteq> ''/dev/null'' then [(sandbox, out)] else [])"

definition buildOutputSink :: "('ad, 'ex, 's, 'h, 'z) ext_scheme \<Rightarrow> 'ad \<Rightarrow> transfer_err + iwd_sink" where
  "buildOutputSink E ad =
     (let iwd = str_attr0 E ad ''Iwd'' in
      if iwd = [] then Inl TeNoIwd
      else case JobAccount E ad of
             Inl e \<Rightarrow> Inl (TeAccount e)
           | Inr owner \<Rightarrow>
               Inr \<lparr> is_iwd = iwd,
                     is_remap = std_remap stdoutRemapName (str_attr0 E ad ''Out'') @ std_remap stderrRemapName (str_attr0 E ad ''Err''),
                     is_owner = owner \<rparr>)"

section \<open>Endpoint\<close>

record transferRoute =
  rt_plan :: "file_spec list"
  rt_owner :: string
  rt_sink :: iwd_sink
  rt_spooled :: bool
  rt_cluster :: int
  rt_proc :: int

record endpoint =
  ep_sinful :: string
  ep_routes :: "(string \<times> transferRoute) list"

definition register :: "string \<Rightarrow> transferRoute \<Rightarrow> endpoint \<Rightarrow> endpoint" where
  "register key r ep = ep\<lparr> ep_routes := AList.update key r (ep_routes ep) \<rparr>"

definition unregister :: "string \<Rightarrow> endpoint \<Rightarrow> endpoint" where
  "unregister key ep = ep\<lparr> ep_routes := AList.delete key (ep_routes ep) \<rparr>"

definition lookup_route :: "string \<Rightarrow> endpoint \<Rightarrow> transferRoute option" where
  "lookup_route key ep = map_of (ep_routes ep) key"

text \<open>The key read from the connection is \<open>None\<close> when the read fails.\<close>

definition doUpload :: "(file_spec list \<Rightarrow> transfer_err option) \<Rightarrow> string option \<Rightarrow> endpoint \<Rightarrow> transfer_err option" where
  "doUpload serveUpload key ep =
     (case key of
        None \<Rightarrow> Some TeRead
      | Some k \<Rightarrow>
          (case lookup_route k ep of
             None \<Rightarrow> Some (TeNoRoute k)
           | Some route \<Rightarrow> serveUpload (rt_plan route)))"

abbreviation spooled_output :: "string list \<Rightarrow> string list" where
  "spooled_output files \<equiv>
     filter (\<lambda>name. \<not> (name = stdoutRemapName \<or> name = stderrRemapName \<or> CHR ''/'' \<in> set name)) files"

text \<open>The files received, and what the recorder of spooled output is told.\<close>

definition doDownload :: "(iwd_sink \<Rightarrow> string list option) \<Rightarrow> bool \<Rightarrow> string option \<Rightarrow> endpoint \<Rightarrow>
    transfer_err option \<times> (int \<times> int \<times> string list) option" where
  "doDownload serveDownload recorder key ep =
     (case key of
        None \<Rightarrow> (Some TeRead, None)
      | Some k \<Rightarrow>
          (case lookup_route k ep of
             None \<Rightarrow> (Some (TeNoRoute k), None)
           | Some route \<Rightarrow>
               (case serveDownload (rt_sink route) of
                  None \<Rightarrow> (Some TeProtocol, None)
                | Some files \<Rightarrow>
                    (None, if rt_spooled route \<and> recorder
                           then Some (rt_cluster route, rt_proc route, spooled_output files) else None))))"

section \<open>Sessions and set-up\<close>

record sessionMaterial =
  sm_id :: string
  sm_info :: string
  sm_key :: string

record claimSessions =
  cs_reconnect :: sessionMaterial
  cs_filetrans :: sessionMaterial

text \<open>
  \<open>parse claim\<close> gives the session id, the session info and the key of a claim id; \<open>import claim\<close> the id under which the
  file-transfer session was stored.
\<close>

definition setupClaimSessions :: "(string \<Rightarrow> string \<times> string \<times> string) \<Rightarrow> (string \<Rightarrow> string option) \<Rightarrow> string \<Rightarrow>
    transfer_err + claimSessions option" where
  "setupClaimSessions parse imp claimID =
     (case parse claimID of (baseID, info, key) \<Rightarrow>
        if baseID = [] then Inr None
        else case imp claimID of
               None \<Rightarrow> Inl TeImport
             | Some ftID \<Rightarrow>
                 Inr (Some \<lparr> cs_reconnect = \<lparr> sm_id = baseID, sm_info = info, sm_key = key \<rparr>,
                             cs_filetrans = \<lparr> sm_id = ftID,
                               sm_info = ''[Encryption='' @ [CHR 0x22] @ ''YES'' @ [CHR 0x22] @ '';Integrity='' @ [CHR 0x22] @ ''YES''
                                 @ [CHR 0x22] @ '';CryptoMethods='' @ [CHR 0x22] @ ''AES'' @ [CHR 0x22] @ '';]'',
                               sm_key = key \<rparr> \<rparr>))"

abbreviation is_spooled :: "('ad, 'ex, 'z) classad_ops_scheme \<Rightarrow> 'ad \<Rightarrow> bool" where
  "is_spooled A ad \<equiv>
     (lookup_attr A ad ''SUBMIT_Iwd'' \<noteq> None \<or> (case eval_int A ad ''StageInFinish'' of Some fin \<Rightarrow> fin > 0 | None \<Rightarrow> False))"

text \<open>
  The transfer state of a shadow is its key and socket; \<open>key\<close> is the key generated for it. Without an endpoint there is
  none.
\<close>

definition setupTransfer :: "('ad, 'ex, 's, 'h, 'z) ext_scheme \<Rightarrow> (string \<Rightarrow> file_info option) \<Rightarrow> string \<Rightarrow> string \<Rightarrow> claimSessions option \<Rightarrow>
    'ad \<Rightarrow> endpoint option \<Rightarrow> transfer_err + ((string \<times> string) option \<times> endpoint option)" where
  "setupTransfer E stat key claimID sessions ad ep =
     (case ep of
        None \<Rightarrow> Inr (None, None)
      | Some ep \<Rightarrow>
          if claimID = [] then Inl TeNoClaim
          else if sessions = None then Inl TeNoSession
          else case buildInputPlan E stat ad of
                 Inl e \<Rightarrow> Inl e
               | Inr (plan, owner) \<Rightarrow>
                   (case buildOutputSink E ad of
                      Inl e \<Rightarrow> Inl e
                    | Inr sink \<Rightarrow>
                        Inr (Some (key, ep_sinful ep),
                             Some (register key
                               \<lparr> rt_plan = plan, rt_owner = owner, rt_sink = sink, rt_spooled = is_spooled E ad,
                                 rt_cluster = int_attr0 E ad ''ClusterId'', rt_proc = int_attr0 E ad ''ProcId'' \<rparr> ep))))"

definition teardownTransfer :: "(string \<times> string) option \<Rightarrow> endpoint option \<Rightarrow> endpoint option" where
  "teardownTransfer ts ep = (case (ts, ep) of (Some (key, _), Some ep) \<Rightarrow> Some (unregister key ep) | _ \<Rightarrow> ep)"

end
