(* ===== verification/Shadow.thy ===== *)
theory Shadow
  imports ShadowTransfer
begin

text \<open>
  The shadow, \<open>shadow/shadow.go\<close> and \<open>shadow/syscalls.go\<close>: the service of a starter's remote system calls over one
  connection, the outcome of a run and the wind-down of its claim.

  A request is one CEDAR message: the items it carries (the first is the number of the call), whether its end can be
  read, and whether the answer to it can be sent. Reading an item of another kind than the one expected is a decoding
  error. When the list of requests is used up the connection is gone. Replies are recorded with whether
  private attributes are included. Events are recorded in the order they are emitted; the callback itself, which runs
  in the caller, is not part of the model. The calls a shadow makes to the startd are recorded, their answers arguments.
\<close>

section \<open>Constants\<close>

abbreviation (input) exitCodeOffset :: int where "exitCodeOffset \<equiv> 100"
abbreviation (input) jobException :: int where "jobException \<equiv> 4"
abbreviation (input) dprintfError :: int where "dprintfError \<equiv> 44"
abbreviation (input) JobExited :: int where "JobExited \<equiv> 0 + exitCodeOffset"
abbreviation (input) JobKilled :: int where "JobKilled \<equiv> 2 + exitCodeOffset"
abbreviation (input) JobCoredumped :: int where "JobCoredumped \<equiv> 3 + exitCodeOffset"
abbreviation (input) JobExitedAndClaimClosing :: int where "JobExitedAndClaimClosing \<equiv> 15 + exitCodeOffset"

abbreviation (input) opGetDockerCreds :: int where "opGetDockerCreds \<equiv> -85"
abbreviation (input) opDprintfStats :: int where "opDprintfStats \<equiv> -84"
abbreviation (input) opJobTermination :: int where "opJobTermination \<equiv> -82"
abbreviation (input) opRegisterJobInfo :: int where "opRegisterJobInfo \<equiv> -81"
abbreviation (input) opBeginExecution :: int where "opBeginExecution \<equiv> -78"
abbreviation (input) opRegisterStarterInfo :: int where "opRegisterStarterInfo \<equiv> -77"
abbreviation (input) opGetUserInfo :: int where "opGetUserInfo \<equiv> -76"
abbreviation (input) opGetFileInfoNew :: int where "opGetFileInfoNew \<equiv> -74"
abbreviation (input) opJobExit :: int where "opJobExit \<equiv> -65"
abbreviation (input) opGetJobInfo :: int where "opGetJobInfo \<equiv> -63"
abbreviation (input) opUlog :: int where "opUlog \<equiv> 284"
abbreviation (input) opGetJobAttr :: int where "opGetJobAttr \<equiv> 285"
abbreviation (input) opSetJobAttr :: int where "opSetJobAttr \<equiv> 286"
abbreviation (input) opConstrain :: int where "opConstrain \<equiv> 287"
abbreviation (input) opGetSecSessionInfo :: int where "opGetSecSessionInfo \<equiv> 288"
abbreviation (input) opGetcreds :: int where "opGetcreds \<equiv> 302"
abbreviation (input) opGetDelegatedProxy :: int where "opGetDelegatedProxy \<equiv> 303"
abbreviation (input) opEventNotification :: int where "opEventNotification \<equiv> 304"
abbreviation (input) opRequestGuidance :: int where "opRequestGuidance \<equiv> 305"
abbreviation (input) errnoNoSys :: int where "errnoNoSys \<equiv> 38"

definition opName :: "int \<Rightarrow> string" where
  "opName op =
     (case map_of
        [(opGetDockerCreds, ''get_docker_creds''), (opDprintfStats, ''dprintf_stats''),
         (opJobTermination, ''job_termination''), (opRegisterJobInfo, ''register_job_info''),
         (opBeginExecution, ''begin_execution''), (opRegisterStarterInfo, ''register_starter_info''),
         (opGetUserInfo, ''get_user_info''), (opGetFileInfoNew, ''get_file_info_new''), (opJobExit, ''job_exit''),
         (opGetJobInfo, ''get_job_info''), (opUlog, ''ulog''), (opGetJobAttr, ''get_job_attr''),
         (opSetJobAttr, ''set_job_attr''), (opConstrain, ''constrain''),
         (opGetSecSessionInfo, ''get_sec_session_info''), (opGetcreds, ''getcreds''),
         (opGetDelegatedProxy, ''get_delegated_proxy''), (opEventNotification, ''event_notification''),
         (opRequestGuidance, ''request_guidance'')] op of
        Some n \<Rightarrow> n | None \<Rightarrow> ''unknown'')"

section \<open>State\<close>

datatype event_type = EventStarterInfo | EventGetJobInfo | EventBeginExecution | EventJobUpdate | EventJobExit
  | EventJobTermination | EventUlog | EventNotification | EventGuidanceRequest | EventSetJobAttr | EventUnknownOp

record 'ad shadow_event =
  se_Type :: event_type
  se_Ad :: "'ad option"
  se_Attr :: string
  se_Expr :: string
  se_Op :: int

text \<open>The result the scheduler sees, with the ads of the run.\<close>

record 'ad run_result = shadow_result +
  rr_ExitAd :: "'ad option"
  rr_FinalAd :: "'ad option"
  rr_UpdateAd :: "'ad option"

definition ExitedNormally :: "'a shadow_result_scheme \<Rightarrow> bool" where
  "ExitedNormally r = (sr_Reason r = JobExited \<or> sr_Reason r = JobExitedAndClaimClosing)"

text \<open>\<open>sc_Detach\<close> is \<open>None\<close> for a nil flag. \<open>sc_Prepare\<close> is the identity when the hook is nil.\<close>

record 'ad shadow_config =
  sc_JobAd :: 'ad
  sc_ShadowAddr :: string
  sc_ShadowVersion :: string
  sc_UIDDomain :: string
  sc_Startd :: bool
  sc_KeepClaim :: bool
  sc_ClaimID :: string
  sc_GlobalJobID :: string
  sc_ScheddPublicAddr :: string
  sc_Detach :: "bool option"
  sc_Prepare :: "'ad \<Rightarrow> 'ad option"
  sc_ForceWinddownFail :: bool

datatype 'ad sc_item = ItInt int | ItStr string | ItAd 'ad

record 'ad shadow =
  sh_transfer :: "(string \<times> string) option"
  sh_sessions :: "claimSessions option"
  sh_starterAd :: "'ad option"
  sh_updateAd :: "'ad option"
  sh_jobAttrs :: "(string \<times> string) list"
  sh_executing :: bool
  sh_gotExit :: bool
  sh_result :: "'ad run_result"
  sh_events :: "'ad shadow_event list"
  sh_replies :: "(bool \<times> 'ad sc_item list) list"

definition no_result :: "'ad run_result" where
  "no_result = \<lparr> sr_ExitStatus = 0, sr_Reason = 0, rr_ExitAd = None, rr_FinalAd = None, rr_UpdateAd = None \<rparr>"

definition fresh_shadow :: "claimSessions option \<Rightarrow> (string \<times> string) option \<Rightarrow> 'ad shadow" where
  "fresh_shadow sessions transfer =
     \<lparr> sh_transfer = transfer, sh_sessions = sessions, sh_starterAd = None, sh_updateAd = None, sh_jobAttrs = [],
       sh_executing = False, sh_gotExit = False, sh_result = no_result, sh_events = [], sh_replies = [] \<rparr>"

text \<open>A nil stream or a nil job ad is refused by the source before anything else; the model's are never nil.\<close>

definition NewShadow :: "('ad, 'ex, 's, 'h, 'z) ext_scheme \<Rightarrow> (string \<Rightarrow> file_info option) \<Rightarrow> (string \<Rightarrow> string \<times> string \<times> string) \<Rightarrow>
    (string \<Rightarrow> string option) \<Rightarrow> string \<Rightarrow> 'ad shadow_config \<Rightarrow> endpoint option \<Rightarrow> transfer_err + ('ad shadow \<times> endpoint option)" where
  "NewShadow E stat parse imp key cfg ep =
     (case setupClaimSessions parse imp (sc_ClaimID cfg) of
        Inl e \<Rightarrow> Inl e
      | Inr sessions \<Rightarrow>
          (case setupTransfer E stat key (sc_ClaimID cfg) sessions (sc_JobAd cfg) ep of
             Inl e \<Rightarrow> Inl e
           | Inr (transfer, ep) \<Rightarrow> Inr (fresh_shadow sessions transfer, ep)))"

definition lookupJobAttr :: "('ad, 'ex, 'z) classad_ops_scheme \<Rightarrow> 'ad shadow_config \<Rightarrow> string \<Rightarrow> 'ad shadow \<Rightarrow> string option" where
  "lookupJobAttr A cfg name s =
     (case map_of (sh_jobAttrs s) name of
        Some expr \<Rightarrow> Some expr
      | None \<Rightarrow> map_option (expr_string A) (lookup_attr A (sc_JobAd cfg) name))"

definition setJobAttr :: "string \<Rightarrow> string \<Rightarrow> 'ad shadow \<Rightarrow> 'ad shadow" where
  "setJobAttr name expr s = s\<lparr> sh_jobAttrs := AList.update name expr (sh_jobAttrs s) \<rparr>"

definition setStarterAd :: "'ad \<Rightarrow> 'ad shadow \<Rightarrow> 'ad shadow" where
  "setStarterAd ad s = s\<lparr> sh_starterAd := Some ad \<rparr>"

definition setUpdateAd :: "('ad, 'ex, 'z) classad_ops_scheme \<Rightarrow> 'ad \<Rightarrow> 'ad shadow \<Rightarrow> 'ad shadow" where
  "setUpdateAd A ad s =
     s\<lparr> sh_updateAd := Some ad, sh_result := (sh_result s)\<lparr> rr_UpdateAd := Some ad \<rparr>,
        sh_executing := sh_executing s \<or> lookup_attr A ad ''JobState'' \<noteq> None \<rparr>"

definition markExecuting :: "'ad shadow \<Rightarrow> 'ad shadow" where
  "markExecuting s = s\<lparr> sh_executing := True \<rparr>"

definition recordExit :: "int \<Rightarrow> int \<Rightarrow> 'ad \<Rightarrow> 'ad shadow \<Rightarrow> 'ad shadow" where
  "recordExit status reason ad s =
     s\<lparr> sh_gotExit := True,
        sh_result := (sh_result s)\<lparr> sr_ExitStatus := status, sr_Reason := reason, rr_ExitAd := Some ad \<rparr> \<rparr>"

definition recordTermination :: "'ad \<Rightarrow> 'ad shadow \<Rightarrow> 'ad shadow" where
  "recordTermination ad s = s\<lparr> sh_result := (sh_result s)\<lparr> rr_FinalAd := Some ad \<rparr> \<rparr>"

definition emit :: "event_type \<Rightarrow> 'ad option \<Rightarrow> 'ad shadow \<Rightarrow> 'ad shadow" where
  "emit t ad s = s\<lparr> sh_events := sh_events s @ [\<lparr> se_Type = t, se_Ad = ad, se_Attr = [], se_Expr = [], se_Op = 0 \<rparr>] \<rparr>"

definition publish_attrs :: "('ad, 'ex, 'z) classad_ops_scheme \<Rightarrow> 'ad shadow_config \<Rightarrow> 'ad \<Rightarrow> 'ad" where
  "publish_attrs A cfg ad =
     (let ad = (if sc_ShadowAddr cfg \<noteq> [] then set_str A ''ShadowIpAddr'' (sc_ShadowAddr cfg) ad else ad);
          ad = (if sc_ShadowVersion cfg \<noteq> [] then set_str A ''ShadowVersion'' (sc_ShadowVersion cfg) ad else ad)
      in if sc_UIDDomain cfg \<noteq> [] then set_str A ''UidDomain'' (sc_UIDDomain cfg) ad else ad)"

abbreviation publish_transfer :: "('ad, 'ex, 'z) classad_ops_scheme \<Rightarrow> 'ad shadow \<Rightarrow> 'ad \<Rightarrow> 'ad" where
  "publish_transfer A s ad \<equiv>
     (case sh_transfer s of
        None \<Rightarrow> ad
      | Some (key, socket) \<Rightarrow> set_str A ''TransferSocket'' socket (set_str A ''TransferKey'' key ad))"

definition buildJobInfoAd :: "('ad, 'ex, 'z) classad_ops_scheme \<Rightarrow> 'ad shadow_config \<Rightarrow> 'ad shadow \<Rightarrow> 'ad option" where
  "buildJobInfoAd A cfg s = sc_Prepare cfg (publish_transfer A s (publish_attrs A cfg (copyAd A (sc_JobAd cfg))))"

section \<open>Remote system calls\<close>

record 'ad sc_msg =
  mg_items :: "'ad sc_item list"
  mg_end :: bool
  mg_send :: bool

fun get_int :: "'ad sc_item list \<Rightarrow> (int \<times> 'ad sc_item list) option" where
  "get_int (ItInt i # is) = Some (i, is)" | "get_int _ = None"

fun get_str :: "'ad sc_item list \<Rightarrow> (string \<times> 'ad sc_item list) option" where
  "get_str (ItStr x # is) = Some (x, is)" | "get_str _ = None"

fun get_ad :: "'ad sc_item list \<Rightarrow> ('ad \<times> 'ad sc_item list) option" where
  "get_ad (ItAd ad # is) = Some (ad, is)" | "get_ad _ = None"

text \<open>What one request did: whether it was the last one, the error, the state.\<close>

type_synonym 'ad served = "bool \<times> string option \<times> 'ad shadow"

definition serve_failed :: "string \<Rightarrow> 'ad shadow \<Rightarrow> 'ad served" where
  "serve_failed txt s = (False, Some txt, s)"

definition drained :: "'ad sc_msg \<Rightarrow> 'ad served \<Rightarrow> 'ad shadow \<Rightarrow> 'ad served" where
  "drained mg r s = (if mg_end mg then r else serve_failed ''shadow: draining request'' s)"

definition reply :: "'ad sc_msg \<Rightarrow> bool \<Rightarrow> 'ad sc_item list \<Rightarrow> 'ad shadow \<Rightarrow> 'ad served" where
  "reply mg priv items s =
     (if mg_send mg then (False, None, s\<lparr> sh_replies := sh_replies s @ [(priv, items)] \<rparr>)
      else serve_failed ''shadow: sending reply'' s)"

definition replyInt :: "'ad sc_msg \<Rightarrow> int \<Rightarrow> int \<Rightarrow> 'ad shadow \<Rightarrow> 'ad served" where
  "replyInt mg rval terrno s = reply mg False (ItInt rval # (if rval < 0 then [ItInt terrno] else [])) s"

text \<open>A call with one ClassAd as its argument.\<close>

definition with_ad :: "'ad sc_msg \<Rightarrow> 'ad sc_item list \<Rightarrow> string \<Rightarrow> ('ad \<Rightarrow> 'ad served) \<Rightarrow> 'ad shadow \<Rightarrow> 'ad served" where
  "with_ad mg args name k s =
     (case get_ad args of
        None \<Rightarrow> serve_failed (''shadow: '' @ name @ '' ad'') s
      | Some (ad, _) \<Rightarrow> drained mg (k ad) s)"

definition sc_register_starter_info :: "'ad sc_msg \<Rightarrow> 'ad sc_item list \<Rightarrow> 'ad shadow \<Rightarrow> 'ad served" where
  "sc_register_starter_info mg args s =
     with_ad mg args ''register_starter_info'' (\<lambda>ad. replyInt mg 0 0 (emit EventStarterInfo (Some ad) (setStarterAd ad s))) s"

definition sc_get_job_info :: "('ad, 'ex, 'z) classad_ops_scheme \<Rightarrow> 'ad shadow_config \<Rightarrow> 'ad sc_msg \<Rightarrow> 'ad shadow \<Rightarrow> 'ad served" where
  "sc_get_job_info A cfg mg s =
     drained mg
       (case buildJobInfoAd A cfg s of
          None \<Rightarrow> replyInt mg (-1) errnoNoSys s
        | Some ad \<Rightarrow> reply mg True [ItInt 0, ItAd ad] (emit EventGetJobInfo (Some ad) s)) s"

definition sc_get_user_info :: "('ad, 'ex, 'z) classad_ops_scheme \<Rightarrow> int \<Rightarrow> int \<Rightarrow> 'ad sc_msg \<Rightarrow> 'ad shadow \<Rightarrow> 'ad served" where
  "sc_get_user_info A uid gid mg s =
     drained mg (reply mg False [ItInt 0, ItAd (set_int A ''Gid'' gid (set_int A ''Uid'' uid (new_ad A)))] s) s"

definition sc_begin_execution :: "'ad sc_msg \<Rightarrow> 'ad shadow \<Rightarrow> 'ad served" where
  "sc_begin_execution mg s = drained mg (replyInt mg 0 0 (emit EventBeginExecution None (markExecuting s))) s"

definition sc_register_job_info :: "('ad, 'ex, 'z) classad_ops_scheme \<Rightarrow> 'ad sc_msg \<Rightarrow> 'ad sc_item list \<Rightarrow> 'ad shadow \<Rightarrow> 'ad served" where
  "sc_register_job_info A mg args s =
     with_ad mg args ''register_job_info'' (\<lambda>ad. replyInt mg 0 0 (emit EventJobUpdate (Some ad) (setUpdateAd A ad s))) s"

abbreviation norm_reason :: "int \<Rightarrow> int" where
  "norm_reason reason \<equiv>
     (if reason < exitCodeOffset \<and> reason \<noteq> jobException \<and> reason \<noteq> dprintfError then reason + exitCodeOffset else reason)"

text \<open>The last call of a run. A failure to answer it is only logged.\<close>

definition sc_job_exit :: "'ad sc_msg \<Rightarrow> 'ad sc_item list \<Rightarrow> 'ad shadow \<Rightarrow> 'ad served" where
  "sc_job_exit mg args s =
     (case get_int args of
        None \<Rightarrow> serve_failed ''shadow: job_exit status'' s
      | Some (status, args) \<Rightarrow>
          (case get_int args of
             None \<Rightarrow> serve_failed ''shadow: job_exit reason'' s
           | Some (reason, args) \<Rightarrow>
               with_ad mg args ''job_exit''
                 (\<lambda>ad. let s = emit EventJobExit (Some ad) (recordExit status (norm_reason reason) ad s)
                       in (True, None, snd (snd (replyInt mg 0 0 s)))) s))"

definition sc_job_termination :: "'ad sc_msg \<Rightarrow> 'ad sc_item list \<Rightarrow> 'ad shadow \<Rightarrow> 'ad served" where
  "sc_job_termination mg args s =
     with_ad mg args ''job_termination'' (\<lambda>ad. replyInt mg 0 0 (emit EventJobTermination (Some ad) (recordTermination ad s))) s"

text \<open>The one call without an answer.\<close>

definition sc_ulog :: "'ad sc_msg \<Rightarrow> 'ad sc_item list \<Rightarrow> 'ad shadow \<Rightarrow> 'ad served" where
  "sc_ulog mg args s = with_ad mg args ''ulog'' (\<lambda>ad. (False, None, emit EventUlog (Some ad) s)) s"

definition sc_dprintf_stats :: "'ad sc_msg \<Rightarrow> 'ad sc_item list \<Rightarrow> 'ad shadow \<Rightarrow> 'ad served" where
  "sc_dprintf_stats mg args s =
     (case get_str args of
        None \<Rightarrow> serve_failed ''shadow: dprintf_stats message'' s
      | Some _ \<Rightarrow> drained mg (reply mg False [ItInt 0] s) s)"

definition sc_event_notification :: "'ad sc_msg \<Rightarrow> 'ad sc_item list \<Rightarrow> 'ad shadow \<Rightarrow> 'ad served" where
  "sc_event_notification mg args s =
     with_ad mg args ''event_notification'' (\<lambda>ad. reply mg False [ItInt 0] (emit EventNotification (Some ad) s)) s"

definition sc_request_guidance :: "('ad, 'ex, 'z) classad_ops_scheme \<Rightarrow> 'ad sc_msg \<Rightarrow> 'ad sc_item list \<Rightarrow> 'ad shadow \<Rightarrow> 'ad served" where
  "sc_request_guidance A mg args s =
     with_ad mg args ''request_guidance''
       (\<lambda>ad. reply mg False [ItInt 0, ItAd (set_str A ''Command'' ''CarryOn'' (new_ad A))] (emit EventGuidanceRequest (Some ad) s)) s"

definition sc_get_sec_session_info :: "'ad sc_msg \<Rightarrow> 'ad sc_item list \<Rightarrow> 'ad shadow \<Rightarrow> 'ad served" where
  "sc_get_sec_session_info mg args s =
     (case get_str args of
        None \<Rightarrow> serve_failed ''shadow: get_sec_session_info arg 1'' s
      | Some (_, args) \<Rightarrow>
          (case get_str args of
             None \<Rightarrow> serve_failed ''shadow: get_sec_session_info arg 2'' s
           | Some _ \<Rightarrow>
               drained mg
                 (case sh_sessions s of
                    None \<Rightarrow> replyInt mg (-1) errnoNoSys s
                  | Some cs \<Rightarrow>
                      let rc = cs_reconnect cs; ft = cs_filetrans cs
                      in reply mg False (ItInt 0 # map ItStr [sm_id rc, sm_info rc, sm_key rc, sm_id ft, sm_info ft, sm_key ft]) s) s))"

definition sc_get_job_attr :: "('ad, 'ex, 'z) classad_ops_scheme \<Rightarrow> 'ad shadow_config \<Rightarrow> 'ad sc_msg \<Rightarrow> 'ad sc_item list \<Rightarrow> 'ad shadow \<Rightarrow> 'ad served" where
  "sc_get_job_attr A cfg mg args s =
     (case get_str args of
        None \<Rightarrow> serve_failed ''shadow: get_job_attr name'' s
      | Some (attr, _) \<Rightarrow>
          drained mg
            (case lookupJobAttr A cfg attr s of
               None \<Rightarrow> replyInt mg (-1) 2 s
             | Some expr \<Rightarrow> reply mg False [ItInt 0, ItStr expr] s) s)"

definition sc_set_job_attr :: "'ad sc_msg \<Rightarrow> 'ad sc_item list \<Rightarrow> 'ad shadow \<Rightarrow> 'ad served" where
  "sc_set_job_attr mg args s =
     (case get_str args of
        None \<Rightarrow> serve_failed ''shadow: set_job_attr expr'' s
      | Some (expr, args) \<Rightarrow>
          (case get_str args of
             None \<Rightarrow> serve_failed ''shadow: set_job_attr name'' s
           | Some (attr, _) \<Rightarrow>
               drained mg
                 (let s = setJobAttr attr expr s;
                      ev = \<lparr> se_Type = EventSetJobAttr, se_Ad = None, se_Attr = attr, se_Expr = expr, se_Op = 0 \<rparr>
                  in replyInt mg 0 0 (s\<lparr> sh_events := sh_events s @ [ev] \<rparr>)) s))"

definition sc_unknown :: "int \<Rightarrow> 'ad sc_msg \<Rightarrow> 'ad shadow \<Rightarrow> 'ad served" where
  "sc_unknown op mg s =
     drained mg
       (let ev = \<lparr> se_Type = EventUnknownOp, se_Ad = None, se_Attr = [], se_Expr = [], se_Op = op \<rparr>
        in replyInt mg (-1) errnoNoSys (s\<lparr> sh_events := sh_events s @ [ev] \<rparr>)) s"

definition serveOne :: "('ad, 'ex, 'z) classad_ops_scheme \<Rightarrow> int \<Rightarrow> int \<Rightarrow> 'ad shadow_config \<Rightarrow> 'ad sc_msg \<Rightarrow> 'ad shadow \<Rightarrow> 'ad served" where
  "serveOne A uid gid cfg mg s =
     (case get_int (mg_items mg) of
        None \<Rightarrow> serve_failed ''shadow: reading syscall number'' s
      | Some (op, args) \<Rightarrow>
          if op = opRegisterStarterInfo then sc_register_starter_info mg args s
          else if op = opGetJobInfo then sc_get_job_info A cfg mg s
          else if op = opGetUserInfo then sc_get_user_info A uid gid mg s
          else if op = opBeginExecution then sc_begin_execution mg s
          else if op = opRegisterJobInfo then sc_register_job_info A mg args s
          else if op = opJobExit then sc_job_exit mg args s
          else if op = opJobTermination then sc_job_termination mg args s
          else if op = opUlog then sc_ulog mg args s
          else if op = opDprintfStats then sc_dprintf_stats mg args s
          else if op = opEventNotification then sc_event_notification mg args s
          else if op = opRequestGuidance then sc_request_guidance A mg args s
          else if op = opGetSecSessionInfo then sc_get_sec_session_info mg args s
          else if op = opGetJobAttr then sc_get_job_attr A cfg mg args s
          else if op = opSetJobAttr then sc_set_job_attr mg args s
          else sc_unknown op mg s)"

fun serve :: "('ad, 'ex, 'z) classad_ops_scheme \<Rightarrow> int \<Rightarrow> int \<Rightarrow> 'ad shadow_config \<Rightarrow> 'ad sc_msg list \<Rightarrow> 'ad shadow \<Rightarrow>
    string option \<times> 'ad shadow" where
  "serve A uid gid cfg [] s = (Some ''shadow: reading syscall number'', s)"
| "serve A uid gid cfg (mg # mgs) s =
     (case serveOne A uid gid cfg mg s of
        (_, Some e, s) \<Rightarrow> (Some e, s)
      | (True, None, s) \<Rightarrow> (None, s)
      | (False, None, s) \<Rightarrow> serve A uid gid cfg mgs s)"

section \<open>Outcome and claim\<close>

datatype deactivate = DeactivateJobDone | DeactivateGraceful | DeactivateForcibly

datatype startd_op = SdDeactivate deactivate | SdRelease

text \<open>\<open>deact d\<close> and \<open>rel\<close>: whether the startd accepts the call.\<close>

definition winddown :: "(deactivate \<Rightarrow> bool) \<Rightarrow> bool \<Rightarrow> bool \<Rightarrow> bool \<Rightarrow> bool \<Rightarrow> string option \<times> startd_op list" where
  "winddown deact rel keepClaim jobDone vacate =
     (let dt = (if vacate then DeactivateForcibly else if \<not> jobDone then DeactivateGraceful else DeactivateJobDone);
          retry = \<not> deact dt \<and> dt = DeactivateJobDone;
          failed = \<not> deact dt \<and> (if retry then \<not> deact DeactivateGraceful else True);
          ops = SdDeactivate dt # (if retry then [SdDeactivate DeactivateGraceful] else []);
          derr = (if failed then Some ''deactivate claim'' else None)
      in if keepClaim then (derr, ops)
         else if \<not> rel then (Some ''release claim'', ops @ [SdRelease])
         else (derr, ops @ [SdRelease]))"

text \<open>\<open>cancelled\<close>: the context of the run is dead when the serve loop has ended.\<close>

definition afterServe :: "(deactivate \<Rightarrow> bool) \<Rightarrow> bool \<Rightarrow> bool \<Rightarrow> 'ad shadow_config \<Rightarrow> string option \<Rightarrow> 'ad shadow \<Rightarrow>
    ('ad run_result option \<times> run_err option) \<times> startd_op list" where
  "afterServe deact rel cancelled cfg serveErr s =
     (let gotExit = sh_gotExit s in
      if sc_Detach cfg = Some True \<and> \<not> gotExit
      then ((None, Some (RunErr True False ''shadow: detached for reconnect'')), [])
      else
        let (windErr, ops) = (if sc_Startd cfg then winddown deact rel (sc_KeepClaim cfg) gotExit (cancelled \<and> \<not> gotExit) else (None, []));
            windErr = (if windErr = None \<and> sc_ForceWinddownFail cfg then Some ''forced wind-down failure'' else windErr)
        in (case serveErr of
              Some e \<Rightarrow> if \<not> gotExit then (None, Some (RunErr False False e))
                        else (Some (sh_result s), map_option (\<lambda>_. RunErr False False ''shadow: job finished but claim wind-down failed'') windErr)
            | None \<Rightarrow> if \<not> gotExit then (None, Some (RunErr False False ''shadow: serve loop ended without a job_exit''))
                      else (Some (sh_result s), map_option (\<lambda>_. RunErr False False ''shadow: job finished but claim wind-down failed'') windErr), ops))"

text \<open>A run: the outcome, the calls to the startd, the endpoint afterwards and the last state.\<close>

definition Run :: "('ad, 'ex, 'z) classad_ops_scheme \<Rightarrow> int \<Rightarrow> int \<Rightarrow> (deactivate \<Rightarrow> bool) \<Rightarrow> bool \<Rightarrow> bool \<Rightarrow> 'ad shadow_config \<Rightarrow> 'ad sc_msg list \<Rightarrow>
    'ad shadow \<Rightarrow> endpoint option \<Rightarrow> ('ad run_result option \<times> run_err option) \<times> startd_op list \<times> endpoint option" where
  "Run A uid gid deact rel cancelled cfg msgs s ep =
     (case serve A uid gid cfg msgs s of
        (serveErr, s) \<Rightarrow>
          (case afterServe deact rel cancelled cfg serveErr s of
             (out, ops) \<Rightarrow> (out, ops, teardownTransfer (sh_transfer s) ep)))"

end
