(* ===== verification/Reconnect.thy ===== *)
theory Reconnect
  imports Shadow
begin

text \<open>
  Re-attaching to a running job, \<open>shadow/reconnect.go\<close>: the two handshake commands, the retry loop around them and the
  run that follows.

  Whether a connection can be opened and what a command is answered are arguments. Times are nanoseconds, as
  \<open>time.Duration\<close> has them. The retry loop has no bound of its own, so it is a partial function; the clock it reads,
  what each attempt gives and whether the context ends a wait are functions of the number of the attempt.
\<close>

abbreviation (input) caCmd :: int where "caCmd \<equiv> 1200"
abbreviation (input) caLocateStarterCmd :: string where "caLocateStarterCmd \<equiv> ''CA_LOCATE_STARTER''"
abbreviation (input) caReconnectJobCmd :: string where "caReconnectJobCmd \<equiv> ''CA_RECONNECT_JOB''"
abbreviation (input) caResultSuccess :: string where "caResultSuccess \<equiv> ''Success''"

abbreviation (input) second :: int where "second \<equiv> 10 ^ 9"
definition DefaultReconnectWindow :: int where "DefaultReconnectWindow = 45 * second"

text \<open>An error of the handshake: refused for good, or worth another try.\<close>

datatype reconnect_err = Permanent string | Transient string

fun reconnect_text :: "reconnect_err \<Rightarrow> string" where
  "reconnect_text (Permanent t) = t" | "reconnect_text (Transient t) = t"

fun prefix_err :: "string \<Rightarrow> reconnect_err \<Rightarrow> reconnect_err" where
  "prefix_err p (Permanent t) = Permanent (p @ t)" | "prefix_err p (Transient t) = Transient (p @ t)"

definition caRequest :: "('ad, 'ex, 'z) classad_ops_scheme \<Rightarrow> string \<Rightarrow> 'ad" where
  "caRequest A command =
     set_str A ''Command'' command (set_str A ''TargetType'' ''Reply'' (set_str A ''MyType'' ''Command'' (new_ad A)))"

definition caCheckResult :: "('ad, 'ex, 'z) classad_ops_scheme \<Rightarrow> 'ad \<Rightarrow> string option" where
  "caCheckResult A rep =
     (let result = str_attr0 A rep ''Result''; err = str_attr0 A rep ''ErrorString'' in
      if result = caResultSuccess then None
      else Some (''CA command result '' @ go_quote result @ (if err \<noteq> [] then '': '' @ err else [])))"

definition locate_request :: "('ad, 'ex, 'z) classad_ops_scheme \<Rightarrow> 'ad shadow_config \<Rightarrow> 'ad" where
  "locate_request A cfg =
     (let gjid = (if sc_GlobalJobID cfg = [] then str_attr0 A (sc_JobAd cfg) ''GlobalJobId'' else sc_GlobalJobID cfg);
          scheddAddr = (if sc_ScheddPublicAddr cfg = [] then sc_ShadowAddr cfg else sc_ScheddPublicAddr cfg);
          req = set_str A ''ClaimId'' (sc_ClaimID cfg) (caRequest A caLocateStarterCmd);
          req = (if gjid \<noteq> [] then set_str A ''GlobalJobId'' gjid req else req)
      in if scheddAddr \<noteq> [] then set_str A ''ScheddIpAddr'' scheddAddr req else req)"

text \<open>
  \<open>ask addr req\<close>: connecting to an address, resuming the claim session, and the answer to a request; \<open>None\<close> is a failure
  of the connection or of the exchange.
\<close>

definition caLocateStarter :: "('ad, 'ex, 'z) classad_ops_scheme \<Rightarrow> (string \<Rightarrow> 'ad \<Rightarrow> 'ad option) \<Rightarrow> 'ad shadow_config \<Rightarrow> string \<Rightarrow>
    reconnect_err + string" where
  "caLocateStarter A ask cfg startdAddr =
     (case ask startdAddr (locate_request A cfg) of
        None \<Rightarrow> Inl (Transient ''connect'')
      | Some rep \<Rightarrow>
          (case caCheckResult A rep of
             Some e \<Rightarrow> Inl (Permanent e)
           | None \<Rightarrow> Inr (str_attr0 A rep ''StarterIpAddr'')))"

definition reconnect_request :: "('ad, 'ex, 'z) classad_ops_scheme \<Rightarrow> 'ad shadow_config \<Rightarrow> 'ad shadow \<Rightarrow> 'ad" where
  "reconnect_request A cfg s = publish_transfer A s (publish_attrs A cfg (caRequest A caReconnectJobCmd))"

definition caReconnectJob :: "('ad, 'ex, 'z) classad_ops_scheme \<Rightarrow> (string \<Rightarrow> 'ad \<Rightarrow> 'ad option) \<Rightarrow> 'ad shadow_config \<Rightarrow> 'ad shadow \<Rightarrow> string \<Rightarrow>
    reconnect_err option" where
  "caReconnectJob A ask cfg s starterAddr =
     (case ask starterAddr (reconnect_request A cfg s) of
        None \<Rightarrow> Some (Transient ''connect'')
      | Some rep \<Rightarrow> map_option Permanent (caCheckResult A rep))"

text \<open>\<open>imp\<close>: whether the claim session could be imported.\<close>

definition establishReconnect :: "('ad, 'ex, 'z) classad_ops_scheme \<Rightarrow> (string \<Rightarrow> string \<Rightarrow> bool) \<Rightarrow> (string \<Rightarrow> 'ad \<Rightarrow> 'ad option) \<Rightarrow>
    'ad shadow_config \<Rightarrow> 'ad shadow \<Rightarrow> reconnect_err option" where
  "establishReconnect A imp ask cfg s =
     (let startdAddr = claimSinful (sc_ClaimID cfg) in
      if startdAddr = [] then Some (Transient ''claim id carries no startd address'')
      else if \<not> imp startdAddr (sc_ClaimID cfg) then Some (Transient ''import claim session'')
      else case caLocateStarter A ask cfg startdAddr of
             Inl e \<Rightarrow> Some (prefix_err ''locate starter: '' e)
           | Inr [] \<Rightarrow> Some (Transient ''startd returned no starter address'')
           | Inr starterAddr \<Rightarrow>
               map_option (prefix_err ''reconnect to starter: '') (caReconnectJob A ask cfg s starterAddr))"

definition retry_deadline :: "('ad, 'ex, 'z) classad_ops_scheme \<Rightarrow> 'ad \<Rightarrow> int \<Rightarrow> int" where
  "retry_deadline A job start =
     (let deadline = start + DefaultReconnectWindow in
      case eval_int A job ''JobLeaseDuration'' of
        None \<Rightarrow> deadline
      | Some dur \<Rightarrow>
          if dur > 0 then
            (case eval_int A job ''LastJobLeaseRenewal'' of
               None \<Rightarrow> deadline
             | Some renewal \<Rightarrow>
                 let leaseEnd = sint (of_int (renewal + dur) :: 64 word) * second
                 in if renewal > 0 \<and> leaseEnd < deadline then leaseEnd else deadline)
          else deadline)"

text \<open>The wait after a failed attempt: the shift and the product are those of a 64-bit duration.\<close>

definition retry_delay :: "nat \<Rightarrow> int" where
  "retry_delay attempt =
     (let delay = sint ((push_bit (attempt + 2) 1 :: 64 word) * of_int second)
      in if delay > 32 * second then 32 * second else delay)"

text \<open>
  The loop: the number of attempts made and the error it ends with. \<open>try n\<close> is what attempt \<open>n\<close> gives, \<open>clk n\<close> the time
  read after it, \<open>ended n\<close> whether the context is done before the wait after it is over.
\<close>

partial_function (option) retry_loop :: "(nat \<Rightarrow> reconnect_err option) \<Rightarrow> (nat \<Rightarrow> int) \<Rightarrow> (nat \<Rightarrow> bool) \<Rightarrow> int \<Rightarrow> nat \<Rightarrow>
    (nat \<times> string option) option" where
  "retry_loop try clk ended deadline attempt =
     (case try attempt of
        None \<Rightarrow> Some (Suc attempt, None)
      | Some (Permanent t) \<Rightarrow> Some (Suc attempt, Some t)
      | Some (Transient t) \<Rightarrow>
          if clk attempt + retry_delay attempt > deadline then Some (Suc attempt, Some t)
          else if ended attempt then Some (Suc attempt, Some ''context done'')
          else retry_loop try clk ended deadline (Suc attempt))"

definition establishReconnectWithRetry :: "('ad, 'ex, 'z) classad_ops_scheme \<Rightarrow> (nat \<Rightarrow> reconnect_err option) \<Rightarrow> int \<Rightarrow> (nat \<Rightarrow> int) \<Rightarrow> (nat \<Rightarrow> bool) \<Rightarrow> 'ad \<Rightarrow>
    (nat \<times> string option) option" where
  "establishReconnectWithRetry A try start clk ended job = retry_loop try clk ended (retry_deadline A job start) 0"

datatype reconnect_setup_err = RsNoClaim | RsTransfer transfer_err

definition NewReconnect :: "('ad, 'ex, 's, 'h, 'z) ext_scheme \<Rightarrow> (string \<Rightarrow> file_info option) \<Rightarrow> (string \<Rightarrow> string \<times> string \<times> string) \<Rightarrow>
    (string \<Rightarrow> string option) \<Rightarrow> string \<Rightarrow> 'ad shadow_config \<Rightarrow> endpoint option \<Rightarrow> reconnect_setup_err + ('ad shadow \<times> endpoint option)" where
  "NewReconnect E stat parse imp key cfg ep =
     (if sc_ClaimID cfg = [] then Inl RsNoClaim
      else case setupClaimSessions parse imp (sc_ClaimID cfg) of
             Inl e \<Rightarrow> Inl (RsTransfer e)
           | Inr sessions \<Rightarrow>
               (case setupTransfer E stat key (sc_ClaimID cfg) sessions (sc_JobAd cfg) ep of
                  Inl e \<Rightarrow> Inl (RsTransfer e)
                | Inr (transfer, ep) \<Rightarrow> Inr (fresh_shadow sessions transfer, ep)))"

text \<open>
  A run that re-attaches first. The attempts differ in what the network answers, \<open>net n\<close> being the import of the session and
  the exchange of commands during attempt \<open>n\<close>.
\<close>

definition RunReconnect :: "('ad, 'ex, 'z) classad_ops_scheme \<Rightarrow> int \<Rightarrow> int \<Rightarrow> (deactivate \<Rightarrow> bool) \<Rightarrow> bool \<Rightarrow> bool \<Rightarrow>
    (nat \<Rightarrow> (string \<Rightarrow> string \<Rightarrow> bool) \<times> (string \<Rightarrow> 'ad \<Rightarrow> 'ad option)) \<Rightarrow> int \<Rightarrow> (nat \<Rightarrow> int) \<Rightarrow> (nat \<Rightarrow> bool) \<Rightarrow> 'ad shadow_config \<Rightarrow> 'ad sc_msg list \<Rightarrow>
    'ad shadow \<Rightarrow> endpoint option \<Rightarrow> (('ad run_result option \<times> run_err option) \<times> startd_op list \<times> endpoint option) option" where
  "RunReconnect A uid gid deact rel cancelled net start clk ended cfg msgs s ep =
     (case establishReconnectWithRetry A (\<lambda>n. establishReconnect A (fst (net n)) (snd (net n)) cfg s) start clk ended (sc_JobAd cfg) of
        None \<Rightarrow> None
      | Some (_, Some e) \<Rightarrow>
          Some ((None, Some (RunErr False True (''shadow: reconnect failed: '' @ e))), [], teardownTransfer (sh_transfer s) ep)
      | Some (_, None) \<Rightarrow> Some (Run A uid gid deact rel cancelled cfg msgs s ep))"

end
