(* ===== verification/ShadowProps.thy ===== *)
theory ShadowProps
  imports Reconnect Reference
begin

text \<open>
  The shadow: what it does with its claim, which route a transfer key reaches, and that reconnecting comes to an end.
\<close>

section \<open>Serving\<close>

lemmas served_defs = serve_failed_def drained_def reply_def replyInt_def with_ad_def emit_def

lemmas syscall_defs = sc_register_starter_info_def sc_get_job_info_def sc_get_user_info_def sc_begin_execution_def
  sc_register_job_info_def sc_job_exit_def sc_job_termination_def sc_ulog_def sc_dprintf_stats_def
  sc_event_notification_def sc_request_guidance_def sc_get_sec_session_info_def sc_get_job_attr_def sc_set_job_attr_def
  sc_unknown_def

lemmas state_defs = setStarterAd_def markExecuting_def setUpdateAd_def recordTermination_def recordExit_def setJobAttr_def

text \<open>A request other than \<open>job_exit\<close> neither ends the run nor records an exit.\<close>

definition no_exit :: "'ad shadow \<Rightarrow> 'ad served \<Rightarrow> bool" where
  "no_exit s r = (\<not> fst r \<and> sh_gotExit (snd (snd r)) = sh_gotExit s \<and> sh_transfer (snd (snd r)) = sh_transfer s)"

lemma no_exit_intros:
  "no_exit s (serve_failed t s)"
  "no_exit s r \<Longrightarrow> no_exit s (drained mg r s)"
  "sh_gotExit s' = sh_gotExit s \<Longrightarrow> sh_transfer s' = sh_transfer s \<Longrightarrow> no_exit s (reply mg b is s')"
  "sh_gotExit s' = sh_gotExit s \<Longrightarrow> sh_transfer s' = sh_transfer s \<Longrightarrow> no_exit s (replyInt mg i j s')"
  "sh_gotExit s' = sh_gotExit s \<Longrightarrow> sh_transfer s' = sh_transfer s \<Longrightarrow> no_exit s (False, None, s')"
  "(\<And>ad. no_exit s (k ad)) \<Longrightarrow> no_exit s (with_ad mg args n k s)"
  by (auto simp: no_exit_def served_defs split: option.splits)

lemma no_exit_calls:
  "no_exit s (sc_register_starter_info mg args s)" "no_exit s (sc_get_job_info A cfg mg s)"
  "no_exit s (sc_get_user_info A uid gid mg s)" "no_exit s (sc_begin_execution mg s)"
  "no_exit s (sc_register_job_info A mg args s)" "no_exit s (sc_job_termination mg args s)" "no_exit s (sc_ulog mg args s)"
  "no_exit s (sc_dprintf_stats mg args s)" "no_exit s (sc_event_notification mg args s)"
  "no_exit s (sc_request_guidance A mg args s)" "no_exit s (sc_get_sec_session_info mg args s)"
  "no_exit s (sc_get_job_attr A cfg mg args s)" "no_exit s (sc_set_job_attr mg args s)" "no_exit s (sc_unknown op mg s)"
  by (auto simp: syscall_defs state_defs emit_def Let_def intro!: no_exit_intros split: option.split)

lemma job_exit_served:
  "(fst (sc_job_exit mg args s) \<and> fst (snd (sc_job_exit mg args s)) = None \<and> sh_gotExit (snd (snd (sc_job_exit mg args s))) \<or>
    \<not> fst (sc_job_exit mg args s) \<and> fst (snd (sc_job_exit mg args s)) \<noteq> None \<and> snd (snd (sc_job_exit mg args s)) = s) \<and>
   sh_transfer (snd (snd (sc_job_exit mg args s))) = sh_transfer s"
  by (auto simp: sc_job_exit_def served_defs state_defs Let_def split: option.split)

lemma serveOne_served:
  "(if fst (serveOne A uid gid cfg mg s)
    then fst (snd (serveOne A uid gid cfg mg s)) = None \<and> sh_gotExit (snd (snd (serveOne A uid gid cfg mg s)))
    else sh_gotExit (snd (snd (serveOne A uid gid cfg mg s))) = sh_gotExit s) \<and>
   sh_transfer (snd (snd (serveOne A uid gid cfg mg s))) = sh_transfer s"
proof (cases "get_int (mg_items mg)")
  case None
  then show ?thesis by (simp add: serveOne_def serve_failed_def)
next
  case (Some oa)
  obtain op args where oa: "oa = (op, args)" by (cases oa)
  show ?thesis
  proof (cases "op = opJobExit")
    case True
    then have "serveOne A uid gid cfg mg s = sc_job_exit mg args s" using Some oa by (simp add: serveOne_def)
    then show ?thesis using job_exit_served [of mg args s] by auto
  next
    case False
    then have "no_exit s (serveOne A uid gid cfg mg s)" using Some oa
      by (simp add: serveOne_def no_exit_calls)
    then show ?thesis by (simp add: no_exit_def)
  qed
qed

lemma serve_exit:
  assumes "serve A uid gid cfg mgs s = (err, s')" and "\<not> sh_gotExit s"
  shows "(err = None) = sh_gotExit s' \<and> sh_transfer s' = sh_transfer s"
  using assms
proof (induction mgs arbitrary: s)
  case (Cons mg mgs)
  obtain d e t where o: "serveOne A uid gid cfg mg s = (d, e, t)" by (cases "serveOne A uid gid cfg mg s")
  note so = serveOne_served [of A uid gid cfg mg s, unfolded o, simplified]
  show ?case
  proof (cases e)
    case None
    then show ?thesis using o so Cons by (cases d) auto
  next
    case (Some x)
    then have "\<not> d" using so by auto
    then show ?thesis using o so Some Cons.prems by auto
  qed
qed auto

section \<open>The claim\<close>

lemma winddown_ops:
  assumes "winddown deact rel keep jobDone vacate = (e, ops)" and "vacate \<longrightarrow> \<not> jobDone"
  shows "(\<exists>d ds. ops = SdDeactivate d # map SdDeactivate ds @ (if keep then [] else [SdRelease])) \<and>
    (SdDeactivate DeactivateJobDone \<in> set ops) = jobDone \<and> (SdDeactivate DeactivateForcibly \<in> set ops) = vacate"
proof -
  define dt where "dt = (if vacate then DeactivateForcibly else if \<not> jobDone then DeactivateGraceful else DeactivateJobDone)"
  define ds where "ds = (if \<not> deact dt \<and> dt = DeactivateJobDone then [DeactivateGraceful] else [])"
  have ops: "ops = SdDeactivate dt # map SdDeactivate ds @ (if keep then [] else [SdRelease])"
    using assms(1) unfolding winddown_def dt_def [symmetric] Let_def ds_def by (auto split: if_splits)
  moreover have "(SdDeactivate DeactivateJobDone \<in> set ops) = jobDone \<and> (SdDeactivate DeactivateForcibly \<in> set ops) = vacate"
    using ops assms(2) by (auto simp: dt_def ds_def)
  ultimately show ?thesis by blast
qed

text \<open>
  C27. What a run does with its claim, for every stream of requests. A shadow told to detach before the job exited makes no
  call to the startd and reports the detachment. Otherwise, with a startd client, it deactivates first and releases the claim
  exactly once, last, unless the claim is kept; the job is reported done exactly when it exited, and killed exactly when the
  run was cancelled before that. There is a result exactly when the job exited, and the transfer route is gone.\<close>

theorem shadow_claim:
  assumes "Run A uid gid deact rel cancelled cfg msgs s ep = ((res, err), ops, ep')" and "\<not> sh_gotExit s"
    and "serve A uid gid cfg msgs s = (serveErr, s')" and "sh_transfer s = Some (key, sock)" and "ep = Some e0"
  shows "(res \<noteq> None) = sh_gotExit s' \<and> sh_gotExit s' = (serveErr = None) \<and>
    (sc_Detach cfg = Some True \<and> \<not> sh_gotExit s' \<longrightarrow> ops = [] \<and> is_ErrDetached err) \<and>
    (\<not> (sc_Detach cfg = Some True \<and> \<not> sh_gotExit s') \<and> sc_Startd cfg \<longrightarrow>
      (\<exists>d ds. ops = SdDeactivate d # map SdDeactivate ds @ (if sc_KeepClaim cfg then [] else [SdRelease])) \<and>
      (SdDeactivate DeactivateJobDone \<in> set ops) = sh_gotExit s' \<and>
      (SdDeactivate DeactivateForcibly \<in> set ops) = (cancelled \<and> \<not> sh_gotExit s')) \<and>
    lookup_route key (the ep') = None"
proof -
  have se: "(serveErr = None) = sh_gotExit s'" "sh_transfer s' = sh_transfer s" using serve_exit [OF assms(3,2)] by auto
  have out: "((res, err), ops) = afterServe deact rel cancelled cfg serveErr s'" and ep': "ep' = teardownTransfer (sh_transfer s') ep"
    using assms(1,3) by (simp_all add: Run_def split: prod.splits)
  obtain we wops where w: "winddown deact rel (sc_KeepClaim cfg) (sh_gotExit s') (cancelled \<and> \<not> sh_gotExit s') = (we, wops)" by fastforce
  have "lookup_route key (the ep') = None"
    using ep' se(2) assms(4,5) by (simp add: teardownTransfer_def lookup_route_def unregister_def map_of_delete)
  moreover have "(res \<noteq> None) = sh_gotExit s'"
    using out se(1) by (auto simp: afterServe_def Let_def split: if_splits option.splits prod.splits)
  moreover have "sc_Detach cfg = Some True \<and> \<not> sh_gotExit s' \<longrightarrow> ops = [] \<and> is_ErrDetached err"
    using out by (auto simp: afterServe_def is_ErrDetached_def)
  moreover have "ops = wops" if "\<not> (sc_Detach cfg = Some True \<and> \<not> sh_gotExit s')" and "sc_Startd cfg"
    using out that(2) w unfolding afterServe_def Let_def if_not_P [OF that(1)] by simp
  ultimately show ?thesis using winddown_ops [OF w] se(1) by auto
qed

definition ref_cfg :: "ref_ad shadow_config" where
  "ref_cfg =
     \<lparr> sc_JobAd = new_ad refE, sc_ShadowAddr = ''<1.2.3.4:9618>'', sc_ShadowVersion = [], sc_UIDDomain = [], sc_Startd = True,
       sc_KeepClaim = False, sc_ClaimID = ''<1.2.3.4:9618>#1#1#x'', sc_GlobalJobID = [], sc_ScheddPublicAddr = [], sc_Detach = None,
       sc_Prepare = Some, sc_ForceWinddownFail = False \<rparr>"

definition ref_sink :: iwd_sink where
  "ref_sink = \<lparr> is_iwd = ''/home/alice'', is_remap = [], is_owner = ''alice'' \<rparr>"

definition ref_route :: transferRoute where
  "ref_route = \<lparr> rt_plan = [], rt_owner = ''alice'', rt_sink = ref_sink, rt_spooled = False, rt_cluster = 1, rt_proc = 0 \<rparr>"

definition ref_ep :: endpoint where
  "ref_ep = register ''k'' ref_route \<lparr> ep_sinful = ''<5.6.7.8:9618>'', ep_routes = [] \<rparr>"

definition ref_msgs :: "ref_ad sc_msg list" where
  "ref_msgs =
     [\<lparr> mg_items = [ItInt opBeginExecution], mg_end = True, mg_send = True \<rparr>,
      \<lparr> mg_items = [ItInt opJobExit, ItInt 256, ItInt 0, ItAd (new_ad refE)], mg_end = True, mg_send = False \<rparr>]"

definition ref_run :: "(ref_ad run_result option \<times> run_err option) \<times> startd_op list \<times> endpoint option" where
  "ref_run = Run refE 0 0 (\<lambda>d. d \<noteq> DeactivateJobDone) True False ref_cfg ref_msgs (fresh_shadow None (Some (''k'', ''x''))) (Some ref_ep)"

definition ref_served :: "string option \<times> ref_ad shadow" where
  "ref_served = serve refE 0 0 ref_cfg ref_msgs (fresh_shadow None (Some (''k'', ''x'')))"

theorem shadow_claim_witness:
  "fst (snd ref_run) = [SdDeactivate DeactivateJobDone, SdDeactivate DeactivateGraceful, SdRelease] \<and>
   fst (fst ref_run) \<noteq> None \<and> lookup_route ''k'' (the (snd (snd ref_run))) = None"
proof -
  let ?s = "fresh_shadow None (Some (''k'', ''x''))"
  have r: "Run refE 0 0 (\<lambda>d. d \<noteq> DeactivateJobDone) True False ref_cfg ref_msgs ?s (Some ref_ep) =
      ((fst (fst ref_run), snd (fst ref_run)), fst (snd ref_run), snd (snd ref_run))" by (simp add: ref_run_def)
  have sv: "serve refE 0 0 ref_cfg ref_msgs ?s = (fst ref_served, snd ref_served)" by (simp add: ref_served_def)
  have "\<not> sh_gotExit ?s" "sh_transfer ?s = Some (''k'', ''x'')" by (simp_all add: fresh_shadow_def)
  note c = shadow_claim [OF r this(1) sv this(2) refl]
  have "fst ref_served = None" by code_simp
  moreover have "fst (snd ref_run) = [SdDeactivate DeactivateJobDone, SdDeactivate DeactivateGraceful, SdRelease]" by code_simp
  ultimately show ?thesis using c by simp
qed

section \<open>Transfer keys\<close>

definition hex_val :: "char \<Rightarrow> nat" where
  "hex_val c = (if of_char c < (58 :: nat) then of_char c - 48 else of_char c - 87)"

definition hex_value :: "string \<Rightarrow> nat" where
  "hex_value s = foldl (\<lambda>a c. 16 * a + hex_val c) 0 s"

lemma hex_digit_val: "d < 16 \<Longrightarrow> hex_val (hex_digit d) = d"
  by (auto simp: hex_val_def hex_digit_def)

lemma hex_digit_not_hash: "d < 16 \<Longrightarrow> hex_digit d \<noteq> CHR ''#''"
proof
  assume "d < 16" and "hex_digit d = CHR ''#''"
  then have "of_char (hex_digit d) = (35 :: nat)" by simp
  then show False using \<open>d < 16\<close> by (auto simp: hex_digit_def split: if_splits)
qed

lemma hex_value_utox: "hex_value (utox n) = n"
proof (induction n rule: utox.induct)
  case (1 n)
  then show ?case by (subst utox.simps) (auto simp: hex_value_def hex_digit_val)
qed

lemma hash_notin_utox: "CHR ''#'' \<notin> set (utox n)"
proof (induction n rule: utox.induct)
  case (1 n)
  then show ?case using hex_digit_not_hash [of n] hex_digit_not_hash [of "n mod 16"] by (subst utox.simps) auto
qed

lemma key_inj:
  assumes "fst (generateTransferKey q t a b) = fst (generateTransferKey q' t' a' b')"
  shows "q = q'"
proof -
  have hd: "takeWhile (\<lambda>c. c \<noteq> CHR ''#'') (fst (generateTransferKey q t a b)) = utox (unat (q + 1))" for q t a b
  proof -
    have "takeWhile (\<lambda>c. c \<noteq> CHR ''#'') (utox (unat (q + 1)) @ CHR ''#'' # r) = utox (unat (q + 1))" for r
      using hash_notin_utox [of "unat (q + 1)"] by (subst takeWhile_append2) auto
    then show ?thesis by (simp add: generateTransferKey_def Let_def)
  qed
  have "utox (unat (q + 1)) = utox (unat (q' + 1))" using hd [of q t a b] hd [of q' t' a' b'] assms by simp
  then have "unat (q + 1) = unat (q' + 1)" using hex_value_utox by metis
  then have "q + 1 = q' + 1" by (simp only: word_unat_eq_iff)
  then show ?thesis by simp
qed

lemma route_after_register: "lookup_route k (register k' r ep) = (if k = k' then Some r else lookup_route k ep)"
  by (simp add: lookup_route_def register_def update_conv')

lemma route_after_unregister: "lookup_route k (unregister k' ep) = (if k = k' then None else lookup_route k ep)"
  by (simp add: lookup_route_def unregister_def delete_conv')

text \<open>
  C32. Transfer keys drawn at different values of the sequence counter differ, whatever the clock and the random bits are, so
  a starter that presents the key of its shadow is served the files of its job even when other shadows register and
  unregister routes on the same endpoint; and once its own route is unregistered the key reaches nothing.\<close>

theorem transfer_routes_isolated:
  assumes "fst (generateTransferKey q t a b) = k" and "fst (generateTransferKey q' t' a' b') = k'" and "q \<noteq> q'"
  shows "k \<noteq> k' \<and>
    doUpload up (Some k) (register k' r' (register k r ep)) = up (rt_plan r) \<and>
    doUpload up (Some k) (unregister k' (register k r ep)) = up (rt_plan r) \<and>
    doUpload up (Some k) (unregister k (register k' r' ep)) = Some (TeNoRoute k)"
proof -
  have "k \<noteq> k'" using key_inj [of q t a b q' t' a' b'] assms by auto
  then show ?thesis by (simp add: doUpload_def route_after_register route_after_unregister)
qed

theorem transfer_routes_isolated_witness:
  "fst (generateTransferKey 0 1700000000 1 2) = ''1#6553f10012'' \<and>
   doUpload (\<lambda>_. None) (Some ''1#6553f10012'') (register ''2#6553f10034'' ref_route (register ''1#6553f10012'' ref_route ref_ep)) = None"
proof -
  have k: "fst (generateTransferKey 0 1700000000 1 2) = ''1#6553f10012''" "fst (generateTransferKey 1 1700000000 3 4) = ''2#6553f10034''"
    by (simp_all add: generateTransferKey_def Let_def utox.simps hex_digit_def char_of_def bit_numeral_rec bit_0)
  have "(0 :: 64 word) \<noteq> 1" by simp
  note c = transfer_routes_isolated [OF k this, of "\<lambda>_. None" ref_route ref_route ref_ep]
  show ?thesis using k(1) conjunct1 [OF conjunct2 [OF c]] by (intro conjI)
qed

section \<open>Reconnecting\<close>

lemma retry_delays: "retry_delay 0 = 4 * second" "retry_delay (Suc 0) = 8 * second" "retry_delay (Suc (Suc 0)) = 16 * second"
  "retry_delay (Suc (Suc (Suc 0))) = 32 * second"
  by code_simp+

lemma retry_delay_le: "retry_delay n \<le> 32 * second"
  by (simp only: retry_delay_def Let_def split: if_split) auto

lemma deadline_window: "retry_deadline A job start \<le> start + DefaultReconnectWindow"
  by (auto simp: retry_deadline_def Let_def split: option.split)

lemma retry_bounded:
  assumes "\<And>n. clk n + retry_delay n \<le> clk (Suc n)" and "start \<le> clk 0" and "deadline \<le> start + DefaultReconnectWindow"
  shows "\<exists>n e. retry_loop try clk ended deadline 0 = Some (n, e) \<and> 1 \<le> n \<and> n \<le> 4"
proof -
  define ret where "ret k = (\<exists>n e. retry_loop try clk ended deadline k = Some (n, e) \<and> 1 \<le> n \<and> n \<le> 4)" for k
  have step: "ret k" if "k < 4" and "k = 3 \<and> clk k + retry_delay k > deadline \<or> ret (Suc k)" for k
    using that unfolding ret_def by (subst retry_loop.simps) (auto split: option.split reconnect_err.split)
  have c: "clk 0 + 4 * second \<le> clk 1" "clk 1 + 8 * second \<le> clk 2" "clk 2 + 16 * second \<le> clk 3"
    using assms(1) [of 0] assms(1) [of 1] assms(1) [of 2] by (simp_all add: retry_delays numeral_2_eq_2 numeral_3_eq_3)
  have "clk 3 + retry_delay 3 > deadline"
    using c assms(2,3) by (simp add: retry_delays numeral_3_eq_3 DefaultReconnectWindow_def)
  then have "ret 3" by (intro step) simp_all
  then have "ret 2" by (intro step) (simp_all add: numeral_3_eq_3 numeral_2_eq_2)
  then have "ret 1" by (intro step) (simp_all add: numeral_2_eq_2)
  then have "ret 0" by (intro step) simp_all
  then show ?thesis by (simp add: ret_def)
qed

text \<open>
  C28. Re-attaching to a running job comes to an end: when every wait lasts at least as long as it was asked for, the retry
  loop returns after one to four attempts, whatever the attempts give and whatever the lease of the job is, and
  \<open>RunReconnect\<close> returns. When it gives up it has not touched the claim and reports a reconnect failure.\<close>

theorem reconnect_terminates:
  assumes "\<And>n. clk n + retry_delay n \<le> clk (Suc n)" and "start \<le> clk 0"
  shows "(\<exists>n e. establishReconnectWithRetry A try start clk ended job = Some (n, e) \<and> 1 \<le> n \<and> n \<le> 4) \<and>
    (\<exists>res err ops ep'. RunReconnect A uid gid deact rel cancelled net start clk ended cfg msgs s ep = Some ((res, err), ops, ep') \<and>
      ((\<exists>e. err = Some e \<and> is_reconnect_failed e) \<longrightarrow> res = None \<and> ops = []))"
proof -
  have loop: "\<exists>n e. establishReconnectWithRetry A tr start clk ended jb = Some (n, e) \<and> 1 \<le> n \<and> n \<le> 4" for tr jb
    unfolding establishReconnectWithRetry_def by (rule retry_bounded [OF assms deadline_window])
  obtain n e where l: "establishReconnectWithRetry A (\<lambda>n. establishReconnect A (fst (net n)) (snd (net n)) cfg s) start clk ended (sc_JobAd cfg) = Some (n, e)"
    using loop by blast
  have "\<exists>res err ops ep'. RunReconnect A uid gid deact rel cancelled net start clk ended cfg msgs s ep = Some ((res, err), ops, ep') \<and>
      ((\<exists>e. err = Some e \<and> is_reconnect_failed e) \<longrightarrow> res = None \<and> ops = [])"
  proof (cases e)
    case (Some t)
    then show ?thesis using l by (simp add: RunReconnect_def)
  next
    case None
    obtain res err ops ep' where r: "Run A uid gid deact rel cancelled cfg msgs s ep = ((res, err), ops, ep')"
      by (cases "Run A uid gid deact rel cancelled cfg msgs s ep") auto
    have "err = Some e \<Longrightarrow> \<not> is_reconnect_failed e" for e
      using r by (auto simp: Run_def afterServe_def Let_def split: prod.splits if_splits option.splits)
    then show ?thesis using l None r by (auto simp: RunReconnect_def)
  qed
  then show ?thesis using loop by blast
qed

theorem reconnect_terminates_witness:
  "\<exists>n e. establishReconnectWithRetry refE (\<lambda>_. Some (Transient ''no answer'')) 0 (\<lambda>n. int n * (33 * second)) (\<lambda>_. False) (new_ad refE) = Some (n, e) \<and>
    1 \<le> n \<and> n \<le> 4"
proof -
  have adv: "int n * (33 * second) + retry_delay n \<le> int (Suc n) * (33 * second)" for n
    using retry_delay_le [of n] by (simp add: algebra_simps)
  have "(0 :: int) \<le> int 0 * (33 * second)" by simp
  show ?thesis by (rule conjunct1 [OF reconnect_terminates [of "\<lambda>n. int n * (33 * second)", OF adv \<open>0 \<le> int 0 * (33 * second)\<close>]])
qed

end
