(* ===== verification/Daemon.thy ===== *)
theory Daemon
  imports FactoryQueue UserLog SchedCore
begin

text \<open>
  Statistics and what is published of them (\<open>internal/stats\<close>, \<open>internal/metrics\<close>, \<open>internal/advertise\<close>), and the parts of the
  daemon that read its configuration (\<open>cmd/schedd\<close>).

  The configuration is a function from names to values, \<open>cfg.Get\<close> of the third-party package. The files and programs the
  daemon reads, the name of the host and of its own account, the version and the platform are arguments. Sending an ad to a
  collector is recorded. A nil function of an options struct is \<open>None\<close>. Times are nanoseconds. Counters are
  64 bits wide; a metric is the integer handed to the conversion to a float.
\<close>

section \<open>Counters (internal/stats)\<close>

record stat_counts =
  ct_Total :: int
  ct_Idle :: int
  ct_Running :: int
  ct_Held :: int
  ct_Removed :: int
  ct_Completed :: int
  ct_Users :: int

record gauge_sources =
  gs_Counts :: "stat_counts option"
  gs_ShadowsRunning :: "int option"
  gs_FactoriesActive :: "int option"
  gs_UserlogFilesOpen :: "int option"
  gs_UserlogDropped :: "int option"

record collector =
  cl_start :: int
  cl_jobsStarted :: "64 word"
  cl_jobsCompleted :: "64 word"
  cl_jobsExited :: "64 word"
  cl_shadowExceptions :: "64 word"
  cl_matchesReceived :: "64 word"
  cl_negotiationCycles :: "64 word"
  cl_jobsMaterialized :: "64 word"
  cl_gauges :: gauge_sources

definition NewCollector :: "int \<Rightarrow> collector" where
  "NewCollector now =
     \<lparr> cl_start = now, cl_jobsStarted = 0, cl_jobsCompleted = 0, cl_jobsExited = 0, cl_shadowExceptions = 0,
       cl_matchesReceived = 0, cl_negotiationCycles = 0, cl_jobsMaterialized = 0,
       cl_gauges = \<lparr> gs_Counts = None, gs_ShadowsRunning = None, gs_FactoriesActive = None, gs_UserlogFilesOpen = None,
                     gs_UserlogDropped = None \<rparr> \<rparr>"

definition SetGauges :: "gauge_sources \<Rightarrow> collector \<Rightarrow> collector" where
  "SetGauges g c = c\<lparr> cl_gauges := g \<rparr>"

definition IncMatchesReceived :: "collector \<Rightarrow> collector" where
  "IncMatchesReceived c = c\<lparr> cl_matchesReceived := cl_matchesReceived c + 1 \<rparr>"

definition IncNegotiationCycles :: "collector \<Rightarrow> collector" where
  "IncNegotiationCycles c = c\<lparr> cl_negotiationCycles := cl_negotiationCycles c + 1 \<rparr>"

definition IncJobsStarted :: "collector \<Rightarrow> collector" where
  "IncJobsStarted c = c\<lparr> cl_jobsStarted := cl_jobsStarted c + 1 \<rparr>"

definition IncJobsExited :: "collector \<Rightarrow> collector" where
  "IncJobsExited c = c\<lparr> cl_jobsExited := cl_jobsExited c + 1 \<rparr>"

definition IncJobsCompleted :: "collector \<Rightarrow> collector" where
  "IncJobsCompleted c = c\<lparr> cl_jobsCompleted := cl_jobsCompleted c + 1 \<rparr>"

definition IncShadowExceptions :: "collector \<Rightarrow> collector" where
  "IncShadowExceptions c = c\<lparr> cl_shadowExceptions := cl_shadowExceptions c + 1 \<rparr>"

definition AddJobsMaterialized :: "int \<Rightarrow> collector \<Rightarrow> collector" where
  "AddJobsMaterialized n c = (if n > 0 then c\<lparr> cl_jobsMaterialized := cl_jobsMaterialized c + of_int n \<rparr> else c)"

record snapshot =
  ss_UptimeSeconds :: int
  ss_JobsStarted :: int
  ss_JobsCompleted :: int
  ss_JobsExited :: int
  ss_ShadowExceptions :: int
  ss_MatchesReceived :: int
  ss_NegotiationCycles :: int
  ss_JobsMaterialized :: int
  ss_ShadowsRunning :: int
  ss_FactoriesActive :: int
  ss_UserlogFilesOpen :: int
  ss_UserlogDropped :: int
  ss_Counts :: stat_counts

definition no_counts :: stat_counts where
  "no_counts = \<lparr> ct_Total = 0, ct_Idle = 0, ct_Running = 0, ct_Held = 0, ct_Removed = 0, ct_Completed = 0, ct_Users = 0 \<rparr>"

text \<open>\<open>None\<close> is the nil collector. The gauges are what their functions return at the call; uptime counts whole seconds.\<close>

definition Snapshot :: "int \<Rightarrow> collector option \<Rightarrow> snapshot" where
  "Snapshot now co =
     (case co of
        None \<Rightarrow>
          \<lparr> ss_UptimeSeconds = 0, ss_JobsStarted = 0, ss_JobsCompleted = 0, ss_JobsExited = 0, ss_ShadowExceptions = 0,
            ss_MatchesReceived = 0, ss_NegotiationCycles = 0, ss_JobsMaterialized = 0, ss_ShadowsRunning = 0,
            ss_FactoriesActive = 0, ss_UserlogFilesOpen = 0, ss_UserlogDropped = 0, ss_Counts = no_counts \<rparr>
      | Some c \<Rightarrow>
          let g = cl_gauges c; get = (\<lambda>x. case x of Some v \<Rightarrow> v | None \<Rightarrow> 0) in
          \<lparr> ss_UptimeSeconds = go_div (now - cl_start c) (10 ^ 9), ss_JobsStarted = sint (cl_jobsStarted c),
            ss_JobsCompleted = sint (cl_jobsCompleted c), ss_JobsExited = sint (cl_jobsExited c),
            ss_ShadowExceptions = sint (cl_shadowExceptions c), ss_MatchesReceived = sint (cl_matchesReceived c),
            ss_NegotiationCycles = sint (cl_negotiationCycles c), ss_JobsMaterialized = sint (cl_jobsMaterialized c),
            ss_ShadowsRunning = get (gs_ShadowsRunning g), ss_FactoriesActive = get (gs_FactoriesActive g),
            ss_UserlogFilesOpen = get (gs_UserlogFilesOpen g), ss_UserlogDropped = get (gs_UserlogDropped g),
            ss_Counts = (case gs_Counts g of Some n \<Rightarrow> n | None \<Rightarrow> no_counts) \<rparr>)"

section \<open>Metrics (internal/metrics)\<close>

datatype metric_kind = CounterValue | GaugeValue

abbreviation (input) metric_ns :: string where "metric_ns \<equiv> ''condor_schedd''"

definition Collect :: "snapshot \<Rightarrow> (string \<times> metric_kind \<times> int \<times> string list) list" where
  "Collect s =
     map (\<lambda>(n, v). (metric_ns @ n, CounterValue, v, []))
       [(''_jobs_started_total'', ss_JobsStarted s), (''_jobs_completed_total'', ss_JobsCompleted s),
        (''_jobs_exited_total'', ss_JobsExited s), (''_shadow_exceptions_total'', ss_ShadowExceptions s),
        (''_matches_received_total'', ss_MatchesReceived s), (''_negotiation_cycles_total'', ss_NegotiationCycles s),
        (''_jobs_materialized_total'', ss_JobsMaterialized s), (''_userlog_events_dropped_total'', ss_UserlogDropped s)] @
     map (\<lambda>(n, v). (metric_ns @ n, GaugeValue, v, []))
       [(''_uptime_seconds'', ss_UptimeSeconds s), (''_shadows_running'', ss_ShadowsRunning s),
        (''_job_ads'', ct_Total (ss_Counts s)), (''_users'', ct_Users (ss_Counts s)),
        (''_factories_active'', ss_FactoriesActive s), (''_userlog_files_open'', ss_UserlogFilesOpen s)] @
     map (\<lambda>(l, v). (metric_ns @ ''_jobs'', GaugeValue, v, [l]))
       [(''idle'', ct_Idle (ss_Counts s)), (''running'', ct_Running (ss_Counts s)), (''held'', ct_Held (ss_Counts s)),
        (''removed'', ct_Removed (ss_Counts s)), (''completed'', ct_Completed (ss_Counts s))]"

section \<open>Advertising (internal/advertise)\<close>

record adv_counts =
  ac_Idle :: int
  ac_Running :: int
  ac_Held :: int
  ac_Removed :: int
  ac_Total :: int
  ac_Users :: int

record adv_submitter =
  as_Name :: string
  as_Idle :: int
  as_Running :: int
  as_Held :: int

record advertiser =
  av_name :: string
  av_machine :: string
  av_startTime :: int
  av_maxJobs :: int
  av_seq :: "64 word"
  av_submitSeq :: "64 word"

text \<open>The version the build reports and the architecture and system it runs on.\<close>

record build_info =
  bi_Version :: string
  bi_Commit :: string
  bi_GOARCH :: string
  bi_GOOS :: string

definition condorVersionString :: "build_info \<Rightarrow> string" where
  "condorVersionString v =
     (let num = bi_Version v;
          num = (if num = [] \<or> \<not> is_digit (hd num) then ''25.0.0'' else num)
      in ''$CondorVersion: '' @ num @ '' 2025-01-01 BuildID: golang-ap-'' @ bi_Commit v @ '' $'')"

definition condorPlatformString :: "build_info \<Rightarrow> string" where
  "condorPlatformString v = ''$CondorPlatform: '' @ bi_GOARCH v @ ''_'' @ bi_GOOS v @ '' $''"

text \<open>A list of string and integer assignments to an ad, in order.\<close>

definition set_strs :: "('ad, 'ex, 'z) classad_ops_scheme \<Rightarrow> (string \<times> string) list \<Rightarrow> 'ad \<Rightarrow> 'ad" where
  "set_strs A kvs ad = fold (\<lambda>(k, v). set_str A k v) kvs ad"

definition set_ints :: "('ad, 'ex, 'z) classad_ops_scheme \<Rightarrow> (string \<times> int) list \<Rightarrow> 'ad \<Rightarrow> 'ad" where
  "set_ints A kvs ad = fold (\<lambda>(k, v). set_int A k v) kvs ad"

definition buildSubmitterAd :: "('ad, 'ex, 'z) classad_ops_scheme \<Rightarrow> build_info \<Rightarrow> string \<Rightarrow> advertiser \<Rightarrow> adv_submitter \<Rightarrow> 'ad" where
  "buildSubmitterAd A v addr a sub =
     (let ad = set_strs A [(''MyType'', ''Submitter''), (''TargetType'', []), (''Name'', as_Name sub), (''Machine'', av_machine a),
                 (''ScheddName'', av_name a), (''ScheddIpAddr'', addr), (''MyAddress'', addr), (''SubmitterTag'', [])] (new_ad A);
          ad = set_ints A [(''IdleJobs'', as_Idle sub), (''RunningJobs'', as_Running sub), (''HeldJobs'', as_Held sub),
                 (''WeightedIdleJobs'', as_Idle sub), (''WeightedRunningJobs'', as_Running sub), (''FlockedJobs'', 0)] ad;
          ad = set_strs A [(''CondorVersion'', condorVersionString v), (''CondorPlatform'', condorPlatformString v)] ad
      in set_int A ''UpdateSequenceNumber'' (sint (av_submitSeq a)) ad)"

definition setStatAttrs :: "('ad, 'ex, 'z) classad_ops_scheme \<Rightarrow> snapshot option \<Rightarrow> 'ad \<Rightarrow> 'ad" where
  "setStatAttrs A st ad =
     (case st of
        None \<Rightarrow> ad
      | Some s \<Rightarrow>
          set_ints A [(''JobsStarted'', ss_JobsStarted s), (''JobsExited'', ss_JobsExited s), (''JobsCompleted'', ss_JobsCompleted s),
            (''ShadowExceptions'', ss_ShadowExceptions s), (''ShadowsRunning'', ss_ShadowsRunning s),
            (''JobsMaterialized'', ss_JobsMaterialized s), (''MatchesReceived'', ss_MatchesReceived s),
            (''NegotiationCycles'', ss_NegotiationCycles s), (''ScheddUptime'', ss_UptimeSeconds s)] ad)"

definition buildScheddAd :: "('ad, 'ex, 'z) classad_ops_scheme \<Rightarrow> build_info \<Rightarrow> string \<Rightarrow> adv_counts option \<Rightarrow> snapshot option \<Rightarrow> advertiser \<Rightarrow> 'ad" where
  "buildScheddAd A v addr counts st a =
     (let ad = set_strs A [(''MyType'', ''Scheduler''), (''TargetType'', []), (''Name'', av_name a), (''Machine'', av_machine a),
                 (''MyAddress'', addr), (''ScheddIpAddr'', addr), (''CondorVersion'', condorVersionString v),
                 (''CondorPlatform'', condorPlatformString v)] (new_ad A);
          c = (case counts of Some c \<Rightarrow> c
               | None \<Rightarrow> \<lparr> ac_Idle = 0, ac_Running = 0, ac_Held = 0, ac_Removed = 0, ac_Total = 0, ac_Users = 0 \<rparr>);
          ad = set_ints A [(''DaemonStartTime'', av_startTime a), (''UpdateSequenceNumber'', sint (av_seq a)),
                 (''TotalIdleJobs'', ac_Idle c), (''TotalRunningJobs'', ac_Running c), (''TotalHeldJobs'', ac_Held c),
                 (''TotalRemovedJobs'', ac_Removed c), (''TotalJobAds'', ac_Total c), (''NumUsers'', ac_Users c),
                 (''MaxJobsRunning'', av_maxJobs a)] ad
      in setStatAttrs A st (set_bool A ''StartSchedulerUniverse'' False ad))"

datatype adv_command = UPDATE_SCHEDD_AD | UPDATE_SUBMITTOR_AD

text \<open>The ads sent, in order: a failure of one is logged and the round goes on.\<close>

definition advertiseSubmitters :: "('ad, 'ex, 'z) classad_ops_scheme \<Rightarrow> build_info \<Rightarrow> string \<Rightarrow> string list \<Rightarrow> adv_submitter list option \<Rightarrow> advertiser \<Rightarrow>
    (string \<times> adv_command \<times> 'ad) list \<times> advertiser" where
  "advertiseSubmitters A v addr addrs subs a =
     (case subs of
        None \<Rightarrow> ([], a)
      | Some [] \<Rightarrow> ([], a)
      | Some subs \<Rightarrow>
          let a = a\<lparr> av_submitSeq := av_submitSeq a + 1 \<rparr>
          in (concat (map (\<lambda>sub. map (\<lambda>to. (to, UPDATE_SUBMITTOR_AD, buildSubmitterAd A v addr a sub)) addrs) subs), a))"

definition Advertise :: "('ad, 'ex, 'z) classad_ops_scheme \<Rightarrow> build_info \<Rightarrow> string \<Rightarrow> string list \<Rightarrow> adv_counts option \<Rightarrow> snapshot option \<Rightarrow>
    adv_submitter list option \<Rightarrow> advertiser \<Rightarrow> (string \<times> adv_command \<times> 'ad) list \<times> advertiser" where
  "Advertise A v addr addrs counts st subs a =
     (if addrs = [] then ([], a)
      else
        let a = a\<lparr> av_seq := av_seq a + 1 \<rparr>;
            sent = map (\<lambda>to. (to, UPDATE_SCHEDD_AD, buildScheddAd A v addr counts st a)) addrs;
            (sent', a) = advertiseSubmitters A v addr addrs subs a
        in (sent @ sent', a))"

section \<open>Adapters (cmd/schedd)\<close>

definition queueCountsFn :: "queue_counts \<Rightarrow> adv_counts" where
  "queueCountsFn c =
     \<lparr> ac_Idle = int (n_Idle c), ac_Running = int (n_Running c), ac_Held = int (n_Held c), ac_Removed = int (n_Removed c),
       ac_Total = int (n_Total c), ac_Users = int (n_Owners c) \<rparr>"

definition submittersFn :: "submitter_count list \<Rightarrow> adv_submitter list" where
  "submittersFn scs =
     map (\<lambda>sc. \<lparr> as_Name = submitter_count.sc_Name sc, as_Idle = int (sc_Idle sc), as_Running = int (sc_Running sc), as_Held = int (sc_Held sc) \<rparr>) scs"

definition stats_counts :: "queue_counts \<Rightarrow> stat_counts" where
  "stats_counts c =
     \<lparr> ct_Total = int (n_Total c), ct_Idle = int (n_Idle c), ct_Running = int (n_Running c), ct_Held = int (n_Held c),
       ct_Removed = int (n_Removed c), ct_Completed = int (n_Completed c), ct_Users = int (n_Owners c) \<rparr>"

definition wired_gauges :: "('ad, 'ex, 's, 'h, 'z) ext_scheme \<Rightarrow> ('ad, 's, 'h) queue \<Rightarrow> ('ad, 'ex, 's, 'h) sched \<Rightarrow> manager \<Rightarrow> gauge_sources" where
  "wired_gauges E q s m =
     \<lparr> gs_Counts = Some (stats_counts (Counts E q)), gs_ShadowsRunning = Some (ShadowsRunning s),
       gs_FactoriesActive = Some (int (length (FactoryClusters q))), gs_UserlogFilesOpen = Some (int (NumFiles m)),
       gs_UserlogDropped = Some (int (Dropped m)) \<rparr>"

definition record_output :: "('ad, 'ex, 's, 'h, 'z) ext_scheme \<Rightarrow> int \<Rightarrow> int \<Rightarrow> string list \<Rightarrow> ('ad, 's, 'h) queue \<Rightarrow> ('ad, 's, 'h) queue" where
  "record_output E c p files q = snd (Modify E q c p (set_str E ''SpooledOutputFiles'' (join_with '','' files)))"

section \<open>Configuration (cmd/schedd)\<close>

type_synonym config = "string \<Rightarrow> string option"

definition configSeconds :: "config \<Rightarrow> string \<Rightarrow> int \<Rightarrow> int" where
  "configSeconds cfg key def =
     (case cfg key of
        None \<Rightarrow> def
      | Some v \<Rightarrow>
          (case atoi (trim_space v) of
             None \<Rightarrow> def
           | Some secs \<Rightarrow> if secs > 0 then sint (of_int (secs * 10 ^ 9) :: 64 word) else def))"

definition configInt :: "config \<Rightarrow> string \<Rightarrow> int \<Rightarrow> int" where
  "configInt cfg key def =
     (case cfg key of
        None \<Rightarrow> def
      | Some v \<Rightarrow> (case atoi (trim_space v) of None \<Rightarrow> def | Some n \<Rightarrow> if n > 0 then n else def))"

definition configBool :: "config \<Rightarrow> string \<Rightarrow> bool \<Rightarrow> bool" where
  "configBool cfg key def =
     (case cfg key of
        None \<Rightarrow> def
      | Some v \<Rightarrow>
          let t = to_lower (trim_space v) in
          if t \<in> set [''true'', ''t'', ''1'', ''yes'', ''y''] then True
          else if t \<in> set [''false'', ''f'', ''0'', ''no'', ''n''] then False
          else def)"

definition configOrEnv :: "config \<Rightarrow> config \<Rightarrow> string \<Rightarrow> string" where
  "configOrEnv cfg env key =
     (case cfg key of
        Some v \<Rightarrow> if trim_space v \<noteq> [] then trim_space v else trim_space (case env key of Some e \<Rightarrow> e | None \<Rightarrow> [])
      | None \<Rightarrow> trim_space (case env key of Some e \<Rightarrow> e | None \<Rightarrow> []))"

definition metricsListenAddr :: "config \<Rightarrow> string \<Rightarrow> string" where
  "metricsListenAddr cfg flagAddr =
     (if flagAddr \<noteq> [] then flagAddr
      else case cfg ''SCHEDD_METRICS_ADDRESS'' of Some v \<Rightarrow> trim_space v | None \<Rightarrow> [])"

definition resolveSpoolDir :: "config \<Rightarrow> string" where
  "resolveSpoolDir cfg =
     (case cfg ''SPOOL'' of
        Some spool \<Rightarrow>
          if trim_space spool \<noteq> [] then trim_space spool
          else (case cfg ''LOG'' of Some logDir \<Rightarrow> if logDir \<noteq> [] then trim_space (logDir @ ''/spool'') else ''spool'' | None \<Rightarrow> ''spool'')
      | None \<Rightarrow> (case cfg ''LOG'' of Some logDir \<Rightarrow> if logDir \<noteq> [] then trim_space (logDir @ ''/spool'') else ''spool'' | None \<Rightarrow> ''spool''))"

abbreviation attr_sep :: "char \<Rightarrow> bool" where
  "attr_sep r \<equiv> (r \<in> {CHR '','', CHR '' '', CHR 0x09})"

definition attrList :: "config \<Rightarrow> string \<Rightarrow> string list" where
  "attrList cfg key = (case cfg key of None \<Rightarrow> [] | Some v \<Rightarrow> fields_func attr_sep v)"

definition queue_supers_of :: "config \<Rightarrow> string \<Rightarrow> string list" where
  "queue_supers_of cfg condorUser =
     (let supers = (case cfg ''QUEUE_SUPER_USERS'' of
                      None \<Rightarrow> [''root'', ''condor'']
                    | Some _ \<Rightarrow> if attrList cfg ''QUEUE_SUPER_USERS'' = [] then [''root''] else attrList cfg ''QUEUE_SUPER_USERS'')
      in if configBool cfg ''PERSONAL_CONDOR_IS_SUPER_USER'' True \<and> condorUser \<noteq> [] then supers @ [condorUser] else supers)"

text \<open>\<open>compile\<close> is \<open>regexp.Compile\<close>: the match function of a well-formed expression.\<close>

definition queueAuthzOptions :: "(string \<Rightarrow> (string \<Rightarrow> bool) option) \<Rightarrow> string \<Rightarrow> config \<Rightarrow> queue_options option" where
  "queueAuthzOptions compile condorUser cfg =
     (let pat = (case cfg ''QUEUE_SUPER_USER_MAY_IMPERSONATE'' of Some v \<Rightarrow> trim_space v | None \<Rightarrow> [])
      in if pat \<noteq> [] \<and> compile pat = None then None
         else Some \<lparr> o_ScheddName = [], o_UIDDomain = [], o_AccountingDomain = [], o_SuperUsers = queue_supers_of cfg condorUser,
                     o_MayImpersonate = (if pat = [] then None else compile pat),
                     o_ImmutableAttrs = attrList cfg ''IMMUTABLE_JOB_ATTRS'', o_ProtectedAttrs = attrList cfg ''PROTECTED_JOB_ATTRS'',
                     o_SecureAttrs = attrList cfg ''SECURE_JOB_ATTRS'',
                     o_AllUsersTrusted = configBool cfg ''QUEUE_ALL_USERS_TRUSTED'' False,
                     o_IgnoreSecureAttrs = configBool cfg ''IGNORE_ATTEMPTS_TO_SET_SECURE_JOB_ATTRS'' True \<rparr>)"

definition open_options :: "(string \<Rightarrow> (string \<Rightarrow> bool) option) \<Rightarrow> string \<Rightarrow> config \<Rightarrow> string \<Rightarrow> queue_options option" where
  "open_options compile condorUser cfg name =
     (let dom = (\<lambda>k. case cfg k of Some v \<Rightarrow> trim_space v | None \<Rightarrow> [])
      in map_option (\<lambda>o'. o'\<lparr> o_ScheddName := name, o_UIDDomain := dom ''UID_DOMAIN'', o_AccountingDomain := dom ''ACCOUNTING_DOMAIN'' \<rparr>)
           (queueAuthzOptions compile condorUser cfg))"

definition buildSysPolicy :: "('ad, 'ex, 'z) classad_ops_scheme \<Rightarrow> config \<Rightarrow> 'ex system_policy option" where
  "buildSysPolicy A cfg =
     (let get = (\<lambda>k. case cfg k of Some v \<Rightarrow> trim_space v | None \<Rightarrow> [])
      in NewSystem A \<lparr> sc_HoldExpr = get ''SYSTEM_PERIODIC_HOLD'', sc_HoldReason = get ''SYSTEM_PERIODIC_HOLD_REASON'',
                       sc_HoldSubCode = get ''SYSTEM_PERIODIC_HOLD_SUBCODE'', sc_ReleaseExpr = get ''SYSTEM_PERIODIC_RELEASE'',
                       sc_RemoveExpr = get ''SYSTEM_PERIODIC_REMOVE'', sc_RemoveReason = get ''SYSTEM_PERIODIC_REMOVE_REASON'' \<rparr>)"

text \<open>What a reconfiguration pushes: the advertise, periodic and materialize intervals, the system policy and the queue.\<close>

definition reconfigure :: "('ad, 'ex, 's, 'h, 'z) ext_scheme \<Rightarrow> (string \<Rightarrow> (string \<Rightarrow> bool) option) \<Rightarrow> string \<Rightarrow> config \<Rightarrow> ('ad, 's, 'h) queue \<Rightarrow>
    (int \<times> int \<times> int) \<times> 'ex system_policy option \<times> ('ad, 's, 'h) queue" where
  "reconfigure E compile condorUser cfg q =
     ((configSeconds cfg ''SCHEDD_INTERVAL'' (300 * 10 ^ 9), configSeconds cfg ''PERIODIC_EXPR_INTERVAL'' (60 * 10 ^ 9),
       configSeconds cfg ''SCHEDD_MATERIALIZE_INTERVAL'' (5 * 10 ^ 9)),
      buildSysPolicy E cfg,
      case queueAuthzOptions compile condorUser cfg of None \<Rightarrow> q | Some opts \<Rightarrow> SetAuthz E q opts)"

datatype privsep_mode = ModeNative | ModeAuto | ModePool

record privsep_config =
  pc_Mode :: privsep_mode
  pc_ForceHelperUnprivileged :: bool
  pc_MaxHelpers :: int
  pc_HelperIdleTimeout :: int

text \<open>The configuration handed to the privilege-separation package; \<open>None\<close> refuses the mode.\<close>

definition buildPrivsep :: "config \<Rightarrow> config \<Rightarrow> privsep_config option" where
  "buildPrivsep cfg env =
     (let m = to_lower (trim_space (configOrEnv cfg env ''SCHEDD_PRIVSEP_MODE''));
          mode = (if m = [] \<or> m = ''native'' then Some ModeNative
                  else if m = ''auto'' then Some ModeAuto else if m = ''pool'' then Some ModePool else None)
      in map_option (\<lambda>mode. \<lparr> pc_Mode = mode,
             pc_ForceHelperUnprivileged = configBool cfg ''SCHEDD_PRIVSEP_FORCE_UNPRIVILEGED'' False,
             pc_MaxHelpers = configInt cfg ''SCHEDD_PRIVSEP_MAX_HELPERS'' 0,
             pc_HelperIdleTimeout = configSeconds cfg ''SCHEDD_PRIVSEP_IDLE_TIMEOUT'' 0 \<rparr>) mode)"

section \<open>Names and addresses (cmd/schedd)\<close>

definition fullHostname :: "config \<Rightarrow> string option \<Rightarrow> string" where
  "fullHostname cfg host =
     (case cfg ''FULL_HOSTNAME'' of
        Some v \<Rightarrow> if trim_space v \<noteq> [] then trim_space v else (case host of Some h \<Rightarrow> h | None \<Rightarrow> ''localhost'')
      | None \<Rightarrow> (case host of Some h \<Rightarrow> h | None \<Rightarrow> ''localhost''))"

definition scheddName :: "config \<Rightarrow> string option \<Rightarrow> string \<Rightarrow> string" where
  "scheddName cfg host localName =
     (let name = (case cfg ''SCHEDD_NAME'' of Some v \<Rightarrow> trim_space v | None \<Rightarrow> []);
          full = fullHostname cfg host
      in if name \<noteq> [] then name else if localName \<noteq> [] then localName @ ''@'' @ full else full)"

definition wrapSinful :: "string \<Rightarrow> string" where
  "wrapSinful addr =
     (let addr = trim_space addr
      in if addr = [] then [] else if has_prefix addr ''<'' then addr else ''<'' @ addr @ ''>'')"

definition schedAddr :: "string option \<Rightarrow> string \<Rightarrow> string" where
  "schedAddr advertised listen = (case advertised of Some sinful \<Rightarrow> sinful | None \<Rightarrow> listen)"

definition splitHostList :: "string \<Rightarrow> string list" where
  "splitHostList raw = fields_func (\<lambda>r. r \<in> {CHR '','', CHR '' '', CHR 0x09, CHR 0x0A}) raw"

text \<open>\<open>net.SplitHostPort\<close>; \<open>None\<close> is the error.\<close>

definition split_host_port :: "string \<Rightarrow> (string \<times> string) option" where
  "split_host_port hp =
     (case last_index_byte hp CHR '':'' of
        None \<Rightarrow> None
      | Some i \<Rightarrow>
          if hd hp = CHR ''['' then
            (case index_byte hp CHR '']'' of
               None \<Rightarrow> None
             | Some e \<Rightarrow>
                 if Suc e \<noteq> i then None
                 else if CHR ''['' \<in> set (drop 1 hp) \<or> CHR '']'' \<in> set (drop (Suc e) hp) then None
                 else Some (take (e - 1) (drop 1 hp), drop (Suc i) hp))
          else if CHR '':'' \<in> set (take i hp) \<or> CHR ''['' \<in> set hp \<or> CHR '']'' \<in> set hp then None
          else Some (take i hp, drop (Suc i) hp))"

definition hasUsablePort :: "string \<Rightarrow> bool" where
  "hasUsablePort entry =
     (let s = trim_prefix (trim_suffix (trim_space entry) ''>'') ''<'';
          s = (case index_byte s CHR ''?'' of Some i \<Rightarrow> take i s | None \<Rightarrow> s)
      in case split_host_port s of None \<Rightarrow> False | Some (_, port) \<Rightarrow> port \<noteq> [] \<and> port \<noteq> ''0'')"

abbreviation first_line :: "(string \<Rightarrow> bool) \<Rightarrow> string \<Rightarrow> string option" where
  "first_line p data \<equiv> List.find p (map trim_space (split_on CHR 0x0A data))"

definition readCollectorAddressFile :: "(string \<Rightarrow> string option) \<Rightarrow> config \<Rightarrow> string" where
  "readCollectorAddressFile readFile cfg =
     (let path = (case cfg ''COLLECTOR_ADDRESS_FILE'' of Some p \<Rightarrow> p | None \<Rightarrow> []);
          logDir = (case cfg ''LOG'' of Some d \<Rightarrow> d | None \<Rightarrow> [])
      in if path = [] \<and> logDir = [] then []
         else case readFile (if path = [] then path_join [logDir, ''.collector_address''] else path) of
                None \<Rightarrow> []
              | Some data \<Rightarrow>
                  (case first_line (\<lambda>l. l \<noteq> [] \<and> \<not> has_prefix l ''#'') data of Some l \<Rightarrow> l | None \<Rightarrow> []))"

definition resolveCollectors :: "(string \<Rightarrow> string option) \<Rightarrow> config \<Rightarrow> string list" where
  "resolveCollectors readFile cfg =
     (let raw = (case cfg ''COLLECTOR_HOST'' of Some r \<Rightarrow> r | None \<Rightarrow> []);
          addr = readCollectorAddressFile readFile cfg;
          out = List.map_filter (\<lambda>e. if hasUsablePort e then Some e else if addr \<noteq> [] then Some addr else None) (splitHostList raw)
      in if out = [] then (if addr \<noteq> [] then [addr] else []) else out)"

text \<open>\<open>out\<close> is the output of \<open>condor_version\<close>.\<close>

definition detectCondorVersion :: "string option \<Rightarrow> string" where
  "detectCondorVersion out =
     (case Option.bind out (first_line (\<lambda>l. has_prefix l ''$CondorVersion:'')) of
        Some l \<Rightarrow> l
      | None \<Rightarrow> ''$CondorVersion: 25.0.0 2025-01-01 BuildID: golang-ap $'')"

text \<open>The path and the contents of the address file; \<open>None\<close> when there is nowhere to write it.\<close>

definition address_file :: "build_info \<Rightarrow> string option \<Rightarrow> config \<Rightarrow> string \<Rightarrow> (string \<times> string) option" where
  "address_file v out cfg addr =
     (let path = (case cfg ''SCHEDD_ADDRESS_FILE'' of Some p \<Rightarrow> p | None \<Rightarrow> []);
          logDir = (case cfg ''LOG'' of Some d \<Rightarrow> d | None \<Rightarrow> [])
      in if path = [] \<and> logDir = [] then None
         else Some (if path = [] then path_join [logDir, ''.schedd_address''] else path,
                    ''<'' @ addr @ ''>'' @ [CHR 0x0A] @ detectCondorVersion out @ [CHR 0x0A] @ condorPlatformString v @ [CHR 0x0A]))"

section \<open>Commands and authentication (cmd/schedd)\<close>

datatype command = QMGMT_READ_CMD | QMGMT_WRITE_CMD | QUERY_JOB_ADS | QUERY_JOB_ADS_WITH_AUTH | ACT_ON_JOBS | SPOOL_JOB_FILES
  | SPOOL_JOB_FILES_WITH_PERMS | TRANSFER_DATA | TRANSFER_DATA_WITH_PERMS | RESCHEDULE_CMD | NEGOTIATE | ALIVE_CMD | FILETRANS_UPLOAD | FILETRANS_DOWNLOAD

definition forceAuthCommands :: "command list" where
  "forceAuthCommands = [ACT_ON_JOBS, SPOOL_JOB_FILES, TRANSFER_DATA, SPOOL_JOB_FILES_WITH_PERMS, TRANSFER_DATA_WITH_PERMS,
     QUERY_JOB_ADS_WITH_AUTH, QMGMT_WRITE_CMD]"

text \<open>The authentication setting of the policy a command is negotiated under.\<close>

datatype auth_level = AuthNever | AuthOptional | AuthPreferred | AuthRequired

definition forceAuthentication :: "(command \<Rightarrow> auth_level option) \<Rightarrow> command \<Rightarrow> auth_level option" where
  "forceAuthentication levelConfig c =
     (case levelConfig c of
        None \<Rightarrow> None
      | Some a \<Rightarrow> if c \<in> set forceAuthCommands then Some AuthRequired else Some a)"

definition registerQueueCommands :: "(command \<times> string) list" where
  "registerQueueCommands = [(QMGMT_WRITE_CMD, ''WRITE''), (QMGMT_READ_CMD, ''READ''), (QUERY_JOB_ADS, ''READ''),
     (QUERY_JOB_ADS_WITH_AUTH, ''READ''), (ACT_ON_JOBS, ''WRITE'')]"

end
