(* ===== verification/Loops.thy ===== *)
theory Loops
  imports Daemon
begin

text \<open>
  The goroutines around the scheduler core (\<open>internal/sched/sched.go\<close>) and of the materialization engine
  (\<open>internal/factory/engine.go\<close>): one turn of each \<open>select\<close> loop, the calls that retune and nudge
  them, and the calls that hand the core an event and wait on a channel.

  A loop with a ticker is the record \<open>ticker_loop\<close>: the stored interval, the channels of capacity one for a
  retune and a nudge (filled or not), the interval the ticker runs at, and the passes made so far. Which case
  \<open>select\<close> takes is an argument, among those that are ready. Creating or resetting a ticker with an
  interval that is not positive panics. Times are nanoseconds. Waiting with a timeout is looking whether the channel
  was closed.
\<close>

section \<open>Loops with a ticker\<close>

record ticker_loop =
  lp_interval :: int
  lp_reset :: bool
  lp_nudge :: bool
  lp_ticker :: int
  lp_passes :: nat

abbreviation (input) DefaultInterval :: int where "DefaultInterval \<equiv> 5 * 10 ^ 9"
abbreviation (input) DefaultPeriodicInterval :: int where "DefaultPeriodicInterval \<equiv> 60 * 10 ^ 9"
abbreviation (input) DefaultAdvertiseInterval :: int where "DefaultAdvertiseInterval \<equiv> 300 * 10 ^ 9"
abbreviation (input) DefaultDrainGrace :: int where "DefaultDrainGrace \<equiv> 10 * 10 ^ 9"

definition new_loop :: "int \<Rightarrow> ticker_loop" where
  "new_loop d = \<lparr> lp_interval = d, lp_reset = False, lp_nudge = False, lp_ticker = 0, lp_passes = 0 \<rparr>"

definition NewEngine :: "int \<Rightarrow> ticker_loop" where
  "NewEngine d = new_loop (if d \<le> 0 then DefaultInterval else d)"

definition new_advertise_loop :: "int \<Rightarrow> ticker_loop" where
  "new_advertise_loop d = new_loop (if d \<le> 0 then DefaultAdvertiseInterval else d)"

definition new_periodic_loop :: "int \<Rightarrow> ticker_loop" where
  "new_periodic_loop d = new_loop (if d \<le> 0 then DefaultPeriodicInterval else d)"

definition drain_grace :: "int \<Rightarrow> int" where
  "drain_grace d = (if d \<le> 0 then DefaultDrainGrace else d)"

definition SetAdvertiseInterval :: "int \<Rightarrow> ticker_loop \<Rightarrow> ticker_loop" where
  "SetAdvertiseInterval d l = (if d \<le> 0 then l else l\<lparr> lp_interval := d, lp_reset := True \<rparr>)"

definition SetPeriodicInterval :: "int \<Rightarrow> ticker_loop \<Rightarrow> ticker_loop" where
  "SetPeriodicInterval d l = (if d \<le> 0 then l else l\<lparr> lp_interval := d, lp_reset := True \<rparr>)"

definition SetInterval :: "int \<Rightarrow> ticker_loop \<Rightarrow> ticker_loop" where
  "SetInterval d l = (if d \<le> 0 then l else l\<lparr> lp_interval := d, lp_reset := True \<rparr>)"

definition Nudge :: "ticker_loop \<Rightarrow> ticker_loop" where
  "Nudge l = l\<lparr> lp_nudge := True \<rparr>"

datatype 'a outcome = Returned | Panicked | Goes 'a

definition run_ticker :: "ticker_loop \<Rightarrow> ticker_loop outcome" where
  "run_ticker l = (if lp_interval l \<le> 0 then Panicked else Goes (l\<lparr> lp_ticker := lp_interval l \<rparr>))"

definition one_pass :: "ticker_loop \<Rightarrow> ticker_loop" where
  "one_pass l = l\<lparr> lp_passes := Suc (lp_passes l) \<rparr>"

datatype loop_case = CaseDone | CaseTick | CaseNudge | CaseReset

text \<open>The case is ready; the periodic evaluator has no nudge.\<close>

definition ready :: "bool \<Rightarrow> loop_case \<Rightarrow> ticker_loop \<Rightarrow> bool" where
  "ready nudges cs l = (case cs of CaseNudge \<Rightarrow> nudges \<and> lp_nudge l | CaseReset \<Rightarrow> lp_reset l | _ \<Rightarrow> True)"

text \<open>\<open>Engine.Run\<close>: it sweeps once before the loop.\<close>

definition engine_start :: "ticker_loop \<Rightarrow> ticker_loop outcome" where
  "engine_start l = (case run_ticker l of Goes l \<Rightarrow> Goes (one_pass l) | r \<Rightarrow> r)"

definition engine_turn :: "loop_case \<Rightarrow> ticker_loop \<Rightarrow> ticker_loop outcome" where
  "engine_turn cs l =
     (case cs of
        CaseDone \<Rightarrow> Returned
      | CaseTick \<Rightarrow> Goes (one_pass l)
      | CaseNudge \<Rightarrow> Goes (one_pass (l\<lparr> lp_nudge := False \<rparr>))
      | CaseReset \<Rightarrow> run_ticker (l\<lparr> lp_reset := False \<rparr>))"

text \<open>\<open>advertiseLoop\<close>: without an advertise function it returns, otherwise it advertises once before the loop.\<close>

definition advertise_start :: "bool \<Rightarrow> ticker_loop \<Rightarrow> ticker_loop outcome" where
  "advertise_start has_fn l = (if \<not> has_fn then Returned else run_ticker (one_pass l))"

definition advertise_turn :: "loop_case \<Rightarrow> ticker_loop \<Rightarrow> ticker_loop outcome" where
  "advertise_turn cs l =
     (case cs of
        CaseDone \<Rightarrow> Returned
      | CaseTick \<Rightarrow> Goes (one_pass l)
      | CaseNudge \<Rightarrow> Goes (one_pass (l\<lparr> lp_nudge := False \<rparr>))
      | CaseReset \<Rightarrow> run_ticker (l\<lparr> lp_reset := False \<rparr>))"

text \<open>\<open>periodicLoop\<close>; a pass is \<open>evaluatePeriodic\<close>.\<close>

definition periodic_start :: "ticker_loop \<Rightarrow> ticker_loop outcome" where
  "periodic_start l = run_ticker l"

definition periodic_turn :: "loop_case \<Rightarrow> ticker_loop \<Rightarrow> ticker_loop outcome" where
  "periodic_turn cs l =
     (case cs of
        CaseDone \<Rightarrow> Returned
      | CaseTick \<Rightarrow> Goes (one_pass l)
      | CaseNudge \<Rightarrow> Goes l
      | CaseReset \<Rightarrow> run_ticker (l\<lparr> lp_reset := False \<rparr>))"

text \<open>What \<open>reconfigure\<close> does to the three loops.\<close>

definition retune_all :: "config \<Rightarrow> ticker_loop \<times> ticker_loop \<times> ticker_loop \<Rightarrow> ticker_loop \<times> ticker_loop \<times> ticker_loop" where
  "retune_all cfg ls =
     (case ls of (adv, per, eng) \<Rightarrow>
        (SetAdvertiseInterval (configSeconds cfg ''SCHEDD_INTERVAL'' DefaultAdvertiseInterval) adv,
         SetPeriodicInterval (configSeconds cfg ''PERIODIC_EXPR_INTERVAL'' DefaultPeriodicInterval) per,
         SetInterval (configSeconds cfg ''SCHEDD_MATERIALIZE_INTERVAL'' DefaultInterval) eng))"

section \<open>The core's loop and its callers\<close>

datatype core_case = CoreDone | CoreSweep int int | CoreEvent int

text \<open>A turn of \<open>loop\<close>: \<open>None\<close> when it returns. The sweep case needs a positive interval, the other an event.\<close>

definition core_ready :: "core_case \<Rightarrow> ('ad, 'ex, 's, 'h) sched \<Rightarrow> bool" where
  "core_ready cs s =
     (case cs of CoreDone \<Rightarrow> True | CoreSweep _ _ \<Rightarrow> sd_sweepInterval s > 0 | CoreEvent _ \<Rightarrow> sd_events s \<noteq> [])"

definition core_turn :: "('ad, 'ex, 's, 'h, 'z) ext_scheme \<Rightarrow> core_case \<Rightarrow> ('ad, 'ex, 's, 'h) sched \<Rightarrow>
    ('ad, 'ex, 's, 'h) sched option" where
  "core_turn E cs s =
     (case cs of
        CoreDone \<Rightarrow> None
      | CoreSweep now now' \<Rightarrow> Some (sweepExpired E now now' s)
      | CoreEvent now \<Rightarrow>
          (case sd_events s of
             [] \<Rightarrow> Some s
           | ev # evs \<Rightarrow> Some (handle E now ev (s\<lparr> sd_events := evs \<rparr>))))"

definition Reschedule :: "('ad, 'ex, 's, 'h) sched \<Rightarrow> ('ad, 'ex, 's, 'h) sched" where
  "Reschedule s = SubmitEvent EvReschedule s"

definition TeardownJobAndWait :: "int \<Rightarrow> int \<Rightarrow> nat \<Rightarrow> ('ad, 'ex, 's, 'h) sched \<Rightarrow> ('ad, 'ex, 's, 'h) sched" where
  "TeardownJobAndWait c p done s = SubmitEvent (EvTeardown c p (Some done)) s"

definition Drain :: "nat \<Rightarrow> ('ad, 'ex, 's, 'h) sched \<Rightarrow> ('ad, 'ex, 's, 'h) sched" where
  "Drain done s = SubmitEvent (EvDrain done) s"

definition Recover :: "nat \<Rightarrow> ('ad, 'ex, 's, 'h) sched \<Rightarrow> ('ad, 'ex, 's, 'h) sched" where
  "Recover done s = (if sd_reconnectDisabled s then s else SubmitEvent (EvRecover (Some done)) s)"

text \<open>\<open>Stop\<close> drains once, if the scheduler was started; the flag is its \<open>sync.Once\<close>.\<close>

definition Stop :: "bool \<Rightarrow> nat \<Rightarrow> bool \<times> ('ad, 'ex, 's, 'h) sched \<Rightarrow> bool \<times> ('ad, 'ex, 's, 'h) sched" where
  "Stop started done st =
     (case st of (stopped, s) \<Rightarrow> (True, if \<not> stopped \<and> started then Drain done s else s))"

text \<open>A wait on a channel returned before its timeout.\<close>

definition wait_over :: "nat \<Rightarrow> ('ad, 'ex, 's, 'h) sched \<Rightarrow> bool" where
  "wait_over ch s = (ch \<in> set (sd_closed s))"

end
