(* ===== verification/LoopProps.thy ===== *)
theory LoopProps
  imports Loops SchedProps
begin

text \<open>
  Properties of the goroutines around the scheduler core. No ticker is created or reset with an interval that is not
  positive, and a retune takes effect; the goroutine of a run reports its end once; a caller that waits for
  the teardown of a job is answered, and only when the run of the job is gone.
\<close>

section \<open>Tickers\<close>

text \<open>The life of a loop: started, its turns among the ready cases, retunes and nudges in between.\<close>

inductive ticker_run :: "bool \<Rightarrow> (loop_case \<Rightarrow> ticker_loop \<Rightarrow> ticker_loop outcome) \<Rightarrow> ticker_loop outcome \<Rightarrow> ticker_loop \<Rightarrow> bool"
  for nudges :: bool and turn :: "loop_case \<Rightarrow> ticker_loop \<Rightarrow> ticker_loop outcome" and start :: "ticker_loop outcome" where
  started: "start = Goes l \<Longrightarrow> ticker_run nudges turn start l"
| turned: "ticker_run nudges turn start l \<Longrightarrow> ready nudges cs l \<Longrightarrow> turn cs l = Goes l' \<Longrightarrow> ticker_run nudges turn start l'"
| retuned: "ticker_run nudges turn start l \<Longrightarrow> ticker_run nudges turn start (SetInterval d l)"
| nudged: "ticker_run nudges turn start l \<Longrightarrow> ticker_run nudges turn start (Nudge l)"

definition ticker_ok :: "ticker_loop \<Rightarrow> bool" where
  "ticker_ok l = (0 < lp_interval l \<and> 0 < lp_ticker l \<and> (lp_reset l \<or> lp_ticker l = lp_interval l))"

lemma setters_agree: "SetAdvertiseInterval = SetInterval" "SetPeriodicInterval = SetInterval"
  by (simp_all add: fun_eq_iff SetAdvertiseInterval_def SetPeriodicInterval_def SetInterval_def)

lemma turn_ok:
  assumes "ticker_ok l" and "t \<in> {engine_turn, advertise_turn, periodic_turn}"
  shows "t cs l \<noteq> Panicked" and "t cs l = Goes l' \<Longrightarrow> ticker_ok l'"
  using assms
  by (cases cs; auto simp: engine_turn_def advertise_turn_def periodic_turn_def run_ticker_def one_pass_def ticker_ok_def)+

lemma ticker_run_ok:
  assumes "ticker_run nudges t start l" and "t \<in> {engine_turn, advertise_turn, periodic_turn}"
    and "\<And>l. start = Goes l \<Longrightarrow> ticker_ok l"
  shows "ticker_ok l"
  using assms(1)
proof (induction rule: ticker_run.induct)
  case (turned l cs l')
  then show ?case using turn_ok(2) [OF turned.IH assms(2)] by blast
qed (use assms(3) in \<open>auto simp: ticker_ok_def SetInterval_def Nudge_def\<close>)

lemma starts_ok:
  "engine_start (NewEngine d) = Goes l \<Longrightarrow> ticker_ok l"
  "advertise_start has_fn (new_advertise_loop d) = Goes l \<Longrightarrow> ticker_ok l"
  "periodic_start (new_periodic_loop d) = Goes l \<Longrightarrow> ticker_ok l"
  by (auto simp: engine_start_def advertise_start_def periodic_start_def run_ticker_def NewEngine_def new_loop_def
      new_advertise_loop_def new_periodic_loop_def one_pass_def ticker_ok_def split: if_splits)

lemma starts_run:
  "engine_start (NewEngine d) \<noteq> Panicked" "advertise_start has_fn (new_advertise_loop d) \<noteq> Panicked"
  "periodic_start (new_periodic_loop d) \<noteq> Panicked"
  by (auto simp: engine_start_def advertise_start_def periodic_start_def run_ticker_def NewEngine_def new_loop_def
      new_advertise_loop_def new_periodic_loop_def one_pass_def)

text \<open>
  The tickers of the materialization engine, the advertiser and the periodic evaluator never run at an interval
  that is not positive, whatever the configuration says at start and at any reconfiguration: no start and no turn
  of the loops panics, and once a pending retune has been received the ticker runs at the stored interval.
\<close>

theorem tickers_positive:
  assumes "(start, turn) \<in> {(engine_start (NewEngine d), engine_turn), (advertise_start True (new_advertise_loop d), advertise_turn),
      (periodic_start (new_periodic_loop d), periodic_turn)}"
    and "ticker_run nudges turn start l"
  shows "start \<noteq> Panicked \<and> turn cs l \<noteq> Panicked \<and> 0 < lp_ticker l \<and> (lp_reset l \<or> lp_ticker l = lp_interval l)"
proof -
  have t: "turn \<in> {engine_turn, advertise_turn, periodic_turn}" using assms(1) by auto
  have "ticker_ok l" by (rule ticker_run_ok [OF assms(2) t]) (use assms(1) starts_ok in auto)
  moreover have "turn cs l \<noteq> Panicked" by (rule turn_ok(1) [OF calculation t])
  moreover have "start \<noteq> Panicked" using assms(1) by (elim insertE emptyE) (simp_all add: starts_run)
  ultimately show ?thesis by (simp add: ticker_ok_def)
qed

theorem tickers_positive_witness:
  "\<exists>l. ticker_run True engine_turn (engine_start (NewEngine (-7))) l \<and> lp_reset l \<and> lp_interval l = 9 \<and> 0 < lp_ticker l"
proof -
  obtain l where "engine_start (NewEngine (-7)) = Goes l"
    by (cases "engine_start (NewEngine (-7))") (auto simp: engine_start_def NewEngine_def new_loop_def run_ticker_def)
  then have r: "ticker_run True engine_turn (engine_start (NewEngine (-7))) (SetInterval 9 l)"
    by (rule ticker_run.retuned [OF ticker_run.started])
  have "0 < lp_ticker (SetInterval 9 l)"
    using tickers_positive [OF _ r, of "-7"] by blast
  then show ?thesis using r by (auto simp: SetInterval_def)
qed

section \<open>The turns of the core\<close>

lemma core_turn_run:
  assumes "core_run E s" and "core_turn E cs s = Some s'" and "distinct (scan_ids E (sd_q s))"
  shows "core_run E s'"
  using assms by (auto simp: core_turn_def split: core_case.splits list.splits intro: core_run.sweep core_run.event)

section \<open>Every run reports its end\<close>

lemma recovered_end:
  assumes "evs = pre @ [e]" and "ended e = Some (c, p)" and "pre = [] \<or> (\<exists>slot cl. pre = [EvStarted c p slot cl])"
  shows "\<exists>pre e. recovered c p pan evs = pre @ [e] \<and> ended e = Some (c, p) \<and>
    (pre = [] \<or> (\<exists>slot cl. pre = [EvStarted c p slot cl]))"
  using assms by (cases pan) (auto simp: recovered_def less_Suc_eq numeral_2_eq_2)

lemma run_activate_end:
  "\<exists>pre e. run_activate c p slot cl o' = pre @ [e] \<and> ended e = Some (c, p) \<and>
     (pre = [] \<or> (\<exists>slot cl. pre = [EvStarted c p slot cl]))"
  by (auto simp: run_activate_def failed_event_def)

lemma run_claim_end:
  "\<exists>pre e. fst (run_claim E now ai m o' t) = pre @ [e] \<and> ended e = Some (nm_Cluster m, nm_Proc m) \<and>
     (pre = [] \<or> (\<exists>slot cl. pre = [EvStarted (nm_Cluster m) (nm_Proc m) slot cl]))"
  using run_activate_end
  by (auto simp: run_claim_def failed_event_def Let_def split: option.splits prod.splits list.splits)

text \<open>
  C37. The goroutine of a run reports its end exactly once, at the end, whatever the calls to the startd and the shadow give
  and wherever it panics: its events are at most one start followed by one exit or failure of its own job, and
  handling that report leaves the job without a registered run.
\<close>

theorem run_reports_end:
  "\<exists>pre e. fst (runJob E now ai m o' pan t) = pre @ [e] \<and> ended e = Some (nm_Cluster m, nm_Proc m) \<and>
     (pre = [] \<or> (\<exists>slot cl. pre = [EvStarted (nm_Cluster m) (nm_Proc m) slot cl])) \<and>
     map_of (sd_running (handle E now' e s)) (nm_Cluster m, nm_Proc m) = None"
proof -
  have gone: "map_of (sd_running (handle E now' e s)) k = None" if "ended e = Some k" for e k
  proof -
    have "core (handle E now' e s) = reg_finish (reg_del k (core s))"
      using that by (cases e) (auto simp: handle_def core_exited core_failed core_reconnect_failed)
    then show ?thesis by (auto simp: core_def map_of_delete split: if_splits)
  qed
  obtain pre e where "fst (run_claim E now ai m o' t) = pre @ [e]" "ended e = Some (nm_Cluster m, nm_Proc m)"
    "pre = [] \<or> (\<exists>slot cl. pre = [EvStarted (nm_Cluster m) (nm_Proc m) slot cl])"
    using run_claim_end by blast
  from recovered_end [OF this, of pan] gone show ?thesis
    by (fastforce simp: runJob_def Let_def case_prod_beta)
qed

section \<open>Channels and the runs that close them\<close>

text \<open>The channel an event carries.\<close>

fun event_chan :: "'ad event \<Rightarrow> nat option" where
  "event_chan (EvTeardown c p ch) = ch"
| "event_chan (EvDrain ch) = Some ch"
| "event_chan (EvRecover ch) = ch"
| "event_chan _ = None"

text \<open>Runs with the channels waiting on them, the channel of a drain, and the channels closed.\<close>

definition waits :: "('ad, 'ex, 's, 'h) sched \<Rightarrow> (job_id \<times> runInfo) list \<times> nat option \<times> nat list" where
  "waits s = (sd_running s, sd_drainDone s, sd_closed s)"

interpretation waitv: core_view waits
  by unfold_locales (simp_all add: waits_def SubmitEvent_def nudgeAdvertise_def nudgeMaterialize_def releaseClaim_def
      cancel_run_def log_core_def)

lemma waits_spawn [core_frame]: "waits (spawn_go g s) = waits s"
  by (simp add: waits_def spawn_go_def)

text \<open>Channel \<open>n\<close> is open and only the run of \<open>k\<close> may close it.\<close>

fun reserved :: "nat \<Rightarrow> job_id \<Rightarrow> (job_id \<times> runInfo) list \<times> nat option \<times> nat list \<Rightarrow> bool" where
  "reserved n k (r, d, cl) = (n \<notin> set cl \<and> d \<noteq> Some n \<and> (\<forall>(k', ri) \<in> set r. n \<in> set (ri_waiters ri) \<longrightarrow> k' = k))"

fun closed_gone :: "nat \<Rightarrow> job_id \<Rightarrow> (job_id \<times> runInfo) list \<times> nat option \<times> nat list \<Rightarrow> bool" where
  "closed_gone n k (r, d, cl) = (n \<in> set cl \<and> k \<notin> fst ` set r)"

definition settled :: "nat \<Rightarrow> job_id \<Rightarrow> (job_id \<times> runInfo) list \<times> nat option \<times> nat list \<Rightarrow> bool" where
  "settled n k w = (reserved n k w \<or> closed_gone n k w)"

lemma waits_ops:
  "waits (set_run k ri s) = (AList.update k ri (sd_running s), sd_drainDone s, sd_closed s)"
  "waits (add_running k ri s) = (AList.update k ri (sd_running s), sd_drainDone s, sd_closed s)"
  "waits (del_running k s) = (AList.delete k (sd_running s), sd_drainDone s, sd_closed s)"
  "waits (close_chan ch s) = (sd_running s, sd_drainDone s, sd_closed s @ (case ch of None \<Rightarrow> [] | Some n \<Rightarrow> [n]))"
  "waits (reapWaiters ri s) = (sd_running s, sd_drainDone s, sd_closed s @ ri_waiters ri)"
  by (simp_all add: waits_def set_run_def add_running_def del_running_def close_chan_def reapWaiters_def split: option.splits)

lemma cancel_chans [simp]: "sd_drainDone (cancel_run k s) = sd_drainDone s" "sd_closed (cancel_run k s) = sd_closed s"
  by (simp_all add: cancel_run_def)

lemma reserved_update:
  assumes "reserved n k (r, d, cl)" and "n \<in> set (ri_waiters ri) \<Longrightarrow> k' = k"
  shows "reserved n k (AList.update k' ri r, d, cl)"
proof -
  have "set (AList.update k' ri r) \<subseteq> insert (k', ri) (set r)" by (induction r) (auto split: if_splits)
  then show ?thesis using assms by fastforce
qed

lemma waits_eq: "waits s' = waits s \<Longrightarrow> sd_running s' = sd_running s \<and> sd_drainDone s' = sd_drainDone s \<and> sd_closed s' = sd_closed s"
  by (simp add: waits_def)

text \<open>The end of a run: it leaves the registry, a drain may finish, its waiters are told.\<close>

lemma settled_end:
  assumes "reserved n k (waits s)" and "waits s1 = (AList.delete key (sd_running s), sd_drainDone s, sd_closed s)"
    and "map_of (sd_running s) key = Some ri"
  shows "settled n k (waits (reapWaiters ri (maybeFinishDrain s1)))"
proof -
  have s1: "sd_running s1 = AList.delete key (sd_running s)" "sd_drainDone s1 = sd_drainDone s" "sd_closed s1 = sd_closed s"
    using assms(2) by (auto simp: waits_def)
  have in_r: "(key, ri) \<in> set (sd_running s)" using assms(3) by (rule map_of_SomeD)
  have r: "reserved n k (waits (maybeFinishDrain s1))" "sd_running (maybeFinishDrain s1) = sd_running s1"
    using assms(1) s1 by (auto simp: maybeFinishDrain_def waits_def close_chan_def AList.delete_eq split: option.splits)
  show ?thesis
  proof (cases "n \<in> set (ri_waiters ri)")
    case True
    then have "key = k" using assms(1) in_r by (auto simp: waits_def)
    then show ?thesis using True s1 r(2) by (auto simp: settled_def waits_ops AList.delete_eq)
  next
    case False
    then show ?thesis using r by (auto simp: settled_def reapWaiters_def waits_def)
  qed
qed

lemma settled_none:
  assumes "reserved n k (waits s)" and "waits s1 = waits s"
  shows "settled n k (waits (maybeFinishDrain s1))"
  using assms by (auto simp: settled_def maybeFinishDrain_def waits_def close_chan_def split: option.splits)

lemma settled_exited: "reserved n k (waits s) \<Longrightarrow> settled n k (waits (handleExited E now c p res err s))"
proof (cases "map_of (sd_running s) (c, p)")
  case None
  then show "reserved n k (waits s) \<Longrightarrow> ?thesis"
    by (auto simp: handleExited_def Let_def intro!: settled_none simp: core_frame split: option.splits)
next
  case (Some ri)
  then show "reserved n k (waits s) \<Longrightarrow> ?thesis"
    by (auto simp: handleExited_def Let_def intro!: settled_end simp: core_frame waits_ops(3) split: option.splits)
qed

lemma settled_failed: "reserved n k (waits s) \<Longrightarrow> settled n k (waits (handleFailed E now c p err pn cl rel s))"
proof (cases "map_of (sd_running s) (c, p)")
  case None
  then show "reserved n k (waits s) \<Longrightarrow> ?thesis"
    by (auto simp: handleFailed_def Let_def intro!: settled_none simp: core_frame)
next
  case (Some ri)
  then show "reserved n k (waits s) \<Longrightarrow> ?thesis"
    by (auto simp: handleFailed_def Let_def intro!: settled_end simp: core_frame waits_ops(3))
qed

lemma settled_reconnect_failed:
  "reserved n k (waits s) \<Longrightarrow> settled n k (waits (handleReconnectFailed E now c p cl err s))"
proof (cases "map_of (sd_running s) (c, p)")
  case None
  then show "reserved n k (waits s) \<Longrightarrow> ?thesis"
    by (auto simp: handleReconnectFailed_def Let_def intro!: settled_none simp: core_frame)
next
  case (Some ri)
  then show "reserved n k (waits s) \<Longrightarrow> ?thesis"
    by (auto simp: handleReconnectFailed_def Let_def intro!: settled_end simp: core_frame waits_ops(3))
qed

text \<open>Changing a run without telling other channels, and adding one nobody waits for.\<close>

lemma reserved_set:
  assumes "reserved n k (waits s)" and "(key, ri) \<in> set (sd_running s)" and "ri_waiters ri' = ri_waiters ri"
  shows "reserved n k (waits (set_run key ri' s))"
  using reserved_update [of n k "sd_running s" "sd_drainDone s" "sd_closed s" ri' key] assms
  by (auto simp: waits_def set_run_def)

lemma reserved_add:
  assumes "reserved n k (waits s)" and "ri_waiters ri = []"
  shows "reserved n k (waits (add_running key ri s))"
  using reserved_update [of n k "sd_running s" "sd_drainDone s" "sd_closed s" ri key] assms
  by (auto simp: waits_def add_running_def)

lemma reserved_fold:
  assumes "reserved n k (waits s)" and "\<And>x s. x \<in> set xs \<Longrightarrow> reserved n k (waits s) \<Longrightarrow> reserved n k (waits (f x s))"
  shows "reserved n k (waits (fold f xs s))"
  using assms by (induction xs arbitrary: s) auto

lemma reserved_any:
  assumes "reserved n k (waits s)" and "n \<in> set (ri_waiters ri) \<Longrightarrow> key = k"
  shows "reserved n k (waits (set_run key ri s))"
  using reserved_update [of n k "sd_running s" "sd_drainDone s" "sd_closed s" ri key] assms
  by (auto simp: waits_def set_run_def)

lemma reserved_match: "reserved n k (waits s) \<Longrightarrow> reserved n k (waits (handleMatch E m s))"
  by (simp add: handleMatch_def Let_def core_frame reserved_add fresh_run_def split: option.split)

lemma reserved_started:
  assumes "reserved n k (waits s)"
  shows "reserved n k (waits (handleStarted E now c p slot cl s))"
proof (cases "map_of (sd_running s) (c, p)")
  case None
  then show ?thesis using assms by (simp add: handleStarted_def Let_def core_frame if_distrib [of waits] split: prod.split)
next
  case (Some ri)
  have "reserved n k (waits (set_run (c, p) ri' s))" if "ri_waiters ri' = ri_waiters ri" for ri'
    by (rule reserved_set [OF assms map_of_SomeD [OF Some] that])
  then show ?thesis using Some
    by (simp add: handleStarted_def Let_def core_frame if_distrib [of waits] split: prod.split)
qed

lemma settled_teardown:
  assumes "reserved n k (waits s)" and "ch = Some n \<Longrightarrow> (c, p) = k"
  shows "settled n k (waits (handleTeardown c p ch s))"
proof (cases "map_of (sd_running s) (c, p)")
  case None
  then have "(c, p) \<notin> fst ` set (sd_running s)" by (simp add: map_of_eq_None_iff)
  then show ?thesis using assms None
    by (cases "ch = Some n") (auto simp: handleTeardown_def settled_def waits_def close_chan_def split: option.split)
next
  case (Some ri)
  then have "n \<in> set (ri_waiters ri) \<Longrightarrow> (c, p) = k" using assms(1) map_of_SomeD [OF Some] by (auto simp: waits_def)
  then show ?thesis using assms Some
    by (auto simp: handleTeardown_def settled_def core_frame Let_def intro!: reserved_any split: option.split)
qed

lemma reserved_drain:
  assumes "reserved n k (waits s)" and "ch \<noteq> n"
  shows "reserved n k (waits (handleDrain E now ch s))"
proof -
  have w: "n \<in> set (ri_waiters ri) \<Longrightarrow> key = k" if "(key, ri) \<in> set (sd_running s)" for key ri
    using assms(1) that by (auto simp: waits_def)
  let ?s = "s\<lparr> sd_draining := True, sd_drainDone := Some ch \<rparr>"
  have s: "reserved n k (waits ?s)" using assms by (auto simp: waits_def)
  have "reserved n k (waits (fold (drain_vacate E now) (sd_running s) ?s))"
    by (rule reserved_fold [OF s]) (use w in \<open>force simp: drain_vacate_def core_frame intro: reserved_any\<close>)
  moreover have "reserved n k (waits (fold drain_detach (sd_running s) ?s))"
    by (rule reserved_fold [OF s]) (use w in \<open>force simp: drain_detach_def core_frame intro: reserved_any\<close>)
  ultimately show ?thesis using assms by (auto simp: handleDrain_def Let_def waits_def close_chan_def)
qed

lemma reserved_recover:
  assumes "reserved n k (waits s)" and "ch \<noteq> Some n"
  shows "reserved n k (waits (handleRecover E now ch s))"
proof -
  let ?f = "fold (recover_scan1 E now) (Scan E (sd_q s)) (s, [])"
  have "reserved n k (waits (fold (recover_start E) (snd ?f) (fst ?f)))"
    by (rule reserved_fold)
       (use assms(1) in \<open>auto simp: core_frame recover_start_def Let_def reserved_add fresh_run_def split: prod.split\<close>)
  then have "reserved n k (waits (close_chan ch (fold (recover_start E) (snd ?f) (fst ?f))))"
    "reserved n k (waits (close_chan ch s))"
    using assms by (auto simp: waits_def close_chan_def split: option.split)
  then show ?thesis by (simp add: handleRecover_def Let_def case_prod_beta)
qed

lemma settled_handle:
  assumes "reserved n k (waits s)" and "event_chan ev = Some n \<Longrightarrow> ev = EvTeardown (fst k) (snd k) (Some n)"
  shows "settled n k (waits (handle E now ev s))"
proof -
  have r: "reserved n k w \<Longrightarrow> settled n k w" for w by (simp add: settled_def)
  show ?thesis
  proof (cases ev)
    case (EvTeardown c p ch)
    then show ?thesis using assms by (auto simp: handle_def intro: settled_teardown)
  next
    case (EvDrain ch)
    then show ?thesis using assms by (auto simp: handle_def intro!: r reserved_drain)
  next
    case (EvRecover ch)
    then show ?thesis using assms by (auto simp: handle_def intro!: r reserved_recover)
  qed (use assms(1) in \<open>simp_all add: handle_def settled_exited settled_failed settled_reconnect_failed core_frame
      handlePolicyAction_def r reserved_match reserved_started\<close>)
qed

lemma reserved_sweep:
  assumes "reserved n k (waits s)"
  shows "reserved n k (waits (sweepExpired E now now' s))"
proof -
  let ?s = "fold (renew_run E now) (sd_running s) s"
  have r: "reserved n k (waits (?s\<lparr> sd_matches := m \<rparr>))" for m using assms by (simp add: core_frame waitv.view_fold)
  have e: "reserved n k (waits (expire_rec E t rec s))" if "reserved n k (waits s)" for rec t s
  proof (cases "List.find (\<lambda>(key, ri). \<not> ri_vacated ri \<and> claimPublicID E (ri_claimID ri) = m_publicID rec) (sd_running s)")
    case None
    then show ?thesis using that by (simp add: expire_rec_def)
  next
    case (Some kr)
    obtain key ri where kr: "kr = (key, ri)" by (cases kr)
    have "(key, ri) \<in> set (sd_running s)" using Some kr unfolding find_Some_iff by (metis nth_mem)
    then show ?thesis using that Some kr reserved_set [OF that, of key ri] by (simp add: expire_rec_def core_frame)
  qed
  show ?thesis by (simp add: sweepExpired_def Let_def case_prod_beta reserved_fold [OF r e])
qed

section \<open>Events of the channel\<close>

definition chan_events :: "'ad event list \<Rightarrow> 'ad event set" where
  "chan_events es = {ev \<in> set es. event_chan ev \<noteq> None}"

lemma events_effects [simp]:
  "sd_events (nudgeAdvertise s) = sd_events s" "sd_events (nudgeMaterialize s) = sd_events s"
  "sd_events (releaseClaim cl s) = sd_events s" "sd_events (cancel_run k s) = sd_events s"
  "sd_events (log_core u s) = sd_events s" "sd_events (log_job E c p f s) = sd_events s"
  "sd_events (modify_job E c p g s) = sd_events s" "sd_events (drop_match E cl s) = sd_events s"
  "sd_events (spawn_go h s) = sd_events s" "sd_events (close_chan ch s) = sd_events s"
  "sd_events (reapWaiters ri s) = sd_events s" "sd_events (add_running k ri s) = sd_events s"
  "sd_events (set_run k ri s) = sd_events s" "sd_events (del_running k s) = sd_events s"
  "sd_events (maybeFinishDrain s) = sd_events s" "sd_events (requeueToIdle E now c p s) = sd_events s"
  "sd_events (jobFailed E now c p why cnt s) = sd_events s"
  by (simp_all add: nudgeAdvertise_def nudgeMaterialize_def releaseClaim_def cancel_run_def log_core_def log_job_def
      modify_job_def drop_match_def spawn_go_def close_chan_def reapWaiters_def add_running_def set_run_def del_running_def
      maybeFinishDrain_def requeueToIdle_def jobFailed_def Let_def split: option.splits)

lemma chan_events_submit:
  "chan_events (sd_events (SubmitEvent ev s)) \<subseteq> chan_events (sd_events s) \<union> (if event_chan ev = None then {} else {ev})"
  by (auto simp: SubmitEvent_def chan_events_def)

lemma events_fold: "(\<And>x s. sd_events (f x s) = sd_events s) \<Longrightarrow> sd_events (fold f xs s) = sd_events s"
  by (induction xs arbitrary: s) simp_all

lemma events_drain [simp]: "sd_events (handleDrain E now ch s) = sd_events s"
proof -
  have "sd_events (fold (drain_vacate E now) xs s') = sd_events s'" "sd_events (fold drain_detach xs s') = sd_events s'" for xs s'
    by (rule events_fold, simp add: drain_vacate_def drain_detach_def split: prod.split)+
  then show ?thesis by (simp add: handleDrain_def Let_def)
qed

lemma events_recover [simp]: "sd_events (handleRecover E now ch s) = sd_events s"
proof -
  have sc: "sd_events (fst (fold (recover_scan1 E now) ads st)) = sd_events (fst st)" for ads st
    by (induction ads arbitrary: st) (auto simp: recover_scan1_def Let_def split: prod.split)
  have st: "sd_events (fold (recover_start E) rs s') = sd_events s'" for rs s'
    by (rule events_fold) (simp add: recover_start_def Let_def split: prod.split)
  show ?thesis by (simp add: handleRecover_def Let_def case_prod_beta sc st)
qed

lemma events_finish: "chan_events (sd_events (finish_exit E now c p res s)) \<subseteq> chan_events (sd_events s)"
  by (auto simp: finish_exit_def holdOnExit_def requeueOnExit_def complete_job_def Let_def SubmitEvent_def chan_events_def
      split: policy_action.splits)

lemma events_handle: "chan_events (sd_events (handle E now ev s)) \<subseteq> chan_events (sd_events s)"
proof (cases ev)
  case (EvStarted c p slot cl)
  then show ?thesis
    by (cases "map_of (sd_running s) (c, p)") (simp_all add: handle_def handleStarted_def Let_def split: prod.split)
next
  case (EvExited c p res err)
  then show ?thesis
    using events_finish [of E now c p]
    by (cases "map_of (sd_running s) (c, p)")
       (auto simp: handle_def handleExited_def Let_def split: option.splits if_splits dest!: subsetD [OF events_finish])
qed (simp_all add: handle_def handleMatch_def handleFailed_def handleTeardown_def handleReconnectFailed_def
      handlePolicyAction_def Let_def split: option.split)

lemma events_periodic: "chan_events (sd_events (evaluatePeriodic E now s)) \<subseteq> chan_events (sd_events s)"
proof -
  have "chan_events (sd_events (fold SubmitEvent evs s)) \<subseteq> chan_events (sd_events s)"
    if "\<forall>ev \<in> set evs. event_chan ev = None" for evs s
    using that
  proof (induction evs arbitrary: s)
    case (Cons ev evs)
    then show ?case using chan_events_submit [of ev s] by fastforce
  qed simp
  moreover have "event_chan ev = None" if "periodic_event E now sys ad = Some ev" for sys ad ev
    using that by (auto simp: periodic_event_def Let_def split: if_splits policy_action.splits)
  then have "\<forall>ev \<in> set (List.map_filter (periodic_event E now sys) ads). event_chan ev = None" for sys ads
    by (auto simp: List.map_filter_def)
  ultimately show ?thesis unfolding evaluatePeriodic_def by blast
qed

lemma events_sweep [simp]: "sd_events (sweepExpired E now now' s) = sd_events s"
proof -
  have "sd_events (fold (renew_run E now) rs s) = sd_events s" for rs s
    by (rule events_fold) (simp add: renew_run_def Let_def split: prod.split)
  moreover have "sd_events (fold (expire_rec E now') rs s) = sd_events s" for rs s
    by (rule events_fold) (simp add: expire_rec_def split: prod.split option.split)
  ultimately show ?thesis by (simp add: sweepExpired_def Let_def case_prod_beta)
qed

section \<open>Waiting for a teardown\<close>

definition unused :: "nat \<Rightarrow> ('ad, 'ex, 's, 'h) sched \<Rightarrow> bool" where
  "unused n s = (n \<notin> set (sd_closed s) \<and> sd_drainDone s \<noteq> Some n \<and>
     (\<forall>(k, ri) \<in> set (sd_running s). n \<notin> set (ri_waiters ri)) \<and> (\<forall>ev \<in> set (sd_events s). event_chan ev \<noteq> Some n))"

text \<open>
  The states of the scheduler, latest first, from the call that asks for the teardown of job \<open>k\<close> with
  the new channel \<open>n\<close>.
\<close>

inductive waiting :: "('ad, 'ex, 's, 'h, 'z) ext_scheme \<Rightarrow> job_id \<Rightarrow> nat \<Rightarrow> ('ad, 'ex, 's, 'h) sched list \<Rightarrow> bool"
  for E :: "('ad, 'ex, 's, 'h, 'z) ext_scheme" and k :: job_id and n :: nat where
  asked: "unused n s \<Longrightarrow> waiting E k n [TeardownJobAndWait (fst k) (snd k) n s]"
| event: "waiting E k n (s # ss) \<Longrightarrow> sd_events s = ev # evs \<Longrightarrow>
    waiting E k n (handle E now ev (s\<lparr> sd_events := evs \<rparr>) # s # ss)"
| submit: "waiting E k n (s # ss) \<Longrightarrow> event_chan ev \<noteq> Some n \<Longrightarrow> waiting E k n (SubmitEvent ev s # s # ss)"
| sweep: "waiting E k n (s # ss) \<Longrightarrow> waiting E k n (sweepExpired E now now' s # s # ss)"
| periodic: "waiting E k n (s # ss) \<Longrightarrow> waiting E k n (evaluatePeriodic E now s # s # ss)"
| world: "waiting E k n (s # ss) \<Longrightarrow> waiting E k n (s\<lparr> sd_q := q, sd_matches := t \<rparr> # s # ss)"
| policy: "waiting E k n (s # ss) \<Longrightarrow> waiting E k n (SetSysPolicy pol s # s # ss)"

definition was_gone :: "job_id \<Rightarrow> ('ad, 'ex, 's, 'h) sched list \<Rightarrow> bool" where
  "was_gone k ss = (\<exists>s \<in> set ss. map_of (sd_running s) k = None)"

fun wait_inv :: "job_id \<Rightarrow> nat \<Rightarrow> ('ad, 'ex, 's, 'h) sched list \<Rightarrow> bool" where
  "wait_inv k n [] = False"
| "wait_inv k n (s # ss) =
     ((\<forall>ev \<in> chan_events (sd_events s). event_chan ev = Some n \<longrightarrow> ev = EvTeardown (fst k) (snd k) (Some n)) \<and>
      (if n \<in> set (sd_closed s) then was_gone k (s # ss) else reserved n k (waits s)))"

lemma closed_drain: "set (sd_closed s) \<subseteq> set (sd_closed (handleDrain E now ch s))"
proof -
  have "chans (fold (drain_vacate E now) xs s') = chans s'" "chans (fold drain_detach xs s') = chans s'" for xs s'
    by (rule chanv.view_fold, simp add: drain_vacate_def drain_detach_def core_frame split: prod.split)+
  then show ?thesis by (auto simp: handleDrain_def Let_def chans_def close_chan_def)
qed

lemma closed_grows: "set (sd_closed s) \<subseteq> set (sd_closed (handle E now ev s))"
proof (cases "is_drain ev")
  case True
  then show ?thesis by (cases ev) (simp_all add: handle_def closed_drain)
next
  case False
  then show ?thesis using kept_handle [of ev s E now] by (simp add: kept_def chans_def)
qed

lemma closed_sweep [simp]: "sd_closed (sweepExpired E now now' s) = sd_closed s"
proof -
  have "chans (fold (expire_rec E t) rs s') = chans s'" for rs s' t
    by (rule chanv.view_fold) (simp add: expire_rec_def core_frame split: option.split prod.split)
  then have "chans (sweepExpired E now now' s) = chans s"
    by (simp add: sweepExpired_def Let_def case_prod_beta core_frame chanv.view_fold)
  then show ?thesis by (simp add: chans_def)
qed

lemma was_gone_more: "was_gone k ss \<Longrightarrow> was_gone k (s # ss)"
  by (auto simp: was_gone_def)

text \<open>A step that neither closes nor waits on channels.\<close>

lemma wait_inv_frame:
  assumes "wait_inv k n (s # ss)" and "waits s' = waits s" and "chan_events (sd_events s') \<subseteq> chan_events (sd_events s)"
  shows "wait_inv k n (s' # s # ss)"
  using assms was_gone_more [of k "s # ss" s'] waits_eq [OF assms(2)] by (auto split: if_splits)

lemma waiting_inv: "waiting E k n ss \<Longrightarrow> wait_inv k n ss"
proof (induction rule: waiting.induct)
  case (asked s)
  have "reserved n k (waits s)" using asked by (auto simp: unused_def waits_def)
  then show ?case using asked
    by (auto simp: TeardownJobAndWait_def core_frame unused_def chan_events_def waits_def SubmitEvent_def)
next
  case (event s ss ev evs now)
  let ?s = "s\<lparr> sd_events := evs \<rparr>" and ?s' = "handle E now ev (s\<lparr> sd_events := evs \<rparr>)"
  have ce: "chan_events (sd_events ?s') \<subseteq> chan_events (sd_events s)"
    using events_handle [of E now ev ?s] event(2) by (auto simp: chan_events_def)
  have ev: "event_chan ev = Some n \<Longrightarrow> ev = EvTeardown (fst k) (snd k) (Some n)"
    using event.IH event(2) by (auto simp: chan_events_def)
  show ?case
  proof (cases "n \<in> set (sd_closed s)")
    case True
    then show ?thesis using event.IH ce closed_grows [of ?s E now ev] was_gone_more [of k "s # ss" ?s'] by auto
  next
    case False
    then have "reserved n k (waits ?s)" using event.IH by (simp add: core_frame)
    then have "settled n k (waits ?s')" using settled_handle [OF _ ev] by blast
    then show ?thesis using event.IH ce False
      by (auto simp: settled_def waits_def map_of_eq_None_iff was_gone_def)
  qed
next
  case (submit s ss ev)
  have "chan_events (sd_events (SubmitEvent ev s)) \<subseteq> chan_events (sd_events s) \<union> {ev}"
    using chan_events_submit [of ev s] by (auto split: if_splits)
  then show ?case using submit was_gone_more [of k "s # ss" "SubmitEvent ev s"]
    by (auto simp: core_frame SubmitEvent_def split: if_splits)
next
  case (sweep s ss now now')
  then show ?case using reserved_sweep [of n k s E now now'] was_gone_more [of k "s # ss" "sweepExpired E now now' s"]
    by (auto split: if_splits)
next
  case (periodic s ss now)
  show ?case by (rule wait_inv_frame [OF periodic.IH waitv.view_periodic events_periodic])
next
  case (world s ss q t)
  show ?case by (rule wait_inv_frame [OF world.IH]) (simp_all add: core_frame)
next
  case (policy s ss pol)
  show ?case by (rule wait_inv_frame [OF policy.IH]) (simp_all add: SetSysPolicy_def core_frame)
qed

section \<open>The teardown ends\<close>

definition told :: "nat \<Rightarrow> job_id \<Rightarrow> ('ad, 'ex, 's, 'h) sched \<Rightarrow> bool" where
  "told n k s = (n \<in> set (sd_closed s) \<or> (\<exists>ri. map_of (sd_running s) k = Some ri \<and> n \<in> set (ri_waiters ri)))"

fun told_in :: "nat \<Rightarrow> job_id \<Rightarrow> (job_id \<times> runInfo) list \<times> nat option \<times> nat list \<Rightarrow> bool" where
  "told_in n k (r, d, cl) = (n \<in> set cl \<or> (\<exists>ri. map_of r k = Some ri \<and> n \<in> set (ri_waiters ri)))"

lemma told_waits: "told n k s = told_in n k (waits s)"
  by (simp add: told_def waits_def)

lemma told_set: "told n k s \<Longrightarrow> (key = k \<Longrightarrow> n \<in> set (sd_closed s) \<or> n \<in> set (ri_waiters ri)) \<Longrightarrow> told n k (set_run key ri s)"
  by (auto simp: told_def set_run_def map_of_update)

lemma told_close: "told n k s \<Longrightarrow> told n k (close_chan ch s)"
  by (auto simp: told_def close_chan_def split: option.split)

lemma told_fold:
  "told n k s \<Longrightarrow> (\<And>x s. x \<in> set xs \<Longrightarrow> told n k s \<Longrightarrow> told n k (f x s)) \<Longrightarrow> told n k (fold f xs s)"
  by (induction xs arbitrary: s) auto

lemma told_teardown_now: "map_of (sd_running s) (c, p) = r \<Longrightarrow> told n (c, p) (handleTeardown c p (Some n) s)"
  by (cases r) (auto simp: handleTeardown_def told_def close_chan_def cancel_run_def set_run_def map_of_update)

lemma told_end:
  assumes "told n k s" and "ended ev = Some k"
  shows "n \<in> set (sd_closed (handle E now ev s))"
proof (cases "n \<in> set (sd_closed s)")
  case True
  then show ?thesis using closed_grows by blast
next
  case False
  then obtain ri where ri: "map_of (sd_running s) k = Some ri" "n \<in> set (ri_waiters ri)"
    using assms(1) by (auto simp: told_def)
  have "n \<in> set (sd_closed (reapWaiters ri s'))" for s' :: "('a, 'b, 'c, 'd) sched"
    using ri(2) by (simp add: reapWaiters_def)
  then show ?thesis
    using assms(2) ri(1)
    by (cases ev) (auto simp: handle_def handleExited_def handleFailed_def handleReconnectFailed_def Let_def)
qed

lemma told_handle:
  assumes "told n k s" and "distinct (map fst (sd_running s))" and "ended ev \<noteq> Some k" and "\<And>ch. ev \<noteq> EvRecover ch"
  shows "told n k (handle E now ev s)"
proof (cases "n \<in> set (sd_closed s)")
  case True
  then show ?thesis using closed_grows [of s E now ev] by (auto simp: told_def)
next
  case False
  then obtain ri where ri: "map_of (sd_running s) k = Some ri" "n \<in> set (ri_waiters ri)"
    using assms(1) by (auto simp: told_def)
  have all: "n \<in> set (ri_waiters ri')" if "(k, ri') \<in> set (sd_running s)" for ri'
    using ri that assms(2) by (simp add: map_of_is_SomeI)
  have ends: "told n k (handle E now ev s)" if "ended ev = Some key" "key \<noteq> k" for key
  proof -
    have "core (handle E now ev s) = reg_finish (reg_del key (core s))"
      using that by (cases ev) (auto simp: handle_def core_exited core_failed core_reconnect_failed)
    then have "sd_running (handle E now ev s) = AList.delete key (sd_running s)"
      by (auto simp: core_def map_of_eq_None_iff AList.delete_id split: if_splits)
    then show ?thesis using ri that(2) by (simp add: told_def map_of_delete)
  qed
  show ?thesis
  proof (cases ev)
    case (EvMatch m)
    show ?thesis using ri
      by (auto simp: EvMatch handle_def handleMatch_def told_def Let_def releaseClaim_def spawn_go_def add_running_def
          map_of_update split: option.split)
  next
    case (EvStarted c p slot cl)
    have "told n k (set_run (c, p) ri' s)" if "map_of (sd_running s) (c, p) = Some r" "ri_waiters ri' = ri_waiters r" for r ri'
      by (rule told_set [OF assms(1)]) (use that ri in auto)
    then show ?thesis using assms(1)
      by (cases "map_of (sd_running s) (c, p)")
         (simp_all add: EvStarted handle_def handleStarted_def Let_def core_frame told_waits if_distrib [of waits]
            split: prod.split)
  next
    case (EvTeardown c p ch)
    then show ?thesis using assms(1) ri told_close [OF assms(1), of ch]
      by (auto simp: handle_def handleTeardown_def Let_def told_def cancel_run_def set_run_def map_of_update split: option.split)
  next
    case (EvDrain ch)
    let ?s = "s\<lparr> sd_draining := True, sd_drainDone := Some ch \<rparr>"
    have s: "told n k ?s" "told n k (s\<lparr> sd_draining := True \<rparr>)" using assms(1) by (simp_all add: told_def)
    have c: "told n k (cancel_run key s') = told n k s'" "told n k (requeueToIdle E now c p s') = told n k s'" for key c p s'
      by (simp_all add: told_waits core_frame)
    have "told n k (fold (drain_vacate E now) (sd_running s) ?s)" "told n k (fold drain_detach (sd_running s) ?s)"
      by (rule told_fold [OF s(1)], use all in \<open>force simp: drain_vacate_def drain_detach_def c intro: told_set\<close>)+
    then show ?thesis using told_close [OF s(2)] by (auto simp: EvDrain handle_def handleDrain_def Let_def)
  next
    case (EvRecover ch)
    then show ?thesis using assms(4) by blast
  qed (use ends assms(1,3) in \<open>simp_all add: handle_def core_frame told_waits handlePolicyAction_def\<close>)
qed

lemma distinct_handle:
  assumes "distinct (map fst (sd_running s))" and "\<And>ch. ev \<noteq> EvRecover ch"
  shows "distinct (map fst (sd_running (handle E now ev s)))"
proof -
  have g: "distinct (map fst (fst R'))" if "reg_grow\<^sup>*\<^sup>* R R'" "distinct (map fst (fst R))" for R R'
    using that by (induction rule: rtranclp_induct) (auto elim!: reg_grow.cases simp: distinct_update)
  show ?thesis
  proof (cases "ended ev")
    case None
    then have "reg_grow\<^sup>*\<^sup>* (core s) (core (handle E now ev s))"
      using assms(2) by (cases ev) (auto simp: handle_def core_match core_started core_teardown core_drain core_frame)
    then show ?thesis using g [of "core s" "core (handle E now ev s)"] assms(1) by simp
  next
    case (Some k)
    then have "core (handle E now ev s) = reg_finish (reg_del k (core s))"
      by (cases ev) (auto simp: handle_def core_exited core_failed core_reconnect_failed)
    then have "sd_running (handle E now ev s) \<in> {sd_running s, AList.delete k (sd_running s)}"
      by (auto simp: core_def split: if_splits)
    then show ?thesis using assms(1) distinct_delete [of "sd_running s" k] by auto
  qed
qed

lemma closed_fold: "set (sd_closed s) \<subseteq> set (sd_closed (fold (handle E now) es s))"
proof (induction es arbitrary: s)
  case (Cons ev es)
  show ?case using closed_grows [of s E now ev] Cons.IH [of "handle E now ev s"] by simp
qed simp

lemma told_events:
  assumes "told n k s" and "distinct (map fst (sd_running s))" and "k \<in> set (List.map_filter ended es)"
    and "\<And>ch. EvRecover ch \<notin> set es"
  shows "n \<in> set (sd_closed (fold (handle E now) es s))"
  using assms
proof (induction es arbitrary: s)
  case (Cons ev es)
  have nr: "\<And>ch. ev \<noteq> EvRecover ch" using Cons.prems(4) by auto
  show ?case
  proof (cases "ended ev = Some k")
    case True
    then show ?thesis using told_end [OF Cons.prems(1) True, of E now] closed_fold [of "handle E now ev s" E now es] by auto
  next
    case False
    then have "k \<in> set (List.map_filter ended es)"
      using Cons.prems(3) by (auto simp: List.map_filter_simps split: option.splits)
    then show ?thesis
      using Cons.IH [OF told_handle [OF Cons.prems(1,2) False nr] distinct_handle [OF Cons.prems(2) nr]] Cons.prems(4) by auto
  qed
qed simp

text \<open>
  C36. Waiting for a teardown is sound: when the channel of \<open>TeardownJobAndWait\<close> has been closed, so that the
  call returns true, the job was without a registered run in a state since the call, whatever other events,
  sweeps and policy actions came in between.
\<close>

theorem teardown_means_gone:
  assumes "waiting E k n (s # ss)" and "wait_over n s"
  shows "\<exists>s' \<in> set (s # ss). map_of (sd_running s') k = None"
  using waiting_inv [OF assms(1)] assms(2) by (simp add: wait_over_def was_gone_def)

text \<open>
  Waiting for a teardown ends: once the request has been handled, its channel is closed by the time the run of the
  job has reported its end, among any other events but a recovery scan.
\<close>

theorem teardown_returns:
  assumes "core_run E s" and "(c, p) \<in> set (List.map_filter ended es)" and "\<And>ch. EvRecover ch \<notin> set es"
  shows "wait_over n (fold (handle E now) (EvTeardown c p (Some n) # es) s)"
proof -
  let ?s = "handle E now (EvTeardown c p (Some n)) s"
  have "distinct (map fst (sd_running s))" using core_run_inv [OF assms(1)] by (simp add: core_def)
  then have d: "distinct (map fst (sd_running ?s))" by (rule distinct_handle) simp
  have t: "told n (c, p) ?s" by (simp add: handle_def told_teardown_now)
  show ?thesis using told_events [OF t d assms(2,3), of E now] by (simp add: wait_over_def)
qed

definition ref_asked :: "(ref_ad, ref_ex, ref_store, ref_ad list) sched" where
  "ref_asked = TeardownJobAndWait 1 0 9 ref_matched"

definition ref_vacated :: "(ref_ad, ref_ex, ref_store, ref_ad list) sched" where
  "ref_vacated = handle refE 1001 (EvTeardown 1 0 (Some 9)) (ref_asked\<lparr> sd_events := [] \<rparr>)"

definition ref_ending :: "(ref_ad, ref_ex, ref_store, ref_ad list) sched" where
  "ref_ending = SubmitEvent (EvFailed 1 0 None False [] False) ref_vacated"

definition ref_torn :: "(ref_ad, ref_ex, ref_store, ref_ad list) sched" where
  "ref_torn = handle refE 1002 (EvFailed 1 0 None False [] False) (ref_ending\<lparr> sd_events := [] \<rparr>)"

theorem teardown_means_gone_witness:
  "map_of (sd_running ref_ending) (1, 0) \<noteq> None \<and>
   (\<exists>s' \<in> {ref_torn, ref_ending, ref_vacated, ref_asked}. map_of (sd_running s') (1, 0) = None)"
proof -
  have u: "unused 9 ref_matched" by code_simp
  have e: "sd_events ref_asked = [EvTeardown 1 0 (Some 9)]" "sd_events ref_ending = [EvFailed 1 0 None False [] False]"
    by code_simp+
  have w: "waiting refE (1, 0) 9 [ref_asked]" using waiting.asked [OF u, of refE "(1, 0)"] by (simp add: ref_asked_def)
  have w: "waiting refE (1, 0) 9 [ref_vacated, ref_asked]" using waiting.event [OF w e(1), of 1001] by (simp add: ref_vacated_def)
  have w: "waiting refE (1, 0) 9 [ref_ending, ref_vacated, ref_asked]"
    using waiting.submit [OF w, of "EvFailed 1 0 None False [] False"] by (simp add: ref_ending_def)
  have w: "waiting refE (1, 0) 9 [ref_torn, ref_ending, ref_vacated, ref_asked]"
    using waiting.event [OF w e(2), of 1002] by (simp add: ref_torn_def)
  have "wait_over 9 ref_torn" "map_of (sd_running ref_ending) (1, 0) \<noteq> None" by code_simp+
  then show ?thesis using teardown_means_gone [OF w] by simp
qed

theorem teardown_returns_witness:
  "wait_over 9 (fold (handle refE 1001)
     [EvTeardown 1 0 (Some 9), EvReschedule, EvFailed 1 0 None False [] False] ref_matched)"
proof -
  have "(1, 0) \<in> set (List.map_filter ended [EvReschedule, EvFailed 1 0 None False [] False])" by code_simp
  from teardown_returns [OF ref_matched_run this, of 9 1001] show ?thesis by simp
qed

end
