(* ===== verification/Lifecycle.thy ===== *)
theory Lifecycle
  imports Loops
begin

text \<open>
  The daemon as it is put together (\<open>cmd/schedd/main.go\<close>, \<open>authz.go\<close>): what the components are built with from the
  configuration, the commands on its socket with the level each is registered at, the metrics it describes, and
  \<open>run\<close> itself as the sequence of its steps: steps that may fail and end it, steps taken only when wanted,
  and deferred calls, which are made last in first out however it ends.
\<close>

section \<open>Components built from the configuration\<close>

definition NewAdvertiser :: "string \<Rightarrow> string \<Rightarrow> int \<Rightarrow> int \<Rightarrow> advertiser" where
  "NewAdvertiser name machine startTime maxJobs =
     \<lparr> av_name = name, av_machine = machine, av_startTime = startTime, av_maxJobs = maxJobs, av_seq = 0, av_submitSeq = 0 \<rparr>"

definition wired_advertiser :: "config \<Rightarrow> string option \<Rightarrow> string \<Rightarrow> int \<Rightarrow> advertiser" where
  "wired_advertiser cfg host localName now =
     NewAdvertiser (scheddName cfg host localName) (fullHostname cfg host) now (configInt cfg ''MAX_JOBS_RUNNING'' 10000)"

definition wired_userlog :: "config \<Rightarrow> ulog_config" where
  "wired_userlog cfg =
     \<lparr> uc_Workers = configInt cfg ''SCHEDD_USERLOG_WORKERS'' 32,
       uc_QueueDepth = configInt cfg ''SCHEDD_USERLOG_QUEUE_DEPTH'' 1024,
       uc_SubmitTimeout = configSeconds cfg ''SCHEDD_USERLOG_BACKPRESSURE_TIMEOUT'' (5 * 10 ^ 9),
       uc_IdleTimeout = configSeconds cfg ''SCHEDD_USERLOG_IDLE_TIMEOUT'' (60 * 10 ^ 9),
       uc_MaxFiles = configInt cfg ''SCHEDD_USERLOG_MAX_FILES'' 8192 \<rparr>"

text \<open>The scheduler counts its sweep interval in seconds.\<close>

definition wired_scheduler :: "('ad, 'ex, 's, 'h, 'z) ext_scheme \<Rightarrow> config \<Rightarrow> ('ad, 's, 'h) queue \<Rightarrow> 'ad match_table \<Rightarrow>
    ('ad, 'ex, 's, 'h) sched_options" where
  "wired_scheduler E cfg q matches =
     \<lparr> so_Queue = q, so_Matches = matches,
       so_AliveInterval = configInt cfg ''ALIVE_INTERVAL'' 300,
       so_SweepInterval = configSeconds cfg ''SCHEDD_LEASE_SWEEP_INTERVAL'' (30 * 10 ^ 9) div 10 ^ 9,
       so_MaxShadowExceptions = configInt cfg ''MAX_SHADOW_EXCEPTIONS'' DefaultMaxShadowExceptions,
       so_ReconnectDisabled = (\<not> configBool cfg ''SCHEDD_RECONNECT'' True),
       so_DefaultJobLease = configInt cfg ''JOB_DEFAULT_LEASE_DURATION'' DefaultJobLeaseDuration,
       so_UserLog = True,
       so_SysPolicy = buildSysPolicy E cfg \<rparr>"

text \<open>The three loops at start: advertiser, periodic evaluator, engine.\<close>

definition wired_loops :: "config \<Rightarrow> ticker_loop \<times> ticker_loop \<times> ticker_loop" where
  "wired_loops cfg =
     (new_advertise_loop (configSeconds cfg ''SCHEDD_INTERVAL'' DefaultAdvertiseInterval),
      new_periodic_loop (configSeconds cfg ''PERIODIC_EXPR_INTERVAL'' DefaultPeriodicInterval),
      NewEngine (configSeconds cfg ''SCHEDD_MATERIALIZE_INTERVAL'' DefaultInterval))"

section \<open>Commands\<close>

definition spool_commands :: "(command \<times> string) list" where
  "spool_commands = [(SPOOL_JOB_FILES, ''WRITE''), (SPOOL_JOB_FILES_WITH_PERMS, ''WRITE''), (TRANSFER_DATA, ''WRITE''),
     (TRANSFER_DATA_WITH_PERMS, ''WRITE'')]"

definition endpoint_commands :: "(command \<times> string) list" where
  "endpoint_commands = [(FILETRANS_UPLOAD, ''WRITE''), (FILETRANS_DOWNLOAD, ''WRITE'')]"

definition served_commands :: "(command \<times> string) list" where
  "served_commands = [(ALIVE_CMD, ''READ''), (RESCHEDULE_CMD, ''WRITE'')] @ registerQueueCommands @ endpoint_commands @
     [(NEGOTIATE, ''NEGOTIATOR'')] @ spool_commands"

definition commandNames :: "(command \<times> string) list" where
  "commandNames = [(QMGMT_READ_CMD, ''QMGMT_READ_CMD''), (QMGMT_WRITE_CMD, ''QMGMT_WRITE_CMD''),
     (SPOOL_JOB_FILES, ''SPOOL_JOB_FILES''), (SPOOL_JOB_FILES_WITH_PERMS, ''SPOOL_JOB_FILES_WITH_PERMS''),
     (TRANSFER_DATA, ''TRANSFER_DATA''), (TRANSFER_DATA_WITH_PERMS, ''TRANSFER_DATA_WITH_PERMS''),
     (ALIVE_CMD, ''ALIVE''), (FILETRANS_UPLOAD, ''FILETRANS_UPLOAD''), (FILETRANS_DOWNLOAD, ''FILETRANS_DOWNLOAD'')]"

record 'hole authz_options =
  ao_Subsys :: string
  ao_Holes :: "'hole list"
  ao_CommandNames :: "(command \<times> string) list"

definition authzOptions :: "'hole list \<Rightarrow> 'hole \<Rightarrow> 'hole authz_options" where
  "authzOptions daemonCoreHoles matchSessionHoles =
     \<lparr> ao_Subsys = ''SCHEDD'', ao_Holes = daemonCoreHoles @ [matchSessionHoles], ao_CommandNames = commandNames \<rparr>"

text \<open>\<open>InstallSecurityLevels\<close> gives the policy of each command, or fails.\<close>

definition installAuthz :: "(command \<Rightarrow> auth_level option) option \<Rightarrow> (command \<Rightarrow> auth_level option) option" where
  "installAuthz levels = (case levels of None \<Rightarrow> None | Some lc \<Rightarrow> Some (forceAuthentication lc))"

section \<open>Metrics\<close>

text \<open>The metrics with their label names, as built and in the order they are described.\<close>

definition newScheddCollector :: "(string \<times> string list) list" where
  "newScheddCollector =
     [(metric_ns @ ''_jobs_started_total'', []), (metric_ns @ ''_jobs_completed_total'', []),
      (metric_ns @ ''_jobs_exited_total'', []), (metric_ns @ ''_shadow_exceptions_total'', []),
      (metric_ns @ ''_matches_received_total'', []), (metric_ns @ ''_negotiation_cycles_total'', []),
      (metric_ns @ ''_jobs_materialized_total'', []), (metric_ns @ ''_userlog_events_dropped_total'', []),
      (metric_ns @ ''_uptime_seconds'', []), (metric_ns @ ''_shadows_running'', []),
      (metric_ns @ ''_jobs'', [''status'']), (metric_ns @ ''_job_ads'', []), (metric_ns @ ''_users'', []),
      (metric_ns @ ''_factories_active'', []), (metric_ns @ ''_userlog_files_open'', [])]"

definition Describe :: "(string \<times> string list) list" where
  "Describe = map (\<lambda>i. newScheddCollector ! i) [0..<15]"

section \<open>The run of the daemon\<close>

datatype daemon_act =
    LoadConfig | NewDaemon | OpenListener | ServerSecurity | NewServer | NewAuthz | InstallAuthz | RegisterDefaults
  | NewMatchTable | RegisterAlive | RegisterReschedule | WriteAddressFile | OpenContext | OpenQueue | RegisterQueue
  | NewEndpoint | NewStats | MakeAdvertiser | NewUserLog | SetUserLog | BuildPrivsep | MakeEngine | SetFactoryNudge
  | MakeScheduler | WireGauges | RegisterNegotiate | RegisterSpool | SetOutputRecorder | SetOnVacate | StartMetrics
  | OnReconfig | StartScheduler | StartEngine | RecoverJobs | ServeCommands
  | StopScheduler | CloseUserLog | ClosePrivsep | CloseQueue | CancelContext | RemoveAddressFile | CloseListener

datatype run_step =
    Must daemon_act
  | Does daemon_act
  | Opt daemon_act "daemon_act option"
  | Defer daemon_act

text \<open>
  The steps from a point on, with the calls deferred so far, last first: whether they ended without an error, and
  what was done, deferred calls included.
\<close>

fun exec_steps :: "(daemon_act \<Rightarrow> bool) \<Rightarrow> (daemon_act \<Rightarrow> bool) \<Rightarrow> run_step list \<Rightarrow> daemon_act list \<Rightarrow> bool \<times> daemon_act list" where
  "exec_steps fails wanted [] ds = (True, ds)"
| "exec_steps fails wanted (Must a # st) ds =
     (if fails a then (False, ds) else let (ok, tr) = exec_steps fails wanted st ds in (ok, a # tr))"
| "exec_steps fails wanted (Does a # st) ds = (let (ok, tr) = exec_steps fails wanted st ds in (ok, a # tr))"
| "exec_steps fails wanted (Opt a d # st) ds =
     (if wanted a
      then let (ok, tr) = exec_steps fails wanted st (case d of None \<Rightarrow> ds | Some b \<Rightarrow> b # ds) in (ok, a # tr)
      else exec_steps fails wanted st ds)"
| "exec_steps fails wanted (Defer a # st) ds = exec_steps fails wanted st (a # ds)"

definition bootstrap_steps :: "run_step list" where
  "bootstrap_steps = [Must LoadConfig, Must NewDaemon, Must OpenListener, Defer CloseListener, Must ServerSecurity]"

definition server_steps :: "run_step list" where
  "server_steps = [Does NewServer, Must NewAuthz, Must InstallAuthz, Does RegisterDefaults, Does NewMatchTable,
     Does RegisterAlive, Does RegisterReschedule, Opt WriteAddressFile (Some RemoveAddressFile)]"

definition queue_steps :: "run_step list" where
  "queue_steps = [Does OpenContext, Defer CancelContext, Must OpenQueue, Defer CloseQueue, Does RegisterQueue,
     Does NewEndpoint]"

definition component_steps :: "run_step list" where
  "component_steps = [Does NewStats, Does MakeAdvertiser, Does NewUserLog, Does SetUserLog, Must BuildPrivsep,
     Defer ClosePrivsep, Defer CloseUserLog, Does MakeEngine, Does SetFactoryNudge, Does MakeScheduler]"

definition wiring_steps :: "run_step list" where
  "wiring_steps = [Does WireGauges, Does RegisterNegotiate, Does RegisterSpool, Does SetOutputRecorder, Does SetOnVacate,
     Opt StartMetrics None, Does OnReconfig]"

definition start_steps :: "run_step list" where
  "start_steps = [Does StartScheduler, Does StartEngine, Does RecoverJobs, Defer StopScheduler, Must ServeCommands]"

definition run_daemon :: "(daemon_act \<Rightarrow> bool) \<Rightarrow> (daemon_act \<Rightarrow> bool) \<Rightarrow> bool \<times> daemon_act list" where
  "run_daemon fails wanted =
     exec_steps fails wanted
       (bootstrap_steps @ server_steps @ queue_steps @ component_steps @ wiring_steps @ start_steps) []"

end
