(* ===== verification/LifecycleProps.thy ===== *)
theory LifecycleProps
  imports Lifecycle DaemonProps "HOL-Library.Sublist"
begin

text \<open>
  Properties of the daemon as a whole: the order in which it shuts down on every path out of \<open>run\<close>, which
  commands are negotiated with authentication, and that every metric it collects was described.
\<close>

section \<open>Shutdown\<close>

definition closers :: "daemon_act list" where
  "closers = [StopScheduler, CloseUserLog, ClosePrivsep, CloseQueue, CancelContext, RemoveAddressFile, CloseListener]"

text \<open>What is opened with what closes it.\<close>

definition opens :: "(daemon_act \<times> daemon_act) list" where
  "opens = [(OpenListener, CloseListener), (WriteAddressFile, RemoveAddressFile), (OpenContext, CancelContext),
     (OpenQueue, CloseQueue), (NewUserLog, CloseUserLog), (BuildPrivsep, ClosePrivsep), (StartScheduler, StopScheduler)]"

text \<open>Nothing is done twice, only what was opened is closed, and in the order of \<open>closers\<close>.\<close>

definition orderly :: "daemon_act list \<Rightarrow> bool" where
  "orderly tr =
     (distinct tr \<and> list_all (\<lambda>(a, b). b \<in> set tr \<longrightarrow> subseq [a, b] tr) opens \<and>
      filter (\<lambda>a. a \<in> set closers) tr = filter (\<lambda>a. a \<in> set tr) closers)"

text \<open>What was opened and never closed.\<close>

definition leaks :: "daemon_act list \<Rightarrow> daemon_act list" where
  "leaks tr = map fst (filter (\<lambda>(a, b). a \<in> set tr \<and> b \<notin> set tr) opens)"

definition expected_leaks :: "daemon_act list \<Rightarrow> daemon_act list" where
  "expected_leaks tr = (if NewUserLog \<in> set tr \<and> BuildPrivsep \<notin> set tr then [NewUserLog] else [])"

text \<open>The engine runs until the context is cancelled, which is after the queue is closed.\<close>

definition engine_outlives_queue :: "daemon_act list \<Rightarrow> bool" where
  "engine_outlives_queue tr = (StartEngine \<in> set tr \<longrightarrow> subseq [StartEngine, CloseQueue, CancelContext] tr)"

text \<open>A run is a prefix of the steps, up to the end or to a step that may fail, with the calls deferred in it.\<close>

fun stops_at :: "run_step list \<Rightarrow> nat \<Rightarrow> bool" where
  "stops_at [] i = (i = 0)"
| "stops_at (x # st) 0 = (case x of Must _ \<Rightarrow> True | _ \<Rightarrow> False)"
| "stops_at (x # st) (Suc i) = stops_at st i"

lemma exec_prefix:
  "\<exists>i. stops_at st i \<and> snd (exec_steps fails wanted st ds) = snd (exec_steps (\<lambda>_. False) wanted (take i st) ds)"
proof (induction st arbitrary: ds)
  case (Cons x st)
  have step: "\<exists>i. stops_at (x # st) i \<and> snd (exec_steps fails wanted (x # st) ds) =
      snd (exec_steps (\<lambda>_. False) wanted (take i (x # st)) ds)"
    if "\<And>st f. f \<in> {fails, \<lambda>_. False} \<Longrightarrow> snd (exec_steps f wanted (x # st) ds) = pre @ snd (exec_steps f wanted st ds')" for pre ds'
  proof -
    obtain i where "stops_at st i" "snd (exec_steps fails wanted st ds') = snd (exec_steps (\<lambda>_. False) wanted (take i st) ds')"
      using Cons.IH by blast
    then show ?thesis using that by (intro exI [of _ "Suc i"]) simp
  qed
  show ?case
  proof (cases x)
    case (Must a)
    show ?thesis
    proof (cases "fails a")
      case True
      then show ?thesis by (intro exI [of _ 0]) (simp add: Must)
    next
      case False
      then show ?thesis by (intro step [of "[a]" ds]) (auto simp: Must case_prod_beta Let_def)
    qed
  next
    case (Does a)
    show ?thesis by (rule step [of "[a]" ds]) (simp add: Does case_prod_beta Let_def)
  next
    case (Opt a d)
    show ?thesis
      by (rule step [of "if wanted a then [a] else []" "if wanted a then (case d of None \<Rightarrow> ds | Some b \<Rightarrow> b # ds) else ds"])
         (simp add: Opt case_prod_beta Let_def)
  next
    case (Defer a)
    show ?thesis by (rule step [of "[]" "a # ds"]) (simp add: Defer)
  qed
qed simp

lemma stops_le: "stops_at st i \<Longrightarrow> i \<le> length st"
  by (induction st i rule: stops_at.induct) auto

lemma exec_wanted:
  assumes "\<And>a d. Opt a d \<in> set st \<Longrightarrow> w a = w' a"
  shows "exec_steps f w st ds = exec_steps f w' st ds"
  using assms
proof (induction st arbitrary: ds)
  case (Cons x st)
  have "exec_steps f w st ds = exec_steps f w' st ds" for ds using Cons by auto
  then show ?case using Cons.prems by (cases x) (auto split: option.splits)
qed simp

definition all_steps :: "run_step list" where
  "all_steps = bootstrap_steps @ server_steps @ queue_steps @ component_steps @ wiring_steps @ start_steps"

definition trace :: "bool \<Rightarrow> bool \<Rightarrow> nat \<Rightarrow> daemon_act list" where
  "trace b1 b2 i = snd (exec_steps (\<lambda>_. False) (\<lambda>a. if a = WriteAddressFile then b1 else b2) (take i all_steps) [])"

lemma run_trace: "\<exists>i. stops_at all_steps i \<and> snd (run_daemon fails wanted) = trace (wanted WriteAddressFile) (wanted StartMetrics) i"
proof -
  have "exec_steps f wanted st ds = exec_steps f (\<lambda>a. if a = WriteAddressFile then wanted WriteAddressFile else wanted StartMetrics) st ds"
    if "set st \<subseteq> set all_steps" for f st ds
    by (rule exec_wanted) (use that in \<open>auto simp: all_steps_def bootstrap_steps_def server_steps_def queue_steps_def
        component_steps_def wiring_steps_def start_steps_def\<close>)
  moreover obtain i where "stops_at all_steps i"
    "snd (run_daemon fails wanted) = snd (exec_steps (\<lambda>_. False) wanted (take i all_steps) [])"
    using exec_prefix [of all_steps fails wanted "[]"] by (auto simp: run_daemon_def all_steps_def)
  ultimately show ?thesis using set_take_subset [of i all_steps] by (auto simp: trace_def)
qed

lemma traces_orderly:
  "list_all (\<lambda>i. stops_at all_steps i \<longrightarrow>
     list_all (\<lambda>b1. list_all (\<lambda>b2. orderly (trace b1 b2 i) \<and> leaks (trace b1 b2 i) = expected_leaks (trace b1 b2 i) \<and>
       engine_outlives_queue (trace b1 b2 i)) [True, False]) [True, False])
     [0..<Suc (length all_steps)]"
  by code_simp

text \<open>
  C38. Whichever step of \<open>run\<close> fails, the daemon shuts down in the documented order: the scheduler is stopped first, then the
  user log is flushed, then the privilege backend and the queue are closed, each once and only if it was opened. Everything
  opened is closed, but for one case: when the privilege backend cannot be built, the user log, whose workers run by
  then, is left open. The context of the materialization engine is cancelled only after the queue was closed, so the engine
  still runs on a closed queue.
\<close>

theorem shutdown_order:
  "orderly (snd (run_daemon fails wanted)) \<and>
   leaks (snd (run_daemon fails wanted)) =
     (if NewUserLog \<in> set (snd (run_daemon fails wanted)) \<and> BuildPrivsep \<notin> set (snd (run_daemon fails wanted))
      then [NewUserLog] else []) \<and>
   engine_outlives_queue (snd (run_daemon fails wanted))"
proof -
  obtain i where i: "stops_at all_steps i" "snd (run_daemon fails wanted) = trace (wanted WriteAddressFile) (wanted StartMetrics) i"
    using run_trace by blast
  then have "i \<in> set [0..<Suc (length all_steps)]" using stops_le [OF i(1)] by auto
  then show ?thesis using traces_orderly i by (cases "wanted WriteAddressFile"; cases "wanted StartMetrics") (auto simp: list_all_iff expected_leaks_def)
qed

section \<open>Commands\<close>

text \<open>
  Every command registered for writing is negotiated with authentication, but the nudge of the scheduler and the
  transfers of the shadows, which present a key.
\<close>

lemma writers_authenticated:
  assumes "(c, ''WRITE'') \<in> set served_commands" and "c \<notin> {RESCHEDULE_CMD, FILETRANS_UPLOAD, FILETRANS_DOWNLOAD}"
    and "installAuthz (Some levels) = Some policy" and "levels c \<noteq> None"
  shows "policy c = Some AuthRequired"
  using assms
  by (auto simp: served_commands_def registerQueueCommands_def endpoint_commands_def spool_commands_def installAuthz_def
      forceAuthentication_def forceAuthCommands_def)

lemma commands_distinct: "distinct (map fst served_commands)"
  by code_simp

section \<open>Metrics\<close>

text \<open>Every metric collected was described with as many labels, and no two of them are the same series.\<close>

lemma metrics_described:
  "(\<forall>(n, k, v, ls) \<in> set (Collect s). \<exists>ns. (n, ns) \<in> set Describe \<and> length ns = length ls) \<and>
   distinct (map (\<lambda>(n, k, v, ls). (n, ls)) (Collect s)) \<and> distinct (map fst Describe)"
proof -
  have "list_all (\<lambda>x. case x of (n, k, v, ls) \<Rightarrow> list_ex (\<lambda>(m, ns). m = n \<and> length ns = length ls) newScheddCollector) (Collect s)"
    by (simp add: Collect_def newScheddCollector_def)
  moreover have "distinct (map (\<lambda>(n, k, v, ls). (n, ls)) (Collect s))" by (simp add: Collect_def)
  moreover have "Describe = newScheddCollector" by code_simp
  moreover have "distinct (map fst newScheddCollector)" by code_simp
  ultimately show ?thesis by (fastforce simp: list_all_iff list_ex_iff)
qed

end
