(* ===== verification/Spec2Isabelle.thy ===== *)
theory Spec2Isabelle
  imports TxnEdits SchedProps FactoryProps QmgmtProps JobQuery Identity SpoolProps UserLogProps ShadowProps LoopProps LifecycleProps
begin

text \<open>
  A verification development for a job scheduler written in Go: the HTCondor schedd under \<open>src/\<close>. It keeps the
  job queue, serves the commands of clients, negotiates for slots, runs jobs on claimed slots through shadows and
  moves their files.

  \<^bold>\<open>The program and its parts.\<close>
  Clients reach the daemon on one command socket. Submission and editing go through QMGMT connections
  (\<open>internal/qmgmt\<close>), each of which drives one transaction on the queue (\<open>internal/queue\<close>). ACT_ON_JOBS
  (\<open>internal/actions\<close>), job queries (\<open>internal/query\<close>) and the spooling of sandboxes (\<open>internal/spool\<close>) are
  handlers on the same queue; \<open>internal/identity\<close> says who calls. Late materialization (\<open>internal/factory\<close>)
  creates the procs of a cluster from a stored digest. The negotiator asks for idle jobs and grants matches
  (\<open>internal/negotiate\<close>); a match goes as an event to the scheduler core (\<open>internal/sched\<close>), the only writer of the
  registry of runs, which starts one goroutine for each run. That goroutine claims the slot, enters the claim in
  the match table (\<open>internal/match\<close>), runs a shadow (\<open>shadow\<close>) and reports back by events. The core consults the
  job policy (\<open>internal/policy\<close>) and writes user-log events through a pool of writers (\<open>internal/userlog\<close>).
  Counts are published by \<open>internal/stats\<close>, \<open>internal/metrics\<close> and \<open>internal/advertise\<close>; \<open>cmd/schedd\<close> builds
  the parts from the configuration and ends them.

  \<^bold>\<open>Conventions.\<close>
  Go's \<open>int\<close> is \<open>int\<close>; where a width matters it is written out, by \<open>int64_pair\<close> as the range of a key, by words for the
  checksums of request groups, and by wrapping (\<open>wrap64\<close>) for durations, for the counters kept in job ads, for the
  total of a factory and for leases. The counter of cluster ids is not wrapped: it starts at a small number and grows by one. Strings are lists of
  bytes. A Go map whose order does not show is a function or an association list. An error is \<open>Inl\<close>, \<open>None\<close> or a value
  of the component's own datatype; a panic is a value too. A mutex makes an operation one step; goroutines
  are transitions of a step relation, or events in a sequence. The clock is an argument wherever the code reads it.

  \<^bold>\<open>Third-party code.\<close>
  ClassAds, the transactional collection, the archive, expression evaluation and the checksum are not part of the
  sources. They are the fields of the records \<open>classad_ops\<close> and \<open>ext\<close>, passed to every definition as \<open>E\<close>
  (theory \<open>External\<close>); what the code relies on is assumed by the locales \<open>classad\<close>, \<open>job_store\<close> and \<open>user_names\<close>, which are
  satisfied by the instance of theory \<open>Reference\<close>. A \<open>Put\<close> that fails leaves the collection unchanged. An
  \<open>Update\<close> is atomic only for one cluster, so what a failing one leaves of several clusters is a parameter. CEDAR
  is decoded: a request is a value of a datatype and a reply is the list of the items put into each message. The
  file system, the startd, the starter and the transfer protocol appear as their answers.

  \<^bold>\<open>Theories and what they model.\<close>
  \<^item> \<open>Prelude\<close>, \<open>Attrs\<close>: Go's string functions, paths, association lists, the collections of rewrite rules, and the
    attribute names in lower case.
  \<^item> \<open>Keys\<close>, \<open>Queue\<close>, \<open>QueueStore\<close>: \<open>queue.go\<close>, \<open>history.go\<close>, \<open>sched.go\<close> and \<open>spool.go\<close> of \<open>internal/queue\<close>. The state is
    the record \<open>queue\<close>: collection, counter, archive, super users, authorization sets, factories.
    \<open>QueueStore\<close> gives reads and writes their meaning on a store that keeps its contract (locale \<open>job_queue\<close>) and shows that cluster
    ids are never handed out twice, across restarts and failed allocations.
  \<^item> \<open>Txn\<close>, \<open>TxnProps\<close>, \<open>TxnCommit\<close>, \<open>TxnEdits\<close>: \<open>txn.go\<close> and \<open>authz.go\<close>. The record \<open>txn\<close> is the Go struct, every method
    is a definition. Shown: what a commit does to every ad, that it stamps the caller's identity, that jobs of
    others are out of reach, that procs are numbered without gaps, and what edits of committed jobs do, some of
    them against the intention of the code.
  \<^item> \<open>Actions\<close>, \<open>ActionProps\<close>: \<open>actions.go\<close> of \<open>internal/queue\<close> and \<open>internal/actions\<close>. Shown: the status machine of hold,
    release and remove, that the check agrees with the action, archiving, and that ACT_ON_JOBS spares others' jobs.
  \<^item> \<open>FactoryQueue\<close>, \<open>Factory\<close>, \<open>FactoryProps\<close>: \<open>internal/queue/factory.go\<close> and \<open>internal/factory\<close>. Shown: rows and steps, the
    window of the materialization loop, freedom of panics for counters from zero on and the panic below.
  \<^item> \<open>Policy\<close>, \<open>PolicyProps\<close>: \<open>internal/policy\<close> against the table of its rules.
  \<^item> \<open>Match\<close>, \<open>MatchProps\<close>: \<open>internal/match\<close> refines a map from claims to deadlines (locale \<open>lease_table\<close>).
  \<^item> \<open>Negotiate\<close>, \<open>NegotiateProps\<close>: \<open>rrl.go\<close> and \<open>internal/negotiate\<close>: request groups and one round; no job is assigned
    twice.
  \<^item> \<open>Sched\<close>, \<open>SchedCore\<close>, \<open>SchedProps\<close>: \<open>internal/sched\<close>. The record \<open>sched\<close> holds the queue, the match table, the registry,
    the event channel and what was done to the outside; \<open>handle\<close> is the event loop's switch. The locale
    \<open>core_view\<close> carries what every handler keeps to its observations: the registry, its channels, its waiters, the runs of a
    job. Shown: one run for each job, completion of drains, sparing of live leases, the budget of failures.
  \<^item> \<open>Loops\<close>, \<open>LoopProps\<close>: the goroutines around the core and of the engine, one turn of each \<open>select\<close>, and the calls that
    wait on a channel. Shown: no ticker gets an interval it panics on, a run reports its end once, and a caller
    waiting for a teardown is answered, and only when the run is gone.
  \<^item> \<open>Identity\<close>, \<open>JobQuery\<close>: callers, accounts and QUERY_JOB_ADS.
  \<^item> \<open>Qmgmt\<close>, \<open>QmgmtProps\<close>: \<open>internal/qmgmt/handler.go\<close>, every operation with the messages of its reply. Shown for whole
    connections: one that may not write leaves the queue as it was, and the replies keep the framing the client reads, but for a
    NewCluster refused on a read-only connection.
  \<^item> \<open>Spool\<close>, \<open>SpoolProps\<close>: \<open>internal/spool\<close>. Shown: received names stay in the sandbox, what is sent back belongs to
    the caller, and what finishing a spool does to a hold.
  \<^item> \<open>ShadowTransfer\<close>, \<open>Shadow\<close>, \<open>Reconnect\<close>, \<open>ShadowProps\<close>: the package \<open>shadow\<close>: remote system calls, the end of a claim,
    transfer keys and routes, the reconnect handshake and its retries.
  \<^item> \<open>UserLog\<close>, \<open>UserLogProps\<close>: \<open>internal/userlog\<close> as a transition system of producers, workers, reaper and shutdown.
  \<^item> \<open>Daemon\<close>, \<open>DaemonProps\<close>, \<open>Lifecycle\<close>, \<open>LifecycleProps\<close>: \<open>internal/stats\<close>, \<open>internal/metrics\<close>, \<open>internal/advertise\<close> and
    \<open>cmd/schedd\<close>: configuration, published ads, commands with their levels, what the parts are built with, and \<open>run\<close> as its
    steps and deferred calls. Shown: the order of the shutdown on every path out of \<open>run\<close>, and the one path on which the user log
    is left open.

  \<^bold>\<open>Interactions.\<close>
  \<open>SchedProps\<close> composes the core with actions, policy, match table and negotiation; \<open>PolicyProps\<close> relates a
  decision to the action that carries it out; \<open>SpoolProps\<close> lets other commands change the queue between the check and the end
  of a transfer; \<open>LoopProps\<close> joins the report of a run with its handling by the core.

  \<^bold>\<open>Bounds and termination.\<close>
  No fuel is used. Loops over data recurse on it. The materialization loop has a termination proof. The reconnect
  loop may run forever on a clock that stands still, so it is a partial function; that it returns after at most four
  attempts is shown from its growing waits against the deadline. Loops that serve until their peer stops are
  functions of the sequence of requests, and the loops of goroutines are single turns, so that the properties
  quantify over all sequences of them.

  \<^bold>\<open>Not modelled.\<close>
  \<^item> The encoding of CEDAR, the bytes of file transfers, dialling, security sessions and the formatting of user-log
    events: third-party packages.
  \<^item> The parsing of flags, the HTTP server of the metrics and logging: process set-up without effect on the state of the
    schedd.
  \<^item> \<open>internal/conntest\<close>: a socket helper of the tests.
  \<^item> Symbolic links: that a name stays in a sandbox is shown of the path as it is written.
  \<^item> The fate of a user-log event once it is handed to the writer: a write that fails is logged by the code and counts as written here.
  \<^item> The time a call blocks: a wait with a timeout is looked at through the channel it waits on.
\<close>

end
